(* ===== verification/Prelude.thy ===== *)
theory Prelude
  imports Main
begin

text \<open>
  Shared vocabulary of the development: Go's error values, instants and
  durations, decimal printing and scanning, and the string helpers of the
  standard library that hairpin calls. Strings are byte sequences
  (\<^typ>\<open>string\<close>), as they are in Go, so \<^term>\<open>length\<close> is Go's
  \<open>len\<close>.

  The collection \<open>hairpin_simps\<close> gathers the defining equations of the small
  accessors and record operations; the component proofs add it to the
  simplifier.
\<close>

named_theorems hairpin_simps \<open>unfolding rules for accessors and small operations\<close>

section \<open>Error values\<close>

text \<open>
  An error is a sentinel, or the result of \<open>fmt.Errorf\<close> kept as its format
  string, its already rendered arguments and the error it wraps with
  \<open>%w\<close> (always the last verb of the format in this program). A
  \<open>ConnectError\<close> carries the RPC code of a remote failure. \<open>Panicked\<close> is a
  run-time panic of the Go code: it is not an error return, but it ends the
  call that raised it.
\<close>

datatype sentinel =
    ErrNotFound
  | ErrConflict
  | ErrNotConnected
  | ErrAlreadyConnected
  | ErrInvalidArgument
  | ErrNoUpdate
  | TxFailedErr
  | EOF
  | Canceled
  | DeadlineExceeded

datatype code =
    CodeCanceled
  | CodeInvalidArgument
  | CodeNotFound
  | CodeFailedPrecondition
  | CodeResourceExhausted
  | CodeInternal
  | CodeUnavailable
  | CodeUnknown

datatype goerror =
    Sentinel sentinel
  | Errorf string "string list" "goerror option"
  | ConnectError code string
  | Panicked string

fun errors_Is :: "goerror \<Rightarrow> sentinel \<Rightarrow> bool" where
  "errors_Is (Sentinel s) t = (s = t)"
| "errors_Is (Errorf f as None) t = False"
| "errors_Is (Errorf f as (Some e)) t = errors_Is e t"
| "errors_Is (ConnectError c m) t = False"
| "errors_Is (Panicked m) t = False"

text \<open>The innermost error a chain of wrappers ends in.\<close>

fun CodeOf :: "goerror \<Rightarrow> code" where
  "CodeOf (ConnectError c m) = c"
| "CodeOf (Errorf f as (Some e)) = CodeOf e"
| "CodeOf e = CodeUnknown"

text \<open>
  A result is \<open>Inr\<close> of the value or \<open>Inl\<close> of the error, as in \<open>(T, error)\<close>
  with exactly one of the two meaningful.
\<close>

type_synonym 'a result = "goerror + 'a"

section \<open>Decimal numbers\<close>

definition digit_char :: "nat \<Rightarrow> char" where
  "digit_char d = char_of (48 + d)"

definition is_digit :: "char \<Rightarrow> bool" where
  "is_digit c \<longleftrightarrow> 48 \<le> (of_char c :: nat) \<and> (of_char c :: nat) \<le> 57"

definition digit_val :: "char \<Rightarrow> nat" where
  "digit_val c = of_char c - 48"

fun utoa :: "nat \<Rightarrow> string" where
  "utoa n = (if n < 10 then [digit_char n] else utoa (n div 10) @ [digit_char (n mod 10)])"

declare utoa.simps [simp del]

definition itoa :: "int \<Rightarrow> string" where
  "itoa i = (if i < 0 then CHR ''-'' # utoa (nat (- i)) else utoa (nat i))"

definition digits_val :: "string \<Rightarrow> nat" where
  "digits_val ds = foldl (\<lambda>n c. 10 * n + digit_val c) 0 ds"

lemma of_char_digit_char [simp]: "d < 10 \<Longrightarrow> (of_char (digit_char d) :: nat) = 48 + d"
  by (simp add: digit_char_def of_char_of)

lemma is_digit_digit_char [simp]: "d < 10 \<Longrightarrow> is_digit (digit_char d)"
  by (simp add: is_digit_def)

lemma digit_val_digit_char [simp]: "d < 10 \<Longrightarrow> digit_val (digit_char d) = d"
  by (simp add: digit_val_def)

lemma utoa_digits: "c \<in> set (utoa n) \<Longrightarrow> is_digit c"
proof (induction n rule: utoa.induct)
  case (1 n)
  then show ?case
    by (cases "n < 10") (auto simp: utoa.simps [of n])
qed

lemma utoa_nonempty [simp]: "utoa n \<noteq> []"
  by (subst utoa.simps) simp

lemma digits_val_snoc: "digits_val (ds @ [c]) = 10 * digits_val ds + digit_val c"
  by (simp add: digits_val_def)

lemma digits_val_utoa [simp]: "digits_val (utoa n) = n"
proof (induction n rule: utoa.induct)
  case (1 n)
  show ?case
  proof (cases "n < 10")
    case True
    then show ?thesis by (simp add: utoa.simps [of n] digits_val_def)
  next
    case False
    with 1 show ?thesis by (simp add: utoa.simps [of n] digits_val_snoc)
  qed
qed

lemma not_digit_dash [simp]: "\<not> is_digit CHR ''-''"
  by (simp add: is_digit_def)

text \<open>
  \<open>fmt.Sscanf\<close> with \<open>%d\<close>: leading blanks are skipped (a line break is an
  error), then one or more decimal digits are read; the rest of the input is
  left. The value must fit the destination.
\<close>

definition is_blank :: "char \<Rightarrow> bool" where
  "is_blank c \<longleftrightarrow> (of_char c :: nat) \<in> {9, 11, 12, 13, 32}"

fun skip_blank :: "string \<Rightarrow> string" where
  "skip_blank [] = []"
| "skip_blank (c # cs) = (if is_blank c then skip_blank cs else c # cs)"

definition scan_digits :: "string \<Rightarrow> (nat \<times> string) option" where
  "scan_digits s =
     (let ds = takeWhile is_digit s
      in if ds = [] then None else Some (digits_val ds, dropWhile is_digit s))"

definition scan_uint64 :: "string \<Rightarrow> (nat \<times> string) option" where
  "scan_uint64 s =
     (case scan_digits (skip_blank s) of
        None \<Rightarrow> None
      | Some (n, r) \<Rightarrow> if n < 2 ^ 64 then Some (n, r) else None)"

definition scan_int64 :: "string \<Rightarrow> (int \<times> string) option" where
  "scan_int64 s =
     (case skip_blank s of
        [] \<Rightarrow> None
      | c # cs \<Rightarrow>
          let neg = (c = CHR ''-'');
              body = (if neg \<or> c = CHR ''+'' then cs else c # cs)
          in (case scan_digits body of
                None \<Rightarrow> None
              | Some (n, r) \<Rightarrow>
                  if neg then (if n \<le> 2 ^ 63 then Some (- int n, r) else None)
                  else (if n < 2 ^ 63 then Some (int n, r) else None)))"

lemma utoa_head_digit: "utoa n = c # cs \<Longrightarrow> is_digit c"
  using utoa_digits [of c n] by simp

lemma digit_not_blank: "is_digit c \<Longrightarrow> \<not> is_blank c"
  by (auto simp: is_digit_def is_blank_def)

lemma scan_digits_utoa:
  assumes "r = [] \<or> \<not> is_digit (hd r)"
  shows "scan_digits (utoa n @ r) = Some (n, r)"
proof -
  have all: "\<forall>c \<in> set (utoa n). is_digit c" by (simp add: utoa_digits)
  have tw: "takeWhile is_digit (utoa n @ r) = utoa n"
    using all assms by (cases r) (simp_all add: takeWhile_append)
  have dw: "dropWhile is_digit (utoa n @ r) = r"
    using all assms by (cases r) (simp_all add: dropWhile_append)
  show ?thesis by (simp add: scan_digits_def tw dw)
qed

lemma skip_blank_utoa [simp]: "skip_blank (utoa n @ r) = utoa n @ r"
  by (cases "utoa n") (auto dest: utoa_head_digit digit_not_blank)

lemma scan_uint64_utoa:
  assumes "n < 2 ^ 64" and "r = [] \<or> \<not> is_digit (hd r)"
  shows "scan_uint64 (utoa n @ r) = Some (n, r)"
  using assms by (simp add: scan_uint64_def scan_digits_utoa)

lemma scan_int64_itoa_nonneg:
  assumes "0 \<le> i" and "i < 2 ^ 63"
  shows "scan_int64 (itoa i) = Some (i, [])"
proof -
  obtain c cs where u: "utoa (nat i) = c # cs" by (cases "utoa (nat i)") simp_all
  then have d: "is_digit c" by (rule utoa_head_digit)
  then have nc: "c \<noteq> CHR ''-''" "c \<noteq> CHR ''+''" by (auto simp: is_digit_def)
  have sb: "skip_blank (c # cs) = c # cs" using skip_blank_utoa [of "nat i" "[]"] u by simp
  have sd: "scan_digits (c # cs) = Some (nat i, [])"
    using scan_digits_utoa [of "[]" "nat i"] u by simp
  show ?thesis using assms nc sb sd u by (simp add: scan_int64_def itoa_def)
qed

section \<open>Rendering of format strings\<close>

definition hex_char :: "nat \<Rightarrow> char" where
  "hex_char d = (if d < 10 then char_of (48 + d) else char_of (87 + d))"

definition newline :: char where
  "newline = CHR 0x0A"

text \<open>
  \<open>%q\<close> is \<open>strconv.Quote\<close>. Bytes from \<open>0x80\<close> on are kept, which is what Go
  does for printable UTF-8 text.
\<close>

definition quote_char :: "char \<Rightarrow> string" where
  "quote_char c =
     (let n = (of_char c :: nat) in
      if n = 34 \<or> n = 92 then [CHR 0x5C, c]
      else if n = 7 then [CHR 0x5C, CHR ''a'']
      else if n = 8 then [CHR 0x5C, CHR ''b'']
      else if n = 12 then [CHR 0x5C, CHR ''f'']
      else if n = 10 then [CHR 0x5C, CHR ''n'']
      else if n = 13 then [CHR 0x5C, CHR ''r'']
      else if n = 9 then [CHR 0x5C, CHR ''t'']
      else if n = 11 then [CHR 0x5C, CHR ''v'']
      else if n < 32 \<or> n = 127 then
        [CHR 0x5C, CHR ''x'', hex_char (n div 16), hex_char (n mod 16)]
      else [c])"

definition strconv_Quote :: "string \<Rightarrow> string" where
  "strconv_Quote s = CHR 0x22 # concat (map quote_char s) @ [CHR 0x22]"

fun render :: "string \<Rightarrow> string list \<Rightarrow> string" where
  "render [] as = []"
| "render [c] as = [c]"
| "render (c # v # fs) as =
     (if c = CHR ''%'' then
        (case as of
           [] \<Rightarrow> c # render (v # fs) []
         | a # as' \<Rightarrow> (if v = CHR ''q'' then strconv_Quote a else a) @ render fs as')
      else c # render (v # fs) as)"

fun sentinel_text :: "sentinel \<Rightarrow> string" where
  "sentinel_text ErrNotFound = ''not found''"
| "sentinel_text ErrConflict = ''conflict''"
| "sentinel_text ErrNotConnected = ''no live harness session for job''"
| "sentinel_text ErrAlreadyConnected = ''harness session already registered for job''"
| "sentinel_text ErrInvalidArgument = ''invalid argument''"
| "sentinel_text ErrNoUpdate = ''no update required''"
| "sentinel_text TxFailedErr = ''redis: transaction failed''"
| "sentinel_text EOF = ''EOF''"
| "sentinel_text Canceled = ''context canceled''"
| "sentinel_text DeadlineExceeded = ''context deadline exceeded''"

fun code_text :: "code \<Rightarrow> string" where
  "code_text CodeCanceled = ''canceled''"
| "code_text CodeInvalidArgument = ''invalid_argument''"
| "code_text CodeNotFound = ''not_found''"
| "code_text CodeFailedPrecondition = ''failed_precondition''"
| "code_text CodeResourceExhausted = ''resource_exhausted''"
| "code_text CodeInternal = ''internal''"
| "code_text CodeUnavailable = ''unavailable''"
| "code_text CodeUnknown = ''unknown''"

fun Error :: "goerror \<Rightarrow> string" where
  "Error (Sentinel s) = sentinel_text s"
| "Error (Errorf f as None) = render f as"
| "Error (Errorf f as (Some e)) = render f (as @ [Error e])"
| "Error (ConnectError c m) = code_text c @ '': '' @ m"
| "Error (Panicked m) = m"

section \<open>Instants and durations\<close>

text \<open>
  An instant is the number of nanoseconds since Go's zero \<open>time.Time\<close>
  (1 January of year 1, UTC), so the zero value is \<open>0\<close>; locations and
  monotonic clock readings are left out. A duration is an \<open>int64\<close> number of
  nanoseconds; \<open>Sub\<close> saturates, arithmetic on durations wraps.
\<close>

type_synonym gotime = int
type_synonym duration = int

abbreviation zero_time :: gotime where
  "zero_time \<equiv> 0"

definition IsZero :: "gotime \<Rightarrow> bool" where
  "IsZero t \<longleftrightarrow> t = 0"

definition max_int64 :: int where
  "max_int64 = 2 ^ 63 - 1"

definition min_int64 :: int where
  "min_int64 = - (2 ^ 63)"

definition wrap64 :: "int \<Rightarrow> int" where
  "wrap64 x = (x + 2 ^ 63) mod 2 ^ 64 - 2 ^ 63"

definition time_Sub :: "gotime \<Rightarrow> gotime \<Rightarrow> duration" where
  "time_Sub t u = max min_int64 (min max_int64 (t - u))"

definition UnixMilli :: "gotime \<Rightarrow> int" where
  "UnixMilli t = t div 1000000 - 62135596800000"

definition Unix :: "gotime \<Rightarrow> int" where
  "Unix t = t div 1000000000 - 62135596800"

definition Millisecond :: duration where
  "Millisecond = 1000000"

definition Second :: duration where
  "Second = 1000000000"

definition Minute :: duration where
  "Minute = 60 * 1000000000"

definition Hour :: duration where
  "Hour = 3600 * 1000000000"

lemma wrap64_id: "min_int64 \<le> x \<Longrightarrow> x \<le> max_int64 \<Longrightarrow> wrap64 x = x"
  by (simp add: wrap64_def min_int64_def max_int64_def)

lemma wrap64_range: "min_int64 \<le> wrap64 x \<and> wrap64 x \<le> max_int64"
  by (simp add: wrap64_def min_int64_def max_int64_def)

lemma UnixMilli_mono: "t \<le> u \<Longrightarrow> UnixMilli t \<le> UnixMilli u"
  by (simp add: UnixMilli_def zdiv_mono1)

section \<open>Strings\<close>

fun strings_Cut :: "string \<Rightarrow> char \<Rightarrow> string \<times> string \<times> bool" where
  "strings_Cut [] sep = ([], [], False)"
| "strings_Cut (c # cs) sep =
     (if c = sep then ([], cs, True)
      else (let (a, b, f) = strings_Cut cs sep in (c # a, b, f)))"

lemma strings_Cut_absent: "sep \<notin> set s \<Longrightarrow> strings_Cut s sep = (s, [], False)"
  by (induction s) auto

lemma strings_Cut_append: "sep \<notin> set a \<Longrightarrow> strings_Cut (a @ sep # b) sep = (a, b, True)"
  by (induction a) auto

text \<open>\<open>strings.Split\<close> with a one-byte separator.\<close>

fun strings_Split :: "char \<Rightarrow> string \<Rightarrow> string list" where
  "strings_Split sep [] = [[]]"
| "strings_Split sep (c # cs) =
     (if c = sep then [] # strings_Split sep cs
      else case strings_Split sep cs of l # ls \<Rightarrow> (c # l) # ls | [] \<Rightarrow> [[c]])"

lemma strings_Split_nonempty [simp]: "strings_Split sep s \<noteq> []"
  by (cases s) (auto split: list.splits)

text \<open>
  \<open>unicode.IsSpace\<close> on the ASCII range, and \<open>strings.TrimSpace\<close> on it.
\<close>

definition is_space :: "char \<Rightarrow> bool" where
  "is_space c \<longleftrightarrow> (of_char c :: nat) \<in> {9, 10, 11, 12, 13, 32}"

definition TrimSpace :: "string \<Rightarrow> string" where
  "TrimSpace s = rev (dropWhile is_space (rev (dropWhile is_space s)))"

definition HasSuffix :: "string \<Rightarrow> string \<Rightarrow> bool" where
  "HasSuffix s suf \<longleftrightarrow> length suf \<le> length s \<and> drop (length s - length suf) s = suf"

definition TrimSuffix :: "string \<Rightarrow> string \<Rightarrow> string" where
  "TrimSuffix s suf = (if HasSuffix s suf then take (length s - length suf) s else s)"

section \<open>Generic list facts\<close>

definition keep_last :: "nat \<Rightarrow> 'a list \<Rightarrow> 'a list" where
  "keep_last n xs = (if length xs > n then drop (length xs - n) xs else xs)"

lemma length_keep_last [simp]: "length (keep_last n xs) = min n (length xs)"
  by (simp add: keep_last_def)

lemma keep_last_suffix: "\<exists>ys. xs = ys @ keep_last n xs"
proof (cases "length xs > n")
  case True
  then have "xs = take (length xs - n) xs @ keep_last n xs" by (simp add: keep_last_def)
  then show ?thesis by blast
next
  case False
  then show ?thesis by (simp add: keep_last_def)
qed

lemma set_keep_last: "set (keep_last n xs) \<subseteq> set xs"
  by (auto simp: keep_last_def dest: in_set_dropD)

lemma sorted_wrt_keep_last: "sorted_wrt P xs \<Longrightarrow> sorted_wrt P (keep_last n xs)"
  by (simp add: keep_last_def sorted_wrt_drop)

lemma keep_last_snoc: "0 < n \<Longrightarrow> \<exists>ys. keep_last n (xs @ [x]) = ys @ [x]"
  by (cases "length xs < n") (auto simp: keep_last_def)

lemma keep_last_snoc_drop:
  assumes "0 < n"
  shows "\<exists>k \<le> length xs. keep_last n (xs @ [x]) = drop k xs @ [x]"
proof (cases "length xs < n")
  case True
  then show ?thesis by (intro exI [of _ 0]) (simp add: keep_last_def)
next
  case False
  then show ?thesis using assms
    by (intro exI [of _ "Suc (length xs) - n"]) (auto simp: keep_last_def)
qed

end
