(* ===== verification/Job.thy ===== *)
theory Job
  imports Prelude
begin

unbundle bit_operations_syntax

text \<open>
  The job model of \<open>src/internal/job/job.go\<close>: lifecycle states, the persisted
  record, identifiers, the harness session credential and the mapping from a
  run's stop reason to its terminal state.

  Randomness enters as arguments: the ULID text of \<open>NewID\<close> (a third-party
  package) and the 16 random bytes of \<open>NewHarnessToken\<close>.
\<close>

section \<open>Lifecycle states\<close>

text \<open>
  \<open>Status\<close> is a string type with seven named values; \<open>StatusOther\<close> stands for
  any other string a record could hold.
\<close>

datatype Status =
    StatusQueued
  | StatusLaunching
  | StatusAwaitingHarness
  | StatusRunning
  | StatusSucceeded
  | StatusFailed
  | StatusCancelled
  | StatusOther string

fun status_string :: "Status \<Rightarrow> string" where
  "status_string StatusQueued = ''queued''"
| "status_string StatusLaunching = ''launching''"
| "status_string StatusAwaitingHarness = ''awaiting_harness''"
| "status_string StatusRunning = ''running''"
| "status_string StatusSucceeded = ''succeeded''"
| "status_string StatusFailed = ''failed''"
| "status_string StatusCancelled = ''cancelled''"
| "status_string (StatusOther s) = s"

text \<open>The Go conversion \<open>job.Status(s)\<close>.\<close>

definition status_of_string :: "string \<Rightarrow> Status" where
  "status_of_string s =
     (if s = ''queued'' then StatusQueued
      else if s = ''launching'' then StatusLaunching
      else if s = ''awaiting_harness'' then StatusAwaitingHarness
      else if s = ''running'' then StatusRunning
      else if s = ''succeeded'' then StatusSucceeded
      else if s = ''failed'' then StatusFailed
      else if s = ''cancelled'' then StatusCancelled
      else StatusOther s)"

fun Terminal :: "Status \<Rightarrow> bool" where
  "Terminal StatusSucceeded = True"
| "Terminal StatusFailed = True"
| "Terminal StatusCancelled = True"
| "Terminal _ = False"

definition named_status :: "Status \<Rightarrow> bool" where
  "named_status s \<longleftrightarrow> (\<forall>x. s \<noteq> StatusOther x)"

lemma named_status_simps [simp]:
  "named_status StatusQueued" "named_status StatusLaunching"
  "named_status StatusAwaitingHarness" "named_status StatusRunning"
  "named_status StatusSucceeded" "named_status StatusFailed"
  "named_status StatusCancelled" "\<not> named_status (StatusOther x)"
  by (simp_all add: named_status_def)

lemma status_string_of_string [simp]: "status_string (status_of_string s) = s"
  by (simp add: status_of_string_def)

lemma status_of_string_string: "named_status s \<Longrightarrow> status_of_string (status_string s) = s"
  by (cases s) (simp_all add: status_of_string_def)

lemma Terminal_named: "Terminal s \<Longrightarrow> named_status s"
  by (cases s) simp_all

lemma Terminal_cases:
  assumes "Terminal s"
  obtains "s = StatusSucceeded" | "s = StatusFailed" | "s = StatusCancelled"
  using assms by (cases s) auto

section \<open>The job record\<close>

record Job =
  j_ID :: string
  j_Status :: Status
  j_Prompt :: string
  j_Profile :: string
  j_RunConfigJSON :: string
  j_StopReason :: string
  j_Error :: string
  j_FinalText :: string
  j_CreatedAt :: gotime
  j_StartedAt :: gotime
  j_FinishedAt :: gotime
  j_LastEventAt :: gotime
  j_CancelRequested :: bool
  j_TraceParent :: string
  j_HarnessToken :: string
  j_RepoScope :: "string list"

definition MaxFinalTextBytes :: nat where
  "MaxFinalTextBytes = 128 * 1024"

section \<open>Identifiers\<close>

definition to_lower_char :: "char \<Rightarrow> char" where
  "to_lower_char c =
     (if 65 \<le> (of_char c :: nat) \<and> (of_char c :: nat) \<le> 90
      then char_of (of_char c + 32 :: nat) else c)"

definition NewID :: "string \<Rightarrow> string" where
  "NewID ulid = ''hp-'' @ map to_lower_char ulid"

definition id_char :: "char \<Rightarrow> bool" where
  "id_char c \<longleftrightarrow>
     48 \<le> (of_char c :: nat) \<and> (of_char c :: nat) \<le> 57 \<or>
     97 \<le> (of_char c :: nat) \<and> (of_char c :: nat) \<le> 122"

definition ValidID :: "string \<Rightarrow> bool" where
  "ValidID s \<longleftrightarrow> take 3 s = ''hp-'' \<and> length s = 29 \<and> list_all id_char (drop 3 s)"

text \<open>
  What the ULID package documents of \<open>String\<close>: 26 characters of Crockford's
  base 32 alphabet, digits and upper case letters.
\<close>

definition ulid_text :: "string \<Rightarrow> bool" where
  "ulid_text u \<longleftrightarrow> length u = 26 \<and>
     list_all (\<lambda>c. 48 \<le> (of_char c :: nat) \<and> (of_char c :: nat) \<le> 57 \<or>
                   65 \<le> (of_char c :: nat) \<and> (of_char c :: nat) \<le> 90) u"

lemma id_char_to_lower:
  "48 \<le> (of_char c :: nat) \<and> (of_char c :: nat) \<le> 57 \<or>
   65 \<le> (of_char c :: nat) \<and> (of_char c :: nat) \<le> 90 \<Longrightarrow> id_char (to_lower_char c)"
  by (auto simp: to_lower_char_def id_char_def of_char_of)

text \<open>
  \<open>hex.EncodeToString\<close> of the random bytes.
\<close>

definition hex_encode :: "nat list \<Rightarrow> string" where
  "hex_encode bs = concat (map (\<lambda>b. [hex_char (b div 16), hex_char (b mod 16)]) bs)"

definition NewHarnessToken :: "nat list \<Rightarrow> string" where
  "NewHarnessToken bs = hex_encode bs"

definition hex_digit :: "char \<Rightarrow> bool" where
  "hex_digit c \<longleftrightarrow>
     48 \<le> (of_char c :: nat) \<and> (of_char c :: nat) \<le> 57 \<or>
     97 \<le> (of_char c :: nat) \<and> (of_char c :: nat) \<le> 102"

lemma hex_digit_hex_char [simp]: "d < 16 \<Longrightarrow> hex_digit (hex_char d)"
  by (auto simp: hex_digit_def hex_char_def of_char_of)

lemma hex_encode_digits:
  "list_all (\<lambda>b. b < 256) bs \<Longrightarrow> list_all hex_digit (hex_encode bs)"
  by (induction bs) (auto simp: hex_encode_def)

lemma length_hex_encode [simp]: "length (hex_encode bs) = 2 * length bs"
  by (induction bs) (auto simp: hex_encode_def)

section \<open>The harness session credential\<close>

definition SessionString :: "Job \<Rightarrow> string" where
  "SessionString j =
     (if j_HarnessToken j = [] then j_ID j else j_ID j @ ''.'' @ j_HarnessToken j)"

definition ParseSession :: "string \<Rightarrow> string \<times> string" where
  "ParseSession s = (let (id, token, _) = strings_Cut s CHR ''.'' in (id, token))"

text \<open>
  \<open>subtle.ConstantTimeCompare\<close>: unequal lengths give 0; otherwise the
  differences of all bytes are or-ed together and the result is 1 when no bit
  is set.
\<close>

definition ConstantTimeCompare :: "string \<Rightarrow> string \<Rightarrow> nat" where
  "ConstantTimeCompare x y =
     (if length x \<noteq> length y then 0
      else if fold (\<lambda>(a, b) v. v OR (of_char a XOR of_char b)) (zip x y) (0::nat) = 0
           then 1 else 0)"

definition AcceptsToken :: "Job \<Rightarrow> string \<Rightarrow> bool" where
  "AcceptsToken j token \<longleftrightarrow> ConstantTimeCompare (j_HarnessToken j) token = 1"

lemma or_nat_eq_0_iff: "(a OR b = (0::nat)) \<longleftrightarrow> a = 0 \<and> b = 0"
  by (metis or.left_neutral or_eq_0_iff or_nat_def or.idem)

lemma xor_nat_eq_0_iff: "(a XOR b = (0::nat)) \<longleftrightarrow> a = b"
  by (auto simp: bit_eq_iff bit_xor_iff)

lemma fold_or_eq_0:
  "fold (\<lambda>(a, b) v. v OR (of_char a XOR of_char b)) ps v = (0::nat) \<longleftrightarrow>
   v = 0 \<and> (\<forall>(a, b) \<in> set ps. a = b)"
proof (induction ps arbitrary: v)
  case Nil
  then show ?case by simp
next
  case (Cons p ps)
  obtain a b where p: "p = (a, b)" by (cases p)
  show ?case
    by (simp add: p Cons.IH or_nat_eq_0_iff xor_nat_eq_0_iff)
qed

lemma ConstantTimeCompare_eq: "ConstantTimeCompare x y = (if x = y then 1 else 0)"
proof (cases "length x = length y")
  case True
  then have "(\<forall>(a, b) \<in> set (zip x y). a = b) \<longleftrightarrow> x = y"
    by (induction x y rule: list_induct2) auto
  with True show ?thesis by (simp add: ConstantTimeCompare_def fold_or_eq_0)
next
  case False
  then show ?thesis by (auto simp: ConstantTimeCompare_def)
qed

lemma AcceptsToken_iff: "AcceptsToken j t \<longleftrightarrow> t = j_HarnessToken j"
  by (auto simp: AcceptsToken_def ConstantTimeCompare_eq)

lemma ParseSession_dot: "CHR ''.'' \<notin> set a \<Longrightarrow> ParseSession (a @ CHR ''.'' # b) = (a, b)"
  by (simp add: ParseSession_def strings_Cut_append)

lemma ParseSession_bare: "CHR ''.'' \<notin> set a \<Longrightarrow> ParseSession a = (a, [])"
  by (simp add: ParseSession_def strings_Cut_absent)

lemma strings_Cut_eq:
  "strings_Cut s c = (a, b, f) \<Longrightarrow> c \<notin> set a \<and> s = (if f then a @ c # b else a) \<and> (\<not> f \<longrightarrow> b = [])"
  by (induction s arbitrary: a b f) (auto split: if_splits prod.splits)

lemma id_char_not_dot: "id_char c \<Longrightarrow> c \<noteq> CHR ''.''"
  by (auto simp: id_char_def)

lemma ValidID_no_dot:
  assumes "ValidID s"
  shows "CHR ''.'' \<notin> set s"
proof -
  have "s = take 3 s @ drop 3 s" by simp
  then have "set s = set (take 3 s) \<union> set (drop 3 s)" by (metis set_append)
  then show ?thesis using assms by (auto simp: ValidID_def list_all_iff dest: id_char_not_dot)
qed

lemma ValidID_NewID: "ulid_text u \<Longrightarrow> ValidID (NewID u)"
  by (auto simp: ulid_text_def ValidID_def NewID_def list_all_iff intro!: id_char_to_lower)

section \<open>Stop reasons\<close>

definition StatusForStopReason :: "string \<Rightarrow> Status" where
  "StatusForStopReason stopReason =
     (if stopReason = ''success'' then StatusSucceeded
      else if stopReason = ''cancelled'' then StatusCancelled
      else StatusFailed)"

lemma Terminal_StatusForStopReason [simp]: "Terminal (StatusForStopReason r)"
  by (simp add: StatusForStopReason_def)

section \<open>Properties\<close>

text \<open>
  A session string admits exactly the harness it was made for: for a job
  with a well-formed identifier and a stored token, the \<open>ready\<close> value \<open>s\<close> is split
  into this job's identifier and a token the job accepts if and only if \<open>s\<close>
  is the job's own session string.
\<close>

lemma session_credential_exact:
  assumes "ValidID (j_ID j)" and "j_HarnessToken j \<noteq> []"
  shows "(\<exists>t. ParseSession s = (j_ID j, t) \<and> AcceptsToken j t) \<longleftrightarrow> s = SessionString j"
proof
  assume "\<exists>t. ParseSession s = (j_ID j, t) \<and> AcceptsToken j t"
  then have p: "ParseSession s = (j_ID j, j_HarnessToken j)" by (auto simp: AcceptsToken_iff)
  obtain a b f where c: "strings_Cut s CHR ''.'' = (a, b, f)" by (metis prod_cases3)
  with p have ab: "a = j_ID j" "b = j_HarnessToken j" by (simp_all add: ParseSession_def)
  from strings_Cut_eq [OF c] ab assms(2) have "s = j_ID j @ CHR ''.'' # j_HarnessToken j"
    by (cases f) auto
  then show "s = SessionString j" using assms(2) by (simp add: SessionString_def)
next
  assume "s = SessionString j"
  then have "ParseSession s = (j_ID j, j_HarnessToken j)"
    using assms by (simp add: SessionString_def ParseSession_dot ValidID_no_dot)
  then show "\<exists>t. ParseSession s = (j_ID j, t) \<and> AcceptsToken j t"
    by (simp add: AcceptsToken_iff)
qed

end
