(* ===== verification/Telemetry.thy ===== *)
theory Telemetry
  imports Job
begin

text \<open>
  The measurements hairpin takes: \<open>src/internal/telemetry/attrs.go\<close> and the
  recording methods of \<open>recorder.go\<close>. A measurement names its instrument, the
  value added or recorded (durations in nanoseconds) and its attributes. A nil
  recorder (\<open>False\<close>) takes none. The construction of the recorder, what it puts on
  spans and the export pipeline are in theory \<open>Pipeline\<close>.
\<close>

section \<open>Attribute keys and vocabularies\<close>

definition attrProfile :: string where [simp]: "attrProfile = ''hairpin.profile''"
definition attrSubmissionOutcome :: string where [simp]: "attrSubmissionOutcome = ''hairpin.submission.outcome''"
definition attrLaunchOutcome :: string where [simp]: "attrLaunchOutcome = ''hairpin.launch.outcome''"
definition attrJobStatus :: string where [simp]: "attrJobStatus = ''hairpin.job.status''"
definition attrStopReason :: string where [simp]: "attrStopReason = ''hairpin.job.stop_reason''"
definition attrSessionDisposition :: string where [simp]: "attrSessionDisposition = ''hairpin.session.disposition''"
definition attrEventType :: string where [simp]: "attrEventType = ''hairpin.harness.event.type''"
definition attrPermissionDecision :: string where [simp]: "attrPermissionDecision = ''hairpin.permission.decision''"
definition attrDelivered :: string where [simp]: "attrDelivered = ''hairpin.permission.delivered''"
definition attrMemoryTool :: string where [simp]: "attrMemoryTool = ''hairpin.memory.tool''"
definition attrMemoryOutcome :: string where [simp]: "attrMemoryOutcome = ''hairpin.memory.outcome''"

definition SubmissionAccepted :: string where "SubmissionAccepted = ''accepted''"
definition SubmissionRejected :: string where "SubmissionRejected = ''rejected''"
definition SubmissionFailed :: string where "SubmissionFailed = ''failed''"

definition LaunchSucceeded :: string where "LaunchSucceeded = ''succeeded''"
definition LaunchFailed :: string where "LaunchFailed = ''failed''"
definition LaunchSkipped :: string where "LaunchSkipped = ''skipped''"

definition MemoryOK :: string where "MemoryOK = ''ok''"
definition MemoryError :: string where "MemoryError = ''error''"
definition MemoryRefused :: string where "MemoryRefused = ''refused''"

definition otherLabel :: string where
  "otherLabel = ''other''"

definition StopHarnessNeverConnected :: string where
  "StopHarnessNeverConnected = ''harness_never_connected''"

definition knownStopReasons :: "string list" where
  "knownStopReasons =
     [''success'', ''error'', ''cancelled'', ''timeout'', ''max_turns'', ''max_tokens'',
      ''end_turn'', ''tool_use'', ''aborted'', ''interrupted'', ''refusal'',
      StopHarnessNeverConnected]"

definition knownEventTypes :: "string list" where
  "knownEventTypes =
     [''ready'', ''text_delta'', ''heartbeat'', ''permission_request'', ''error'', ''warning'',
      ''done'', ''sandbox_token_request'', ''batch_submission'', ''tool_result_request'',
      ''tool_result_response'', ''sandbox_token_response'']"

definition knownMemoryTools :: "string list" where
  "knownMemoryTools = [''search_memory'', ''save_memory'']"

definition bounded :: "string \<Rightarrow> string list \<Rightarrow> string" where
  "bounded value known =
     (if value = [] then [] else if value \<in> set known then value else otherLabel)"

datatype disposition =
    SessionAssigned
  | SessionClosedBeforeReady
  | SessionNotReady
  | SessionNoID
  | SessionUnknownJob
  | SessionBadToken
  | SessionClosedJob
  | SessionDuplicate
  | SessionUnusableRunConfig
  | SessionAssignmentFailed

fun disposition_string :: "disposition \<Rightarrow> string" where
  "disposition_string SessionAssigned = ''assigned''"
| "disposition_string SessionClosedBeforeReady = ''closed_before_ready''"
| "disposition_string SessionNotReady = ''not_ready''"
| "disposition_string SessionNoID = ''no_session_id''"
| "disposition_string SessionUnknownJob = ''unknown_job''"
| "disposition_string SessionBadToken = ''bad_token''"
| "disposition_string SessionClosedJob = ''closed_job''"
| "disposition_string SessionDuplicate = ''duplicate''"
| "disposition_string SessionUnusableRunConfig = ''unusable_run_config''"
| "disposition_string SessionAssignmentFailed = ''assignment_failed''"

section \<open>Measurements\<close>

datatype instrument =
    Submissions
  | Launches
  | LaunchDuration
  | Completions
  | RunDuration
  | Sessions
  | ActiveSessions
  | HarnessEvents
  | Permissions
  | Decisions
  | MemoryCalls
  | MemoryDuration

record measurement =
  mt_instrument :: instrument
  mt_value :: int
  mt_attrs :: "(string \<times> string) list"

definition sample :: "instrument \<Rightarrow> int \<Rightarrow> (string \<times> string) list \<Rightarrow> measurement" where
  "sample i v as = \<lparr>mt_instrument = i, mt_value = v, mt_attrs = as\<rparr>"

definition JobSubmitted :: "bool \<Rightarrow> string \<Rightarrow> string \<Rightarrow> measurement list" where
  "JobSubmitted r profile outcome =
     (if \<not> r then []
      else [sample Submissions 1
              ((attrSubmissionOutcome, outcome) #
               (if profile \<noteq> [] then [(attrProfile, profile)] else []))])"

definition JobLaunched :: "bool \<Rightarrow> string \<Rightarrow> duration \<Rightarrow> measurement list" where
  "JobLaunched r outcome d =
     (if \<not> r then []
      else sample Launches 1 [(attrLaunchOutcome, outcome)] #
           (if 0 < d then [sample LaunchDuration d [(attrLaunchOutcome, outcome)]] else []))"

definition JobCompleted :: "bool \<Rightarrow> Status \<Rightarrow> string \<Rightarrow> duration \<Rightarrow> measurement list" where
  "JobCompleted r status stopReason runDuration =
     (if \<not> r then []
      else sample Completions 1
             [(attrJobStatus, status_string status),
              (attrStopReason, bounded stopReason knownStopReasons)] #
           (if 0 < runDuration
            then [sample RunDuration runDuration [(attrJobStatus, status_string status)]]
            else []))"

definition HarnessSession :: "bool \<Rightarrow> disposition \<Rightarrow> measurement list" where
  "HarnessSession r d =
     (if \<not> r then []
      else [sample Sessions 1 [(attrSessionDisposition, disposition_string d)]])"

definition SessionOpened :: "bool \<Rightarrow> measurement list" where
  "SessionOpened r = (if \<not> r then [] else [sample ActiveSessions 1 []])"

definition SessionClosed :: "bool \<Rightarrow> measurement list" where
  "SessionClosed r = (if \<not> r then [] else [sample ActiveSessions (-1) []])"

definition HarnessEventReceived :: "bool \<Rightarrow> string \<Rightarrow> measurement list" where
  "HarnessEventReceived r eventType =
     (if \<not> r then []
      else [sample HarnessEvents 1 [(attrEventType, bounded eventType knownEventTypes)]])"

definition PermissionRequested :: "bool \<Rightarrow> measurement list" where
  "PermissionRequested r = (if \<not> r then [] else [sample Permissions 1 []])"

definition PermissionAnswered :: "bool \<Rightarrow> bool \<Rightarrow> bool \<Rightarrow> measurement list" where
  "PermissionAnswered r allow delivered =
     (if \<not> r then []
      else [sample Decisions 1
              [(attrPermissionDecision, if allow then ''allow'' else ''deny''),
               (attrDelivered, if delivered then ''true'' else ''false'')]])"

definition MemoryCall :: "bool \<Rightarrow> string \<Rightarrow> string \<Rightarrow> duration \<Rightarrow> measurement list" where
  "MemoryCall r tool outcome d =
     (if \<not> r then []
      else let as = [(attrMemoryTool, bounded tool knownMemoryTools),
                     (attrMemoryOutcome, outcome)]
           in sample MemoryCalls 1 as # (if 0 < d then [sample MemoryDuration d as] else []))"

lemma bounded_range: "bounded v known \<in> insert [] (insert otherLabel (set known))"
  by (simp add: bounded_def)

end
