(* ===== verification/Harness.thy ===== *)
theory Harness
  imports Prelude
begin

text \<open>
  The messages of the harness protocol that hairpin reads and writes, from the
  generated package \<open>src/gen/harness/v1/harness.pb.go\<close>. A message pointer is an
  option; the generated getters are total on a nil message, and so are the
  \<open>Get\<close> functions here.

  Fields hairpin forwards without reading them are kept together in one opaque
  component (\<open>rc_other\<close>, \<open>ex_other\<close>, \<open>te_other\<close>, \<open>ct_other\<close>, \<open>he_Trace\<close>).
\<close>

section \<open>Harness events\<close>

record HarnessEvent =
  he_Type :: string
  he_Text :: string
  he_Id :: string
  he_Name :: string
  he_Input :: string
  he_ToolUseId :: string
  he_Content :: string
  he_StopReason :: string
  he_Message :: string
  he_Trace :: "string option"
  he_RequestId :: string
  he_ToolName :: string
  he_HarnessVersion :: string
  he_Audience :: string

definition empty_event :: HarnessEvent where
  "empty_event = \<lparr>he_Type = [], he_Text = [], he_Id = [], he_Name = [], he_Input = [],
     he_ToolUseId = [], he_Content = [], he_StopReason = [], he_Message = [], he_Trace = None,
     he_RequestId = [], he_ToolName = [], he_HarnessVersion = [], he_Audience = []\<rparr>"

section \<open>Run configurations\<close>

record NetworkConfig =
  nw_Mode :: string
  nw_Allowlist :: "string list"

record SandboxIdentityConfig =
  si_Source :: string
  si_Audience :: string
  si_EnvVar :: string

record ExecutorConfig =
  ex_Type :: string
  ex_Workspace :: string
  ex_Image :: string
  ex_Network :: "NetworkConfig option"
  ex_Runtime :: string
  ex_K8SNamespace :: string
  ex_K8SServiceAccount :: string
  ex_K8SEgressProxyUrl :: string
  ex_SandboxIdentity :: "SandboxIdentityConfig option"
  ex_other :: string

record TraceEmitterConfig =
  te_Type :: string
  te_Endpoint :: string
  te_other :: string

record ControlPlaneToolConfig =
  ct_Name :: string
  ct_TimeoutSeconds :: int
  ct_other :: string

record ToolsConfig =
  tc_BuiltIn :: "string list"
  tc_McpServers :: "string list"
  tc_ControlPlane :: "ControlPlaneToolConfig list"

text \<open>A provider is read for its type only.\<close>

record ProviderConfig =
  pv_Type :: string
  pv_other :: string

record RunConfig =
  rc_RunId :: string
  rc_Mode :: string
  rc_Prompt :: string
  rc_Provider :: "ProviderConfig option"
  rc_Providers :: "(string \<times> ProviderConfig) list"
  rc_Executor :: "ExecutorConfig option"
  rc_TraceEmitter :: "TraceEmitterConfig option"
  rc_Tools :: "ToolsConfig option"
  rc_MaxTurns :: int
  rc_Timeout :: "int option"
  rc_other :: string

definition empty_config :: RunConfig where
  "empty_config = \<lparr>rc_RunId = [], rc_Mode = [], rc_Prompt = [], rc_Provider = None,
     rc_Providers = [], rc_Executor = None, rc_TraceEmitter = None, rc_Tools = None,
     rc_MaxTurns = 0, rc_Timeout = None, rc_other = []\<rparr>"

definition GetTimeout :: "RunConfig \<Rightarrow> int" where
  "GetTimeout cfg = (case rc_Timeout cfg of None \<Rightarrow> 0 | Some t \<Rightarrow> t)"

definition GetProviderType :: "ProviderConfig option \<Rightarrow> string" where
  "GetProviderType p = (case p of None \<Rightarrow> [] | Some c \<Rightarrow> pv_Type c)"

definition GetExecutorType :: "ExecutorConfig option \<Rightarrow> string" where
  "GetExecutorType e = (case e of None \<Rightarrow> [] | Some c \<Rightarrow> ex_Type c)"

definition GetSandboxIdentity :: "ExecutorConfig option \<Rightarrow> SandboxIdentityConfig option" where
  "GetSandboxIdentity e = (case e of None \<Rightarrow> None | Some c \<Rightarrow> ex_SandboxIdentity c)"

definition GetControlPlane :: "ToolsConfig option \<Rightarrow> ControlPlaneToolConfig list" where
  "GetControlPlane t = (case t of None \<Rightarrow> [] | Some c \<Rightarrow> tc_ControlPlane c)"

declare GetTimeout_def [hairpin_simps] GetProviderType_def [hairpin_simps]
  GetExecutorType_def [hairpin_simps] GetSandboxIdentity_def [hairpin_simps]
  GetControlPlane_def [hairpin_simps]

section \<open>Control events\<close>

text \<open>\<open>*OptionalBool\<close> is an option of its one field.\<close>

record ControlEvent =
  ce_Type :: string
  ce_Task :: "RunConfig option"
  ce_UserResponse :: string
  ce_RequestId :: string
  ce_Allowed :: "bool option"
  ce_Reason :: string
  ce_Content :: string
  ce_IsError :: "bool option"
  ce_Token :: string
  ce_ExpiresAt :: "int option"

definition control_event :: "string \<Rightarrow> ControlEvent" where
  "control_event t = \<lparr>ce_Type = t, ce_Task = None, ce_UserResponse = [], ce_RequestId = [],
     ce_Allowed = None, ce_Reason = [], ce_Content = [], ce_IsError = None, ce_Token = [],
     ce_ExpiresAt = None\<rparr>"

lemma control_event_sel [simp]:
  "ce_Type (control_event t) = t" "ce_Task (control_event t) = None"
  "ce_RequestId (control_event t) = []" "ce_Allowed (control_event t) = None"
  "ce_Reason (control_event t) = []" "ce_Content (control_event t) = []"
  "ce_IsError (control_event t) = None" "ce_Token (control_event t) = []"
  "ce_ExpiresAt (control_event t) = None"
  by (simp_all add: control_event_def)

end
