(* ===== verification/Registry.thy ===== *)
theory Registry
  imports Harness
begin

text \<open>
  The registry of live harness sessions, \<open>src/internal/registry/registry.go\<close>. A
  registry is the association list of its map; the session is any type whose
  equality is the pointer comparison of the Go code. \<open>Send\<close> takes the session's
  own \<open>Send\<close> (the \<open>Session\<close> interface) as an argument.
\<close>

type_synonym 'x Registry = "(string \<times> 'x) list"

definition NewRegistry :: "'x Registry" where
  "NewRegistry = []"

definition Register :: "string \<Rightarrow> 'x \<Rightarrow> 'x Registry \<Rightarrow> goerror option \<times> 'x Registry" where
  "Register i s r =
     (case map_of r i of
        Some _ \<Rightarrow> (Some (Sentinel ErrAlreadyConnected), r)
      | None \<Rightarrow> (None, (i, s) # r))"

definition Unregister :: "string \<Rightarrow> 'x \<Rightarrow> 'x Registry \<Rightarrow> 'x Registry" where
  "Unregister i s r =
     (if map_of r i = Some s then filter (\<lambda>(k, _). k \<noteq> i) r else r)"

definition Send ::
  "('x \<Rightarrow> ControlEvent \<Rightarrow> 'w \<Rightarrow> goerror option \<times> 'w) \<Rightarrow>
   'x Registry \<Rightarrow> string \<Rightarrow> ControlEvent \<Rightarrow> 'w \<Rightarrow> goerror option \<times> 'w" where
  "Send send r i ev w =
     (case map_of r i of
        None \<Rightarrow> (Some (Sentinel ErrNotConnected), w)
      | Some s \<Rightarrow> send s ev w)"

definition JobIDs :: "'x Registry \<Rightarrow> string list" where
  "JobIDs r = map fst r"

definition Connected :: "'x Registry \<Rightarrow> string \<Rightarrow> bool" where
  "Connected r i \<longleftrightarrow> map_of r i \<noteq> None"

section \<open>The contract of a registry\<close>

text \<open>
  One session per job: a claim succeeds exactly when the job is unclaimed, and
  giving a claim up removes the caller's own session only.
\<close>

locale session_registry =
  fixes register :: "string \<Rightarrow> 'x \<Rightarrow> 'r \<Rightarrow> goerror option \<times> 'r"
    and unregister :: "string \<Rightarrow> 'x \<Rightarrow> 'r \<Rightarrow> 'r"
    and holder :: "'r \<Rightarrow> string \<Rightarrow> 'x option"
    and ok :: "'r \<Rightarrow> bool"
  assumes register_free:
      "ok r \<Longrightarrow> holder r i = None \<Longrightarrow>
       fst (register i x r) = None \<and> holder (snd (register i x r)) = (holder r)(i \<mapsto> x) \<and>
       ok (snd (register i x r))"
    and register_taken:
      "ok r \<Longrightarrow> holder r i = Some y \<Longrightarrow>
       register i x r = (Some (Sentinel ErrAlreadyConnected), r)"
    and unregister_holder:
      "ok r \<Longrightarrow>
       holder (unregister i x r) = (if holder r i = Some x then (holder r)(i := None) else holder r) \<and>
       ok (unregister i x r)"
begin

text \<open>
  A stream that outlives its claim cannot evict the session that replaced it.
\<close>

lemma late_unregister:
  assumes "ok r" and "holder r i = Some x" and "x \<noteq> y"
  shows "holder (unregister i y r) i = Some x"
  using unregister_holder [OF assms(1), of i y] assms(2,3) by simp

lemma register_exclusive:
  assumes "ok r" and "fst (register i x r) = None"
  shows "fst (register i y (snd (register i x r))) = Some (Sentinel ErrAlreadyConnected)"
proof -
  have "holder r i = None"
    using assms register_taken [OF assms(1)] by (metis fst_conv not_Some_eq)
  from register_free [OF assms(1) this, of x] show ?thesis
    using register_taken [of "snd (register i x r)" i x y] by simp
qed

lemma claim_release: 
  assumes "ok r" and "holder r i = None"
  shows "holder (unregister i x (snd (register i x r))) = holder r"
  using register_free [OF assms, of x] unregister_holder [of "snd (register i x r)" i x] assms(2)
  by (auto simp: fun_eq_iff)

end

definition reg_ok :: "'x Registry \<Rightarrow> bool" where
  "reg_ok r \<longleftrightarrow> distinct (map fst r)"

lemma map_of_filter_key: "map_of (filter (\<lambda>(k, _). k \<noteq> i) r) = (map_of r)(i := None)"
  by (induction r) (auto simp: fun_eq_iff)

lemma map_fst_filter_key: "map fst (filter (\<lambda>(k, _). k \<noteq> i) r) = filter (\<lambda>k. k \<noteq> i) (map fst r)"
  by (induction r) auto

interpretation reg: session_registry Register Unregister map_of reg_ok
proof (standard, goal_cases)
  case (1 r i x)
  then have "i \<notin> fst ` set r" by (simp add: map_of_eq_None_iff)
  with 1 show ?case by (simp add: Register_def reg_ok_def)
next
  case (2 r i y x)
  then show ?case by (simp add: Register_def)
next
  case (3 r i x)
  then show ?case
    by (auto simp: Unregister_def reg_ok_def map_of_filter_key map_fst_filter_key)
qed

text \<open>The identifiers of the live sessions, each once.\<close>

lemma JobIDs_Connected: "i \<in> set (JobIDs r) \<longleftrightarrow> Connected r i"
  by (induction r) (auto simp: JobIDs_def Connected_def)

end
