(* ===== verification/Store.thy ===== *)
theory Store
  imports Job
begin

text \<open>
  The persistence contract of \<open>src/internal/store/store.go\<close>: timeline events,
  permission requests and the \<open>Store\<close> interface. The interface is a record of
  operations over a store state, so that every client is written against it, as
  the Go clients are; the locales \<open>job_store\<close>, \<open>watched_store\<close> and \<open>job_store_once\<close> state what an
  implementation promises, relative to an abstraction of its state (the map of
  jobs, each job's timeline and its permission requests).

  The update function of \<open>UpdateJob\<close> is a Go closure that may assign variables of
  its caller. Those variables are the record \<open>captured\<close>, threaded through
  the closure, so that a store which runs a closure more than once is
  distinguished from one which runs it once.
\<close>

section \<open>Timeline events and permission requests\<close>

record Event =
  e_ID :: string
  e_Type :: string
  e_PayloadJSON :: string
  e_At :: gotime

datatype PermissionState =
    PermissionPending
  | PermissionAllowed
  | PermissionDenied
  | PermissionOther string

record PermissionRequest =
  p_RequestID :: string
  p_ToolName :: string
  p_InputJSON :: string
  p_State :: PermissionState
  p_Reason :: string
  p_RequestedAt :: gotime
  p_AnsweredAt :: gotime

fun permission_state_string :: "PermissionState \<Rightarrow> string" where
  "permission_state_string PermissionPending = ''pending''"
| "permission_state_string PermissionAllowed = ''allowed''"
| "permission_state_string PermissionDenied = ''denied''"
| "permission_state_string (PermissionOther s) = s"

text \<open>The Go conversion \<open>store.PermissionState(s)\<close>.\<close>

definition permission_state_of :: "string \<Rightarrow> PermissionState" where
  "permission_state_of s =
     (if s = ''pending'' then PermissionPending
      else if s = ''allowed'' then PermissionAllowed
      else if s = ''denied'' then PermissionDenied
      else PermissionOther s)"

section \<open>The interface\<close>

record captured =
  c_moved :: bool
  c_status :: Status

definition no_capture :: captured where
  "no_capture = \<lparr>c_moved = False, c_status = StatusOther []\<rparr>"

type_synonym update_fn = "Job \<Rightarrow> captured \<Rightarrow> Job result \<times> captured"

record 's Store =
  s_CreateJob :: "Job \<Rightarrow> 's \<Rightarrow> unit result \<times> 's"
  s_GetJob :: "string \<Rightarrow> 's \<Rightarrow> Job result"
  s_ListJobs :: "int \<Rightarrow> string \<Rightarrow> 's \<Rightarrow> (Job list \<times> string) result"
  s_UpdateJob :: "string \<Rightarrow> update_fn \<Rightarrow> captured \<Rightarrow> 's \<Rightarrow> Job result \<times> captured \<times> 's"
  s_DeleteJob :: "string \<Rightarrow> 's \<Rightarrow> unit result \<times> 's"
  s_AppendEvent :: "gotime \<Rightarrow> string \<Rightarrow> Event \<Rightarrow> 's \<Rightarrow> string result \<times> 's"
  s_ReadEvents :: "string \<Rightarrow> string \<Rightarrow> int \<Rightarrow> 's \<Rightarrow> Event list result"
  s_WatchEvents :: "string \<Rightarrow> string \<Rightarrow> 's \<Rightarrow> (nat result \<times> 's) option"
  s_PutPermission :: "string \<Rightarrow> PermissionRequest \<Rightarrow> 's \<Rightarrow> unit result \<times> 's"
  s_GetPermission :: "string \<Rightarrow> string \<Rightarrow> 's \<Rightarrow> PermissionRequest result"
  s_ListPermissions :: "string \<Rightarrow> 's \<Rightarrow> PermissionRequest list result"

text \<open>
  \<open>WatchEvents\<close> returns a channel, named by a number; \<open>None\<close> is a call that
  blocks for ever.
\<close>

section \<open>Settled jobs\<close>

text \<open>
  What never changes again once a job is terminal: everything but the
  liveness timestamp and the cancellation flag.
\<close>

definition same_outcome :: "Job \<Rightarrow> Job \<Rightarrow> bool" where
  "same_outcome j j' \<longleftrightarrow>
     j' = j\<lparr>j_LastEventAt := j_LastEventAt j', j_CancelRequested := j_CancelRequested j'\<rparr>"

lemma same_outcome_refl [simp, intro]: "same_outcome j j"
  by (simp add: same_outcome_def)

lemma same_outcome_trans: "same_outcome a b \<Longrightarrow> same_outcome b c \<Longrightarrow> same_outcome a c"
  unfolding same_outcome_def by (cases a; cases b; cases c) simp

lemma same_outcome_fields:
  assumes "same_outcome j j'"
  shows "j_Status j' = j_Status j" "j_StopReason j' = j_StopReason j" "j_Error j' = j_Error j"
    "j_FinalText j' = j_FinalText j" "j_FinishedAt j' = j_FinishedAt j" "j_ID j' = j_ID j"
  using assms unfolding same_outcome_def by (cases j; cases j'; simp)+

text \<open>
  The closures this program passes to \<open>UpdateJob\<close> keep the identifier of a job
  and, of a settled job, its outcome.
\<close>

definition safe_fn :: "update_fn \<Rightarrow> bool" where
  "safe_fn fn \<longleftrightarrow>
     (\<forall>j c j' c'. fn j c = (Inr j', c') \<longrightarrow>
        j_ID j' = j_ID j \<and> (Terminal (j_Status j) \<longrightarrow> same_outcome j j'))"

lemma safe_fnI:
  assumes "\<And>j c j' c'. fn j c = (Inr j', c') \<Longrightarrow> j_ID j' = j_ID j"
    and "\<And>j c j' c'. fn j c = (Inr j', c') \<Longrightarrow> Terminal (j_Status j) \<Longrightarrow> same_outcome j j'"
  shows "safe_fn fn"
  using assms unfolding safe_fn_def by blast

lemma safe_fn_ID: "safe_fn fn \<Longrightarrow> fn j c = (Inr j', c') \<Longrightarrow> j_ID j' = j_ID j"
  unfolding safe_fn_def by blast

lemma safe_fn_outcome:
  "safe_fn fn \<Longrightarrow> fn j c = (Inr j', c') \<Longrightarrow> Terminal (j_Status j) \<Longrightarrow> same_outcome j j'"
  unfolding safe_fn_def by blast

section \<open>What an implementation promises\<close>

locale job_store =
  fixes ops :: "'s Store"
    and invar :: "'s \<Rightarrow> bool"
    and job_of :: "'s \<Rightarrow> string \<Rightarrow> Job option"
    and timeline :: "'s \<Rightarrow> string \<Rightarrow> Event list"
    and perm_of :: "'s \<Rightarrow> string \<Rightarrow> string \<Rightarrow> PermissionRequest option"
  assumes key_is_ID: "invar s \<Longrightarrow> job_of s i = Some j \<Longrightarrow> j_ID j = i"
    and create_fresh:
      "invar s \<Longrightarrow> job_of s (j_ID j) = None \<Longrightarrow>
       \<exists>s'. s_CreateJob ops j s = (Inr (), s') \<and> invar s' \<and>
         job_of s' = (job_of s)(j_ID j \<mapsto> j) \<and> perm_of s' = perm_of s \<and> timeline s' = timeline s"
    and create_taken:
      "invar s \<Longrightarrow> job_of s (j_ID j) = Some k \<Longrightarrow>
       \<exists>e. s_CreateJob ops j s = (Inl e, s) \<and> errors_Is e ErrConflict"
    and get_found: "invar s \<Longrightarrow> job_of s i = Some j \<Longrightarrow> s_GetJob ops i s = Inr j"
    and get_missing:
      "invar s \<Longrightarrow> job_of s i = None \<Longrightarrow>
       \<exists>e. s_GetJob ops i s = Inl e \<and> errors_Is e ErrNotFound \<and> \<not> errors_Is e ErrNoUpdate"
    and update_missing:
      "invar s \<Longrightarrow> job_of s i = None \<Longrightarrow>
       \<exists>e. s_UpdateJob ops i fn c s = (Inl e, c, s) \<and> errors_Is e ErrNotFound \<and>
         \<not> errors_Is e ErrNoUpdate"
    and update_safe:
      "invar s \<Longrightarrow> safe_fn fn \<Longrightarrow> s_UpdateJob ops i fn c s = (r, c', s') \<Longrightarrow>
       invar s' \<and> perm_of s' = perm_of s \<and> timeline s' = timeline s \<and>
       (job_of s' = job_of s \<or>
        (\<exists>j k j' k'. job_of s i = Some j \<and> fn j k = (Inr j', k') \<and>
           job_of s' = (job_of s)(i \<mapsto> j')))"
    and delete_found:
      "invar s \<Longrightarrow> job_of s i = Some j \<Longrightarrow>
       \<exists>s'. s_DeleteJob ops i s = (Inr (), s') \<and> invar s' \<and>
         job_of s' = (job_of s)(i := None) \<and> timeline s' = (timeline s)(i := []) \<and>
         perm_of s' = (perm_of s)(i := Map.empty)"
    and delete_missing:
      "invar s \<Longrightarrow> job_of s i = None \<Longrightarrow>
       \<exists>e. s_DeleteJob ops i s = (Inl e, s) \<and> errors_Is e ErrNotFound"
    and append_found:
      "invar s \<Longrightarrow> job_of s i = Some j \<Longrightarrow>
       \<exists>eid s' n at. s_AppendEvent ops t i ev s = (Inr eid, s') \<and> invar s' \<and>
         job_of s' = job_of s \<and> perm_of s' = perm_of s \<and>
         at = (if IsZero (e_At ev) then t else e_At ev) \<and> n \<le> length (timeline s i) \<and>
         timeline s' = (timeline s)(i := drop n (timeline s i) @ [ev\<lparr>e_ID := eid, e_At := at\<rparr>])"
    and append_missing:
      "invar s \<Longrightarrow> job_of s i = None \<Longrightarrow>
       \<exists>e. s_AppendEvent ops t i ev s = (Inl e, s) \<and> errors_Is e ErrNotFound"
    and put_found:
      "invar s \<Longrightarrow> job_of s i = Some j \<Longrightarrow>
       \<exists>s'. s_PutPermission ops i p s = (Inr (), s') \<and> invar s' \<and>
         job_of s' = job_of s \<and> timeline s' = timeline s \<and>
         perm_of s' = (perm_of s)(i := (perm_of s i)(p_RequestID p \<mapsto> p))"
    and put_missing:
      "invar s \<Longrightarrow> job_of s i = None \<Longrightarrow>
       \<exists>e. s_PutPermission ops i p s = (Inl e, s) \<and> errors_Is e ErrNotFound"
    and perm_key: "invar s \<Longrightarrow> perm_of s i rid = Some p \<Longrightarrow> p_RequestID p = rid"
    and getp_found: "invar s \<Longrightarrow> perm_of s i rid = Some p \<Longrightarrow> s_GetPermission ops i rid s = Inr p"
    and getp_missing:
      "invar s \<Longrightarrow> perm_of s i rid = None \<Longrightarrow>
       \<exists>e. s_GetPermission ops i rid s = Inl e \<and> errors_Is e ErrNotFound"
    and list_stored:
      "invar s \<Longrightarrow> s_ListJobs ops n token s = Inr (js, next) \<Longrightarrow> j \<in> set js \<Longrightarrow>
       job_of s (j_ID j) = Some j"
    and watch_frame:
      "invar s \<Longrightarrow> s_WatchEvents ops i token s = Some (wr, s') \<Longrightarrow>
       invar s' \<and> job_of s' = job_of s \<and> timeline s' = timeline s \<and> perm_of s' = perm_of s"

section \<open>How a store may evolve\<close>

text \<open>
  \<open>persist_on P m m'\<close>: every job of \<open>m\<close> that satisfies \<open>P\<close> is still in
  \<open>m'\<close>, satisfies \<open>P\<close> there, and has its old outcome if it was settled. It is the
  relation every operation of the program stays in, whatever the interleaving, on
  the jobs that retention does not remove.
\<close>

definition persist_on ::
  "(string \<Rightarrow> Job \<Rightarrow> bool) \<Rightarrow> (string \<Rightarrow> Job option) \<Rightarrow> (string \<Rightarrow> Job option) \<Rightarrow> bool" where
  "persist_on P m m' \<longleftrightarrow>
     (\<forall>i j. m i = Some j \<longrightarrow> P i j \<longrightarrow>
        (\<exists>j'. m' i = Some j' \<and> P i j' \<and> (Terminal (j_Status j) \<longrightarrow> same_outcome j j')))"

text \<open>The same of every job: nothing is deleted.\<close>

abbreviation jobs_persist :: "(string \<Rightarrow> Job option) \<Rightarrow> (string \<Rightarrow> Job option) \<Rightarrow> bool" where
  "jobs_persist \<equiv> persist_on (\<lambda>_ _. True)"

lemma persist_on_refl [simp, intro]: "persist_on P m m"
  by (auto simp: persist_on_def)

lemma persist_onD:
  assumes "persist_on P m m'" and "m i = Some j" and "P i j"
  shows "\<exists>j'. m' i = Some j' \<and> P i j' \<and> (Terminal (j_Status j) \<longrightarrow> same_outcome j j')"
  using assms unfolding persist_on_def by blast

lemma jobs_persistD:
  assumes "jobs_persist m m'" and "m i = Some j" and "Terminal (j_Status j)"
  shows "\<exists>j'. m' i = Some j' \<and> same_outcome j j'"
  using persist_onD [OF assms(1,2)] assms(3) by blast

lemma persist_on_trans:
  assumes "persist_on P a b" and "persist_on P b c"
  shows "persist_on P a c"
  unfolding persist_on_def
proof (intro allI impI)
  fix i j
  assume "a i = Some j" and "P i j"
  from persist_onD [OF assms(1) this] obtain k where
    k: "b i = Some k" "P i k" "Terminal (j_Status j) \<longrightarrow> same_outcome j k" by blast
  from persist_onD [OF assms(2) k(1,2)] k(3)
  show "\<exists>j'. c i = Some j' \<and> P i j' \<and> (Terminal (j_Status j) \<longrightarrow> same_outcome j j')"
    by (metis same_outcome_fields(1) same_outcome_trans)
qed

lemma persist_on_upd:
  assumes "m i = Some j" and "P i j \<Longrightarrow> P i j'" and "Terminal (j_Status j) \<Longrightarrow> same_outcome j j'"
  shows "persist_on P m (m(i \<mapsto> j'))"
  using assms by (auto simp: persist_on_def)

lemma persist_on_new: "m i = None \<Longrightarrow> persist_on P m (m(i \<mapsto> j))"
  by (auto simp: persist_on_def)

lemma persist_on_delete:
  assumes "persist_on P m m'" and "\<And>j. m i = Some j \<Longrightarrow> \<not> P i j"
  shows "persist_on P m (m'(i := None))"
  using assms by (auto simp: persist_on_def)

text \<open>Steps that touch nothing of a job but its liveness timestamp.\<close>

definition still :: "Job \<Rightarrow> Job \<Rightarrow> bool" where
  "still j j' \<longleftrightarrow> j' = j\<lparr>j_LastEventAt := j_LastEventAt j'\<rparr>"

lemma still_refl [simp, intro]: "still j j"
  by (simp add: still_def)

lemma still_upd [simp, intro]: "still j (j\<lparr>j_LastEventAt := l\<rparr>)"
  by (simp add: still_def)

lemma still_trans: "still a b \<Longrightarrow> still b c \<Longrightarrow> still a c"
  unfolding still_def by (cases a; cases b; cases c) simp

lemma still_outcome: "still j j' \<Longrightarrow> same_outcome j j'"
  unfolding still_def same_outcome_def by (cases j; cases j') simp

lemma still_fields:
  assumes "still j j'"
  shows "j_Status j' = j_Status j" "j_StopReason j' = j_StopReason j" "j_Error j' = j_Error j"
    "j_ID j' = j_ID j" "j_CancelRequested j' = j_CancelRequested j"
  using assms unfolding still_def by (cases j; cases j'; simp)+

definition live_only :: "(string \<Rightarrow> Job option) \<Rightarrow> (string \<Rightarrow> Job option) \<Rightarrow> bool" where
  "live_only m m' \<longleftrightarrow> (\<forall>i. rel_option still (m i) (m' i))"

lemma live_only_refl [simp, intro]: "live_only m m"
  by (simp add: live_only_def option.rel_refl)

lemma live_onlyD: "live_only m m' \<Longrightarrow> m i = Some j \<Longrightarrow> \<exists>j'. m' i = Some j' \<and> still j j'"
  unfolding live_only_def by (drule spec [of _ i]) (simp add: option_rel_Some1)

lemma live_only_trans:
  assumes "live_only a b" and "live_only b c"
  shows "live_only a c"
  unfolding live_only_def
proof
  fix i
  have "rel_option still (a i) (b i)" and "rel_option still (b i) (c i)"
    using assms by (simp_all add: live_only_def)
  then show "rel_option still (a i) (c i)"
    by (cases "a i"; cases "b i"; cases "c i") (simp_all add: still_trans)
qed

lemma live_only_upd: "m i = Some j \<Longrightarrow> live_only m (m(i \<mapsto> j\<lparr>j_LastEventAt := l\<rparr>))"
  by (simp add: live_only_def option.rel_refl)

lemma live_only_persist:
  assumes "live_only m m'" and "\<And>i j j'. P i j \<Longrightarrow> still j j' \<Longrightarrow> P i j'"
  shows "persist_on P m m'"
  unfolding persist_on_def
proof (intro allI impI)
  fix i j
  assume "m i = Some j" and "P i j"
  with live_onlyD [OF assms(1)] assms(2) still_outcome
  show "\<exists>j'. m' i = Some j' \<and> P i j' \<and> (Terminal (j_Status j) \<longrightarrow> same_outcome j j')" by metis
qed

section \<open>Watching part of a store\<close>

text \<open>
  The jobs a client is concerned with, as a predicate \<open>watched\<close> that no update of
  this program leaves, and the clock readings up to which it is concerned, as a
  downward-closed set \<open>upto\<close>. The lemmas on handlers are proved once for any
  such choice: with every job watched for ever they say that nothing is deleted,
  with none that the store stays well formed, with one settled job and a
  bounded run that this job outlives the sweeps of that run.
\<close>

locale watched_store = job_store ops invar job_of timeline perm_of
  for ops :: "'s Store"
    and invar :: "'s \<Rightarrow> bool"
    and job_of :: "'s \<Rightarrow> string \<Rightarrow> Job option"
    and timeline :: "'s \<Rightarrow> string \<Rightarrow> Event list"
    and perm_of :: "'s \<Rightarrow> string \<Rightarrow> string \<Rightarrow> PermissionRequest option" +
  fixes watched :: "string \<Rightarrow> Job \<Rightarrow> bool"
    and upto :: "nat \<Rightarrow> bool"
  assumes watched_step:
      "watched i j \<Longrightarrow> j_ID j' = j_ID j \<Longrightarrow> (Terminal (j_Status j) \<Longrightarrow> same_outcome j j') \<Longrightarrow>
       watched i j'"
    and upto_down: "upto n \<Longrightarrow> m \<le> n \<Longrightarrow> upto m"
begin

lemma watched_still: "watched i j \<Longrightarrow> still j j' \<Longrightarrow> watched i j'"
  by (rule watched_step [of i j]) (simp_all add: still_fields still_outcome)

end

text \<open>
  A store whose \<open>UpdateJob\<close> runs the closure exactly once, on the current
  record; every job of it is watched.
\<close>

locale job_store_once = watched_store ops invar job_of timeline perm_of "\<lambda>_ _. True" "\<lambda>_. True"
  for ops :: "'s Store"
    and invar :: "'s \<Rightarrow> bool"
    and job_of :: "'s \<Rightarrow> string \<Rightarrow> Job option"
    and timeline :: "'s \<Rightarrow> string \<Rightarrow> Event list"
    and perm_of :: "'s \<Rightarrow> string \<Rightarrow> string \<Rightarrow> PermissionRequest option" +
  assumes update_ok:
      "invar s \<Longrightarrow> job_of s i = Some j \<Longrightarrow> fn j c = (Inr j', c') \<Longrightarrow> j_ID j' = i \<Longrightarrow>
       \<exists>s'. s_UpdateJob ops i fn c s = (Inr j', c', s') \<and> invar s' \<and>
         job_of s' = (job_of s)(i \<mapsto> j') \<and> timeline s' = timeline s \<and> perm_of s' = perm_of s"
    and update_abort:
      "invar s \<Longrightarrow> job_of s i = Some j \<Longrightarrow> fn j c = (Inl e, c') \<Longrightarrow>
       s_UpdateJob ops i fn c s = (Inl e, c', s)"

end
