(* ===== verification/MemStore.thy ===== *)
theory MemStore
  imports Store "HOL-Library.Product_Lexorder" "HOL-Library.AList"
begin

text \<open>
  The in-memory store of \<open>src/internal/store/memstore.go\<close>. Every operation holds
  the store's mutex for its whole body, so each is one atomic function on the
  state. Watchers are heap objects named by a number: the channel of a watcher
  is its buffered content, and its \<open>done\<close> channel is a flag.

  The theory ends with the interpretation of \<open>job_store_once\<close> on these
  operations.
\<close>

section \<open>State\<close>

record memWatcher =
  mw_ch :: "Event list"
  mw_jobID :: string
  mw_done :: bool

record memStore =
  ms_jobs :: "string \<Rightarrow> Job option"
  ms_order :: "string list"
  ms_events :: "string \<Rightarrow> Event list"
  ms_perms :: "string \<Rightarrow> (string \<times> PermissionRequest) list"
  ms_watchers :: "string \<Rightarrow> nat list"
  ms_heap :: "nat \<Rightarrow> memWatcher"
  ms_next :: nat
  ms_seq :: nat
  ms_maxLen :: nat

definition NewMemStore :: "int \<Rightarrow> memStore" where
  "NewMemStore maxEvents =
     \<lparr>ms_jobs = Map.empty, ms_order = [], ms_events = (\<lambda>_. []), ms_perms = (\<lambda>_. []),
      ms_watchers = (\<lambda>_. []),
      ms_heap = (\<lambda>_. \<lparr>mw_ch = [], mw_jobID = [], mw_done = False\<rparr>), ms_next = 0,
      ms_seq = 0, ms_maxLen = nat (if maxEvents \<le> 0 then 10000 else maxEvents)\<rparr>"

section \<open>Event identifiers\<close>

definition stream_id :: "int \<Rightarrow> nat \<Rightarrow> string" where
  "stream_id millis seq = itoa millis @ ''-'' @ utoa seq"

text \<open>
  \<open>fmt.Sscanf(a, "%d-%d", \<dots>)\<close> into two \<open>uint64\<close> with the error dropped: what
  could not be read stays zero.
\<close>

definition scan_stream_id :: "string \<Rightarrow> nat \<times> nat" where
  "scan_stream_id s =
     (case scan_uint64 s of
        None \<Rightarrow> (0, 0)
      | Some (m, r) \<Rightarrow>
          (case r of
             [] \<Rightarrow> (m, 0)
           | c # r' \<Rightarrow>
               if c = CHR ''-''
               then (case scan_uint64 r' of None \<Rightarrow> (m, 0) | Some (q, _) \<Rightarrow> (m, q))
               else (m, 0)))"

definition streamIDLess :: "string \<Rightarrow> string \<Rightarrow> bool" where
  "streamIDLess a b =
     (let (am, as) = scan_stream_id a; (bm, bs) = scan_stream_id b
      in if am \<noteq> bm then am < bm else as < bs)"

lemma scan_stream_id_stream_id:
  assumes "0 \<le> m" and "m < 2 ^ 64" and "q < 2 ^ 64"
  shows "scan_stream_id (stream_id m q) = (nat m, q)"
proof -
  have "scan_uint64 (utoa (nat m) @ CHR ''-'' # utoa q) = Some (nat m, CHR ''-'' # utoa q)"
    using assms by (simp add: scan_uint64_utoa)
  moreover have "scan_uint64 (utoa q) = Some (q, [])"
    using assms scan_uint64_utoa [of q "[]"] by simp
  ultimately show ?thesis
    using assms by (simp add: scan_stream_id_def stream_id_def itoa_def)
qed

lemma streamIDLess_stream_id:
  assumes "0 \<le> m" "m < 2 ^ 64" "q < 2 ^ 64" and "0 \<le> m'" "m' < 2 ^ 64" "q' < 2 ^ 64"
  shows "streamIDLess (stream_id m q) (stream_id m' q') \<longleftrightarrow> m < m' \<or> m = m' \<and> q < q'"
  using assms by (auto simp: streamIDLess_def scan_stream_id_stream_id)

lemma streamIDLess_iff_lex: "streamIDLess a b \<longleftrightarrow> scan_stream_id a < scan_stream_id b"
  by (auto simp: streamIDLess_def less_prod_def Let_def split: prod.splits)

lemma streamIDLess_irrefl: "\<not> streamIDLess a a"
  by (simp add: streamIDLess_iff_lex)

lemma streamIDLess_trans: "streamIDLess a b \<Longrightarrow> streamIDLess b c \<Longrightarrow> streamIDLess a c"
  by (auto simp: streamIDLess_iff_lex dest: less_trans)

section \<open>Jobs\<close>

definition mem_CreateJob :: "Job \<Rightarrow> memStore \<Rightarrow> unit result \<times> memStore" where
  "mem_CreateJob j m =
     (case ms_jobs m (j_ID j) of
        Some _ \<Rightarrow> (Inl (Errorf ''job %s: %w'' [j_ID j] (Some (Sentinel ErrConflict))), m)
      | None \<Rightarrow> (Inr (), m\<lparr>ms_jobs := (ms_jobs m)(j_ID j \<mapsto> j),
                          ms_order := ms_order m @ [j_ID j]\<rparr>))"

definition job_not_found :: "string \<Rightarrow> goerror" where
  "job_not_found i = Errorf ''job %s: %w'' [i] (Some (Sentinel ErrNotFound))"

definition mem_GetJob :: "string \<Rightarrow> memStore \<Rightarrow> Job result" where
  "mem_GetJob i m = (case ms_jobs m i of None \<Rightarrow> Inl (job_not_found i) | Some j \<Rightarrow> Inr j)"

text \<open>
  The walk of \<open>ListJobs\<close>: the argument \<open>Suc k\<close> stands for the loop index \<open>k\<close>,
  \<open>0\<close> for a negative index. Reading \<open>m.order\<close> out of range panics.
\<close>

fun list_walk :: "memStore \<Rightarrow> nat \<Rightarrow> nat \<Rightarrow> Job list \<Rightarrow> (Job list \<times> int) result" where
  "list_walk m limit 0 out = Inr (out, -1)"
| "list_walk m limit (Suc k) out =
     (if length out < limit then
        (if k < length (ms_order m) then
           (case ms_jobs m (ms_order m ! k) of
              None \<Rightarrow> list_walk m limit k out
            | Some j \<Rightarrow> list_walk m limit k (out @ [j]))
         else Inl (Panicked ''runtime error: index out of range''))
      else Inr (out, int k))"

definition mem_ListJobs :: "int \<Rightarrow> string \<Rightarrow> memStore \<Rightarrow> (Job list \<times> string) result" where
  "mem_ListJobs limit pageToken m =
     (let lim = nat (if limit \<le> 0 then 50 else limit);
          start = (if pageToken = [] then Some (int (length (ms_order m)) - 1)
                   else map_option fst (scan_int64 pageToken))
      in case start of
           None \<Rightarrow> Inl (Errorf ''bad page token %q'' [pageToken] None)
         | Some i \<Rightarrow>
             (case list_walk m lim (nat (i + 1)) [] of
                Inl e \<Rightarrow> Inl e
              | Inr (out, i') \<Rightarrow> Inr (out, if 0 \<le> i' then itoa i' else [])))"

definition mem_UpdateJob ::
  "string \<Rightarrow> update_fn \<Rightarrow> captured \<Rightarrow> memStore \<Rightarrow> Job result \<times> captured \<times> memStore" where
  "mem_UpdateJob i fn c m =
     (case ms_jobs m i of
        None \<Rightarrow> (Inl (job_not_found i), c, m)
      | Some j \<Rightarrow>
          (case fn j c of
             (Inl e, c') \<Rightarrow> (Inl e, c', m)
           | (Inr j', c') \<Rightarrow> (Inr j', c', m\<lparr>ms_jobs := (ms_jobs m)(i \<mapsto> j')\<rparr>)))"

definition mem_DeleteJob :: "string \<Rightarrow> memStore \<Rightarrow> unit result \<times> memStore" where
  "mem_DeleteJob i m =
     (case ms_jobs m i of
        None \<Rightarrow> (Inl (job_not_found i), m)
      | Some _ \<Rightarrow>
          (Inr (), m\<lparr>ms_jobs := (ms_jobs m)(i := None),
                     ms_events := (ms_events m)(i := []),
                     ms_perms := (ms_perms m)(i := []),
                     ms_heap := (\<lambda>w. if w \<in> set (ms_watchers m i)
                                     then (ms_heap m w)\<lparr>mw_done := True\<rparr> else ms_heap m w),
                     ms_watchers := (ms_watchers m)(i := []),
                     ms_order := remove1 i (ms_order m)\<rparr>))"

section \<open>Timelines\<close>

text \<open>
  A live append offers the event to each watcher of the job and drops it when
  that watcher's buffer (\<open>maxLen + 64\<close>) is full.
\<close>

definition watch_cap :: "memStore \<Rightarrow> nat" where
  "watch_cap m = ms_maxLen m + 64"

definition offer :: "nat \<Rightarrow> Event \<Rightarrow> memWatcher \<Rightarrow> memWatcher" where
  "offer cap ev w = (if length (mw_ch w) < cap then w\<lparr>mw_ch := mw_ch w @ [ev]\<rparr> else w)"

text \<open>\<open>m.seq++\<close> on a \<open>uint64\<close>.\<close>

definition next_seq :: "nat \<Rightarrow> nat" where
  "next_seq n = (n + 1) mod 2 ^ 64"

text \<open>The event as stored: its identifier, and its instant when it had none.\<close>

definition stamp :: "gotime \<Rightarrow> nat \<Rightarrow> Event \<Rightarrow> Event" where
  "stamp now seq ev =
     (let at = (if IsZero (e_At ev) then now else e_At ev)
      in ev\<lparr>e_ID := stream_id (UnixMilli at) seq, e_At := at\<rparr>)"

definition mem_AppendEvent ::
  "gotime \<Rightarrow> string \<Rightarrow> Event \<Rightarrow> memStore \<Rightarrow> string result \<times> memStore" where
  "mem_AppendEvent now i ev m =
     (case ms_jobs m i of
        None \<Rightarrow> (Inl (job_not_found i), m)
      | Some _ \<Rightarrow>
          (let seq = next_seq (ms_seq m);
               ev' = stamp now seq ev
           in (Inr (e_ID ev'),
               m\<lparr>ms_seq := seq,
                 ms_events := (ms_events m)(i := keep_last (ms_maxLen m) (ms_events m i @ [ev'])),
                 ms_heap := (\<lambda>w. if w \<in> set (ms_watchers m i)
                                 then offer (watch_cap m) ev' (ms_heap m w)
                                 else ms_heap m w)\<rparr>)))"

definition after :: "string \<Rightarrow> Event \<Rightarrow> bool" where
  "after afterID ev \<longleftrightarrow> afterID = [] \<or> streamIDLess afterID (e_ID ev)"

definition mem_ReadEvents :: "string \<Rightarrow> string \<Rightarrow> int \<Rightarrow> memStore \<Rightarrow> Event list result" where
  "mem_ReadEvents i afterID limit m =
     (let lim = nat (if limit \<le> 0 then 1000 else limit)
      in case ms_jobs m i of
           None \<Rightarrow> Inl (job_not_found i)
         | Some _ \<Rightarrow> Inr (take lim (filter (after afterID) (ms_events m i))))"

text \<open>
  \<open>WatchEvents\<close> fills the new watcher's channel with the recorded history while
  it holds the mutex: \<open>None\<close> is a send that blocks for ever. The result is the
  watcher whose goroutine then forwards events.
\<close>

definition mem_WatchEvents ::
  "string \<Rightarrow> string \<Rightarrow> memStore \<Rightarrow> (nat result \<times> memStore) option" where
  "mem_WatchEvents i afterID m =
     (case ms_jobs m i of
        None \<Rightarrow> Some (Inl (job_not_found i), m)
      | Some _ \<Rightarrow>
          (let hist = filter (after afterID) (ms_events m i); w = ms_next m
           in if length hist \<le> watch_cap m then
                Some (Inr w,
                  m\<lparr>ms_heap := (ms_heap m)(w := \<lparr>mw_ch = hist, mw_jobID = i, mw_done = False\<rparr>),
                    ms_next := w + 1,
                    ms_watchers := (ms_watchers m)(i := ms_watchers m i @ [w])\<rparr>)
              else None))"

definition removeWatcher :: "nat \<Rightarrow> memStore \<Rightarrow> memStore" where
  "removeWatcher w m =
     (let i = mw_jobID (ms_heap m w)
      in m\<lparr>ms_watchers := (ms_watchers m)(i := remove1 w (ms_watchers m i))\<rparr>)"

section \<open>Permission requests\<close>

definition mem_PutPermission ::
  "string \<Rightarrow> PermissionRequest \<Rightarrow> memStore \<Rightarrow> unit result \<times> memStore" where
  "mem_PutPermission i p m =
     (case ms_jobs m i of
        None \<Rightarrow> (Inl (job_not_found i), m)
      | Some _ \<Rightarrow>
          (Inr (), m\<lparr>ms_perms := (ms_perms m)(i := AList.update (p_RequestID p) p (ms_perms m i))\<rparr>))"

definition mem_GetPermission :: "string \<Rightarrow> string \<Rightarrow> memStore \<Rightarrow> PermissionRequest result" where
  "mem_GetPermission i r m =
     (case map_of (ms_perms m i) r of
        None \<Rightarrow> Inl (Errorf ''permission %s/%s: %w'' [i, r] (Some (Sentinel ErrNotFound)))
      | Some p \<Rightarrow> Inr p)"

text \<open>
  Pending requests first, then by request time. The sort is a stable one on
  the entries in the order of the association list; Go iterates a map in no
  fixed order and \<open>sort.Slice\<close> is not stable, so the order of requests that
  compare equal is unspecified there.
\<close>

definition permission_key :: "PermissionRequest \<Rightarrow> bool \<times> gotime" where
  "permission_key p = (p_State p \<noteq> PermissionPending, p_RequestedAt p)"

definition mem_ListPermissions :: "string \<Rightarrow> memStore \<Rightarrow> PermissionRequest list result" where
  "mem_ListPermissions i m = Inr (sort_key permission_key (map snd (ms_perms m i)))"

definition memStore_ops :: "memStore Store" where
  "memStore_ops =
     \<lparr>s_CreateJob = mem_CreateJob, s_GetJob = mem_GetJob, s_ListJobs = mem_ListJobs,
      s_UpdateJob = mem_UpdateJob, s_DeleteJob = mem_DeleteJob, s_AppendEvent = mem_AppendEvent,
      s_ReadEvents = mem_ReadEvents,
      s_WatchEvents = mem_WatchEvents, s_PutPermission = mem_PutPermission,
      s_GetPermission = mem_GetPermission, s_ListPermissions = mem_ListPermissions\<rparr>"

lemma memStore_ops_sel [simp]:
  "s_CreateJob memStore_ops = mem_CreateJob" "s_GetJob memStore_ops = mem_GetJob"
  "s_ListJobs memStore_ops = mem_ListJobs" "s_UpdateJob memStore_ops = mem_UpdateJob"
  "s_DeleteJob memStore_ops = mem_DeleteJob" "s_AppendEvent memStore_ops = mem_AppendEvent"
  "s_ReadEvents memStore_ops = mem_ReadEvents" "s_WatchEvents memStore_ops = mem_WatchEvents"
  "s_PutPermission memStore_ops = mem_PutPermission"
  "s_GetPermission memStore_ops = mem_GetPermission"
  "s_ListPermissions memStore_ops = mem_ListPermissions"
  by (simp_all add: memStore_ops_def)

section \<open>Invariant\<close>

definition mem_ok :: "memStore \<Rightarrow> bool" where
  "mem_ok m \<longleftrightarrow>
     (\<forall>i j. ms_jobs m i = Some j \<longrightarrow> j_ID j = i) \<and>
     distinct (ms_order m) \<and> set (ms_order m) = dom (ms_jobs m) \<and>
     0 < ms_maxLen m \<and>
     (\<forall>i. length (ms_events m i) \<le> ms_maxLen m) \<and>
     (\<forall>i r p. map_of (ms_perms m i) r = Some p \<longrightarrow> p_RequestID p = r) \<and>
     (\<forall>i. ms_jobs m i = None \<longrightarrow> ms_events m i = [] \<and> ms_perms m i = [])"

text \<open>Watchers: registered under their own job, live, and never over capacity.\<close>

definition watch_ok :: "memStore \<Rightarrow> bool" where
  "watch_ok m \<longleftrightarrow>
     (\<forall>i. distinct (ms_watchers m i)) \<and>
     (\<forall>i. \<forall>w \<in> set (ms_watchers m i).
        w < ms_next m \<and> mw_jobID (ms_heap m w) = i \<and> \<not> mw_done (ms_heap m w)) \<and>
     (\<forall>w. length (mw_ch (ms_heap m w)) \<le> watch_cap m)"

lemma mem_ok_jobs: "mem_ok m \<Longrightarrow> ms_jobs m i = Some j \<Longrightarrow> j_ID j = i"
  by (simp add: mem_ok_def)

lemma mem_ok_order: "mem_ok m \<Longrightarrow> i \<in> set (ms_order m) \<longleftrightarrow> ms_jobs m i \<noteq> None"
  by (auto simp: mem_ok_def)

lemma mem_ok_New: "mem_ok (NewMemStore n)"
  by (auto simp: mem_ok_def NewMemStore_def)

lemma watch_ok_New: "watch_ok (NewMemStore n)"
  by (auto simp: watch_ok_def NewMemStore_def)

lemma mem_ok_Create:
  assumes "mem_ok m" and "mem_CreateJob j m = (r, m')"
  shows "mem_ok m'"
proof (cases "ms_jobs m (j_ID j)")
  case None
  then have m': "m' = m\<lparr>ms_jobs := (ms_jobs m)(j_ID j \<mapsto> j), ms_order := ms_order m @ [j_ID j]\<rparr>"
    using assms(2) by (simp add: mem_CreateJob_def)
  have "j_ID j \<notin> set (ms_order m)" using mem_ok_order [OF assms(1)] None by simp
  with assms(1) show ?thesis unfolding m' mem_ok_def by auto
next
  case Some
  then show ?thesis using assms by (simp add: mem_CreateJob_def)
qed

lemma mem_ok_Update:
  assumes "mem_ok m" and "mem_UpdateJob i fn c m = (r, c', m')"
    and "\<And>j c j' c'. fn j c = (Inr j', c') \<Longrightarrow> j_ID j' = j_ID j"
  shows "mem_ok m'"
proof (cases "\<exists>j j' c'. ms_jobs m i = Some j \<and> fn j c = (Inr j', c')")
  case True
  then obtain j j' c' where *: "ms_jobs m i = Some j" "fn j c = (Inr j', c')" by blast
  then have "m' = m\<lparr>ms_jobs := (ms_jobs m)(i \<mapsto> j')\<rparr>"
    using assms(2) by (simp add: mem_UpdateJob_def)
  moreover have "j_ID j' = i" using assms(1,3) * by (auto simp: mem_ok_def)
  ultimately show ?thesis using assms(1) *(1) by (auto simp: mem_ok_def)
next
  case False
  then have "m' = m" using assms(2)
    by (auto simp: mem_UpdateJob_def split: option.splits prod.splits sum.splits)
  with assms(1) show ?thesis by simp
qed

lemma mem_ok_Delete: "mem_ok m \<Longrightarrow> mem_DeleteJob i m = (r, m') \<Longrightarrow> mem_ok m'"
  by (auto simp: mem_ok_def mem_DeleteJob_def split: option.splits if_splits)

lemma mem_ok_Append: "mem_ok m \<Longrightarrow> mem_AppendEvent t i ev m = (r, m') \<Longrightarrow> mem_ok m'"
  by (auto simp: mem_ok_def mem_AppendEvent_def Let_def split: option.splits)

lemma mem_ok_Put: "mem_ok m \<Longrightarrow> mem_PutPermission i p m = (r, m') \<Longrightarrow> mem_ok m'"
  by (auto simp: mem_ok_def mem_PutPermission_def update_conv' split: option.splits if_splits)

lemma mem_ok_Watch: "mem_ok m \<Longrightarrow> mem_WatchEvents i a m = Some (r, m') \<Longrightarrow> mem_ok m'"
  by (auto simp: mem_ok_def mem_WatchEvents_def Let_def split: option.splits if_splits)

text \<open>A page holds stored jobs only.\<close>

lemma list_walk_stored:
  assumes "mem_ok m"
  shows "list_walk m limit n out = Inr (js, k) \<Longrightarrow>
    \<forall>j \<in> set out. ms_jobs m (j_ID j) = Some j \<Longrightarrow> j \<in> set js \<Longrightarrow> ms_jobs m (j_ID j) = Some j"
proof (induction n arbitrary: out)
  case (Suc n)
  have "ms_jobs m (j_ID x) = Some x" if "ms_jobs m (ms_order m ! n) = Some x" for x
    using mem_ok_jobs [OF assms that] that by simp
  with Suc show ?case by (auto split: if_splits option.splits)
qed simp

section \<open>The contract holds\<close>

lemma not_found_sentinels [simp]:
  "errors_Is (job_not_found i) ErrNotFound" "\<not> errors_Is (job_not_found i) ErrNoUpdate"
  by (simp_all add: job_not_found_def)

interpretation mem: job_store_once memStore_ops mem_ok ms_jobs ms_events
  "\<lambda>m i. map_of (ms_perms m i)"
proof (standard, goal_cases)
  case (1 s i j)
  then show ?case by (rule mem_ok_jobs)
next
  case (2 s j)
  then show ?case using mem_ok_Create [of s j] by (simp add: mem_CreateJob_def)
next
  case (3 s j k)
  then show ?case by (simp add: mem_CreateJob_def)
next
  case (4 s i j)
  then show ?case by (simp add: mem_GetJob_def)
next
  case (5 s i)
  then show ?case by (simp add: mem_GetJob_def)
next
  case (6 s i fn c)
  then show ?case by (simp add: mem_UpdateJob_def)
next
  case (7 s fn i c r c' s')
  then have ok: "mem_ok s'" by (auto intro: mem_ok_Update dest: safe_fn_ID)
  show ?case
  proof (cases "\<exists>j j' k'. ms_jobs s i = Some j \<and> fn j c = (Inr j', k')")
    case True
    then obtain j j' k' where *: "ms_jobs s i = Some j" "fn j c = (Inr j', k')" by blast
    then have "s' = s\<lparr>ms_jobs := (ms_jobs s)(i \<mapsto> j')\<rparr>"
      using 7(3) by (simp add: mem_UpdateJob_def)
    with * ok show ?thesis by auto
  next
    case False
    then have "s' = s" using 7(3)
      by (auto simp: mem_UpdateJob_def split: option.splits prod.splits sum.splits)
    with ok show ?thesis by simp
  qed
next
  case (8 s i j)
  then show ?case using mem_ok_Delete [of s i] by (simp add: mem_DeleteJob_def fun_eq_iff)
next
  case (9 s i)
  then show ?case by (simp add: mem_DeleteJob_def)
next
  case (10 s i j t ev)
  let ?at = "if IsZero (e_At ev) then t else e_At ev"
  define ev' where "ev' = stamp t (next_seq (ms_seq s)) ev"
  have ev': "ev\<lparr>e_ID := e_ID ev', e_At := ?at\<rparr> = ev'" by (simp add: ev'_def stamp_def Let_def)
  have "0 < ms_maxLen s" using 10(1) by (simp add: mem_ok_def)
  from keep_last_snoc_drop [OF this, of "ms_events s i" ev'] obtain n
    where n: "n \<le> length (ms_events s i)"
      "keep_last (ms_maxLen s) (ms_events s i @ [ev']) = drop n (ms_events s i) @ [ev']"
    by auto
  have A: "mem_AppendEvent t i ev s = (Inr (e_ID ev'), snd (mem_AppendEvent t i ev s))"
    and s': "ms_jobs (snd (mem_AppendEvent t i ev s)) = ms_jobs s"
      "ms_perms (snd (mem_AppendEvent t i ev s)) = ms_perms s"
      "ms_events (snd (mem_AppendEvent t i ev s)) =
         (ms_events s)(i := drop n (ms_events s i) @ [ev'])"
    by (simp_all add: 10(2) mem_AppendEvent_def Let_def ev'_def [symmetric] n(2))
  show ?case unfolding memStore_ops_sel
  proof (intro exI conjI)
    show "mem_AppendEvent t i ev s = (Inr (e_ID ev'), snd (mem_AppendEvent t i ev s))" by (rule A)
    show "mem_ok (snd (mem_AppendEvent t i ev s))" by (rule mem_ok_Append [OF 10(1) A])
    show "n \<le> length (ms_events s i)" by (rule n(1))
    show "ms_events (snd (mem_AppendEvent t i ev s)) =
        (ms_events s)(i := drop n (ms_events s i) @ [ev\<lparr>e_ID := e_ID ev', e_At := ?at\<rparr>])"
      unfolding ev' by (rule s'(3))
  qed (simp_all only: s'(1,2))
next
  case (11 s i t ev)
  then show ?case by (simp add: mem_AppendEvent_def)
next
  case (12 s i j p)
  then show ?case using mem_ok_Put [of s i p]
    by (simp add: mem_PutPermission_def fun_eq_iff update_conv')
next
  case (13 s i p)
  then show ?case by (simp add: mem_PutPermission_def)
next
  case (14 s i rid p)
  then show ?case by (simp add: mem_ok_def)
next
  case (15 s i rid p)
  then show ?case by (simp add: mem_GetPermission_def)
next
  case (16 s i rid)
  then show ?case by (simp add: mem_GetPermission_def)
next
  case (17 s n token js nx j)
  then show ?case using list_walk_stored [OF 17(1), where out = "[]"]
    by (auto simp: mem_ListJobs_def Let_def split: option.splits sum.splits)
next
  case (18 s i token r s')
  then show ?case using mem_ok_Watch [of s i token]
    by (auto simp: mem_WatchEvents_def Let_def split: option.splits if_splits)
next
  case (21 s i j fn c j' c')
  have "mem_ok (s\<lparr>ms_jobs := (ms_jobs s)(i \<mapsto> j')\<rparr>)"
    using 21(1,2,4) by (auto simp: mem_ok_def)
  then show ?case using 21 by (simp add: mem_UpdateJob_def)
next
  case (22 s i j fn c e c')
  then show ?case by (simp add: mem_UpdateJob_def)
qed auto

end
