(* ===== verification/World.thy ===== *)
theory World
  imports Telemetry Registry MemStore
begin

text \<open>
  The state the request handlers share: the store, the session registry, the
  live streams and the measurements taken. A stream is named by a number; a
  session is the stream it wraps, plus its \<open>closed\<close> flag
  (\<open>src/internal/controlplane/controlplane.go\<close>, \<open>session\<close>).

  The record \<open>env\<close> collects what is outside the program: the clock, read in
  sequence; whether the \<open>n\<close>-th write on a stream fails; and the
  protobuf-JSON codec (a third-party package) for the messages hairpin encodes
  and decodes. Logging is left out.
\<close>

record env =
  env_clock :: "nat \<Rightarrow> gotime"
  env_wire :: "nat \<Rightarrow> nat \<Rightarrow> goerror option"
  env_marshal_event :: "HarnessEvent \<Rightarrow> string result"
  env_marshal_control :: "ControlEvent \<Rightarrow> string result"
  env_marshal_config :: "RunConfig \<Rightarrow> string result"
  env_parse_config :: "string \<Rightarrow> RunConfig result"
  env_parse_config_lax :: "string \<Rightarrow> RunConfig result"

record 's World =
  w_store :: 's
  w_reg :: "nat Registry"
  w_closed :: "nat \<Rightarrow> bool"
  w_sent :: "nat \<Rightarrow> (ControlEvent \<times> bool) list"
  w_reads :: nat
  w_metrics :: "measurement list"

section \<open>Clock and measurements\<close>

definition now :: "env \<Rightarrow> 's World \<Rightarrow> gotime \<times> 's World" where
  "now E w = (env_clock E (w_reads w), w\<lparr>w_reads := w_reads w + 1\<rparr>)"

definition tel :: "measurement list \<Rightarrow> 's World \<Rightarrow> 's World" where
  "tel ms w = w\<lparr>w_metrics := w_metrics w @ ms\<rparr>"

section \<open>Streams and sessions\<close>

text \<open>
  A write on the stream: every attempt is logged with its outcome.
\<close>

definition stream_Send :: "env \<Rightarrow> nat \<Rightarrow> ControlEvent \<Rightarrow> 's World \<Rightarrow> goerror option \<times> 's World" where
  "stream_Send E s ev w =
     (let r = env_wire E s (length (w_sent w s))
      in (r, w\<lparr>w_sent := (w_sent w)(s := w_sent w s @ [(ev, r = None)])\<rparr>))"

definition session_Send :: "env \<Rightarrow> nat \<Rightarrow> ControlEvent \<Rightarrow> 's World \<Rightarrow> goerror option \<times> 's World" where
  "session_Send E s ev w =
     (if w_closed w s then (Some (Sentinel ErrNotConnected), w) else stream_Send E s ev w)"

definition session_close :: "nat \<Rightarrow> 's World \<Rightarrow> 's World" where
  "session_close s w = w\<lparr>w_closed := (w_closed w)(s := True)\<rparr>"

text \<open>Registry operations on the shared state.\<close>

definition w_register :: "string \<Rightarrow> nat \<Rightarrow> 's World \<Rightarrow> goerror option \<times> 's World" where
  "w_register i s w = (let (e, r) = Register i s (w_reg w) in (e, w\<lparr>w_reg := r\<rparr>))"

definition w_unregister :: "string \<Rightarrow> nat \<Rightarrow> 's World \<Rightarrow> 's World" where
  "w_unregister i s w = w\<lparr>w_reg := Unregister i s (w_reg w)\<rparr>"

definition registry_Send :: "env \<Rightarrow> string \<Rightarrow> ControlEvent \<Rightarrow> 's World \<Rightarrow> goerror option \<times> 's World" where
  "registry_Send E i ev w = Send (session_Send E) (w_reg w) i ev w"

section \<open>Store operations on the shared state\<close>

definition w_UpdateJob ::
  "'s Store \<Rightarrow> string \<Rightarrow> update_fn \<Rightarrow> captured \<Rightarrow> 's World \<Rightarrow> Job result \<times> captured \<times> 's World" where
  "w_UpdateJob st i fn c w =
     (let (r, c', s') = s_UpdateJob st i fn c (w_store w) in (r, c', w\<lparr>w_store := s'\<rparr>))"

definition w_CreateJob :: "'s Store \<Rightarrow> Job \<Rightarrow> 's World \<Rightarrow> unit result \<times> 's World" where
  "w_CreateJob st j w =
     (let (r, s') = s_CreateJob st j (w_store w) in (r, w\<lparr>w_store := s'\<rparr>))"

definition w_DeleteJob :: "'s Store \<Rightarrow> string \<Rightarrow> 's World \<Rightarrow> unit result \<times> 's World" where
  "w_DeleteJob st i w =
     (let (r, s') = s_DeleteJob st i (w_store w) in (r, w\<lparr>w_store := s'\<rparr>))"

text \<open>
  \<open>AppendEvent\<close> reads the clock itself when the event carries no instant; here
  the reading is taken first.
\<close>

definition w_AppendEvent ::
  "env \<Rightarrow> 's Store \<Rightarrow> string \<Rightarrow> Event \<Rightarrow> 's World \<Rightarrow> string result \<times> 's World" where
  "w_AppendEvent E st i ev w =
     (let (t, w1) = (if IsZero (e_At ev) then now E w else (e_At ev, w));
          (r, s') = s_AppendEvent st t i ev (w_store w1)
      in (r, w1\<lparr>w_store := s'\<rparr>))"

definition w_PutPermission ::
  "'s Store \<Rightarrow> string \<Rightarrow> PermissionRequest \<Rightarrow> 's World \<Rightarrow> unit result \<times> 's World" where
  "w_PutPermission st i p w =
     (let (r, s') = s_PutPermission st i p (w_store w) in (r, w\<lparr>w_store := s'\<rparr>))"

section \<open>Frame facts\<close>

lemma now_frame [simp]:
  "w_store (snd (now E w)) = w_store w" "w_reg (snd (now E w)) = w_reg w"
  "w_closed (snd (now E w)) = w_closed w" "w_sent (snd (now E w)) = w_sent w"
  "w_metrics (snd (now E w)) = w_metrics w"
  by (simp_all add: now_def)

lemma tel_frame [simp]:
  "w_store (tel ms w) = w_store w" "w_reg (tel ms w) = w_reg w"
  "w_closed (tel ms w) = w_closed w" "w_sent (tel ms w) = w_sent w"
  "w_reads (tel ms w) = w_reads w" "w_metrics (tel ms w) = w_metrics w @ ms"
  by (simp_all add: tel_def)

lemma stream_Send_frame [simp]:
  "w_store (snd (stream_Send E s ev w)) = w_store w" "w_reg (snd (stream_Send E s ev w)) = w_reg w"
  "w_closed (snd (stream_Send E s ev w)) = w_closed w"
  "w_metrics (snd (stream_Send E s ev w)) = w_metrics w"
  "w_reads (snd (stream_Send E s ev w)) = w_reads w"
  by (simp_all add: stream_Send_def Let_def)

lemma session_Send_frame [simp]:
  "w_store (snd (session_Send E s ev w)) = w_store w" "w_reg (snd (session_Send E s ev w)) = w_reg w"
  "w_closed (snd (session_Send E s ev w)) = w_closed w"
  "w_metrics (snd (session_Send E s ev w)) = w_metrics w"
  "w_reads (snd (session_Send E s ev w)) = w_reads w"
  by (simp_all add: session_Send_def)

lemma registry_Send_frame [simp]:
  "w_store (snd (registry_Send E i ev w)) = w_store w" "w_reg (snd (registry_Send E i ev w)) = w_reg w"
  "w_closed (snd (registry_Send E i ev w)) = w_closed w"
  "w_metrics (snd (registry_Send E i ev w)) = w_metrics w"
  by (simp_all add: registry_Send_def Send_def split: option.splits)

lemma now_reads [simp]: "w_reads (snd (now E w)) = Suc (w_reads w)"
  by (simp add: now_def)

lemma registry_Send_reads [simp]: "w_reads (snd (registry_Send E i ev w)) = w_reads w"
  by (simp add: registry_Send_def Send_def split: option.splits)

lemma session_close_frame [simp]:
  "w_reads (session_close s w) = w_reads w" "w_store (session_close s w) = w_store w" "w_reg (session_close s w) = w_reg w"
  "w_sent (session_close s w) = w_sent w" "w_metrics (session_close s w) = w_metrics w"
  by (simp_all add: session_close_def)

lemma w_register_frame [simp]:
  "w_reads (snd (w_register i s w)) = w_reads w"
  "w_store (snd (w_register i s w)) = w_store w" "w_sent (snd (w_register i s w)) = w_sent w"
  "w_metrics (snd (w_register i s w)) = w_metrics w" "w_closed (snd (w_register i s w)) = w_closed w"
  by (simp_all add: w_register_def split: prod.splits)

lemma w_unregister_frame [simp]:
  "w_reads (w_unregister i s w) = w_reads w"
  "w_store (w_unregister i s w) = w_store w" "w_sent (w_unregister i s w) = w_sent w"
  "w_metrics (w_unregister i s w) = w_metrics w" "w_closed (w_unregister i s w) = w_closed w"
  by (simp_all add: w_unregister_def)

lemma w_UpdateJob_frame [simp]:
  "w_reads (snd (snd (w_UpdateJob st i fn c w))) = w_reads w"
  "w_reg (snd (snd (w_UpdateJob st i fn c w))) = w_reg w"
  "w_sent (snd (snd (w_UpdateJob st i fn c w))) = w_sent w"
  "w_closed (snd (snd (w_UpdateJob st i fn c w))) = w_closed w"
  "w_metrics (snd (snd (w_UpdateJob st i fn c w))) = w_metrics w"
  by (simp_all add: w_UpdateJob_def split: prod.splits)

lemma w_AppendEvent_frame [simp]:
  "w_reg (snd (w_AppendEvent E st i ev w)) = w_reg w"
  "w_sent (snd (w_AppendEvent E st i ev w)) = w_sent w"
  "w_closed (snd (w_AppendEvent E st i ev w)) = w_closed w"
  "w_metrics (snd (w_AppendEvent E st i ev w)) = w_metrics w"
  by (simp_all add: w_AppendEvent_def now_def split: prod.splits)

lemma w_PutPermission_frame [simp]:
  "w_reg (snd (w_PutPermission st i p w)) = w_reg w"
  "w_sent (snd (w_PutPermission st i p w)) = w_sent w"
  "w_closed (snd (w_PutPermission st i p w)) = w_closed w"
  "w_metrics (snd (w_PutPermission st i p w)) = w_metrics w"
  by (simp_all add: w_PutPermission_def split: prod.splits)

section \<open>Steps that keep every outcome\<close>

text \<open>
  Inside the store contract, \<open>keeps w w'\<close> says that a step from \<open>w\<close> to
  \<open>w'\<close>, as long as the clock readings taken are in \<open>upto\<close>, preserves the store
  invariant, deletes no watched job and leaves every settled outcome of a
  watched job alone. It is reflexive and transitive, so the lemma of a
  handler is the composition of the lemmas of its steps.
\<close>

context watched_store
begin

definition keeps :: "'s World \<Rightarrow> 's World \<Rightarrow> bool" where
  "keeps w w' \<longleftrightarrow>
     w_reads w \<le> w_reads w' \<and>
     (upto (w_reads w') \<longrightarrow> invar (w_store w) \<longrightarrow>
        invar (w_store w') \<and> persist_on watched (job_of (w_store w)) (job_of (w_store w')))"

lemma keeps_refl: "keeps w w"
  by (simp add: keeps_def)

lemma keeps_trans: "keeps a b \<Longrightarrow> keeps b c \<Longrightarrow> keeps a c"
  unfolding keeps_def by (blast intro: persist_on_trans upto_down order_trans)

lemma keeps_same_store: "w_store w' = w_store w \<Longrightarrow> w_reads w \<le> w_reads w' \<Longrightarrow> keeps w w'"
  by (simp add: keeps_def)

text \<open>
  \<open>quiet w w'\<close> is the stronger relation of the steps that change no job but for
  its liveness timestamp.
\<close>

definition quiet :: "'s World \<Rightarrow> 's World \<Rightarrow> bool" where
  "quiet w w' \<longleftrightarrow>
     w_reads w \<le> w_reads w' \<and>
     (invar (w_store w) \<longrightarrow>
        invar (w_store w') \<and> live_only (job_of (w_store w)) (job_of (w_store w')))"

lemma quiet_refl: "quiet w w"
  by (simp add: quiet_def)

lemma quiet_trans: "quiet a b \<Longrightarrow> quiet b c \<Longrightarrow> quiet a c"
  unfolding quiet_def by (blast intro: live_only_trans order_trans)

lemma quiet_same_store: "w_store w' = w_store w \<Longrightarrow> w_reads w \<le> w_reads w' \<Longrightarrow> quiet w w'"
  by (simp add: quiet_def)

lemma quiet_keeps: "quiet w w' \<Longrightarrow> keeps w w'"
  by (simp add: quiet_def keeps_def live_only_persist watched_still)

lemma quiet_now: "quiet w (snd (now E w))"
  by (simp add: quiet_same_store)

lemma quiet_tel: "quiet w (tel ms w)"
  by (simp add: quiet_same_store)

lemma quiet_session_Send: "quiet w (snd (session_Send E s ev w))"
  by (simp add: quiet_same_store)

lemma keeps_now: "keeps w (snd (now E w))"
  by (simp add: keeps_same_store)

lemma keeps_tel: "keeps w (tel ms w)"
  by (simp add: keeps_same_store)

lemma keeps_stream_Send: "keeps w (snd (stream_Send E s ev w))"
  by (simp add: keeps_same_store)

lemma keeps_session_Send: "keeps w (snd (session_Send E s ev w))"
  by (simp add: keeps_same_store)

lemma keeps_registry_Send: "keeps w (snd (registry_Send E i ev w))"
  by (simp add: keeps_same_store)

lemma keeps_session_close: "keeps w (session_close s w)"
  by (simp add: keeps_same_store)

lemma keeps_w_register: "keeps w (snd (w_register i s w))"
  by (simp add: keeps_same_store)

lemma keeps_w_unregister: "keeps w (w_unregister i s w)"
  by (simp add: keeps_same_store)

lemma keeps_w_UpdateJob:
  assumes "safe_fn fn"
  shows "keeps w (snd (snd (w_UpdateJob ops i fn c w)))"
proof -
  obtain r c' s' where u: "s_UpdateJob ops i fn c (w_store w) = (r, c', s')" by (metis prod_cases3)
  show ?thesis
  proof (cases "invar (w_store w)")
    case True
    have "persist_on watched (job_of (w_store w)) ((job_of (w_store w))(i \<mapsto> j'))"
      if "job_of (w_store w) i = Some j" "fn j k = (Inr j', k')" for j k j' k'
      using that(1)
      by (rule persist_on_upd)
         (blast intro: watched_step safe_fn_ID [OF assms that(2)] safe_fn_outcome [OF assms that(2)])+
    with update_safe [OF True assms u] have
      "invar s'" and "persist_on watched (job_of (w_store w)) (job_of s')"
      by auto
    then show ?thesis by (simp add: keeps_def w_UpdateJob_def u)
  next
    case False
    then show ?thesis by (simp add: keeps_def w_UpdateJob_def u)
  qed
qed

lemma quiet_w_AppendEvent: "quiet w (snd (w_AppendEvent E ops i ev w))"
proof -
  have *: "quiet v (v\<lparr>w_store := snd (s_AppendEvent ops t i ev (w_store v))\<rparr>)"
    for v :: "'s World" and t
  proof (cases "job_of (w_store v) i")
    case None
    then show ?thesis using append_missing [of "w_store v" i t ev] by (auto simp: quiet_def)
  next
    case (Some j)
    then show ?thesis using append_found [of "w_store v" i j t ev] by (auto simp: quiet_def)
  qed
  show ?thesis
  proof (cases "IsZero (e_At ev)")
    case True
    have "snd (w_AppendEvent E ops i ev w) =
        (snd (now E w))\<lparr>w_store :=
           snd (s_AppendEvent ops (fst (now E w)) i ev (w_store (snd (now E w))))\<rparr>"
      using True by (simp add: w_AppendEvent_def case_prod_unfold Let_def)
    with quiet_now * show ?thesis by (metis quiet_trans)
  next
    case False
    have "snd (w_AppendEvent E ops i ev w) =
        w\<lparr>w_store := snd (s_AppendEvent ops (e_At ev) i ev (w_store w))\<rparr>"
      using False by (simp add: w_AppendEvent_def case_prod_unfold Let_def)
    with * show ?thesis by metis
  qed
qed

lemma keeps_w_AppendEvent: "keeps w (snd (w_AppendEvent E ops i ev w))"
  by (rule quiet_keeps [OF quiet_w_AppendEvent])

lemma quiet_w_PutPermission: "quiet w (snd (w_PutPermission ops i p w))"
proof (cases "job_of (w_store w) i")
  case None
  then show ?thesis using put_missing [of "w_store w" i p]
    by (auto simp: quiet_def w_PutPermission_def split: prod.splits)
next
  case (Some j)
  then show ?thesis using put_found [of "w_store w" i j p]
    by (auto simp: quiet_def w_PutPermission_def split: prod.splits)
qed

lemma keeps_w_PutPermission: "keeps w (snd (w_PutPermission ops i p w))"
  by (rule quiet_keeps [OF quiet_w_PutPermission])

lemma keeps_w_CreateJob: "keeps w (snd (w_CreateJob ops j w))"
proof (cases "job_of (w_store w) (j_ID j)")
  case None
  then show ?thesis using create_fresh [of "w_store w" j] persist_on_new
    by (auto simp: keeps_def w_CreateJob_def split: prod.splits)
next
  case (Some k)
  then show ?thesis using create_taken [of "w_store w" j k]
    by (auto simp: keeps_def w_CreateJob_def split: prod.splits)
qed

lemmas keeps_intros = keeps_refl keeps_now keeps_tel keeps_stream_Send keeps_session_Send
  keeps_registry_Send keeps_session_close keeps_w_register keeps_w_unregister keeps_w_UpdateJob
  keeps_w_AppendEvent keeps_w_PutPermission keeps_w_CreateJob

text \<open>The same lemmas for a step given by an equation.\<close>

lemma keeps_eq:
  "now E w = (t, w') \<Longrightarrow> keeps w w'"
  "stream_Send E s ev w = (e, w') \<Longrightarrow> keeps w w'"
  "session_Send E s ev w = (e, w') \<Longrightarrow> keeps w w'"
  "registry_Send E i ev w = (e, w') \<Longrightarrow> keeps w w'"
  "w_register i s w = (e, w') \<Longrightarrow> keeps w w'"
  "w_AppendEvent E ops i evt w = (r, w') \<Longrightarrow> keeps w w'"
  "w_PutPermission ops i p w = (u, w') \<Longrightarrow> keeps w w'"
  "w_CreateJob ops j w = (u, w') \<Longrightarrow> keeps w w'"
  "safe_fn fn \<Longrightarrow> w_UpdateJob ops i fn c w = (jr, c', w') \<Longrightarrow> keeps w w'"
  using keeps_now [of w E] keeps_stream_Send [of w E s ev] keeps_session_Send [of w E s ev]
    keeps_registry_Send [of w E i ev] keeps_w_register [of w i s]
    keeps_w_AppendEvent [of w E i evt] keeps_w_PutPermission [of w i p] keeps_w_CreateJob [of w j]
    keeps_w_UpdateJob [of fn w i c]
  by simp_all

end

end
