(* ===== verification/Json.thy ===== *)
theory Json
  imports Prelude
begin

text \<open>
  UTF-8 and the part of \<open>encoding/json\<close> hairpin uses: the string encoder with
  its HTML-safe escapes, and a decoder for arbitrary JSON text into a tree, from
  which the struct decoders of the components read their fields.

  The decoder recurses on fuel; \<open>json_parse\<close> gives it twice the length of the text
  and two units more. Two nested calls (a member and its value) consume at least
  one character, so the fuel is never what ends a parse. Go also refuses texts
  nested deeper than 10000 levels, which is left out.
\<close>

section \<open>UTF-8\<close>

definition byte_in :: "nat \<Rightarrow> nat \<Rightarrow> char \<Rightarrow> bool" where
  "byte_in lo hi c \<longleftrightarrow> lo \<le> (of_char c :: nat) \<and> (of_char c :: nat) \<le> hi"

text \<open>
  The number of bytes of the well-formed UTF-8 sequence a text starts with, 0
  when it starts with none.
\<close>

fun utf8_len :: "string \<Rightarrow> nat" where
  "utf8_len [] = 0"
| "utf8_len (a # s) =
     (if byte_in 0 127 a then 1
      else if byte_in 194 223 a then
        (case s of b # _ \<Rightarrow> if byte_in 128 191 b then 2 else 0 | [] \<Rightarrow> 0)
      else if byte_in 224 239 a then
        (case s of
           b # c # _ \<Rightarrow>
             if byte_in (if of_char a = (224::nat) then 160 else 128)
                        (if of_char a = (237::nat) then 159 else 191) b \<and> byte_in 128 191 c
             then 3 else 0
         | _ \<Rightarrow> 0)
      else if byte_in 240 244 a then
        (case s of
           b # c # d # _ \<Rightarrow>
             if byte_in (if of_char a = (240::nat) then 144 else 128)
                        (if of_char a = (244::nat) then 143 else 191) b \<and>
                byte_in 128 191 c \<and> byte_in 128 191 d
             then 4 else 0
         | _ \<Rightarrow> 0)
      else 0)"

declare utf8_len.simps(2) [simp del]

text \<open>\<open>utf8.ValidString\<close>.\<close>

function utf8_valid :: "string \<Rightarrow> bool" where
  "utf8_valid s =
     (if s = [] then True
      else if utf8_len s = 0 then False
      else utf8_valid (drop (utf8_len s) s))"
  by pat_completeness auto
termination
  by (relation "measure length") auto

declare utf8_valid.simps [simp del]

lemma utf8_len_ascii: "byte_in 0 127 a \<Longrightarrow> utf8_len (a # s) = 1"
  by (simp add: utf8_len.simps)

lemma utf8_valid_ascii: "list_all (byte_in 0 127) s \<Longrightarrow> utf8_valid s"
proof (induction s)
  case Nil
  then show ?case by (simp add: utf8_valid.simps)
next
  case (Cons a s)
  then show ?case by (simp add: utf8_valid.simps [of "a # s"] utf8_len_ascii)
qed

section \<open>Encoding strings\<close>

text \<open>The bytes of U+FFFD, which replaces malformed input.\<close>

definition replacement :: string where
  "replacement = [CHR 0xEF, CHR 0xBF, CHR 0xBD]"

text \<open>
  Go escapes the quote and the backslash, the control characters, and, for
  safety inside HTML, the two angle brackets and the ampersand.
\<close>

definition json_escape_byte :: "char \<Rightarrow> string" where
  "json_escape_byte c =
     (let n = (of_char c :: nat) in
      if n = 34 \<or> n = 92 then [CHR 0x5C, c]
      else if n = 8 then [CHR 0x5C, CHR ''b'']
      else if n = 12 then [CHR 0x5C, CHR ''f'']
      else if n = 10 then [CHR 0x5C, CHR ''n'']
      else if n = 13 then [CHR 0x5C, CHR ''r'']
      else if n = 9 then [CHR 0x5C, CHR ''t'']
      else if n < 32 \<or> n = 60 \<or> n = 62 \<or> n = 38 then
        CHR 0x5C # ''u00'' @ [hex_char (n div 16), hex_char (n mod 16)]
      else [c])"

definition is_line_separator :: "string \<Rightarrow> bool" where
  "is_line_separator s \<longleftrightarrow>
     take 2 s = [CHR 0xE2, CHR 0x80] \<and> (take 3 s = [CHR 0xE2, CHR 0x80, CHR 0xA8] \<or>
     take 3 s = [CHR 0xE2, CHR 0x80, CHR 0xA9])"

function json_escape :: "string \<Rightarrow> string" where
  "json_escape s =
     (if s = [] then []
      else if utf8_len s = 0 then CHR 0x5C # ''ufffd'' @ json_escape (tl s)
      else if utf8_len s = 1 then json_escape_byte (hd s) @ json_escape (tl s)
      else if is_line_separator s then
        CHR 0x5C # ''u202'' @ [hex_char (of_char (s ! 2) mod 16)] @ json_escape (drop 3 s)
      else take (utf8_len s) s @ json_escape (drop (utf8_len s) s))"
  by pat_completeness auto
termination
  by (relation "measure length") (auto simp: is_line_separator_def)

declare json_escape.simps [simp del]

definition json_string :: "string \<Rightarrow> string" where
  "json_string s = CHR 0x22 # json_escape s @ [CHR 0x22]"

section \<open>Decoding\<close>

datatype json =
    JNull
  | JBool bool
  | JNum string
  | JStr string
  | JArr "json list"
  | JObj "(string \<times> json) list"

definition json_ws :: "char \<Rightarrow> bool" where
  "json_ws c \<longleftrightarrow> (of_char c :: nat) \<in> {9, 10, 13, 32}"

definition skip_ws :: "string \<Rightarrow> string" where
  "skip_ws s = dropWhile json_ws s"

definition hex_val :: "char \<Rightarrow> nat option" where
  "hex_val c =
     (let n = (of_char c :: nat) in
      if 48 \<le> n \<and> n \<le> 57 then Some (n - 48)
      else if 97 \<le> n \<and> n \<le> 102 then Some (n - 87)
      else if 65 \<le> n \<and> n \<le> 70 then Some (n - 55)
      else None)"

fun hex4 :: "string \<Rightarrow> nat option" where
  "hex4 (a # b # c # d # _) =
     (case (hex_val a, hex_val b, hex_val c, hex_val d) of
        (Some w, Some x, Some y, Some z) \<Rightarrow> Some (((w * 16 + x) * 16 + y) * 16 + z)
      | _ \<Rightarrow> None)"
| "hex4 _ = None"

definition utf8_encode :: "nat \<Rightarrow> string" where
  "utf8_encode n =
     (if n < 128 then [char_of n]
      else if n < 2048 then [char_of (192 + n div 64), char_of (128 + n mod 64)]
      else if n < 65536 then
        [char_of (224 + n div 4096), char_of (128 + n div 64 mod 64), char_of (128 + n mod 64)]
      else [char_of (240 + n div 262144), char_of (128 + n div 4096 mod 64),
            char_of (128 + n div 64 mod 64), char_of (128 + n mod 64)])"

text \<open>
  The characters of a string literal after its opening quote: the decoded
  value and what follows the closing quote. A surrogate pair is one rune, a lone
  surrogate and malformed UTF-8 become U+FFFD.
\<close>

function parse_str :: "string \<Rightarrow> (string \<times> string) option" where
  "parse_str s =
     (case s of
        [] \<Rightarrow> None
      | c # r \<Rightarrow>
          let n = (of_char c :: nat) in
          if n = 34 then Some ([], r)
          else if n < 32 then None
          else if n = 92 then
            (case r of
               [] \<Rightarrow> None
             | e # r' \<Rightarrow>
                 let m = (of_char e :: nat) in
                 if m = 117 then
                   (case hex4 r' of
                      None \<Rightarrow> None
                    | Some u \<Rightarrow>
                        if 55296 \<le> u \<and> u < 57344 then
                          (let r2 = drop 4 r' in
                           case (if u < 56320 \<and> take 2 r2 = [CHR 0x5C, CHR ''u'']
                                 then hex4 (drop 2 r2) else None) of
                             Some v \<Rightarrow>
                               if 56320 \<le> v \<and> v < 57344 then
                                 map_option (\<lambda>(x, y). (utf8_encode (65536 + (u - 55296) * 1024 + (v - 56320)) @ x, y))
                                   (parse_str (drop 6 r2))
                               else map_option (\<lambda>(x, y). (replacement @ x, y)) (parse_str r2)
                           | None \<Rightarrow> map_option (\<lambda>(x, y). (replacement @ x, y)) (parse_str r2))
                        else map_option (\<lambda>(x, y). (utf8_encode u @ x, y)) (parse_str (drop 4 r')))
                 else
                   (case (if m = 34 \<or> m = 92 \<or> m = 47 then Some e
                          else if m = 98 then Some CHR 0x08
                          else if m = 102 then Some CHR 0x0C
                          else if m = 110 then Some CHR 0x0A
                          else if m = 114 then Some CHR 0x0D
                          else if m = 116 then Some CHR 0x09
                          else None) of
                      None \<Rightarrow> None
                    | Some d \<Rightarrow> map_option (\<lambda>(x, y). (d # x, y)) (parse_str r')))
          else if utf8_len s = 0 then map_option (\<lambda>(x, y). (replacement @ x, y)) (parse_str r)
          else map_option (\<lambda>(x, y). (take (utf8_len s) s @ x, y)) (parse_str (drop (utf8_len s) s)))"
  by pat_completeness auto
termination
  by (relation "measure length") auto

declare parse_str.simps [simp del]

text \<open>A number literal: its text, checked against the JSON grammar.\<close>

definition num_int :: "string \<Rightarrow> (string \<times> string) option" where
  "num_int s =
     (let ds = takeWhile is_digit s; r = dropWhile is_digit s
      in if ds = [] then None
         else if hd ds = CHR ''0'' then Some ([CHR ''0''], tl s)
         else Some (ds, r))"

definition num_frac :: "string \<Rightarrow> (string \<times> string) option" where
  "num_frac s =
     (case s of
        [] \<Rightarrow> Some ([], s)
      | c # r \<Rightarrow>
          if c = CHR ''.'' then
            (if takeWhile is_digit r = [] then None
             else Some (c # takeWhile is_digit r, dropWhile is_digit r))
          else Some ([], s))"

definition num_exp :: "string \<Rightarrow> (string \<times> string) option" where
  "num_exp s =
     (case s of
        [] \<Rightarrow> Some ([], s)
      | c # r \<Rightarrow>
          if c = CHR ''e'' \<or> c = CHR ''E'' then
            (let sg = (case r of [] \<Rightarrow> [] | x # _ \<Rightarrow> if x = CHR ''+'' \<or> x = CHR ''-'' then [x] else []);
                 r' = drop (length sg) r
             in if takeWhile is_digit r' = [] then None
                else Some (c # sg @ takeWhile is_digit r', dropWhile is_digit r'))
          else Some ([], s))"

definition parse_num :: "string \<Rightarrow> (string \<times> string) option" where
  "parse_num s =
     (let sg = (case s of [] \<Rightarrow> [] | c # _ \<Rightarrow> if c = CHR ''-'' then [c] else [])
      in case num_int (drop (length sg) s) of
           None \<Rightarrow> None
         | Some (i, r) \<Rightarrow>
             (case num_frac r of
                None \<Rightarrow> None
              | Some (f, r') \<Rightarrow>
                  (case num_exp r' of
                     None \<Rightarrow> None
                   | Some (x, r'') \<Rightarrow> Some (sg @ i @ f @ x, r''))))"

definition lit :: "string \<Rightarrow> json \<Rightarrow> string \<Rightarrow> (json \<times> string) option" where
  "lit w v s = (if take (length w) s = w then Some (v, drop (length w) s) else None)"

fun parse_value :: "nat \<Rightarrow> string \<Rightarrow> (json \<times> string) option"
and parse_elems :: "nat \<Rightarrow> string \<Rightarrow> (json list \<times> string) option"
and parse_members :: "nat \<Rightarrow> string \<Rightarrow> ((string \<times> json) list \<times> string) option" where
  "parse_value 0 s = None"
| "parse_value (Suc n) s =
     (case s of
        [] \<Rightarrow> None
      | c # r \<Rightarrow>
          if c = CHR ''{'' then
            (case skip_ws r of
               [] \<Rightarrow> None
             | d # r' \<Rightarrow> if d = CHR ''}'' then Some (JObj [], r')
                         else map_option (\<lambda>(ms, t). (JObj ms, t)) (parse_members n (d # r')))
          else if c = CHR ''['' then
            (case skip_ws r of
               [] \<Rightarrow> None
             | d # r' \<Rightarrow> if d = CHR '']'' then Some (JArr [], r')
                         else map_option (\<lambda>(vs, t). (JArr vs, t)) (parse_elems n (d # r')))
          else if c = CHR 0x22 then map_option (\<lambda>(x, t). (JStr x, t)) (parse_str r)
          else if c = CHR ''t'' then lit ''true'' (JBool True) s
          else if c = CHR ''f'' then lit ''false'' (JBool False) s
          else if c = CHR ''n'' then lit ''null'' JNull s
          else map_option (\<lambda>(x, t). (JNum x, t)) (parse_num s))"
| "parse_elems 0 s = None"
| "parse_elems (Suc n) s =
     (case parse_value n s of
        None \<Rightarrow> None
      | Some (v, r) \<Rightarrow>
          (case skip_ws r of
             [] \<Rightarrow> None
           | d # r' \<Rightarrow>
               if d = CHR '']'' then Some ([v], r')
               else if d = CHR '','' then
                 map_option (\<lambda>(vs, t). (v # vs, t)) (parse_elems n (skip_ws r'))
               else None))"
| "parse_members 0 s = None"
| "parse_members (Suc n) s =
     (case s of
        [] \<Rightarrow> None
      | q # r0 \<Rightarrow>
          if q \<noteq> CHR 0x22 then None
          else (case parse_str r0 of
             None \<Rightarrow> None
           | Some (k, r1) \<Rightarrow>
               (case skip_ws r1 of
                  [] \<Rightarrow> None
                | col # r2 \<Rightarrow>
                    if col \<noteq> CHR '':'' then None
                    else (case parse_value n (skip_ws r2) of
                       None \<Rightarrow> None
                     | Some (v, r) \<Rightarrow>
                         (case skip_ws r of
                            [] \<Rightarrow> None
                          | d # r' \<Rightarrow>
                              if d = CHR ''}'' then Some ([(k, v)], r')
                              else if d = CHR '','' then
                                map_option (\<lambda>(ms, t). ((k, v) # ms, t)) (parse_members n (skip_ws r'))
                              else None)))))"

definition json_parse :: "string \<Rightarrow> json option" where
  "json_parse s =
     (case parse_value (2 * length s + 2) (skip_ws s) of
        None \<Rightarrow> None
      | Some (v, r) \<Rightarrow> if skip_ws r = [] then Some v else None)"

text \<open>
  Struct decoding: a member goes to the field of that name, or else of that
  name up to ASCII case. The kind of a value is the word Go's type error uses.
\<close>

definition fold_name :: "string \<Rightarrow> string" where
  "fold_name s = map (\<lambda>c. if 97 \<le> (of_char c :: nat) \<and> (of_char c :: nat) \<le> 122
                          then char_of (of_char c - 32 :: nat) else c) s"

fun json_kind :: "json \<Rightarrow> string" where
  "json_kind JNull = ''null''"
| "json_kind (JBool b) = ''bool''"
| "json_kind (JNum n) = ''number''"
| "json_kind (JStr s) = ''string''"
| "json_kind (JArr vs) = ''array''"
| "json_kind (JObj ms) = ''object''"

end
