(* ===== verification/Memory.thy ===== *)
theory Memory
  imports Json
begin

text \<open>
  The memory tools, \<open>src/internal/memory/memory.go\<close> and \<open>tool.go\<close>: argument
  checks, the two calls to Billet and the error policy. Billet is outside the
  program: a \<open>Client\<close> is a pair of functions, with the number of the call as an
  argument so that equal requests may be answered differently. A \<open>float64\<close>
  score is kept as the text \<open>json.Marshal\<close> prints for it, \<open>None\<close> for the
  values it cannot print.
\<close>

section \<open>The client\<close>

datatype Kind = KindUnspecified | KindEvent | KindFact

record Record =
  r_MemoryID :: string
  r_Content :: string
  r_Score :: "string option"
  r_CreatedAt :: string

record SaveResult =
  sv_MemoryID :: string
  sv_Accepted :: bool

record Client =
  cl_Search :: "nat \<Rightarrow> string \<Rightarrow> int \<Rightarrow> Record list result"
  cl_Save :: "nat \<Rightarrow> string \<Rightarrow> Kind \<Rightarrow> SaveResult result"

definition Kind_of_string :: "string \<Rightarrow> Kind option" where
  "Kind_of_string s =
     (if s = [] then Some KindUnspecified
      else if s = ''event'' then Some KindEvent
      else if s = ''fact'' then Some KindFact
      else None)"

text \<open>\<open>CallTimeout\<close>, 10 seconds.\<close>

definition CallTimeout :: duration where
  "CallTimeout = 10 * Second"

section \<open>Tools\<close>

definition ToolSearch :: string where
  "ToolSearch = ''search_memory''"

definition ToolSave :: string where
  "ToolSave = ''save_memory''"

definition maxSearchLimit :: int where
  "maxSearchLimit = 100"

definition maxContentBytes :: nat where
  "maxContentBytes = 256 * 1024"

definition GenericFailureMessage :: string where
  "GenericFailureMessage = ''memory is unavailable''"

definition UnsupportedToolMessage :: "string \<Rightarrow> string" where
  "UnsupportedToolMessage name = render ''hairpin does not fulfil the tool %q'' [name]"

definition IsMemoryTool :: "string \<Rightarrow> bool" where
  "IsMemoryTool name \<longleftrightarrow> name = ToolSearch \<or> name = ToolSave"

text \<open>
  What the harness is told, whether it is an error, and the withheld cause; or
  a panic of the client, which the caller recovers from.
\<close>

datatype answer =
    Answer string bool "goerror option"
  | AnswerPanic string

section \<open>Input decoding\<close>

text \<open>
  \<open>decodeInput\<close> on a value: malformed text, a value that is no object, or the
  first member of the wrong type. \<open>null\<close> leaves a field, and the whole
  struct, as it is.
\<close>

definition decode_error :: "string \<Rightarrow> string \<Rightarrow> string \<Rightarrow> string" where
  "decode_error tool field got = render ''%s: %q has the wrong type (got %s)'' [tool, field, got]"

definition not_object :: "string \<Rightarrow> string" where
  "not_object tool = render ''%s: input must be a JSON object'' [tool]"

definition not_json :: "string \<Rightarrow> string" where
  "not_json tool = render ''%s: input is not valid JSON'' [tool]"

text \<open>The field a member name selects: an exact match first, else one up to case.\<close>

definition field_for :: "string list \<Rightarrow> string \<Rightarrow> string option" where
  "field_for names k =
     (if k \<in> set names then Some k
      else List.find (\<lambda>f. fold_name f = fold_name k) names)"

text \<open>A 32-bit integer from a number literal.\<close>

definition int_literal :: "string \<Rightarrow> int option" where
  "int_literal s =
     (let neg = (s \<noteq> [] \<and> hd s = CHR ''-''); ds = (if neg then tl s else s)
      in if ds \<noteq> [] \<and> list_all is_digit ds then
           Some (if neg then - int (digits_val ds) else int (digits_val ds))
         else None)"

definition int32_of :: "json \<Rightarrow> string + int option" where
  "int32_of v =
     (case v of
        JNull \<Rightarrow> Inr None
      | JNum n \<Rightarrow>
          (case int_literal n of
             Some i \<Rightarrow> if - (2 ^ 31) \<le> i \<and> i < 2 ^ 31 then Inr (Some i) else Inl (''number '' @ n)
           | None \<Rightarrow> Inl (''number '' @ n))
      | _ \<Rightarrow> Inl (json_kind v))"

definition string_of :: "json \<Rightarrow> string + string option" where
  "string_of v =
     (case v of JNull \<Rightarrow> Inr None | JStr s \<Rightarrow> Inr (Some s) | _ \<Rightarrow> Inl (json_kind v))"

record searchInput =
  si_Query :: string
  si_Limit :: int

record saveInput =
  vi_Content :: string
  vi_Kind :: string

text \<open>
  The members of an object, in order, each applied to the struct; the first
  type error is remembered and decoding goes on.
\<close>

fun decode_search :: "(string \<times> json) list \<Rightarrow> searchInput \<Rightarrow> (string \<times> string) option \<Rightarrow>
    (string \<times> string) option \<times> searchInput" where
  "decode_search [] i e = (e, i)"
| "decode_search ((k, v) # ms) i e =
     (case field_for [''query'', ''limit''] k of
        None \<Rightarrow> decode_search ms i e
      | Some f \<Rightarrow>
          if f = ''query'' then
            (case string_of v of
               Inl got \<Rightarrow> decode_search ms i (if e = None then Some (f, got) else e)
             | Inr None \<Rightarrow> decode_search ms i e
             | Inr (Some s) \<Rightarrow> decode_search ms (i\<lparr>si_Query := s\<rparr>) e)
          else
            (case int32_of v of
               Inl got \<Rightarrow> decode_search ms i (if e = None then Some (f, got) else e)
             | Inr None \<Rightarrow> decode_search ms i e
             | Inr (Some n) \<Rightarrow> decode_search ms (i\<lparr>si_Limit := n\<rparr>) e))"

fun decode_save :: "(string \<times> json) list \<Rightarrow> saveInput \<Rightarrow> (string \<times> string) option \<Rightarrow>
    (string \<times> string) option \<times> saveInput" where
  "decode_save [] i e = (e, i)"
| "decode_save ((k, v) # ms) i e =
     (case field_for [''content'', ''kind''] k of
        None \<Rightarrow> decode_save ms i e
      | Some f \<Rightarrow>
          (case string_of v of
             Inl got \<Rightarrow> decode_save ms i (if e = None then Some (f, got) else e)
           | Inr None \<Rightarrow> decode_save ms i e
           | Inr (Some s) \<Rightarrow>
               decode_save ms (if f = ''content'' then i\<lparr>vi_Content := s\<rparr> else i\<lparr>vi_Kind := s\<rparr>) e))"

definition decodeInput ::
  "string \<Rightarrow> string \<Rightarrow> ((string \<times> json) list \<Rightarrow> 'i \<Rightarrow> (string \<times> string) option \<Rightarrow>
     (string \<times> string) option \<times> 'i) \<Rightarrow> 'i \<Rightarrow> string + 'i" where
  "decodeInput tool input dec zero =
     (case json_parse input of
        None \<Rightarrow> Inl (not_json tool)
      | Some JNull \<Rightarrow> Inr zero
      | Some (JObj ms) \<Rightarrow>
          (case dec ms zero None of
             (Some (f, got), _) \<Rightarrow> Inl (decode_error tool f got)
           | (None, i) \<Rightarrow> Inr i)
      | Some _ \<Rightarrow> Inl (not_object tool))"

section \<open>Output encoding\<close>

fun intersperse :: "string \<Rightarrow> string list \<Rightarrow> string" where
  "intersperse sep [] = []"
| "intersperse sep [x] = x"
| "intersperse sep (x # y # zs) = x @ sep @ intersperse sep (y # zs)"

definition encode_record :: "Record \<Rightarrow> string option" where
  \<open>encode_record r =
     (case r_Score r of
        None \<Rightarrow> None
      | Some sc \<Rightarrow>
          Some (''{"memory_id":'' @ json_string (r_MemoryID r) @ '',"content":'' @
                json_string (r_Content r) @ '',"score":'' @ sc @ '',"created_at":'' @
                json_string (r_CreatedAt r) @ ''}''))\<close>

definition encode_records :: "Record list \<Rightarrow> string option" where
  \<open>encode_records rs =
     (if None \<in> set (map encode_record rs) then None
      else Some (''{"records":['' @ intersperse '','' (map (the \<circ> encode_record) rs) @ '']}''))\<close>

definition encode_save :: "SaveResult \<Rightarrow> string option" where
  \<open>encode_save s =
     Some (''{"memory_id":'' @ json_string (sv_MemoryID s) @ '',"accepted":'' @
           (if sv_Accepted s then ''true'' else ''false'') @ ''}'')\<close>

definition encodeOutput :: "string option \<Rightarrow> answer" where
  "encodeOutput out =
     (case out of
        None \<Rightarrow> Answer GenericFailureMessage True
                 (Some (Errorf ''json: unsupported value'' [] None))
      | Some s \<Rightarrow> Answer s False None)"

text \<open>The message of the connect error in a chain.\<close>

fun connect_message :: "goerror \<Rightarrow> string option" where
  "connect_message (ConnectError c m) = Some m"
| "connect_message (Errorf f as (Some e)) = connect_message e"
| "connect_message e = None"

definition callFailure :: "goerror \<Rightarrow> answer" where
  "callFailure err =
     (if CodeOf err = CodeInvalidArgument \<or> CodeOf err = CodeResourceExhausted then
        (case connect_message err of
           Some m \<Rightarrow> Answer m True None
         | None \<Rightarrow> Answer (Error err) True None)
      else Answer GenericFailureMessage True (Some err))"

section \<open>Fulfilment\<close>

definition fulfilSearch :: "Client \<Rightarrow> nat \<Rightarrow> string \<Rightarrow> answer" where
  \<open>fulfilSearch c n input =
     (case decodeInput ToolSearch input decode_search \<lparr>si_Query = [], si_Limit = 0\<rparr> of
        Inl msg \<Rightarrow> Answer msg True None
      | Inr i \<Rightarrow>
          if TrimSpace (si_Query i) = [] then
            Answer (ToolSearch @ '': "query" is required'') True None
          else
            let limit = (if maxSearchLimit < si_Limit i then maxSearchLimit else si_Limit i)
            in (case cl_Search c n (si_Query i) limit of
                  Inl (Panicked m) \<Rightarrow> AnswerPanic m
                | Inl err \<Rightarrow> callFailure err
                | Inr records \<Rightarrow> encodeOutput (encode_records records)))\<close>

definition fulfilSave :: "Client \<Rightarrow> nat \<Rightarrow> string \<Rightarrow> answer" where
  \<open>fulfilSave c n input =
     (case decodeInput ToolSave input decode_save \<lparr>vi_Content = [], vi_Kind = []\<rparr> of
        Inl msg \<Rightarrow> Answer msg True None
      | Inr i \<Rightarrow>
          if TrimSpace (vi_Content i) = [] then
            Answer (ToolSave @ '': "content" is required'') True None
          else if maxContentBytes < length (vi_Content i) then
            Answer (render ''%s: %q exceeds the %d byte limit''
                      [ToolSave, ''content'', utoa maxContentBytes]) True None
          else
            (case Kind_of_string (vi_Kind i) of
               None \<Rightarrow>
                 Answer (render ''%s: %q must be %q or %q'' [ToolSave, ''kind'', ''event'', ''fact''])
                   True None
             | Some kind \<Rightarrow>
                 (case cl_Save c n (vi_Content i) kind of
                    Inl (Panicked m) \<Rightarrow> AnswerPanic m
                  | Inl err \<Rightarrow> callFailure err
                  | Inr res \<Rightarrow> encodeOutput (encode_save res))))\<close>

definition Fulfil :: "Client \<Rightarrow> nat \<Rightarrow> string \<Rightarrow> string \<Rightarrow> answer" where
  "Fulfil c n toolName input =
     (if toolName = ToolSearch then fulfilSearch c n input
      else if toolName = ToolSave then fulfilSave c n input
      else Answer (UnsupportedToolMessage toolName) True None)"

end
