(* ===== verification/ControlPlane.thy ===== *)
theory ControlPlane
  imports World Memory
begin

text \<open>
  The handler of the harness service, \<open>src/internal/controlplane/controlplane.go\<close>:
  its configuration, the status updates it makes and the helpers shared by the
  claim of a stream (theory \<open>RunTask\<close>) and the event pump (theory \<open>Pump\<close>).

  The memory client and the sandbox token issuer are interfaces of the Go code
  and arguments here.
\<close>

section \<open>Vocabulary\<close>

definition evReady :: string where "evReady = ''ready''"
definition evTextDelta :: string where "evTextDelta = ''text_delta''"
definition evToolCall :: string where "evToolCall = ''tool_call''"
definition evToolResult :: string where "evToolResult = ''tool_result''"
definition evHeartbeat :: string where "evHeartbeat = ''heartbeat''"
definition evPermissionRequest :: string where "evPermissionRequest = ''permission_request''"
definition evError :: string where "evError = ''error''"
definition evWarning :: string where "evWarning = ''warning''"
definition evDone :: string where "evDone = ''done''"
definition evSandboxTokenRequest :: string where "evSandboxTokenRequest = ''sandbox_token_request''"
definition evBatchSubmission :: string where "evBatchSubmission = ''batch_submission''"
definition evToolResultRequest :: string where "evToolResultRequest = ''tool_result_request''"

lemmas event_type_defs = evReady_def evTextDelta_def evToolCall_def evToolResult_def
  evHeartbeat_def evPermissionRequest_def evError_def evWarning_def evDone_def
  evSandboxTokenRequest_def evBatchSubmission_def evToolResultRequest_def

definition ctlTaskAssignment :: string where "ctlTaskAssignment = ''task_assignment''"
definition ctlCancel :: string where "ctlCancel = ''cancel''"
definition ctlSandboxTokenResponse :: string where
  "ctlSandboxTokenResponse = ''sandbox_token_response''"
definition ctlToolResultResponse :: string where
  "ctlToolResultResponse = ''tool_result_response''"

lemmas control_type_defs = ctlTaskAssignment_def ctlCancel_def ctlSandboxTokenResponse_def
  ctlToolResultResponse_def

definition EventStatusChange :: string where
  "EventStatusChange = ''status_change''"

definition msgStreamClosed :: string where
  "msgStreamClosed = ''harness stream closed without done''"

definition sandboxTokenRefusal :: string where
  "sandboxTokenRefusal = ''hairpin does not issue sandbox identity tokens''"
definition sandboxTokenUndeclaredRefusal :: string where
  \<open>sandboxTokenUndeclaredRefusal =
     ''this run'' @ [CHR 0x27] @ ''s config does not declare a sandbox identity''\<close>
definition sandboxTokenLimitRefusal :: string where
  \<open>sandboxTokenLimitRefusal =
     ''this run has exceeded hairpin'' @ [CHR 0x27] @ ''s sandbox token request limit''\<close>
definition sandboxTokenIssuanceFailure :: string where
  "sandboxTokenIssuanceFailure = ''hairpin failed to issue a sandbox identity token''"

definition maxSandboxTokenRequests :: nat where
  "maxSandboxTokenRequests = 8"

definition memoryDisabledRefusal :: string where
  "memoryDisabledRefusal = ''hairpin has no memory backend configured''"
definition memoryBusyRefusal :: string where
  "memoryBusyRefusal = ''hairpin is already running the maximum number of concurrent memory calls for this job''"
definition memoryCallLimitRefusal :: string where
  \<open>memoryCallLimitRefusal =
     ''this job has exceeded hairpin'' @ [CHR 0x27] @ ''s memory-call limit''\<close>
definition duplicateRequestRefusal :: string where
  "duplicateRequestRefusal = ''hairpin has already accepted a memory call with this request id''"

definition defaultMaxInFlightMemory :: nat where "defaultMaxInFlightMemory = 4"
definition defaultMaxMemoryCalls :: nat where "defaultMaxMemoryCalls = 1000"
definition maxRequestIDBytes :: nat where "maxRequestIDBytes = 128"

definition defaultLastEventFlush :: duration where "defaultLastEventFlush = 10 * Second"
definition defaultDeltaFlushEvery :: duration where "defaultDeltaFlushEvery = 500 * Millisecond"
definition defaultDeltaFlushBytes :: nat where "defaultDeltaFlushBytes = 4 * 1024"

section \<open>The handler\<close>

text \<open>
  \<open>Mint\<close> reads the clock and draws a random token identifier; its first
  argument is the number of the call, so that the tokens may differ.
\<close>

record SandboxTokenIssuer =
  iss_Mint :: "nat \<Rightarrow> string \<Rightarrow> string list \<Rightarrow> (string \<times> gotime) result"
  iss_Audience :: string

record 's Handler =
  h_store :: "'s Store"
  h_memory :: "Client option"
  h_tel :: bool
  h_lastEventFlush :: duration
  h_deltaFlushEvery :: duration
  h_deltaFlushBytes :: nat
  h_maxFinalTextByte :: nat
  h_maxInFlightMemory :: nat
  h_maxMemoryCalls :: nat
  h_issuer :: "SandboxTokenIssuer option"

text \<open>
  Options, applied by \<open>New\<close> in the order given. The option for the logger changes
  nothing that is modelled.
\<close>

definition WithMemory :: "Client option \<Rightarrow> 's Handler \<Rightarrow> 's Handler" where
  "WithMemory c h = h\<lparr>h_memory := c\<rparr>"

definition WithTelemetry :: "bool \<Rightarrow> 's Handler \<Rightarrow> 's Handler" where
  "WithTelemetry rec h = h\<lparr>h_tel := rec\<rparr>"

definition WithSandboxTokenIssuer :: "SandboxTokenIssuer option \<Rightarrow> 's Handler \<Rightarrow> 's Handler" where
  "WithSandboxTokenIssuer issuer h =
     (case issuer of None \<Rightarrow> h | Some i \<Rightarrow> h\<lparr>h_issuer := Some i\<rparr>)"

lemmas option_defs = WithMemory_def WithTelemetry_def WithSandboxTokenIssuer_def

definition New :: "'s Store \<Rightarrow> ('s Handler \<Rightarrow> 's Handler) list \<Rightarrow> 's Handler" where
  "New st opts =
     fold (\<lambda>opt. opt) opts
       \<lparr>h_store = st, h_memory = None, h_tel = False,
        h_lastEventFlush = defaultLastEventFlush, h_deltaFlushEvery = defaultDeltaFlushEvery,
        h_deltaFlushBytes = defaultDeltaFlushBytes, h_maxFinalTextByte = MaxFinalTextBytes,
        h_maxInFlightMemory = defaultMaxInFlightMemory, h_maxMemoryCalls = defaultMaxMemoryCalls,
        h_issuer = None\<rparr>"

text \<open>The bound on one received message, given to the RPC library.\<close>

definition MaxEventBytes :: nat where
  "MaxEventBytes = 4 * 2 ^ 20"

section \<open>Status updates\<close>

text \<open>The closures passed to \<open>UpdateJob\<close>.\<close>

definition fn_running :: "gotime \<Rightarrow> update_fn" where
  "fn_running started j c =
     (if Terminal (j_Status j) then (Inl (Sentinel ErrNoUpdate), c)
      else (Inr (j\<lparr>j_Status := StatusRunning, j_StartedAt := started, j_LastEventAt := started\<rparr>), c))"

definition fn_finaliseCancelled :: "gotime \<Rightarrow> update_fn" where
  "fn_finaliseCancelled at j c =
     (if Terminal (j_Status j) then (Inl (Sentinel ErrNoUpdate), c)
      else (Inr (j\<lparr>j_Status := StatusCancelled,
                   j_StopReason := (if j_StopReason j = [] then ''cancelled'' else j_StopReason j),
                   j_FinishedAt := at\<rparr>), c))"

definition fn_failJob :: "string \<Rightarrow> gotime \<Rightarrow> update_fn" where
  "fn_failJob reason at j c =
     (if Terminal (j_Status j) then (Inl (Sentinel ErrNoUpdate), c)
      else (Inr (j\<lparr>j_Status := StatusFailed, j_Error := reason, j_FinishedAt := at\<rparr>), c))"

lemma safe_fn_running: "safe_fn (fn_running t)"
  by (rule safe_fnI) (auto simp: fn_running_def split: if_splits)

lemma safe_fn_finaliseCancelled: "safe_fn (fn_finaliseCancelled t)"
  by (rule safe_fnI) (auto simp: fn_finaliseCancelled_def split: if_splits)

lemma safe_fn_failJob: "safe_fn (fn_failJob r t)"
  by (rule safe_fnI) (auto simp: fn_failJob_def split: if_splits)

section \<open>Helpers\<close>

text \<open>The payload \<open>{"status":%q}\<close> of a status change.\<close>

definition status_payload :: "Status \<Rightarrow> string" where
  \<open>status_payload s = ''{"status":'' @ strconv_Quote (status_string s) @ ''}''\<close>

definition appendStatus ::
  "env \<Rightarrow> 's Handler \<Rightarrow> string \<Rightarrow> Status \<Rightarrow> gotime \<Rightarrow> 's World \<Rightarrow> 's World" where
  "appendStatus E h i status at w =
     snd (w_AppendEvent E (h_store h) i
            \<lparr>e_ID = [], e_Type = EventStatusChange, e_PayloadJSON = status_payload status, e_At = at\<rparr> w)"

definition sendCancel :: "env \<Rightarrow> nat \<Rightarrow> 's World \<Rightarrow> 's World" where
  "sendCancel E s w = snd (stream_Send E s (control_event ctlCancel) w)"

definition finaliseCancelled :: "env \<Rightarrow> 's Handler \<Rightarrow> string \<Rightarrow> 's World \<Rightarrow> 's World" where
  "finaliseCancelled E h i w =
     (let (at, w1) = now E w;
          (r, c, w2) = w_UpdateJob (h_store h) i (fn_finaliseCancelled at) no_capture w1
      in case r of
           Inl _ \<Rightarrow> w2
         | Inr _ \<Rightarrow>
             tel (JobCompleted (h_tel h) StatusCancelled ''cancelled'' 0)
               (appendStatus E h i StatusCancelled at w2))"

definition failJob :: "env \<Rightarrow> 's Handler \<Rightarrow> string \<Rightarrow> string \<Rightarrow> 's World \<Rightarrow> 's World" where
  "failJob E h i reason w =
     (let (at, w1) = now E w;
          (r, c, w2) = w_UpdateJob (h_store h) i (fn_failJob reason at) no_capture w1
      in case r of
           Inl _ \<Rightarrow> w2
         | Inr _ \<Rightarrow>
             tel (JobCompleted (h_tel h) StatusFailed [] 0)
               (appendStatus E h i StatusFailed at w2))"

definition declaredControlPlaneTools :: "RunConfig \<Rightarrow> string list" where
  "declaredControlPlaneTools cfg = map ct_Name (GetControlPlane (rc_Tools cfg))"

definition parseRunConfig :: "env \<Rightarrow> string \<Rightarrow> RunConfig result" where
  "parseRunConfig E runConfigJSON =
     (if runConfigJSON = [] then Inl (Errorf ''run config is empty'' [] None)
      else env_parse_config_lax E runConfigJSON)"

context watched_store
begin

lemma keeps_appendStatus: "h_store h = ops \<Longrightarrow> keeps w (appendStatus E h i s at w)"
  by (simp add: appendStatus_def keeps_w_AppendEvent)

lemma keeps_sendCancel: "keeps w (sendCancel E s w)"
  by (simp add: sendCancel_def keeps_stream_Send)

lemma keeps_update_then_append:
  assumes "h_store h = ops" and "safe_fn fn" and "w_UpdateJob ops i fn c w = (r, c', w')"
  shows "keeps w (case r of Inl e \<Rightarrow> w' | Inr j \<Rightarrow> tel ms (appendStatus E h i s at w'))"
proof (cases r)
  case (Inl e)
  with keeps_eq(9) [OF assms(2,3)] show ?thesis by simp
next
  case (Inr j)
  have "keeps w (tel ms (appendStatus E h i s at w'))"
    by (rule keeps_trans [OF keeps_eq(9) [OF assms(2,3)]
          keeps_trans [OF keeps_appendStatus [OF assms(1)] keeps_tel]])
  with Inr show ?thesis by simp
qed

lemma keeps_finaliseCancelled:
  assumes "h_store h = ops"
  shows "keeps w (finaliseCancelled E h i w)"
proof -
  obtain at w1 where n: "now E w = (at, w1)" by (cases "now E w")
  obtain r c w2 where u: "w_UpdateJob ops i (fn_finaliseCancelled at) no_capture w1 = (r, c, w2)"
    by (metis prod_cases3)
  from keeps_eq(1) [OF n] keeps_update_then_append [OF assms safe_fn_finaliseCancelled u]
  show ?thesis by (auto simp: finaliseCancelled_def n assms u intro: keeps_trans)
qed

lemma keeps_failJob:
  assumes "h_store h = ops"
  shows "keeps w (failJob E h i reason w)"
proof -
  obtain at w1 where n: "now E w = (at, w1)" by (cases "now E w")
  obtain r c w2 where u: "w_UpdateJob ops i (fn_failJob reason at) no_capture w1 = (r, c, w2)"
    by (metis prod_cases3)
  from keeps_eq(1) [OF n] keeps_update_then_append [OF assms safe_fn_failJob u]
  show ?thesis by (auto simp: failJob_def n assms u intro: keeps_trans)
qed

end

end
