(* ===== verification/Pump.thy ===== *)
theory Pump
  imports ControlPlane
begin

text \<open>
  The event pump of one assigned harness stream,
  \<open>src/internal/controlplane/pump.go\<close>: every operation on the pump state and the
  shared state, the receive loop, and the two ways a run is settled.

  A memory call runs on a goroutine of its own. The pump keeps the calls it
  has admitted in \<open>ep_pending\<close>; the steps \<open>start_call\<close> and \<open>answer_call\<close> are
  the two halves of a goroutine's body, before and after the wait on Billet, and
  the input sequence of \<open>run\<close> interleaves them, and the steps of the rest of the
  program (\<open>Others\<close>), with the received events.
\<close>

section \<open>State\<close>

record memCall =
  mc_tool :: string
  mc_requestID :: string
  mc_input :: string
  mc_started :: "gotime option"

record eventPump =
  ep_jobID :: string
  ep_sess :: nat
  ep_startedAt :: gotime
  ep_finalText :: string
  ep_errMessage :: string
  ep_deltas :: string
  ep_deltasFrom :: gotime
  ep_lastEventAt :: gotime
  ep_lastEventFlush :: gotime
  ep_permissionsSeen :: nat
  ep_repoScope :: "string list"
  ep_sandboxIdentityDeclared :: bool
  ep_sandboxTokens :: nat
  ep_declaredTools :: "string list"
  ep_memoryInFlight :: nat
  ep_memoryRequests :: "string list"
  ep_memoryCalls :: nat
  ep_pending :: "memCall list"

definition pump :: "env \<Rightarrow> string \<Rightarrow> nat \<Rightarrow> string list \<Rightarrow> 's World \<Rightarrow> eventPump \<times> 's World" where
  "pump E i sess declaredTools w =
     (let (t, w1) = now E w
      in (\<lparr>ep_jobID = i, ep_sess = sess, ep_startedAt = t, ep_finalText = [], ep_errMessage = [],
           ep_deltas = [], ep_deltasFrom = 0, ep_lastEventAt = t, ep_lastEventFlush = t,
           ep_permissionsSeen = 0, ep_repoScope = [], ep_sandboxIdentityDeclared = False,
           ep_sandboxTokens = 0, ep_declaredTools = declaredTools, ep_memoryInFlight = 0,
           ep_memoryRequests = [], ep_memoryCalls = 0, ep_pending = []\<rparr>, w1))"

section \<open>Timeline\<close>

definition append_ev :: "env \<Rightarrow> 's Handler \<Rightarrow> eventPump \<Rightarrow> Event \<Rightarrow> 's World \<Rightarrow> 's World" where
  "append_ev E h p ev w = snd (w_AppendEvent E (h_store h) (ep_jobID p) ev w)"

definition appendProto ::
  "env \<Rightarrow> 's Handler \<Rightarrow> eventPump \<Rightarrow> HarnessEvent \<Rightarrow> gotime \<Rightarrow> 's World \<Rightarrow> 's World" where
  "appendProto E h p ev at w =
     (case env_marshal_event E ev of
        Inl _ \<Rightarrow> w
      | Inr payload \<Rightarrow>
          append_ev E h p \<lparr>e_ID = [], e_Type = he_Type ev, e_PayloadJSON = payload, e_At = at\<rparr> w)"

definition appendControl ::
  "env \<Rightarrow> 's Handler \<Rightarrow> eventPump \<Rightarrow> ControlEvent \<Rightarrow> gotime \<Rightarrow> 's World \<Rightarrow> 's World" where
  "appendControl E h p ev at w =
     (case env_marshal_control E ev of
        Inl _ \<Rightarrow> w
      | Inr payload \<Rightarrow>
          append_ev E h p \<lparr>e_ID = [], e_Type = ce_Type ev, e_PayloadJSON = payload, e_At = at\<rparr> w)"

definition appendFinalText :: "'s Handler \<Rightarrow> string \<Rightarrow> eventPump \<Rightarrow> eventPump" where
  "appendFinalText h text p =
     (let room = int (h_maxFinalTextByte h) - int (length (ep_finalText p))
      in if room \<le> 0 then p
         else p\<lparr>ep_finalText := ep_finalText p @
                (if room < int (length text) then take (nat room) text else text)\<rparr>)"

definition flushDeltas ::
  "env \<Rightarrow> 's Handler \<Rightarrow> eventPump \<times> 's World \<Rightarrow> eventPump \<times> 's World" where
  "flushDeltas E h = (\<lambda>(p, w).
     if ep_deltas p = [] then (p, w)
     else let merged = empty_event\<lparr>he_Type := evTextDelta, he_Text := ep_deltas p\<rparr>;
              p1 = p\<lparr>ep_deltas := []\<rparr>;
              (t, w1) = now E w
          in (p1, appendProto E h p1 merged t w1))"

section \<open>Permission requests\<close>

definition maxPermissionRequests :: nat where
  "maxPermissionRequests = 1000"

definition putPermission ::
  "'s Handler \<Rightarrow> HarnessEvent \<Rightarrow> gotime \<Rightarrow> eventPump \<times> 's World \<Rightarrow> eventPump \<times> 's World" where
  "putPermission h ev at = (\<lambda>(p, w).
     if maxPermissionRequests \<le> ep_permissionsSeen p then (p, w)
     else (p\<lparr>ep_permissionsSeen := ep_permissionsSeen p + 1\<rparr>,
           snd (w_PutPermission (h_store h) (ep_jobID p)
             \<lparr>p_RequestID = he_RequestId ev, p_ToolName = he_ToolName ev,
              p_InputJSON = he_Input ev, p_State = PermissionPending, p_Reason = [],
              p_RequestedAt = at, p_AnsweredAt = 0\<rparr>
             (tel (PermissionRequested (h_tel h)) w))))"

section \<open>Sandbox identity tokens\<close>

definition sendSandboxTokenResponse ::
  "env \<Rightarrow> eventPump \<Rightarrow> HarnessEvent \<Rightarrow> string \<Rightarrow> gotime \<Rightarrow> bool \<Rightarrow> string \<Rightarrow> 's World \<Rightarrow> 's World" where
  "sendSandboxTokenResponse E p ev token expiresAt isError reason w =
     (let resp = (control_event ctlSandboxTokenResponse)
            \<lparr>ce_RequestId := he_RequestId ev, ce_Token := token, ce_IsError := Some isError,
             ce_Reason := reason\<rparr>;
          resp1 = (if \<not> isError \<and> \<not> IsZero expiresAt
                   then resp\<lparr>ce_ExpiresAt := Some (Unix expiresAt)\<rparr> else resp)
      in snd (session_Send E (ep_sess p) resp1 w))"

definition handleSandboxTokenRequest ::
  "env \<Rightarrow> 's Handler \<Rightarrow> HarnessEvent \<Rightarrow> eventPump \<times> 's World \<Rightarrow> eventPump \<times> 's World" where
  "handleSandboxTokenRequest E h ev = (\<lambda>(p, w).
     if maxRequestIDBytes < length (he_RequestId ev) then (p, w)
     else case h_issuer h of
       None \<Rightarrow> (p, sendSandboxTokenResponse E p ev [] 0 True sandboxTokenRefusal w)
     | Some iss \<Rightarrow>
         if \<not> ep_sandboxIdentityDeclared p then
           (p, sendSandboxTokenResponse E p ev [] 0 True sandboxTokenUndeclaredRefusal w)
         else if maxSandboxTokenRequests \<le> ep_sandboxTokens p then
           (p, sendSandboxTokenResponse E p ev [] 0 True sandboxTokenLimitRefusal w)
         else
           let p1 = p\<lparr>ep_sandboxTokens := ep_sandboxTokens p + 1\<rparr>
           in case iss_Mint iss (w_reads w) (ep_jobID p) (ep_repoScope p) of
                Inl _ \<Rightarrow>
                  (p1, sendSandboxTokenResponse E p1 ev [] 0 True sandboxTokenIssuanceFailure w)
              | Inr (token, expiresAt) \<Rightarrow>
                  (p1, sendSandboxTokenResponse E p1 ev token expiresAt False [] w))"

section \<open>Memory calls\<close>

text \<open>\<open>Inl\<close> is the refusal, \<open>Inr\<close> the pump with a slot taken.\<close>

definition admitMemoryCall ::
  "'s Handler \<Rightarrow> string \<Rightarrow> string \<Rightarrow> eventPump \<Rightarrow> string + eventPump" where
  "admitMemoryCall h tool requestID p =
     (if tool \<notin> set (ep_declaredTools p) \<or> \<not> IsMemoryTool tool then
        Inl (UnsupportedToolMessage tool)
      else if h_memory h = None then Inl memoryDisabledRefusal
      else if requestID \<in> set (ep_memoryRequests p) then Inl duplicateRequestRefusal
      else if h_maxMemoryCalls h \<le> ep_memoryCalls p then Inl memoryCallLimitRefusal
      else if h_maxInFlightMemory h \<le> ep_memoryInFlight p then Inl memoryBusyRefusal
      else Inr (p\<lparr>ep_memoryInFlight := ep_memoryInFlight p + 1,
                  ep_memoryCalls := ep_memoryCalls p + 1,
                  ep_memoryRequests := requestID # ep_memoryRequests p\<rparr>))"

definition sendToolResult ::
  "env \<Rightarrow> 's Handler \<Rightarrow> eventPump \<Rightarrow> string \<Rightarrow> string \<Rightarrow> bool \<Rightarrow> 's World \<Rightarrow> 's World" where
  "sendToolResult E h p requestID content isError w =
     (let resp = (control_event ctlToolResultResponse)
            \<lparr>ce_RequestId := requestID, ce_Content := content, ce_IsError := Some isError\<rparr>;
          (e, w1) = session_Send E (ep_sess p) resp w;
          (t, w2) = now E w1
      in appendControl E h p resp t w2)"

definition fulfilToolResult ::
  "env \<Rightarrow> 's Handler \<Rightarrow> HarnessEvent \<Rightarrow> eventPump \<times> 's World \<Rightarrow> eventPump \<times> 's World" where
  "fulfilToolResult E h ev = (\<lambda>(p, w).
     let tool = he_ToolName ev; requestID = he_RequestId ev
     in if maxRequestIDBytes < length requestID then (p, w)
        else case admitMemoryCall h tool requestID p of
          Inl refusal \<Rightarrow>
            (p, sendToolResult E h p requestID refusal True
                  (tel (MemoryCall (h_tel h) tool MemoryRefused 0) w))
        | Inr p1 \<Rightarrow>
            (p1\<lparr>ep_pending := ep_pending p1 @
                  [\<lparr>mc_tool = tool, mc_requestID = requestID, mc_input = he_Input ev,
                    mc_started = None\<rparr>]\<rparr>, w))"

text \<open>The goroutine of call \<open>n\<close>: up to the wait on Billet, and from its answer on.\<close>

definition start_call :: "env \<Rightarrow> nat \<Rightarrow> eventPump \<times> 's World \<Rightarrow> eventPump \<times> 's World" where
  "start_call E n = (\<lambda>(p, w).
     if n < length (ep_pending p) \<and> mc_started (ep_pending p ! n) = None then
       let (t, w1) = now E w
       in (p\<lparr>ep_pending := (ep_pending p)[n := (ep_pending p ! n)\<lparr>mc_started := Some t\<rparr>]\<rparr>, w1)
     else (p, w))"

definition call_answer :: "'s Handler \<Rightarrow> nat \<Rightarrow> memCall \<Rightarrow> answer" where
  "call_answer h k c =
     (case h_memory h of
        None \<Rightarrow> AnswerPanic ''invalid memory address or nil pointer dereference''
      | Some cl \<Rightarrow> Fulfil cl k (mc_tool c) (mc_input c))"

definition settle_call ::
  "env \<Rightarrow> 's Handler \<Rightarrow> eventPump \<Rightarrow> memCall \<Rightarrow> gotime \<Rightarrow> 's World \<Rightarrow> 's World" where
  "settle_call E h p c started w =
     (case call_answer h (w_reads w) c of
        AnswerPanic _ \<Rightarrow> sendToolResult E h p (mc_requestID c) GenericFailureMessage True w
      | Answer content isError detail \<Rightarrow>
          let outcome = (if isError then MemoryError else MemoryOK);
              (t, w1) = now E w
          in sendToolResult E h p (mc_requestID c) content isError
               (tel (MemoryCall (h_tel h) (mc_tool c) outcome (time_Sub t started)) w1))"

definition answer_call ::
  "env \<Rightarrow> 's Handler \<Rightarrow> nat \<Rightarrow> eventPump \<times> 's World \<Rightarrow> eventPump \<times> 's World" where
  "answer_call E h n = (\<lambda>(p, w).
     if n < length (ep_pending p) then
       (case mc_started (ep_pending p ! n) of
          None \<Rightarrow> (p, w)
        | Some started \<Rightarrow>
            (p\<lparr>ep_memoryInFlight := ep_memoryInFlight p - 1,
               ep_pending := take n (ep_pending p) @ drop (Suc n) (ep_pending p)\<rparr>,
             settle_call E h p (ep_pending p ! n) started w))
     else (p, w))"

section \<open>Liveness and settlement\<close>

definition fn_lastEvent :: "gotime \<Rightarrow> update_fn" where
  "fn_lastEvent seen j c = (Inr (j\<lparr>j_LastEventAt := seen\<rparr>), c)"

definition maybeFlushLastEventAt ::
  "'s Handler \<Rightarrow> gotime \<Rightarrow> eventPump \<times> 's World \<Rightarrow> eventPump \<times> 's World" where
  "maybeFlushLastEventAt h t = (\<lambda>(p, w).
     if time_Sub t (ep_lastEventFlush p) < h_lastEventFlush h then (p, w)
     else (p\<lparr>ep_lastEventFlush := t\<rparr>,
           snd (snd (w_UpdateJob (h_store h) (ep_jobID p) (fn_lastEvent (ep_lastEventAt p))
                       no_capture w))))"

definition fn_finish :: "Status \<Rightarrow> string \<Rightarrow> string \<Rightarrow> string \<Rightarrow> gotime \<Rightarrow> update_fn" where
  "fn_finish status stopReason errMsg final at j c =
     (if Terminal (j_Status j) then (Inl (Sentinel ErrNoUpdate), c)
      else (Inr (j\<lparr>j_Status := status, j_StopReason := stopReason,
                   j_Error := (if errMsg \<noteq> [] then errMsg else j_Error j),
                   j_FinalText := final, j_FinishedAt := at, j_LastEventAt := at\<rparr>), c))"

definition finish ::
  "env \<Rightarrow> 's Handler \<Rightarrow> eventPump \<Rightarrow> HarnessEvent \<Rightarrow> gotime \<Rightarrow> 's World \<Rightarrow> 's World" where
  "finish E h p ev at w =
     (let stopReason = he_StopReason ev;
          status = StatusForStopReason stopReason;
          (r, c, w1) = w_UpdateJob (h_store h) (ep_jobID p)
             (fn_finish status stopReason (ep_errMessage p) (ep_finalText p) at) no_capture w;
          rest = tel (JobCompleted (h_tel h) status stopReason (time_Sub at (ep_startedAt p)))
                   (appendStatus E h (ep_jobID p) status at (appendProto E h p ev at w1))
      in case r of
           Inl e \<Rightarrow> if errors_Is e ErrNoUpdate then w1 else rest
         | Inr _ \<Rightarrow> rest)"

definition fn_closeUnfinished :: "string \<Rightarrow> string \<Rightarrow> gotime \<Rightarrow> gotime \<Rightarrow> update_fn" where
  "fn_closeUnfinished errMsg final at lastEventAt j c =
     (if Terminal (j_Status j) then (Inl (Sentinel ErrNoUpdate), c)
      else
        let status = (if j_CancelRequested j then StatusCancelled else StatusFailed);
            j1 = (if j_CancelRequested j then
                    j\<lparr>j_StopReason := (if j_StopReason j = [] then ''cancelled'' else j_StopReason j)\<rparr>
                  else
                    j\<lparr>j_Error := (if errMsg \<noteq> [] then msgStreamClosed @ ''; last error: '' @ errMsg
                                  else msgStreamClosed)\<rparr>)
        in (Inr (j1\<lparr>j_Status := status, j_FinalText := final, j_FinishedAt := at,
                    j_LastEventAt := lastEventAt\<rparr>), c\<lparr>c_status := status\<rparr>))"

definition stopReasonFor :: "Status \<Rightarrow> string" where
  "stopReasonFor status = (if status = StatusCancelled then ''cancelled'' else [])"

definition closeUnfinished :: "env \<Rightarrow> 's Handler \<Rightarrow> eventPump \<Rightarrow> 's World \<Rightarrow> 's World" where
  "closeUnfinished E h p w =
     (let (at, w1) = now E w;
          (r, c, w2) = w_UpdateJob (h_store h) (ep_jobID p)
             (fn_closeUnfinished (ep_errMessage p) (ep_finalText p) at (ep_lastEventAt p))
             no_capture w1
      in case r of
           Inl _ \<Rightarrow> w2
         | Inr _ \<Rightarrow>
             tel (JobCompleted (h_tel h) (c_status c) (stopReasonFor (c_status c))
                    (time_Sub at (ep_startedAt p)))
               (appendStatus E h (ep_jobID p) (c_status c) at w2))"

section \<open>The loop\<close>

definition handle_delta ::
  "env \<Rightarrow> 's Handler \<Rightarrow> HarnessEvent \<Rightarrow> gotime \<Rightarrow> eventPump \<times> 's World \<Rightarrow> eventPump \<times> 's World" where
  "handle_delta E h ev t = (\<lambda>(p, w).
     let p1 = appendFinalText h (he_Text ev) p;
         p2 = (if ep_deltas p1 = [] then p1\<lparr>ep_deltasFrom := t\<rparr> else p1);
         p3 = p2\<lparr>ep_deltas := ep_deltas p2 @ he_Text ev\<rparr>;
         pw = (if h_deltaFlushBytes h \<le> length (ep_deltas p3) \<or>
                  h_deltaFlushEvery h \<le> time_Sub t (ep_deltasFrom p3)
               then flushDeltas E h (p3, w) else (p3, w))
     in maybeFlushLastEventAt h t pw)"

definition record_proto ::
  "env \<Rightarrow> 's Handler \<Rightarrow> HarnessEvent \<Rightarrow> gotime \<Rightarrow> eventPump \<times> 's World \<Rightarrow> eventPump \<times> 's World" where
  "record_proto E h ev t = (\<lambda>(p, w). (p, appendProto E h p ev t w))"

definition handle_other ::
  "env \<Rightarrow> 's Handler \<Rightarrow> HarnessEvent \<Rightarrow> gotime \<Rightarrow> eventPump \<times> 's World \<Rightarrow> eventPump \<times> 's World" where
  "handle_other E h ev t pw =
     (let ty = he_Type ev in
      if ty = evHeartbeat then
        (case pw of (p, w) \<Rightarrow>
           (p, append_ev E h p \<lparr>e_ID = [], e_Type = evHeartbeat, e_PayloadJSON = [], e_At = t\<rparr> w))
      else if ty = evPermissionRequest then record_proto E h ev t (putPermission h ev t pw)
      else if ty = evError then
        (case pw of (p, w) \<Rightarrow> record_proto E h ev t (p\<lparr>ep_errMessage := he_Message ev\<rparr>, w))
      else if ty = evSandboxTokenRequest then
        handleSandboxTokenRequest E h ev (record_proto E h ev t pw)
      else if ty = evToolResultRequest then
        fulfilToolResult E h ev (record_proto E h ev t pw)
      else if ty = evReady then pw
      else record_proto E h ev t pw)"

text \<open>The flag says whether the run reached its terminal done event.\<close>

definition handle ::
  "env \<Rightarrow> 's Handler \<Rightarrow> HarnessEvent \<Rightarrow> eventPump \<times> 's World \<Rightarrow> bool \<times> eventPump \<times> 's World" where
  "handle E h ev = (\<lambda>(p, w).
     let (t, w1) = now E w;
         p1 = p\<lparr>ep_lastEventAt := t\<rparr>;
         w2 = tel (HarnessEventReceived (h_tel h) (he_Type ev)) w1
     in if he_Type ev = evTextDelta then (False, handle_delta E h ev t (p1, w2))
        else if he_Type ev = evDone then
          (let (p2, w3) = flushDeltas E h (p1, w2) in (True, p2, finish E h p2 ev t w3))
        else
          (False, maybeFlushLastEventAt h t (handle_other E h ev t (flushDeltas E h (p1, w2)))))"

datatype 's pump_input =
    Recv HarnessEvent
  | CallStarted nat
  | CallAnswered nat
  | Others "'s World \<Rightarrow> 's World"

text \<open>
  The receive loop over what happens on the stream and around it. The end of
  the list is \<open>Receive\<close> returning an error: the harness hung up, the
  transport failed or the server is shutting down.
\<close>

fun run :: "env \<Rightarrow> 's Handler \<Rightarrow> 's pump_input list \<Rightarrow> eventPump \<times> 's World \<Rightarrow> eventPump \<times> 's World" where
  "run E h [] pw = (let (p, w) = flushDeltas E h pw in (p, closeUnfinished E h p w))"
| "run E h (Recv ev # ins) pw =
     (let (done, pw') = handle E h ev pw in if done then pw' else run E h ins pw')"
| "run E h (CallStarted n # ins) pw = run E h ins (start_call E n pw)"
| "run E h (CallAnswered n # ins) pw = run E h ins (answer_call E h n pw)"
| "run E h (Others f # ins) pw = (case pw of (p, w) \<Rightarrow> run E h ins (p, f w))"

end
