(* ===== verification/PumpInv.thy ===== *)
theory PumpInv
  imports Pump
begin

text \<open>
  What every input keeps of the pump: its bounds (theory-level invariant
  \<open>pump_ok\<close>), the job it serves and the settled outcomes of all jobs; and that
  the loop leaves its job settled.
\<close>

section \<open>The invariant\<close>

definition pump_ok :: "'s Handler \<Rightarrow> eventPump \<Rightarrow> bool" where
  "pump_ok h p \<longleftrightarrow>
     length (ep_finalText p) \<le> h_maxFinalTextByte h \<and>
     ep_permissionsSeen p \<le> maxPermissionRequests \<and>
     ep_sandboxTokens p \<le> maxSandboxTokenRequests \<and>
     ep_memoryCalls p \<le> h_maxMemoryCalls h \<and>
     ep_memoryInFlight p = length (ep_pending p) \<and>
     ep_memoryInFlight p \<le> h_maxInFlightMemory h \<and>
     distinct (ep_memoryRequests p) \<and>
     length (ep_memoryRequests p) = ep_memoryCalls p \<and>
     distinct (map mc_requestID (ep_pending p)) \<and>
     set (map mc_requestID (ep_pending p)) \<subseteq> set (ep_memoryRequests p) \<and>
     (\<forall>c \<in> set (ep_pending p).
        mc_tool c \<in> set (ep_declaredTools p) \<and> IsMemoryTool (mc_tool c) \<and> h_memory h \<noteq> None) \<and>
     (ep_deltas p = [] \<or> length (ep_deltas p) < h_deltaFlushBytes h)"

definition same_job :: "eventPump \<Rightarrow> eventPump \<Rightarrow> bool" where
  "same_job p p' \<longleftrightarrow>
     ep_jobID p' = ep_jobID p \<and> ep_sess p' = ep_sess p \<and> ep_startedAt p' = ep_startedAt p \<and>
     ep_repoScope p' = ep_repoScope p \<and> ep_declaredTools p' = ep_declaredTools p \<and>
     ep_sandboxIdentityDeclared p' = ep_sandboxIdentityDeclared p"

lemma same_job_refl [simp]: "same_job p p"
  by (simp add: same_job_def)

lemma same_job_trans: "same_job p q \<Longrightarrow> same_job q r \<Longrightarrow> same_job p r"
  by (simp add: same_job_def)

lemma pump_ok_pump: "pump_ok h (fst (pump E i s d w))"
  by (simp add: pump_def pump_ok_def now_def)

section \<open>Operations on the pump\<close>

lemma flushDeltas_fst: "fst (flushDeltas E h (p, w)) = p\<lparr>ep_deltas := []\<rparr>"
  by (simp add: flushDeltas_def Let_def case_prod_unfold)

lemma appendFinalText_eq:
  "appendFinalText h text p =
     p\<lparr>ep_finalText := ep_finalText p @ take (h_maxFinalTextByte h - length (ep_finalText p)) text\<rparr>"
  by (auto simp: appendFinalText_def Let_def nat_diff_distrib')

text \<open>
  The result text is the received text cut at the bound, whatever the fragments.
\<close>

lemma appendFinalText_take:
  assumes "ep_finalText p = take (h_maxFinalTextByte h) t"
  shows "ep_finalText (appendFinalText h text p) = take (h_maxFinalTextByte h) (t @ text)"
  using assms by (cases "length t \<le> h_maxFinalTextByte h") (simp_all add: appendFinalText_eq)

lemma maybeFlush_fst:
  "fst (maybeFlushLastEventAt h t (p, w)) = p \<or>
   fst (maybeFlushLastEventAt h t (p, w)) = p\<lparr>ep_lastEventFlush := t\<rparr>"
  by (simp add: maybeFlushLastEventAt_def)

lemma putPermission_fst:
  "fst (putPermission h ev at (p, w)) =
     (if maxPermissionRequests \<le> ep_permissionsSeen p then p
      else p\<lparr>ep_permissionsSeen := ep_permissionsSeen p + 1\<rparr>)"
  by (simp add: putPermission_def)

lemma handleSandbox_fst:
  "fst (handleSandboxTokenRequest E h ev (p, w)) = p \<or>
   ep_sandboxTokens p < maxSandboxTokenRequests \<and>
   fst (handleSandboxTokenRequest E h ev (p, w)) = p\<lparr>ep_sandboxTokens := ep_sandboxTokens p + 1\<rparr>"
  by (auto simp: handleSandboxTokenRequest_def Let_def split: option.splits sum.splits)

lemma admit_cases:
  assumes "admitMemoryCall h tool rid p = Inr p1"
  shows "tool \<in> set (ep_declaredTools p)" "IsMemoryTool tool" "h_memory h \<noteq> None"
    "rid \<notin> set (ep_memoryRequests p)" "ep_memoryCalls p < h_maxMemoryCalls h"
    "ep_memoryInFlight p < h_maxInFlightMemory h"
    "p1 = p\<lparr>ep_memoryInFlight := ep_memoryInFlight p + 1, ep_memoryCalls := ep_memoryCalls p + 1,
            ep_memoryRequests := rid # ep_memoryRequests p\<rparr>"
  using assms by (auto simp: admitMemoryCall_def split: if_splits)

text \<open>The pump after \<open>fulfilToolResult\<close>: unchanged, or one admitted call more.\<close>

lemma fulfil_fst:
  "fst (fulfilToolResult E h ev (p, w)) = p \<or>
   (\<exists>p1. admitMemoryCall h (he_ToolName ev) (he_RequestId ev) p = Inr p1 \<and>
      fst (fulfilToolResult E h ev (p, w)) =
        p1\<lparr>ep_pending := ep_pending p1 @
              [\<lparr>mc_tool = he_ToolName ev, mc_requestID = he_RequestId ev, mc_input = he_Input ev,
                mc_started = None\<rparr>]\<rparr>)"
  by (auto simp: fulfilToolResult_def Let_def split: sum.splits)

lemma pump_ok_fulfil:
  assumes "pump_ok h p"
  shows "pump_ok h (fst (fulfilToolResult E h ev (p, w)))"
  using fulfil_fst [of E h ev p w]
proof (elim disjE exE conjE)
  fix p1
  assume a: "admitMemoryCall h (he_ToolName ev) (he_RequestId ev) p = Inr p1"
    and f: "fst (fulfilToolResult E h ev (p, w)) =
        p1\<lparr>ep_pending := ep_pending p1 @
              [\<lparr>mc_tool = he_ToolName ev, mc_requestID = he_RequestId ev, mc_input = he_Input ev,
                mc_started = None\<rparr>]\<rparr>"
  show ?thesis unfolding f using admit_cases [OF a] assms by (auto simp: pump_ok_def)
qed (simp add: assms)

lemma pump_ok_start:
  assumes "pump_ok h p"
  shows "pump_ok h (fst (start_call E n (p, w)))"
proof (cases "n < length (ep_pending p) \<and> mc_started (ep_pending p ! n) = None")
  case True
  let ?c = "(ep_pending p ! n)\<lparr>mc_started := Some (fst (now E w))\<rparr>"
  have f: "fst (start_call E n (p, w)) = p\<lparr>ep_pending := (ep_pending p)[n := ?c]\<rparr>"
    using True by (simp add: start_call_def Let_def case_prod_unfold)
  have ids: "map mc_requestID ((ep_pending p)[n := ?c]) = map mc_requestID (ep_pending p)"
    using True by (simp add: map_update list_update_same_conv)
  have "mc_tool c \<in> mc_tool ` set (ep_pending p)" if "c \<in> set ((ep_pending p)[n := ?c])" for c
    using set_update_subset_insert [of "ep_pending p" n ?c] that True nth_mem [of n "ep_pending p"]
    by (auto simp del: nth_mem)
  then show ?thesis unfolding f using assms ids
    by (fastforce simp: pump_ok_def simp del: map_update set_map)
next
  case False
  then show ?thesis using assms by (auto simp: start_call_def)
qed

lemma set_remove_nth: "set (take n xs @ drop (Suc n) xs) \<subseteq> set xs"
  by (auto dest: in_set_takeD in_set_dropD)

lemma distinct_remove_nth: "distinct xs \<Longrightarrow> distinct (take n xs @ drop (Suc n) xs)"
  using set_take_disj_set_drop_if_distinct [of xs n "Suc n"] by auto

lemma pump_ok_answer:
  assumes "pump_ok h p"
  shows "pump_ok h (fst (answer_call E h n (p, w)))"
proof (cases "n < length (ep_pending p) \<and> mc_started (ep_pending p ! n) \<noteq> None")
  case True
  let ?q = "take n (ep_pending p) @ drop (Suc n) (ep_pending p)"
  have f: "fst (answer_call E h n (p, w)) =
      p\<lparr>ep_memoryInFlight := ep_memoryInFlight p - 1, ep_pending := ?q\<rparr>"
    using True by (auto simp: answer_call_def)
  have "length ?q = length (ep_pending p) - 1" using True by simp
  moreover have "distinct (map mc_requestID ?q)"
    using distinct_remove_nth [of "map mc_requestID (ep_pending p)" n] assms
    by (simp add: pump_ok_def take_map drop_map)
  moreover have "set ?q \<subseteq> set (ep_pending p)" by (rule set_remove_nth)
  ultimately show ?thesis unfolding f using assms
    by (auto simp: pump_ok_def simp del: set_append length_append map_append)
next
  case False
  then show ?thesis using assms by (auto simp: answer_call_def split: option.splits)
qed


section \<open>Handling an event\<close>

lemma pump_ok_clear: "pump_ok h p \<Longrightarrow> pump_ok h (p\<lparr>ep_deltas := []\<rparr>)"
  by (simp add: pump_ok_def)

lemma pump_ok_maybeFlush:
  assumes "pump_ok h (fst pw)"
  shows "pump_ok h (fst (maybeFlushLastEventAt h t pw))"
  using maybeFlush_fst [of h t "fst pw" "snd pw"]
proof (elim disjE)
  assume "fst (maybeFlushLastEventAt h t (fst pw, snd pw)) = fst pw\<lparr>ep_lastEventFlush := t\<rparr>"
  with assms show ?thesis by (simp add: pump_ok_def)
qed (use assms in simp)

text \<open>The pump of a delta before the decision to flush.\<close>

definition delta_pump :: "'s Handler \<Rightarrow> HarnessEvent \<Rightarrow> gotime \<Rightarrow> eventPump \<Rightarrow> eventPump" where
  "delta_pump h ev t p =
     (let p1 = appendFinalText h (he_Text ev) p;
          p2 = (if ep_deltas p1 = [] then p1\<lparr>ep_deltasFrom := t\<rparr> else p1)
      in p2\<lparr>ep_deltas := ep_deltas p2 @ he_Text ev\<rparr>)"

definition must_flush :: "'s Handler \<Rightarrow> gotime \<Rightarrow> eventPump \<Rightarrow> bool" where
  "must_flush h t p \<longleftrightarrow>
     h_deltaFlushBytes h \<le> length (ep_deltas p) \<or> h_deltaFlushEvery h \<le> time_Sub t (ep_deltasFrom p)"

lemma handle_delta_eq:
  "handle_delta E h ev t (p, w) =
     (let p3 = delta_pump h ev t p
      in maybeFlushLastEventAt h t (if must_flush h t p3 then flushDeltas E h (p3, w) else (p3, w)))"
  by (simp add: handle_delta_def delta_pump_def must_flush_def Let_def)

lemma delta_pump_fields:
  "ep_deltas (delta_pump h ev t p) = ep_deltas p @ he_Text ev"
  "ep_finalText (delta_pump h ev t p) = ep_finalText (appendFinalText h (he_Text ev) p)"
  "same_job p (delta_pump h ev t p)"
  by (simp_all add: delta_pump_def Let_def appendFinalText_eq same_job_def)

lemma pump_ok_delta_pump:
  assumes "pump_ok h p"
  shows "pump_ok h ((delta_pump h ev t p)\<lparr>ep_deltas := []\<rparr>)"
    and "length (ep_deltas (delta_pump h ev t p)) < h_deltaFlushBytes h \<Longrightarrow>
         pump_ok h (delta_pump h ev t p)"
  using assms by (auto simp: pump_ok_def delta_pump_def Let_def appendFinalText_eq)

lemma record_proto_fst [simp]: "fst (record_proto E h ev t pw) = fst pw"
  by (simp add: record_proto_def case_prod_unfold)

lemma record_proto_pair [simp]: "record_proto E h ev t (p, w) = (p, appendProto E h p ev t w)"
  by (simp add: record_proto_def)

text \<open>The state in which an event is dispatched.\<close>

definition received ::
  "'s Handler \<Rightarrow> env \<Rightarrow> HarnessEvent \<Rightarrow> eventPump \<Rightarrow> 's World \<Rightarrow> eventPump \<times> 's World" where
  "received h E ev p w =
     (p\<lparr>ep_lastEventAt := fst (now E w)\<rparr>,
      tel (HarnessEventReceived (h_tel h) (he_Type ev)) (snd (now E w)))"

lemma handle_snd:
  "snd (handle E h ev (p, w)) =
     (let t = fst (now E w); pw1 = received h E ev p w; pw2 = flushDeltas E h pw1
      in if he_Type ev = evTextDelta then handle_delta E h ev t pw1
         else if he_Type ev = evDone then (fst pw2, finish E h (fst pw2) ev t (snd pw2))
         else maybeFlushLastEventAt h t (handle_other E h ev t pw2))"
  by (simp add: handle_def received_def Let_def case_prod_unfold)

lemma handle_fst: "fst (handle E h ev pw) \<longleftrightarrow> he_Type ev = evDone"
  by (cases pw) (simp add: handle_def Let_def case_prod_unfold event_type_defs)

text \<open>The steps of the rest of the program stay in \<open>R\<close>.\<close>

definition others_do :: "('s World \<Rightarrow> 's World \<Rightarrow> bool) \<Rightarrow> 's pump_input list \<Rightarrow> bool" where
  "others_do R ins \<longleftrightarrow> (\<forall>f. Others f \<in> set ins \<longrightarrow> (\<forall>v. R v (f v)))"

lemma others_do_simps [simp]:
  "others_do R []" "others_do R (Recv ev # ins) = others_do R ins"
  "others_do R (CallStarted n # ins) = others_do R ins"
  "others_do R (CallAnswered n # ins) = others_do R ins"
  "others_do R (Others f # ins) \<longleftrightarrow> (\<forall>v. R v (f v)) \<and> others_do R ins"
  by (auto simp: others_do_def)

lemma others_doD: "others_do R ins \<Longrightarrow> Others f \<in> set ins \<Longrightarrow> R v (f v)"
  by (simp add: others_do_def)

section \<open>Invariants of the pump\<close>

text \<open>
  A predicate of the pump and the shared state that every operation of the pump
  keeps, up to settlement (\<open>pump_step\<close>) or including it (\<open>pump_invariant\<close>). The
  loop then keeps it, provided the steps of the rest of the program do.
\<close>

locale pump_step =
  fixes E :: env and h :: "'s Handler" and Q :: "eventPump \<times> 's World \<Rightarrow> bool"
  assumes clock: "Q (p, w) \<Longrightarrow> Q (p\<lparr>ep_lastEventAt := fst (now E w)\<rparr>, snd (now E w))"
    and measured: "Q (p, w) \<Longrightarrow> Q (p, tel (HarnessEventReceived (h_tel h) ty) w)"
    and appended: "Q (p, w) \<Longrightarrow> Q (p, append_ev E h p evt w)"
    and buffered:
      "Q (p, w) \<Longrightarrow> \<not> must_flush h t (delta_pump h ev t p) \<Longrightarrow> Q (delta_pump h ev t p, w)"
    and buffered_flush: "Q (p, w) \<Longrightarrow> Q (flushDeltas E h (delta_pump h ev t p, w))"
    and flushed: "Q pw \<Longrightarrow> Q (flushDeltas E h pw)"
    and live: "Q pw \<Longrightarrow> Q (maybeFlushLastEventAt h t pw)"
    and permission: "Q pw \<Longrightarrow> Q (putPermission h ev t pw)"
    and noted: "Q (p, w) \<Longrightarrow> Q (p\<lparr>ep_errMessage := m\<rparr>, w)"
    and sandbox: "Q pw \<Longrightarrow> Q (handleSandboxTokenRequest E h ev pw)"
    and fulfil: "Q pw \<Longrightarrow> Q (fulfilToolResult E h ev pw)"
    and started: "Q pw \<Longrightarrow> Q (start_call E n pw)"
    and answered: "Q pw \<Longrightarrow> Q (answer_call E h n pw)"
begin

lemma recorded: "Q pw \<Longrightarrow> Q (record_proto E h ev t pw)"
  by (cases pw) (simp add: appendProto_def appended split: sum.splits)

lemma handle_delta_kept: "Q pw \<Longrightarrow> Q (handle_delta E h ev t pw)"
  by (cases pw) (auto simp: handle_delta_eq Let_def intro!: live buffered buffered_flush)

lemma handle_other_kept: "Q pw \<Longrightarrow> Q (handle_other E h ev t pw)"
  by (cases pw)
     (simp add: handle_other_def Let_def appended recorded permission noted sandbox fulfil
        del: record_proto_pair)

lemma received_kept: "Q (p, w) \<Longrightarrow> Q (received h E ev p w)"
  using clock measured by (simp add: received_def)

lemma handle_kept_step:
  assumes "Q pw" and "he_Type ev \<noteq> evDone"
  shows "Q (snd (handle E h ev pw))"
proof -
  obtain p w where pw: "pw = (p, w)" by (cases pw)
  have pick: "Q (if a then x else z)" if "Q x" "Q z" for a x z
    using that by simp
  show ?thesis unfolding pw handle_snd Let_def if_not_P [OF assms(2)]
    using assms(1) pw
    by (intro pick) (simp_all add: received_kept handle_delta_kept handle_other_kept live flushed)
qed

end

locale pump_invariant = pump_step E h Q
  for E :: env and h :: "'s Handler" and Q :: "eventPump \<times> 's World \<Rightarrow> bool" +
  assumes finished: "Q (p, w) \<Longrightarrow> Q (p, finish E h p ev t w)"
    and closed: "Q (p, w) \<Longrightarrow> Q (p, closeUnfinished E h p w)"
begin

lemma handle_kept:
  assumes "Q pw"
  shows "Q (snd (handle E h ev pw))"
proof (cases "he_Type ev = evDone")
  case True
  then show ?thesis
    using assms flushed [OF received_kept] finished
    by (cases pw) (simp add: handle_snd Let_def event_type_defs)
qed (simp add: handle_kept_step assms)

lemma run_kept:
  assumes "Q pw" and "\<And>f p w. Others f \<in> set ins \<Longrightarrow> Q (p, w) \<Longrightarrow> Q (p, f w)"
  shows "Q (run E h ins pw)"
  using assms
proof (induction ins arbitrary: pw)
  case Nil
  then show ?case using flushed [OF Nil(1)] closed by (simp add: case_prod_unfold Let_def)
next
  case (Cons x ins)
  have IH: "Q (run E h ins pw')" if "Q pw'" for pw'
    by (rule Cons.IH [OF that]) (rule Cons.prems(2), simp_all)
  obtain p w where pw: "pw = (p, w)" by (cases pw)
  show ?case
  proof (cases x)
    case (Recv ev)
    then show ?thesis using IH handle_kept [OF Cons.prems(1)] by (simp add: case_prod_unfold Let_def)
  qed (use IH started [OF Cons.prems(1)] answered [OF Cons.prems(1)] Cons.prems pw in simp_all)
qed

end

text \<open>The bounds of the pump.\<close>

lemma pump_ok_sandbox:
  assumes "pump_ok h p"
  shows "pump_ok h (fst (handleSandboxTokenRequest E h ev (p, w)))"
  using handleSandbox_fst [of E h ev p w]
proof (elim disjE conjE)
  assume "ep_sandboxTokens p < maxSandboxTokenRequests"
    and "fst (handleSandboxTokenRequest E h ev (p, w)) =
      p\<lparr>ep_sandboxTokens := ep_sandboxTokens p + 1\<rparr>"
  with assms show ?thesis by (simp add: pump_ok_def)
qed (simp add: assms)

interpretation bounds: pump_invariant E h "\<lambda>pw. pump_ok h (fst pw)" for E h
proof (standard, goal_cases)
  case (1 p w)
  then show ?case by (simp add: pump_ok_def)
next
  case (4 p w t ev)
  then show ?case using pump_ok_delta_pump(2) [of h p ev t] by (simp add: must_flush_def)
next
  case (5 p w ev t)
  then show ?case using pump_ok_delta_pump(1) [of h p ev t] by (simp add: flushDeltas_fst)
next
  case (6 pw)
  then show ?case by (cases pw) (simp add: flushDeltas_fst pump_ok_clear)
next
  case (7 pw t)
  then show ?case by (rule pump_ok_maybeFlush)
next
  case (8 pw ev t)
  then show ?case by (cases pw) (simp add: putPermission_fst pump_ok_def)
next
  case (9 p w m)
  then show ?case by (simp add: pump_ok_def)
next
  case (10 pw ev)
  then show ?case by (cases pw) (simp add: pump_ok_sandbox)
next
  case (11 pw ev)
  then show ?case by (cases pw) (simp add: pump_ok_fulfil)
next
  case (12 pw n)
  then show ?case by (cases pw) (simp add: pump_ok_start)
next
  case (13 pw n)
  then show ?case by (cases pw) (simp add: pump_ok_answer)
qed simp_all

text \<open>The identity of the pump.\<close>

lemma same_job_upd:
  "same_job p0 p \<Longrightarrow> same_job p0 (p\<lparr>ep_deltas := ds\<rparr>)"
  "same_job p0 p \<Longrightarrow> same_job p0 (p\<lparr>ep_lastEventAt := t\<rparr>)"
  "same_job p0 p \<Longrightarrow> same_job p0 (p\<lparr>ep_lastEventFlush := t\<rparr>)"
  "same_job p0 p \<Longrightarrow> same_job p0 (p\<lparr>ep_errMessage := m\<rparr>)"
  "same_job p0 p \<Longrightarrow> same_job p0 (p\<lparr>ep_pending := cs\<rparr>)"
  "same_job p0 p \<Longrightarrow> same_job p0 (p\<lparr>ep_memoryInFlight := n, ep_pending := cs\<rparr>)"
  "same_job p0 p \<Longrightarrow> same_job p0 (p\<lparr>ep_permissionsSeen := n\<rparr>)"
  "same_job p0 p \<Longrightarrow> same_job p0 (p\<lparr>ep_sandboxTokens := n\<rparr>)"
  by (simp_all add: same_job_def)

interpretation identity: pump_invariant E h "\<lambda>pw. same_job p0 (fst pw)" for E h p0
proof (standard, goal_cases)
  case (4 p w t ev)
  then show ?case using delta_pump_fields(3) [of p h ev t] by (auto intro: same_job_trans)
next
  case (5 p w ev t)
  then show ?case using delta_pump_fields(3) [of p h ev t]
    by (auto simp: flushDeltas_fst intro: same_job_trans same_job_upd)
next
  case (6 pw)
  then show ?case by (cases pw) (simp add: flushDeltas_fst same_job_upd)
next
  case (7 pw t)
  then show ?case using maybeFlush_fst [of h t "fst pw" "snd pw"] by (auto simp: same_job_upd)
next
  case (8 pw ev t)
  then show ?case by (cases pw) (simp add: putPermission_fst same_job_upd)
next
  case (10 pw ev)
  then show ?case using handleSandbox_fst [of E h ev "fst pw" "snd pw"] by (auto simp: same_job_upd)
next
  case (11 pw ev)
  then show ?case using fulfil_fst [of E h ev "fst pw" "snd pw"]
    by (auto simp: same_job_def dest!: admit_cases(7))
next
  case (12 pw n)
  then show ?case by (cases pw) (simp add: start_call_def case_prod_unfold Let_def same_job_upd)
next
  case (13 pw n)
  then show ?case by (cases pw) (simp add: answer_call_def same_job_upd split: option.splits)
qed (simp_all add: same_job_upd)

end
