(* ===== verification/PumpSettle.thy ===== *)
theory PumpSettle
  imports PumpInv
begin

text \<open>
  The pump and the store: no step of a pump disturbs a settled job, and the loop
  leaves its own job settled. The lemmas are proved against the store contract.
\<close>

lemma safe_fn_lastEvent: "safe_fn (fn_lastEvent t)"
  by (rule safe_fnI) (auto simp: fn_lastEvent_def same_outcome_def)

lemma safe_fn_finish: "safe_fn (fn_finish s r e f t)"
  by (rule safe_fnI) (auto simp: fn_finish_def split: if_splits)

lemma safe_fn_closeUnfinished: "safe_fn (fn_closeUnfinished e f t l)"
  by (rule safe_fnI) (auto simp: fn_closeUnfinished_def Let_def split: if_splits)

section \<open>Settled jobs stay settled\<close>

context watched_store
begin

lemma quiet_append_ev: "h_store h = ops \<Longrightarrow> quiet w (append_ev E h p evt w)"
  by (simp add: append_ev_def quiet_w_AppendEvent)

lemma quiet_appendProto: "h_store h = ops \<Longrightarrow> quiet w (appendProto E h p ev t w)"
  by (simp add: appendProto_def quiet_append_ev quiet_refl split: sum.splits)

lemma quiet_appendControl: "h_store h = ops \<Longrightarrow> quiet w (appendControl E h p ev t w)"
  by (simp add: appendControl_def quiet_append_ev quiet_refl split: sum.splits)

lemma quiet_flushDeltas: "h_store h = ops \<Longrightarrow> quiet w (snd (flushDeltas E h (p, w)))"
  by (simp add: flushDeltas_def Let_def case_prod_unfold quiet_refl
      quiet_trans [OF quiet_now quiet_appendProto])

lemma quiet_lastEvent: "quiet w (snd (snd (w_UpdateJob ops i (fn_lastEvent t) c w)))"
proof -
  obtain r c' s' where u: "s_UpdateJob ops i (fn_lastEvent t) c (w_store w) = (r, c', s')"
    by (metis prod_cases3)
  show ?thesis
  proof (cases "invar (w_store w)")
    case True
    from update_safe [OF True safe_fn_lastEvent u] have "invar s'"
      and "live_only (job_of (w_store w)) (job_of s')"
      by (auto simp: fn_lastEvent_def live_only_upd)
    then show ?thesis by (simp add: quiet_def w_UpdateJob_def u)
  qed (simp add: quiet_def)
qed

lemma quiet_maybeFlush: "h_store h = ops \<Longrightarrow> quiet w (snd (maybeFlushLastEventAt h t (p, w)))"
  by (simp add: maybeFlushLastEventAt_def quiet_refl quiet_lastEvent)

lemma quiet_putPermission: "h_store h = ops \<Longrightarrow> quiet w (snd (putPermission h ev t (p, w)))"
  by (simp add: putPermission_def quiet_refl quiet_trans [OF quiet_tel quiet_w_PutPermission])

lemma quiet_sandbox: "quiet w (snd (handleSandboxTokenRequest E h ev (p, w)))"
  by (rule quiet_same_store)
     (simp_all add: handleSandboxTokenRequest_def sendSandboxTokenResponse_def Let_def
        split: option.splits sum.splits)

lemma quiet_sendToolResult: "h_store h = ops \<Longrightarrow> quiet w (sendToolResult E h p r c e w)"
  by (simp add: sendToolResult_def Let_def case_prod_unfold
      quiet_trans [OF quiet_trans [OF quiet_session_Send quiet_now] quiet_appendControl])

lemma quiet_fulfil: "h_store h = ops \<Longrightarrow> quiet w (snd (fulfilToolResult E h ev (p, w)))"
  by (simp add: fulfilToolResult_def Let_def quiet_refl
      quiet_trans [OF quiet_tel quiet_sendToolResult] split: sum.splits)

lemma quiet_start_call: "quiet w (snd (start_call E n (p, w)))"
  by (rule quiet_same_store) (simp_all add: start_call_def Let_def case_prod_unfold)

lemma quiet_settle_call: "h_store h = ops \<Longrightarrow> quiet w (settle_call E h p c s w)"
  by (simp add: settle_call_def Let_def case_prod_unfold quiet_sendToolResult
      quiet_trans [OF quiet_trans [OF quiet_now quiet_tel] quiet_sendToolResult] split: answer.splits)

lemma quiet_answer_call: "h_store h = ops \<Longrightarrow> quiet w (snd (answer_call E h n (p, w)))"
  by (simp add: answer_call_def quiet_refl quiet_settle_call split: option.splits)

lemma keeps_finish:
  assumes "h_store h = ops"
  shows "keeps w (finish E h p ev t w)"
proof -
  let ?fn = "fn_finish (StatusForStopReason (he_StopReason ev)) (he_StopReason ev)
      (ep_errMessage p) (ep_finalText p) t"
  obtain r c w1 where u: "w_UpdateJob ops (ep_jobID p) ?fn no_capture w = (r, c, w1)"
    by (metis prod_cases3)
  have k1: "keeps w w1" by (rule keeps_eq(9) [OF safe_fn_finish u])
  have k2: "keeps w (tel ms (appendStatus E h (ep_jobID p) s t (appendProto E h p ev t w1)))" for ms s
    by (rule keeps_trans [OF k1 keeps_trans [OF quiet_keeps [OF quiet_appendProto [OF assms]]
          keeps_trans [OF keeps_appendStatus [OF assms] keeps_tel]]])
  show ?thesis by (simp add: finish_def Let_def assms u k1 k2 split: sum.splits)
qed

lemma keeps_closeUnfinished:
  assumes "h_store h = ops"
  shows "keeps w (closeUnfinished E h p w)"
proof -
  obtain at w1 where n: "now E w = (at, w1)" by (cases "now E w")
  let ?fn = "fn_closeUnfinished (ep_errMessage p) (ep_finalText p) at (ep_lastEventAt p)"
  obtain r c w2 where u: "w_UpdateJob ops (ep_jobID p) ?fn no_capture w1 = (r, c, w2)"
    by (metis prod_cases3)
  show ?thesis unfolding closeUnfinished_def Let_def n assms
    using keeps_trans [OF keeps_eq(1) [OF n] keeps_update_then_append
        [OF assms safe_fn_closeUnfinished u]]
    by (simp add: u)
qed

lemma keeps_pump_invariant:
  assumes "h_store h = ops"
  shows "pump_invariant E h (\<lambda>pw. keeps w0 (snd pw))"
proof (standard, goal_cases)
  case (5 p w ev t)
  then show ?case using keeps_trans [OF _ quiet_keeps [OF quiet_flushDeltas [OF assms]]] by simp
next
  case (6 pw)
  then show ?case using keeps_trans [OF _ quiet_keeps [OF quiet_flushDeltas [OF assms]]] by (cases pw) simp
next
  case (7 pw t)
  then show ?case using keeps_trans [OF _ quiet_keeps [OF quiet_maybeFlush [OF assms]]] by (cases pw) simp
next
  case (8 pw ev t)
  then show ?case using keeps_trans [OF _ quiet_keeps [OF quiet_putPermission [OF assms]]] by (cases pw) simp
next
  case (10 pw ev)
  then show ?case using keeps_trans [OF _ quiet_keeps [OF quiet_sandbox]] by (cases pw) simp
next
  case (11 pw ev)
  then show ?case using keeps_trans [OF _ quiet_keeps [OF quiet_fulfil [OF assms]]] by (cases pw) simp
next
  case (12 pw n)
  then show ?case using keeps_trans [OF _ quiet_keeps [OF quiet_start_call]] by (cases pw) simp
next
  case (13 pw n)
  then show ?case using keeps_trans [OF _ quiet_keeps [OF quiet_answer_call [OF assms]]] by (cases pw) simp
qed (simp_all add: keeps_trans [OF _ keeps_now] keeps_trans [OF _ keeps_tel]
       keeps_trans [OF _ quiet_keeps [OF quiet_append_ev [OF assms]]] keeps_trans [OF _ keeps_finish [OF assms]]
       keeps_trans [OF _ keeps_closeUnfinished [OF assms]])

lemma keeps_handle:
  assumes "h_store h = ops"
  shows "keeps w (snd (snd (handle E h ev (p, w))))"
  using pump_invariant.handle_kept [OF keeps_pump_invariant [OF assms], of w "(p, w)"] keeps_refl
  by simp

lemma keeps_run:
  assumes "h_store h = ops" and "others_do keeps ins"
  shows "keeps w (snd (run E h ins (p, w)))"
  using pump_invariant.run_kept [OF keeps_pump_invariant [OF assms(1)], of w "(p, w)" ins]
    keeps_refl keeps_trans [OF _ others_doD [OF assms(2)]]
  by simp

end

section \<open>The loop settles its job\<close>

definition settled :: "(string \<Rightarrow> Job option) \<Rightarrow> string \<Rightarrow> bool" where
  "settled m i \<longleftrightarrow> (\<exists>j. m i = Some j \<and> Terminal (j_Status j))"

lemma settled_persist: "settled m i \<Longrightarrow> jobs_persist m m' \<Longrightarrow> settled m' i"
  unfolding settled_def by (auto dest!: jobs_persistD simp: same_outcome_fields(1))

lemma settled_outcome:
  assumes "jobs_persist m m'" and "m i = Some j" and "Terminal (j_Status j)"
  shows "\<exists>j'. m' i = Some j' \<and> same_outcome j j'"
  by (rule jobs_persistD [OF assms])

definition settling :: "update_fn \<Rightarrow> bool" where
  "settling fn \<longleftrightarrow> safe_fn fn \<and>
     (\<forall>j c. \<not> Terminal (j_Status j) \<longrightarrow>
        (\<exists>j' c'. fn j c = (Inr j', c') \<and> Terminal (j_Status j')))"

lemma settling_safe: "settling fn \<Longrightarrow> safe_fn fn"
  by (simp add: settling_def)

lemma settlingD:
  "settling fn \<Longrightarrow> \<not> Terminal (j_Status j) \<Longrightarrow> \<exists>j' c'. fn j c = (Inr j', c') \<and> Terminal (j_Status j')"
  by (simp add: settling_def)

lemma settling_failJob: "settling (fn_failJob r t)"
  by (simp add: settling_def safe_fn_failJob) (simp add: fn_failJob_def)

lemma settling_finaliseCancelled: "settling (fn_finaliseCancelled t)"
  by (simp add: settling_def safe_fn_finaliseCancelled) (simp add: fn_finaliseCancelled_def)

text \<open>The record a done event, and the end of the stream without one, leave.\<close>

definition finish_job :: "eventPump \<Rightarrow> HarnessEvent \<Rightarrow> gotime \<Rightarrow> Job \<Rightarrow> Job" where
  "finish_job p ev t j =
     j\<lparr>j_Status := StatusForStopReason (he_StopReason ev), j_StopReason := he_StopReason ev,
       j_Error := (if ep_errMessage p \<noteq> [] then ep_errMessage p else j_Error j),
       j_FinalText := ep_finalText p, j_FinishedAt := t, j_LastEventAt := t\<rparr>"

definition closed_job :: "eventPump \<Rightarrow> gotime \<Rightarrow> Job \<Rightarrow> Job" where
  "closed_job p t j =
     (if j_CancelRequested j then
        j\<lparr>j_Status := StatusCancelled,
          j_StopReason := (if j_StopReason j = [] then ''cancelled'' else j_StopReason j),
          j_FinalText := ep_finalText p, j_FinishedAt := t, j_LastEventAt := ep_lastEventAt p\<rparr>
      else
        j\<lparr>j_Status := StatusFailed,
          j_Error := (if ep_errMessage p \<noteq> [] then msgStreamClosed @ ''; last error: '' @ ep_errMessage p
                      else msgStreamClosed),
          j_FinalText := ep_finalText p, j_FinishedAt := t, j_LastEventAt := ep_lastEventAt p\<rparr>)"

context job_store_once
begin

text \<open>An update that settles an unsettled job, as the pump sees it.\<close>

lemma w_UpdateJob_ok:
  assumes "invar (w_store w)" and "job_of (w_store w) i = Some j"
    and "fn j c = (Inr j', c')" and "j_ID j' = j_ID j"
  obtains w' where "w_UpdateJob ops i fn c w = (Inr j', c', w')" and "invar (w_store w')"
    and "job_of (w_store w') = (job_of (w_store w))(i \<mapsto> j')"
proof -
  have "j_ID j' = i" using key_is_ID [OF assms(1,2)] assms(4) by simp
  from update_ok [where fn = fn and c = c, OF assms(1,2,3) this] obtain s' where
    "s_UpdateJob ops i fn c (w_store w) = (Inr j', c', s')" "invar s'"
    "job_of s' = (job_of (w_store w))(i \<mapsto> j')" by blast
  then show ?thesis by (intro that [of "w\<lparr>w_store := s'\<rparr>"]) (simp_all add: w_UpdateJob_def)
qed

lemma w_UpdateJob_abort:
  assumes "invar (w_store w)" and "job_of (w_store w) i = Some j" and "fn j c = (Inl e, c')"
  shows "w_UpdateJob ops i fn c w = (Inl e, c', w)"
  using update_abort [where fn = fn and c = c, OF assms] by (simp add: w_UpdateJob_def)

lemma w_UpdateJob_missing:
  assumes "invar (w_store w)" and "job_of (w_store w) i = None"
  obtains e where "w_UpdateJob ops i fn c w = (Inl e, c, w)" and "errors_Is e ErrNotFound"
    and "\<not> errors_Is e ErrNoUpdate"
  using update_missing [OF assms, of fn c] that by (auto simp: w_UpdateJob_def)

lemma finish_outcome:
  assumes h: "h_store h = ops" and ok: "invar (w_store w)"
    and j: "job_of (w_store w) (ep_jobID p) = Some j" and nt: "\<not> Terminal (j_Status j)"
  shows "\<exists>j'. job_of (w_store (finish E h p ev t w)) (ep_jobID p) = Some j' \<and>
    same_outcome (finish_job p ev t j) j'"
proof -
  let ?fn = "fn_finish (StatusForStopReason (he_StopReason ev)) (he_StopReason ev)
      (ep_errMessage p) (ep_finalText p) t"
  let ?j = "finish_job p ev t j"
  have f: "?fn j no_capture = (Inr ?j, no_capture)"
    using nt by (simp add: fn_finish_def finish_job_def)
  have "j_ID ?j = j_ID j" by (simp add: finish_job_def)
  from w_UpdateJob_ok [where fn = ?fn and c = no_capture, OF ok j f this] obtain w1 where
    u: "w_UpdateJob ops (ep_jobID p) ?fn no_capture w = (Inr ?j, no_capture, w1)"
    and w1: "invar (w_store w1)" "job_of (w_store w1) = (job_of (w_store w))(ep_jobID p \<mapsto> ?j)" .
  have "keeps w1 (finish E h p ev t w)"
    unfolding finish_def Let_def h u
    by (simp add: keeps_trans [OF quiet_keeps [OF quiet_appendProto [OF h]]
          keeps_trans [OF keeps_appendStatus [OF h] keeps_tel]])
  then have "jobs_persist (job_of (w_store w1)) (job_of (w_store (finish E h p ev t w)))"
    using w1(1) by (simp add: keeps_def)
  then show ?thesis by (rule settled_outcome) (simp_all add: w1 finish_job_def)
qed

lemma closeUnfinished_outcome:
  assumes h: "h_store h = ops" and ok: "invar (w_store w)"
    and j: "job_of (w_store w) (ep_jobID p) = Some j" and nt: "\<not> Terminal (j_Status j)"
  shows "\<exists>j'. job_of (w_store (closeUnfinished E h p w)) (ep_jobID p) = Some j' \<and>
    same_outcome (closed_job p (fst (now E w)) j) j'"
proof -
  let ?t = "fst (now E w)" and ?w = "snd (now E w)"
  let ?fn = "fn_closeUnfinished (ep_errMessage p) (ep_finalText p) ?t (ep_lastEventAt p)"
  let ?j = "closed_job p ?t j"
  obtain c where f: "?fn j no_capture = (Inr ?j, c)"
    using nt by (simp add: fn_closeUnfinished_def closed_job_def Let_def)
  have "j_ID ?j = j_ID j" by (simp add: closed_job_def)
  moreover have "invar (w_store ?w)" "job_of (w_store ?w) (ep_jobID p) = Some j"
    using ok j by simp_all
  ultimately obtain w1 where
    u: "w_UpdateJob ops (ep_jobID p) ?fn no_capture ?w = (Inr ?j, c, w1)"
    and w1: "invar (w_store w1)" "job_of (w_store w1) = (job_of (w_store ?w))(ep_jobID p \<mapsto> ?j)"
    using w_UpdateJob_ok [where fn = ?fn and c = no_capture, OF _ _ f] by metis
  have "keeps w1 (closeUnfinished E h p w)"
    unfolding closeUnfinished_def Let_def h
    by (simp add: case_prod_unfold u keeps_trans [OF keeps_appendStatus [OF h] keeps_tel])
  then have "jobs_persist (job_of (w_store w1)) (job_of (w_store (closeUnfinished E h p w)))"
    using w1(1) by (simp add: keeps_def)
  then show ?thesis by (rule settled_outcome) (simp_all add: w1 closed_job_def)
qed

text \<open>However the stream ends, the job it served is settled.\<close>

lemma finish_settles:
  assumes "h_store h = ops" and "invar (w_store w)" and "job_of (w_store w) (ep_jobID p) = Some j"
  shows "settled (job_of (w_store (finish E h p ev t w))) (ep_jobID p)"
proof (cases "Terminal (j_Status j)")
  case True
  with assms(3) have "settled (job_of (w_store w)) (ep_jobID p)" by (simp add: settled_def)
  with keeps_finish [OF assms(1), of w E p ev t] assms(2) show ?thesis
    by (simp add: keeps_def settled_persist)
next
  case False
  from finish_outcome [OF assms False, of E ev t] show ?thesis
    by (auto simp: settled_def finish_job_def same_outcome_fields)
qed

lemma closeUnfinished_settles:
  assumes "h_store h = ops" and "invar (w_store w)" and "job_of (w_store w) (ep_jobID p) = Some j"
  shows "settled (job_of (w_store (closeUnfinished E h p w))) (ep_jobID p)"
proof (cases "Terminal (j_Status j)")
  case True
  with assms(3) have "settled (job_of (w_store w)) (ep_jobID p)" by (simp add: settled_def)
  with keeps_closeUnfinished [OF assms(1), of w E p] assms(2) show ?thesis
    by (simp add: keeps_def settled_persist)
next
  case False
  from closeUnfinished_outcome [OF assms False, of E] show ?thesis
    by (auto simp: settled_def closed_job_def same_outcome_fields split: if_splits)
qed

lemma keeps_found:
  assumes "keeps w w'" and "invar (w_store w)" and "job_of (w_store w) i \<noteq> None"
  shows "invar (w_store w')" and "job_of (w_store w') i \<noteq> None"
  using assms by (auto simp: keeps_def persist_on_def)

lemma end_settles:
  assumes h: "h_store h = ops" and ok: "invar (w_store w)"
    and j: "job_of (w_store w) (ep_jobID p) \<noteq> None"
  shows "settled (job_of (w_store (snd (run E h [] (p, w))))) (ep_jobID p)"
proof -
  obtain q v where f: "flushDeltas E h (p, w) = (q, v)" by (cases "flushDeltas E h (p, w)")
  have q: "ep_jobID q = ep_jobID p"
    using identity.flushed [of p "(p, w)" E h] f by (simp add: same_job_def)
  have "keeps w v" using quiet_keeps [OF quiet_flushDeltas [OF h], of w E p] f by simp
  from keeps_found [OF this ok j] closeUnfinished_settles [OF h, of v q] show ?thesis
    by (auto simp: f q)
qed

lemma done_settles:
  assumes h: "h_store h = ops" and ok: "invar (w_store w)"
    and j: "job_of (w_store w) (ep_jobID p) \<noteq> None" and d: "he_Type ev = evDone"
  shows "settled (job_of (w_store (snd (snd (handle E h ev (p, w)))))) (ep_jobID p)"
proof -
  obtain q v where r: "received h E ev p w = (q, v)" by (cases "received h E ev p w")
  obtain q' v' where f: "flushDeltas E h (q, v) = (q', v')" by (cases "flushDeltas E h (q, v)")
  have "w_store v = w_store w" "ep_jobID q = ep_jobID p" using r by (auto simp: received_def)
  moreover have "ep_jobID q' = ep_jobID q" 
    using identity.flushed [of q "(q, v)" E h] f by (simp add: same_job_def)
  moreover have "keeps v v'" using quiet_keeps [OF quiet_flushDeltas [OF h], of v E q] f by simp
  ultimately have "invar (w_store v')" "job_of (w_store v') (ep_jobID q') \<noteq> None"
    using keeps_found [of v v' "ep_jobID p"] ok j by simp_all
  then have "settled (job_of (w_store (finish E h q' ev (fst (now E w)) v'))) (ep_jobID q')"
    using finish_settles [OF h] by blast
  moreover have "snd (snd (handle E h ev (p, w))) = finish E h q' ev (fst (now E w)) v'"
    using d by (simp add: handle_snd Let_def r f event_type_defs)
  ultimately show ?thesis
    using \<open>ep_jobID q' = ep_jobID q\<close> \<open>ep_jobID q = ep_jobID p\<close> by simp
qed

lemma run_settles:
  assumes "h_store h = ops" and "others_do keeps ins"
    and "invar (w_store w)" and "job_of (w_store w) (ep_jobID p) \<noteq> None"
  shows "settled (job_of (w_store (snd (run E h ins (p, w))))) (ep_jobID p)"
  using assms(2-4)
proof (induction ins arbitrary: p w)
  case Nil
  then show ?case using end_settles [OF assms(1)] by blast
next
  case (Cons x ins)
  have others: "others_do keeps ins" using Cons.prems(1) by (cases x) simp_all
  have IH: "settled (job_of (w_store (snd (run E h ins (q, v))))) (ep_jobID p)"
    if "ep_jobID q = ep_jobID p" and "keeps w v" for q v
    using Cons.IH [of v q] others keeps_found [OF that(2) Cons.prems(2,3)] that(1) by simp
  show ?case
  proof (cases x)
    case (Recv ev)
    obtain d q v where hd: "handle E h ev (p, w) = (d, q, v)" by (metis prod_cases3)
    have "ep_jobID q = ep_jobID p"
      using identity.handle_kept [of p "(p, w)" E h ev] hd by (simp add: same_job_def)
    moreover have "keeps w v" using keeps_handle [OF assms(1), of w E ev p] hd by simp
    moreover have "settled (job_of (w_store v)) (ep_jobID p)" if d
      using done_settles [OF assms(1) Cons.prems(2,3), of ev E] handle_fst [of E h ev "(p, w)"] that hd
      by simp
    ultimately show ?thesis using IH by (simp add: Recv hd)
  next
    case (CallStarted n)
    obtain q v where c: "start_call E n (p, w) = (q, v)" by (cases "start_call E n (p, w)")
    show ?thesis using IH [of q v] identity.started [of p "(p, w)" E n]
        quiet_keeps [OF quiet_start_call, of w E n p] c by (simp add: CallStarted same_job_def)
  next
    case (CallAnswered n)
    obtain q v where c: "answer_call E h n (p, w) = (q, v)" by (cases "answer_call E h n (p, w)")
    show ?thesis using IH [of q v] identity.answered [of p "(p, w)" E h n]
        quiet_keeps [OF quiet_answer_call [OF assms(1)], of w E n p] c by (simp add: CallAnswered same_job_def)
  next
    case (Others f)
    then show ?thesis using IH [of p "f w"] Cons.prems(1) by simp
  qed
qed

text \<open>
  An update function that settles every job not yet settled, and what follows
  it in the program: a status event and a measurement, when it succeeded.
\<close>

lemma settling_update:
  assumes "settling fn" and "invar (w_store w)" and "job_of (w_store w) i \<noteq> None"
    and u: "w_UpdateJob ops i fn c w = (r, c', w')"
  shows "settled (job_of (w_store w')) i"
proof -
  obtain j where j: "job_of (w_store w) i = Some j" using assms(3) by blast
  show ?thesis
  proof (cases "Terminal (j_Status j)")
    case True
    with j have "settled (job_of (w_store w)) i" by (simp add: settled_def)
    with keeps_eq(9) [OF settling_safe [OF assms(1)] u] assms(2) show ?thesis
      by (simp add: keeps_def settled_persist)
  next
    case False
    obtain j' k where f: "fn j c = (Inr j', k)" "Terminal (j_Status j')"
      using settlingD [OF assms(1) False] by blast
    have "j_ID j' = j_ID j" by (rule safe_fn_ID [OF settling_safe [OF assms(1)] f(1)])
    from w_UpdateJob_ok [where fn = fn and c = c, OF assms(2) j f(1) this] obtain v where
      "w_UpdateJob ops i fn c w = (Inr j', k, v)" "job_of (w_store v) = (job_of (w_store w))(i \<mapsto> j')" .
    with u f(2) show ?thesis by (simp add: settled_def)
  qed
qed

lemma update_append_settles:
  assumes "h_store h = ops" and "settling fn" and "invar (w_store w)" and "job_of (w_store w) i \<noteq> None"
    and u: "w_UpdateJob ops i fn c w = (r, c', w')"
  shows "settled (job_of (w_store (case r of Inl e \<Rightarrow> w' | Inr j \<Rightarrow> tel ms (appendStatus E h i s at w')))) i"
proof -
  have "settled (job_of (w_store w')) i" by (rule settling_update [OF assms(2-5)])
  moreover have "invar (w_store w')"
    using keeps_eq(9) [OF settling_safe [OF assms(2)] u] assms(3) by (simp add: keeps_def)
  moreover have "keeps w' (appendStatus E h i s at w')" by (rule keeps_appendStatus [OF assms(1)])
  ultimately show ?thesis by (cases r) (simp_all add: keeps_def settled_persist)
qed

end

end
