(* ===== verification/PumpRun.thy ===== *)
theory PumpRun
  imports PumpSettle
begin

text \<open>
  What a whole run records: the text and the error message the pump has gathered
  after any sequence of events, and the record its job is left with.
\<close>

section \<open>Inputs before the end of the run\<close>

fun feed :: "env \<Rightarrow> 's Handler \<Rightarrow> 's pump_input list \<Rightarrow> eventPump \<times> 's World \<Rightarrow> eventPump \<times> 's World" where
  "feed E h [] pw = pw"
| "feed E h (Recv ev # ins) pw = feed E h ins (snd (handle E h ev pw))"
| "feed E h (CallStarted n # ins) pw = feed E h ins (start_call E n pw)"
| "feed E h (CallAnswered n # ins) pw = feed E h ins (answer_call E h n pw)"
| "feed E h (Others f # ins) pw = feed E h ins (fst pw, f (snd pw))"

fun no_done :: "'s pump_input list \<Rightarrow> bool" where
  "no_done [] = True"
| "no_done (Recv ev # ins) = (he_Type ev \<noteq> evDone \<and> no_done ins)"
| "no_done (_ # ins) = no_done ins"

text \<open>The text received, and the message of the last error event.\<close>

fun texts :: "'s pump_input list \<Rightarrow> string" where
  "texts [] = []"
| "texts (Recv ev # ins) = (if he_Type ev = evTextDelta then he_Text ev else []) @ texts ins"
| "texts (_ # ins) = texts ins"

fun last_error :: "'s pump_input list \<Rightarrow> string \<Rightarrow> string" where
  "last_error [] m = m"
| "last_error (Recv ev # ins) m = last_error ins (if he_Type ev = evError then he_Message ev else m)"
| "last_error (_ # ins) m = last_error ins m"

lemma run_feed:
  "no_done ins \<Longrightarrow> run E h (ins @ rest) pw = run E h rest (feed E h ins pw)"
proof (induction ins arbitrary: pw rule: no_done.induct)
  case (2 ev ins)
  then show ?case using handle_fst [of E h ev pw] by (simp add: case_prod_unfold Let_def)
qed (auto simp: case_prod_unfold)

lemma run_done:
  "he_Type ev = evDone \<Longrightarrow> run E h (Recv ev # rest) pw = snd (handle E h ev pw)"
  using handle_fst [of E h ev pw] by (simp add: case_prod_unfold Let_def)

section \<open>Gathered text and error\<close>

lemma gathered_frame:
  "ep_finalText (fst (flushDeltas E h pw)) = ep_finalText (fst pw)"
  "ep_errMessage (fst (flushDeltas E h pw)) = ep_errMessage (fst pw)"
  "ep_finalText (fst (maybeFlushLastEventAt h t pw)) = ep_finalText (fst pw)"
  "ep_errMessage (fst (maybeFlushLastEventAt h t pw)) = ep_errMessage (fst pw)"
  "ep_finalText (fst (putPermission h ev t pw)) = ep_finalText (fst pw)"
  "ep_errMessage (fst (putPermission h ev t pw)) = ep_errMessage (fst pw)"
  by (cases pw; simp add: flushDeltas_fst maybeFlushLastEventAt_def putPermission_def)+

lemma gathered_frame_calls:
  "ep_finalText (fst (handleSandboxTokenRequest E h ev pw)) = ep_finalText (fst pw)"
  "ep_errMessage (fst (handleSandboxTokenRequest E h ev pw)) = ep_errMessage (fst pw)"
  "ep_finalText (fst (fulfilToolResult E h ev pw)) = ep_finalText (fst pw)"
  "ep_errMessage (fst (fulfilToolResult E h ev pw)) = ep_errMessage (fst pw)"
  "ep_finalText (fst (start_call E n pw)) = ep_finalText (fst pw)"
  "ep_errMessage (fst (start_call E n pw)) = ep_errMessage (fst pw)"
  "ep_finalText (fst (answer_call E h n pw)) = ep_finalText (fst pw)"
  "ep_errMessage (fst (answer_call E h n pw)) = ep_errMessage (fst pw)"
  using handleSandbox_fst [of E h ev "fst pw" "snd pw"] fulfil_fst [of E h ev "fst pw" "snd pw"]
  by (auto simp: start_call_def answer_call_def case_prod_unfold Let_def
      dest!: admit_cases(7) split: option.splits)

lemmas gathered = gathered_frame gathered_frame_calls

lemma handle_delta_gathered:
  "ep_finalText (fst (handle_delta E h ev t pw)) =
     ep_finalText (appendFinalText h (he_Text ev) (fst pw))"
  "ep_errMessage (fst (handle_delta E h ev t pw)) = ep_errMessage (fst pw)"
  by (cases pw; simp add: handle_delta_eq Let_def gathered delta_pump_def appendFinalText_eq)+

lemma handle_other_gathered:
  "ep_finalText (fst (handle_other E h ev t pw)) = ep_finalText (fst pw)"
  "ep_errMessage (fst (handle_other E h ev t pw)) =
     (if he_Type ev = evError then he_Message ev else ep_errMessage (fst pw))"
  by (cases pw; simp add: handle_other_def Let_def gathered event_type_defs)+

lemma handle_gathered:
  assumes "he_Type ev \<noteq> evDone"
  shows "ep_finalText (fst (snd (handle E h ev pw))) =
      (if he_Type ev = evTextDelta then ep_finalText (appendFinalText h (he_Text ev) (fst pw))
       else ep_finalText (fst pw))"
    and "ep_errMessage (fst (snd (handle E h ev pw))) =
      (if he_Type ev = evError then he_Message ev else ep_errMessage (fst pw))"
  using assms
  by (cases pw; simp add: handle_snd Let_def gathered handle_delta_gathered handle_other_gathered
      received_def appendFinalText_eq event_type_defs)+

lemma feed_finalText:
  assumes "no_done ins" and "ep_finalText (fst pw) = take (h_maxFinalTextByte h) t"
  shows "ep_finalText (fst (feed E h ins pw)) = take (h_maxFinalTextByte h) (t @ texts ins)"
  using assms
proof (induction ins arbitrary: pw t rule: no_done.induct)
  case (2 ev ins)
  let ?t = "t @ (if he_Type ev = evTextDelta then he_Text ev else [])"
  have "ep_finalText (fst (snd (handle E h ev pw))) = take (h_maxFinalTextByte h) ?t"
    using 2 appendFinalText_take [OF 2(3), of "he_Text ev"] by (simp add: handle_gathered)
  from "2.IH" [OF _ this] 2(2) show ?case by simp
qed (simp_all add: gathered)

lemma feed_errMessage:
  assumes "no_done ins"
  shows "ep_errMessage (fst (feed E h ins pw)) = last_error ins (ep_errMessage (fst pw))"
  using assms
  by (induction ins arbitrary: pw rule: no_done.induct) (simp_all add: gathered handle_gathered)

context pump_step
begin

lemma feed_kept:
  assumes "Q pw" and "no_done ins" and "\<And>f p w. Others f \<in> set ins \<Longrightarrow> Q (p, w) \<Longrightarrow> Q (p, f w)"
  shows "Q (feed E h ins pw)"
  using assms
proof (induction ins arbitrary: pw)
  case (Cons x ins)
  then show ?case
    by (cases x; cases pw) (simp_all add: handle_kept_step started answered)
qed simp

end

section \<open>The record a run leaves\<close>

context job_store_once
begin

lemma quiet_pump_step:
  assumes "h_store h = ops"
  shows "pump_step E h (\<lambda>pw. quiet w0 (snd pw))"
proof (standard, goal_cases)
  case (5 p w ev t)
  then show ?case using quiet_trans [OF _ quiet_flushDeltas [OF assms]] by simp
next
  case (6 pw)
  then show ?case using quiet_trans [OF _ quiet_flushDeltas [OF assms]] by (cases pw) simp
next
  case (7 pw t)
  then show ?case using quiet_trans [OF _ quiet_maybeFlush [OF assms]] by (cases pw) simp
next
  case (8 pw ev t)
  then show ?case using quiet_trans [OF _ quiet_putPermission [OF assms]] by (cases pw) simp
next
  case (10 pw ev)
  then show ?case using quiet_trans [OF _ quiet_sandbox] by (cases pw) simp
next
  case (11 pw ev)
  then show ?case using quiet_trans [OF _ quiet_fulfil [OF assms]] by (cases pw) simp
next
  case (12 pw n)
  then show ?case using quiet_trans [OF _ quiet_start_call] by (cases pw) simp
next
  case (13 pw n)
  then show ?case using quiet_trans [OF _ quiet_answer_call [OF assms]] by (cases pw) simp
qed (simp_all add: quiet_trans [OF _ quiet_now] quiet_trans [OF _ quiet_tel]
       quiet_trans [OF _ quiet_append_ev [OF assms]])

text \<open>
  Before the end of a run, whatever is received, the job changes in its liveness
  timestamp only, as long as the rest of the program leaves it alone.
\<close>

lemma quiet_feed:
  assumes "h_store h = ops" and "no_done ins" and "others_do quiet ins"
  shows "quiet w (snd (feed E h ins (p, w)))"
  using pump_step.feed_kept [OF quiet_pump_step [OF assms(1)], of w "(p, w)" ins]
    quiet_refl quiet_trans [OF _ others_doD [OF assms(3)]] assms(2)
  by simp

lemma quiet_found:
  assumes "quiet w w'" and "invar (w_store w)" and "job_of (w_store w) i = Some j"
  obtains j' where "invar (w_store w')" and "job_of (w_store w') i = Some j'" and "still j j'"
  using assms live_onlyD [of "job_of (w_store w)" "job_of (w_store w')" i j]
  by (auto simp: quiet_def)

lemma feed_jobID: "no_done ins \<Longrightarrow> ep_jobID (fst (feed E h ins (p, w))) = ep_jobID p"
  using pump_step.feed_kept [OF pump_invariant.axioms(1) [OF identity.pump_invariant_axioms],
      of p "(p, w)" ins E h]
  by (simp add: same_job_def)

text \<open>A run that reaches done.\<close>

lemma run_done_outcome:
  assumes h: "h_store h = ops" and ins: "no_done ins"
    and others: "others_do quiet ins"
    and ok: "invar (w_store w)" and j: "job_of (w_store w) (ep_jobID p) = Some j"
    and nt: "\<not> Terminal (j_Status j)" and d: "he_Type ev = evDone"
    and p: "ep_finalText p = []" "ep_errMessage p = []"
  shows "\<exists>j'. job_of (w_store (snd (run E h (ins @ Recv ev # rest) (p, w)))) (ep_jobID p) = Some j' \<and>
    j_Status j' = StatusForStopReason (he_StopReason ev) \<and> j_StopReason j' = he_StopReason ev \<and>
    j_FinalText j' = take (h_maxFinalTextByte h) (texts ins) \<and>
    j_Error j' = (if last_error ins [] \<noteq> [] then last_error ins [] else j_Error j)"
proof -
  obtain q v where f: "feed E h ins (p, w) = (q, v)" by (cases "feed E h ins (p, w)")
  obtain q1 v1 where r: "received h E ev q v = (q1, v1)" by (cases "received h E ev q v")
  obtain q2 v2 where g: "flushDeltas E h (q1, v1) = (q2, v2)" by (cases "flushDeltas E h (q1, v1)")
  have run: "run E h (ins @ Recv ev # rest) (p, w) = (q2, finish E h q2 ev (fst (now E v)) v2)"
    using d by (simp add: run_feed [OF ins] f run_done handle_snd Let_def r g event_type_defs
        del: run.simps)
  have "quiet w v" using quiet_feed [OF h ins others, of w E p] f by simp
  moreover have "quiet v v1" using r by (auto simp: received_def intro: quiet_same_store)
  moreover have "quiet v1 v2" using quiet_flushDeltas [OF h, of v1 E q1] g by simp
  ultimately have "quiet w v2" by (blast intro: quiet_trans)
  from quiet_found [OF this ok j] obtain k where
    k: "invar (w_store v2)" "job_of (w_store v2) (ep_jobID p) = Some k" "still j k" .
  have q2: "ep_jobID q2 = ep_jobID p" "ep_finalText q2 = take (h_maxFinalTextByte h) (texts ins)"
    "ep_errMessage q2 = last_error ins []"
  proof -
    have q1: "q1 = q\<lparr>ep_lastEventAt := fst (now E v)\<rparr>" using r by (simp add: received_def)
    have "q2 = q1\<lparr>ep_deltas := []\<rparr>" using flushDeltas_fst [of E h q1 v1] g by simp
    then show "ep_jobID q2 = ep_jobID p" "ep_finalText q2 = take (h_maxFinalTextByte h) (texts ins)"
      "ep_errMessage q2 = last_error ins []"
      using feed_jobID [OF ins, of E h p w] feed_finalText [OF ins, of "(p, w)" h "[]" E]
        feed_errMessage [OF ins, of E h "(p, w)"] f p q1 by simp_all
  qed
  have "\<not> Terminal (j_Status k)" using nt k(3) by (simp add: still_fields)
  from finish_outcome [OF h k(1) _ this, of q2 E ev "fst (now E v)"] k(2) q2(1) obtain j' where
    "job_of (w_store (finish E h q2 ev (fst (now E v)) v2)) (ep_jobID p) = Some j'"
    "same_outcome (finish_job q2 ev (fst (now E v)) k) j'" by auto
  then show ?thesis unfolding run
    using q2 still_fields [OF k(3)] by (auto simp: finish_job_def same_outcome_fields)
qed

text \<open>A run whose stream ends without done.\<close>

lemma run_eof_outcome:
  assumes h: "h_store h = ops" and ins: "no_done ins"
    and others: "others_do quiet ins"
    and ok: "invar (w_store w)" and j: "job_of (w_store w) (ep_jobID p) = Some j"
    and nt: "\<not> Terminal (j_Status j)" and p: "ep_finalText p = []" "ep_errMessage p = []"
  shows "\<exists>j'. job_of (w_store (snd (run E h ins (p, w)))) (ep_jobID p) = Some j' \<and>
    j_FinalText j' = take (h_maxFinalTextByte h) (texts ins) \<and>
    (if j_CancelRequested j
     then j_Status j' = StatusCancelled \<and> j_Error j' = j_Error j \<and>
       j_StopReason j' = (if j_StopReason j = [] then ''cancelled'' else j_StopReason j)
     else j_Status j' = StatusFailed \<and> j_StopReason j' = j_StopReason j \<and>
       j_Error j' = (if last_error ins [] \<noteq> [] then msgStreamClosed @ ''; last error: '' @ last_error ins []
                     else msgStreamClosed))"
proof -
  obtain q v where f: "feed E h ins (p, w) = (q, v)" by (cases "feed E h ins (p, w)")
  obtain q2 v2 where g: "flushDeltas E h (q, v) = (q2, v2)" by (cases "flushDeltas E h (q, v)")
  have run: "run E h ins (p, w) = (q2, closeUnfinished E h q2 v2)"
    using run_feed [OF ins, of E h "[]" "(p, w)"] by (simp add: f g)
  have "quiet w v" using quiet_feed [OF h ins others, of w E p] f by simp
  moreover have "quiet v v2" using quiet_flushDeltas [OF h, of v E q] g by simp
  ultimately have "quiet w v2" by (rule quiet_trans)
  from quiet_found [OF this ok j] obtain k where
    k: "invar (w_store v2)" "job_of (w_store v2) (ep_jobID p) = Some k" "still j k" .
  have "q2 = q\<lparr>ep_deltas := []\<rparr>" using flushDeltas_fst [of E h q v] g by simp
  then have q2: "ep_jobID q2 = ep_jobID p" "ep_finalText q2 = take (h_maxFinalTextByte h) (texts ins)"
    "ep_errMessage q2 = last_error ins []"
    using feed_jobID [OF ins, of E h p w] feed_finalText [OF ins, of "(p, w)" h "[]" E]
      feed_errMessage [OF ins, of E h "(p, w)"] f p by simp_all
  have "\<not> Terminal (j_Status k)" using nt k(3) by (simp add: still_fields)
  from closeUnfinished_outcome [OF h k(1) _ this, of q2 E] k(2) q2(1) obtain j' where
    "job_of (w_store (closeUnfinished E h q2 v2)) (ep_jobID p) = Some j'"
    "same_outcome (closed_job q2 (fst (now E v2)) k) j'" by auto
  then show ?thesis unfolding run
    using q2 still_fields [OF k(3)] by (auto simp: closed_job_def same_outcome_fields)
qed

end

end
