(* ===== verification/RunTask.thy ===== *)
theory RunTask
  imports PumpRun
begin

text \<open>
  The life of one harness connection, \<open>runTask\<close> of
  \<open>src/internal/controlplane/controlplane.go\<close>: the claim of a job by its session
  credential, the task assignment, the transition to running and the pump, with
  the deferred releases on every way out.

  \<open>first\<close> is the result of the first \<open>Receive\<close> and \<open>ins\<close> what follows on the
  stream. The rest of the program may act between any two shared operations of
  the claim; \<open>gap k\<close> is what it does at the \<open>k\<close>-th such point.
\<close>

section \<open>The connection\<close>

definition task_assignment :: "RunConfig \<Rightarrow> ControlEvent" where
  "task_assignment cfg = (control_event ctlTaskAssignment)\<lparr>ce_Task := Some cfg\<rparr>"

text \<open>After the assignment has been sent: the running transition and the pump.\<close>

definition run_assigned ::
  "env \<Rightarrow> 's Handler \<Rightarrow> nat \<Rightarrow> string \<Rightarrow> Job \<Rightarrow> RunConfig \<Rightarrow> (nat \<Rightarrow> 's World \<Rightarrow> 's World) \<Rightarrow>
   's pump_input list \<Rightarrow> 's World \<Rightarrow> 's World" where
  "run_assigned E h s i j cfg gap ins w =
     (let (started, w1) = now E (gap 2 w);
          (r, c, w2) = w_UpdateJob (h_store h) i (fn_running started) no_capture w1
      in if (case r of Inl e \<Rightarrow> errors_Is e ErrNoUpdate | Inr _ \<Rightarrow> False) then sendCancel E s w2
         else
           let w3 = appendStatus E h i StatusRunning started (gap 3 w2);
               (p, w4) = pump E i s (declaredControlPlaneTools cfg) w3;
               p1 = p\<lparr>ep_repoScope := j_RepoScope j,
                      ep_sandboxIdentityDeclared := GetSandboxIdentity (rc_Executor cfg) \<noteq> None\<rparr>
           in snd (run E h ins (p1, w4)))"

definition serve_claim ::
  "env \<Rightarrow> 's Handler \<Rightarrow> nat \<Rightarrow> string \<Rightarrow> Job \<Rightarrow> (nat \<Rightarrow> 's World \<Rightarrow> 's World) \<Rightarrow>
   's pump_input list \<Rightarrow> 's World \<Rightarrow> goerror option \<times> 's World" where
  "serve_claim E h s i j gap ins w =
     (case parseRunConfig E (j_RunConfigJSON j) of
        Inl err \<Rightarrow>
          (None, failJob E h i (render ''stored run config is not a valid RunConfig: %v'' [Error err])
                   (sendCancel E s (tel (HarnessSession (h_tel h) SessionUnusableRunConfig) w)))
      | Inr cfg \<Rightarrow>
          (let (e, w1) = session_Send E s (task_assignment cfg) (gap 1 w)
           in case e of
                Some err \<Rightarrow>
                  (Some err,
                   failJob E h i (render ''failed to send task assignment: %v'' [Error err])
                     (tel (HarnessSession (h_tel h) SessionAssignmentFailed) w1))
              | None \<Rightarrow>
                  (None,
                   tel (SessionClosed (h_tel h))
                     (run_assigned E h s i j cfg gap ins
                        (tel (SessionOpened (h_tel h))
                           (tel (HarnessSession (h_tel h) SessionAssigned) w1))))))"

text \<open>A new session wraps the stream and is open.\<close>

definition open_session :: "nat \<Rightarrow> 's World \<Rightarrow> 's World" where
  "open_session s w = w\<lparr>w_closed := (w_closed w)(s := False)\<rparr>"

definition claim ::
  "env \<Rightarrow> 's Handler \<Rightarrow> nat \<Rightarrow> string \<Rightarrow> Job \<Rightarrow> (nat \<Rightarrow> 's World \<Rightarrow> 's World) \<Rightarrow>
   's pump_input list \<Rightarrow> 's World \<Rightarrow> goerror option \<times> 's World" where
  "claim E h s i j gap ins w =
     (let (e, w1) = w_register i s (open_session s w)
      in case e of
           Some _ \<Rightarrow> (None, sendCancel E s (tel (HarnessSession (h_tel h) SessionDuplicate) w1))
         | None \<Rightarrow>
             (let (r, w2) = serve_claim E h s i j gap ins w1
              in (r, w_unregister i s (session_close s w2))))"

definition runTask ::
  "env \<Rightarrow> 's Handler \<Rightarrow> nat \<Rightarrow> HarnessEvent result \<Rightarrow> (nat \<Rightarrow> 's World \<Rightarrow> 's World) \<Rightarrow>
   's pump_input list \<Rightarrow> 's World \<Rightarrow> goerror option \<times> 's World" where
  "runTask E h s first gap ins w =
     (case first of
        Inl _ \<Rightarrow> (None, tel (HarnessSession (h_tel h) SessionClosedBeforeReady) w)
      | Inr ev \<Rightarrow>
          if he_Type ev \<noteq> evReady then
            (None, sendCancel E s (tel (HarnessSession (h_tel h) SessionNotReady) w))
          else
            let (i, token) = ParseSession (he_Id ev)
            in if i = [] then
                 (None, sendCancel E s (tel (HarnessSession (h_tel h) SessionNoID) w))
               else
                 case s_GetJob (h_store h) i (w_store w) of
                   Inl _ \<Rightarrow>
                     (None, sendCancel E s (tel (HarnessSession (h_tel h) SessionUnknownJob) w))
                 | Inr j \<Rightarrow>
                     if \<not> AcceptsToken j token then
                       (None, sendCancel E s (tel (HarnessSession (h_tel h) SessionBadToken) w))
                     else if Terminal (j_Status j) \<or> j_CancelRequested j then
                       let w1 = sendCancel E s (tel (HarnessSession (h_tel h) SessionClosedJob) w)
                       in (None, if \<not> Terminal (j_Status j) then finaliseCancelled E h i w1 else w1)
                     else claim E h s i j gap ins (gap 0 w))"

section \<open>Refused streams\<close>

text \<open>The credential the first message presents, and the job it opens.\<close>

definition admitted :: "'s Handler \<Rightarrow> HarnessEvent result \<Rightarrow> 's World \<Rightarrow> (string \<times> Job) option" where
  "admitted h first w =
     (case first of
        Inl _ \<Rightarrow> None
      | Inr ev \<Rightarrow>
          if he_Type ev \<noteq> evReady then None
          else let (i, token) = ParseSession (he_Id ev)
               in if i = [] then None
                  else case s_GetJob (h_store h) i (w_store w) of
                         Inl _ \<Rightarrow> None
                       | Inr j \<Rightarrow> if AcceptsToken j token then Some (i, j) else None)"

lemma sendCancel_frame [simp]:
  "w_store (sendCancel E s w) = w_store w" "w_reg (sendCancel E s w) = w_reg w"
  "w_closed (sendCancel E s w) = w_closed w" "w_metrics (sendCancel E s w) = w_metrics w"
  by (simp_all add: sendCancel_def)

lemma sendCancel_sent:
  "w_sent (sendCancel E s w) s =
     w_sent w s @ [(control_event ctlCancel, env_wire E s (length (w_sent w s)) = None)]"
  by (simp add: sendCancel_def stream_Send_def Let_def)

lemma open_session_frame [simp]:
  "w_reads (open_session s w) = w_reads w"
  "w_store (open_session s w) = w_store w" "w_reg (open_session s w) = w_reg w"
  "w_sent (open_session s w) = w_sent w" "w_metrics (open_session s w) = w_metrics w"
  by (simp_all add: open_session_def)

text \<open>The connection as a decision on its first message.\<close>

lemma runTask_admitted:
  assumes "admitted h first w = Some (i, j)"
  shows "runTask E h s first gap ins w =
    (if Terminal (j_Status j) \<or> j_CancelRequested j then
       (None, let w1 = sendCancel E s (tel (HarnessSession (h_tel h) SessionClosedJob) w)
              in if \<not> Terminal (j_Status j) then finaliseCancelled E h i w1 else w1)
     else claim E h s i j gap ins (gap 0 w))"
  using assms
  by (auto simp: runTask_def admitted_def Let_def split: sum.splits if_splits prod.splits)

lemma runTask_refused:
  assumes "admitted h first w = None"
  shows "\<exists>d. d \<noteq> SessionAssigned \<and>
    (runTask E h s first gap ins w = (None, tel (HarnessSession (h_tel h) d) w) \<and> (\<exists>e. first = Inl e) \<or>
     runTask E h s first gap ins w = (None, sendCancel E s (tel (HarnessSession (h_tel h) d) w)))"
proof (cases first)
    case (Inl e)
    then show ?thesis
      by (intro exI [of _ SessionClosedBeforeReady]) (simp add: runTask_def)
  next
    case (Inr ev)
    obtain i token where ps: "ParseSession (he_Id ev) = (i, token)" by (cases "ParseSession (he_Id ev)")
    consider "he_Type ev \<noteq> evReady" | "he_Type ev = evReady" "i = []"
      | e where "he_Type ev = evReady" "i \<noteq> []" "s_GetJob (h_store h) i (w_store w) = Inl e"
      | j where "he_Type ev = evReady" "i \<noteq> []" "s_GetJob (h_store h) i (w_store w) = Inr j"
          "\<not> AcceptsToken j token"
      using assms by (cases "s_GetJob (h_store h) i (w_store w)") (auto simp: admitted_def Inr ps split: if_splits)
    then show ?thesis
    proof cases
      case 1
      then show ?thesis by (intro exI [of _ SessionNotReady]) (simp add: runTask_def Inr)
    next
      case 2
      then show ?thesis by (intro exI [of _ SessionNoID]) (simp add: runTask_def Inr ps)
    next
      case 3
      then show ?thesis by (intro exI [of _ SessionUnknownJob]) (simp add: runTask_def Inr ps)
    next
      case 4
      then show ?thesis by (intro exI [of _ SessionBadToken]) (simp add: runTask_def Inr ps)
  qed
qed

section \<open>Settled jobs and settlement\<close>

text \<open>The rest of the program, at every point of a connection.\<close>

definition gaps_do :: "('s World \<Rightarrow> 's World \<Rightarrow> bool) \<Rightarrow> (nat \<Rightarrow> 's World \<Rightarrow> 's World) \<Rightarrow> bool" where
  "gaps_do R gap \<longleftrightarrow> (\<forall>k v. R v (gap k v))"

lemma gaps_doD: "gaps_do R gap \<Longrightarrow> R v (gap k v)"
  by (simp add: gaps_do_def)

lemma pump_jobID:
  "ep_jobID (fst (pump E i s d w)) = i" "w_store (snd (pump E i s d w)) = w_store w"
  "w_reads (snd (pump E i s d w)) = Suc (w_reads w)"
  by (simp_all add: pump_def Let_def case_prod_unfold)

context watched_store
begin

lemma keeps_open_session: "keeps w (open_session s w)"
  by (simp add: keeps_same_store)

lemma keeps_pump: "keeps w (snd (pump E i s d w))"
  by (simp add: keeps_same_store pump_jobID)

lemma keeps_run_assigned:
  assumes h: "h_store h = ops" and g: "gaps_do keeps gap" and o: "others_do keeps ins"
  shows "keeps w (run_assigned E h s i j cfg gap ins w)"
proof -
  obtain t w1 where n: "now E (gap 2 w) = (t, w1)" by (cases "now E (gap 2 w)")
  obtain r c w2 where u: "w_UpdateJob ops i (fn_running t) no_capture w1 = (r, c, w2)"
    by (metis prod_cases3)
  have k2: "keeps w w2"
    by (rule keeps_trans [OF gaps_doD [OF g] keeps_trans [OF keeps_eq(1) [OF n]
          keeps_eq(9) [OF safe_fn_running u]]])
  have k4: "keeps w (snd (pump E i s d (appendStatus E h i StatusRunning t (gap 3 w2))))" for d
    by (rule keeps_trans [OF k2 keeps_trans [OF gaps_doD [OF g] keeps_trans
          [OF keeps_appendStatus [OF h] keeps_pump]]])
  show ?thesis
    unfolding run_assigned_def Let_def n h
    by (simp add: u case_prod_unfold keeps_trans [OF k2 keeps_sendCancel]
        keeps_trans [OF k4 keeps_run [OF h o]])
qed

lemma keeps_serve_claim:
  assumes h: "h_store h = ops" and g: "gaps_do keeps gap" and o: "others_do keeps ins"
  shows "keeps w (snd (serve_claim E h s i j gap ins w))"
proof (cases "parseRunConfig E (j_RunConfigJSON j)")
  case (Inl e)
  then show ?thesis
    by (simp add: serve_claim_def keeps_trans [OF keeps_trans [OF keeps_tel keeps_sendCancel]
          keeps_failJob [OF h]])
next
  case (Inr cfg)
  obtain e w1 where x: "session_Send E s (task_assignment cfg) (gap 1 w) = (e, w1)"
    by (cases "session_Send E s (task_assignment cfg) (gap 1 w)")
  have k1: "keeps w w1" by (rule keeps_trans [OF gaps_doD [OF g] keeps_eq(3) [OF x]])
  have k2: "keeps w (failJob E h i m (tel ms w1))" for m ms
    by (rule keeps_trans [OF k1 keeps_trans [OF keeps_tel keeps_failJob [OF h]]])
  have k3: "keeps w (tel c (run_assigned E h s i j cfg gap ins (tel b (tel a w1))))" for a b c
    by (rule keeps_trans [OF k1 keeps_trans [OF keeps_trans [OF keeps_tel keeps_tel]
          keeps_trans [OF keeps_run_assigned [OF assms] keeps_tel]]])
  show ?thesis by (simp add: serve_claim_def Inr x k2 k3 del: One_nat_def split: option.splits)
qed

lemma keeps_claim:
  assumes h: "h_store h = ops" and g: "gaps_do keeps gap" and o: "others_do keeps ins"
  shows "keeps w (snd (claim E h s i j gap ins w))"
proof -
  obtain e w1 where r: "w_register i s (open_session s w) = (e, w1)"
    by (cases "w_register i s (open_session s w)")
  have k1: "keeps w w1" by (rule keeps_trans [OF keeps_open_session keeps_eq(5) [OF r]])
  have k2: "keeps w (sendCancel E s (tel ms w1))" for ms
    by (rule keeps_trans [OF k1 keeps_trans [OF keeps_tel keeps_sendCancel]])
  have k3: "keeps w (w_unregister i s (session_close s (snd (serve_claim E h s i j gap ins w1))))"
    by (rule keeps_trans [OF k1 keeps_trans [OF keeps_serve_claim [OF assms]
          keeps_trans [OF keeps_session_close keeps_w_unregister]]])
  show ?thesis by (simp add: claim_def r k2 k3 case_prod_unfold Let_def split: option.splits)
qed

lemma keeps_runTask:
  assumes h: "h_store h = ops" and g: "gaps_do keeps gap" and o: "others_do keeps ins"
  shows "keeps w (snd (runTask E h s first gap ins w))"
proof (cases "admitted h first w")
  case None
  from runTask_refused [OF this, of E s gap ins] show ?thesis
    by (elim exE conjE disjE) (simp_all add: keeps_tel keeps_trans [OF keeps_tel keeps_sendCancel])
next
  case (Some ij)
  obtain i j where "ij = (i, j)" by (cases ij)
  with Some have a: "admitted h first w = Some (i, j)" by simp
  have k1: "keeps w (sendCancel E s (tel ms w))" for ms
    by (rule keeps_trans [OF keeps_tel keeps_sendCancel])
  show ?thesis
    by (simp add: runTask_admitted [OF a] Let_def k1 keeps_trans [OF k1 keeps_finaliseCancelled [OF h]]
        keeps_trans [OF gaps_doD [OF g] keeps_claim [OF assms]])
qed

end

context job_store_once
begin

lemma failJob_settles:
  assumes "h_store h = ops" and "invar (w_store w)" and "job_of (w_store w) i \<noteq> None"
  shows "settled (job_of (w_store (failJob E h i reason w))) i"
proof -
  obtain t w1 where n: "now E w = (t, w1)" by (cases "now E w")
  then have w1: "w_store w1 = w_store w" using now_frame(1) [of E w] by simp
  obtain r c w2 where u: "w_UpdateJob ops i (fn_failJob reason t) no_capture w1 = (r, c, w2)"
    by (metis prod_cases3)
  from update_append_settles [OF assms(1) settling_failJob _ _ u] assms(2,3) w1 show ?thesis
    by (simp add: failJob_def n assms(1) u)
qed

lemma finaliseCancelled_settles:
  assumes "h_store h = ops" and "invar (w_store w)" and "job_of (w_store w) i \<noteq> None"
  shows "settled (job_of (w_store (finaliseCancelled E h i w))) i"
proof -
  obtain t w1 where n: "now E w = (t, w1)" by (cases "now E w")
  then have w1: "w_store w1 = w_store w" using now_frame(1) [of E w] by simp
  obtain r c w2 where u: "w_UpdateJob ops i (fn_finaliseCancelled t) no_capture w1 = (r, c, w2)"
    by (metis prod_cases3)
  from update_append_settles [OF assms(1) settling_finaliseCancelled _ _ u] assms(2,3) w1
  show ?thesis by (simp add: finaliseCancelled_def n assms(1) u)
qed

lemma run_assigned_settles:
  assumes h: "h_store h = ops" and g: "gaps_do keeps gap" and o: "others_do keeps ins"
    and ok: "invar (w_store w)" and j: "job_of (w_store w) i \<noteq> None"
  shows "settled (job_of (w_store (run_assigned E h s i k cfg gap ins w))) i"
proof -
  obtain t w1 where n: "now E (gap 2 w) = (t, w1)" by (cases "now E (gap 2 w)")
  obtain r c w2 where u: "w_UpdateJob ops i (fn_running t) no_capture w1 = (r, c, w2)"
    by (metis prod_cases3)
  have k1: "keeps w w1" by (rule keeps_trans [OF gaps_doD [OF g] keeps_eq(1) [OF n]])
  note f1 = keeps_found [OF k1 ok j]
  have k2: "keeps w1 w2" by (rule keeps_eq(9) [OF safe_fn_running u])
  show ?thesis
  proof (cases "case r of Inl e \<Rightarrow> errors_Is e ErrNoUpdate | Inr _ \<Rightarrow> False")
    case True
    obtain j1 where j1: "job_of (w_store w1) i = Some j1" using f1(2) by blast
    have "Terminal (j_Status j1)"
    proof (rule ccontr)
      assume "\<not> Terminal (j_Status j1)"
      then have f: "fn_running t j1 no_capture =
          (Inr (j1\<lparr>j_Status := StatusRunning, j_StartedAt := t, j_LastEventAt := t\<rparr>), no_capture)"
          (is "_ = (Inr ?j, _)") by (simp add: fn_running_def)
      have "j_ID ?j = j_ID j1" by simp
      from w_UpdateJob_ok [where fn = "fn_running t" and c = no_capture, OF f1(1) j1 f this] obtain v
        where "w_UpdateJob ops i (fn_running t) no_capture w1 = (Inr ?j, no_capture, v)" .
      with u have "r = Inr ?j" by simp
      with True show False by simp
    qed
    with j1 have "settled (job_of (w_store w1)) i" by (simp add: settled_def)
    with k2 f1(1) have "settled (job_of (w_store w2)) i" by (simp add: keeps_def settled_persist)
    with True show ?thesis by (simp add: run_assigned_def n h u)
  next
    case False
    let ?w = "appendStatus E h i StatusRunning t (gap 3 w2)"
    obtain p w4 where p: "pump E i s (declaredControlPlaneTools cfg) ?w = (p, w4)"
      by (cases "pump E i s (declaredControlPlaneTools cfg) ?w")
    have "keeps w1 ?w"
      by (rule keeps_trans [OF k2 keeps_trans [OF gaps_doD [OF g] keeps_appendStatus [OF h]]])
    from keeps_found [OF this f1] have f4: "invar (w_store w4)" "job_of (w_store w4) i \<noteq> None"
      using pump_jobID(2) [of E i s "declaredControlPlaneTools cfg" ?w] p by simp_all
    have "ep_jobID p = i" using pump_jobID(1) [of E i s "declaredControlPlaneTools cfg" ?w] p by simp
    with run_settles [OF h o f4(1), of "p\<lparr>ep_repoScope := j_RepoScope k,
        ep_sandboxIdentityDeclared := GetSandboxIdentity (rc_Executor cfg) \<noteq> None\<rparr>" E] f4(2)
    have "settled (job_of (w_store (snd (run E h ins (p\<lparr>ep_repoScope := j_RepoScope k,
        ep_sandboxIdentityDeclared := GetSandboxIdentity (rc_Executor cfg) \<noteq> None\<rparr>, w4))))) i"
      by simp
    moreover have "run_assigned E h s i k cfg gap ins w = snd (run E h ins (p\<lparr>ep_repoScope := j_RepoScope k,
        ep_sandboxIdentityDeclared := GetSandboxIdentity (rc_Executor cfg) \<noteq> None\<rparr>, w4))"
      using False by (simp add: run_assigned_def n h u p)
    ultimately show ?thesis by simp
  qed
qed

lemma serve_claim_settles:
  assumes h: "h_store h = ops" and g: "gaps_do keeps gap" and o: "others_do keeps ins"
    and ok: "invar (w_store w)" and j: "job_of (w_store w) i \<noteq> None"
  shows "settled (job_of (w_store (snd (serve_claim E h s i k gap ins w)))) i"
proof (cases "parseRunConfig E (j_RunConfigJSON k)")
  case (Inl e)
  then show ?thesis using failJob_settles [OF h] ok j by (simp add: serve_claim_def)
next
  case (Inr cfg)
  obtain e w1 where x: "session_Send E s (task_assignment cfg) (gap 1 w) = (e, w1)"
    by (cases "session_Send E s (task_assignment cfg) (gap 1 w)")
  have "keeps w w1" by (rule keeps_trans [OF gaps_doD [OF g] keeps_eq(3) [OF x]])
  note f1 = keeps_found [OF this ok j]
  show ?thesis
    using failJob_settles [OF h, of "tel _ w1" i] run_assigned_settles [OF h g o, of "tel _ (tel _ w1)" i] f1
    by (simp add: serve_claim_def Inr x del: One_nat_def split: option.splits)
qed

text \<open>
  A harness that presents the credential of a job and is not a duplicate leaves
  the job settled when its connection ends, however it ends.
\<close>

lemma claim_settles:
  assumes h: "h_store h = ops" and g: "gaps_do keeps gap" and o: "others_do keeps ins"
    and ok: "invar (w_store w)" and j: "job_of (w_store w) i \<noteq> None" and r: "map_of (w_reg w) i = None"
  shows "settled (job_of (w_store (snd (claim E h s i k gap ins w)))) i"
proof -
  have reg: "w_register i s (open_session s w) = (None, (open_session s w)\<lparr>w_reg := (i, s) # w_reg w\<rparr>)"
    using r by (simp add: w_register_def Register_def)
  from serve_claim_settles [OF h g o, of "(open_session s w)\<lparr>w_reg := (i, s) # w_reg w\<rparr>" i E s k] ok j
  show ?thesis by (simp add: claim_def reg case_prod_unfold Let_def)
qed

lemma admitted_job:
  assumes "h_store h = ops" and "invar (w_store w)" and "admitted h first w = Some (i, j)"
  shows "job_of (w_store w) i = Some j"
proof -
  have g: "s_GetJob ops i (w_store w) = Inr j"
    using assms(1,3) by (auto simp: admitted_def Let_def split: sum.splits if_splits prod.splits)
  show ?thesis
  proof (cases "job_of (w_store w) i")
    case None
    from get_missing [OF assms(2) this] g show ?thesis by simp
  next
    case (Some k)
    from get_found [OF assms(2) this] g Some show ?thesis by simp
  qed
qed

lemma runTask_settles:
  assumes h: "h_store h = ops" and g: "gaps_do keeps gap" and o: "others_do keeps ins"
    and ok: "invar (w_store w)" and a: "admitted h first w = Some (i, j)"
    and r: "map_of (w_reg (gap 0 w)) i = None"
  shows "settled (job_of (w_store (snd (runTask E h s first gap ins w)))) i"
proof -
  note j = admitted_job [OF h ok a]
  show ?thesis
  proof (cases "Terminal (j_Status j) \<or> j_CancelRequested j")
    case True
    show ?thesis
    proof (cases "Terminal (j_Status j)")
      case True
      with j have "settled (job_of (w_store w)) i" by (simp add: settled_def)
      with True show ?thesis by (simp add: runTask_admitted [OF a])
    next
      case False
      with True j finaliseCancelled_settles [OF h, of "sendCancel E s (tel _ w)" i] ok show ?thesis
        by (simp add: runTask_admitted [OF a] Let_def)
    qed
  next
    case False
    have "invar (w_store (gap 0 w))" "job_of (w_store (gap 0 w)) i \<noteq> None"
      using keeps_found [OF gaps_doD [OF g] ok, of i] j by simp_all
    from claim_settles [OF h g o this r] False show ?thesis by (simp add: runTask_admitted [OF a])
  qed
qed

end

end
