(* ===== verification/StreamCount.thy ===== *)
theory StreamCount
  imports RunTask
begin

text \<open>
  What a connection leaves behind besides the store: its place in the registry
  is given up, its session is closed, and it has been counted once, under one
  disposition, with the gauge of live sessions back in balance.
\<close>

section \<open>Measurements of streams\<close>

definition of_stream :: "measurement \<Rightarrow> bool" where
  "of_stream m \<longleftrightarrow> mt_instrument m = Sessions \<or> mt_instrument m = ActiveSessions"

definition stream_metrics :: "'s World \<Rightarrow> measurement list" where
  "stream_metrics w = filter of_stream (w_metrics w)"

lemma stream_metrics_tel: "stream_metrics (tel ms w) = stream_metrics w @ filter of_stream ms"
  by (simp add: stream_metrics_def)

lemma not_of_stream [simp]:
  "filter of_stream (JobCompleted r s x d) = []"
  "filter of_stream (HarnessEventReceived r ty) = []"
  "filter of_stream (MemoryCall r tool out d) = []"
  "filter of_stream (PermissionRequested r) = []"
  by (simp_all add: JobCompleted_def HarnessEventReceived_def MemoryCall_def PermissionRequested_def
      sample_def of_stream_def Let_def)

lemma of_stream_all [simp]:
  "filter of_stream (HarnessSession r d) = HarnessSession r d"
  "filter of_stream (SessionOpened r) = SessionOpened r"
  "filter of_stream (SessionClosed r) = SessionClosed r"
  by (simp_all add: HarnessSession_def SessionOpened_def SessionClosed_def sample_def of_stream_def)

lemma stream_metrics_frame [simp]:
  "stream_metrics (snd (now E w)) = stream_metrics w"
  "stream_metrics (snd (session_Send E s ev w)) = stream_metrics w"
  "stream_metrics (sendCancel E s w) = stream_metrics w"
  "stream_metrics (session_close s w) = stream_metrics w"
  "stream_metrics (w_unregister i s w) = stream_metrics w"
  "stream_metrics (snd (w_register i s w)) = stream_metrics w"
  "stream_metrics (open_session s w) = stream_metrics w"
  "stream_metrics (snd (snd (w_UpdateJob st i fn c w))) = stream_metrics w"
  "stream_metrics (snd (w_PutPermission st i p w)) = stream_metrics w"
  "stream_metrics (append_ev E h q ev2 w) = stream_metrics w"
  "stream_metrics (appendStatus E h i x t w) = stream_metrics w"
  by (simp_all add: stream_metrics_def append_ev_def appendStatus_def)

lemma stream_metrics_proto [simp]:
  "stream_metrics (appendProto E h p ev t w) = stream_metrics w"
  "stream_metrics (appendControl E h p ce t w) = stream_metrics w"
  by (simp_all add: appendProto_def appendControl_def split: sum.splits)

lemma stream_metrics_send [simp]:
  "stream_metrics (sendToolResult E h p r c e w) = stream_metrics w"
  "stream_metrics (sendSandboxTokenResponse E p ev tok x err reason w) = stream_metrics w"
  by (simp_all add: sendToolResult_def sendSandboxTokenResponse_def Let_def case_prod_unfold)

lemma stream_metrics_flush: "stream_metrics (snd (flushDeltas E h pw)) = stream_metrics (snd pw)"
  by (cases pw) (simp add: flushDeltas_def Let_def case_prod_unfold)

lemma stream_metrics_settle:
  "stream_metrics (finish E h p ev t w) = stream_metrics w"
  "stream_metrics (closeUnfinished E h p w) = stream_metrics w"
  "stream_metrics (failJob E h i reason w) = stream_metrics w"
  "stream_metrics (finaliseCancelled E h i w) = stream_metrics w"
  by (simp_all add: finish_def closeUnfinished_def failJob_def finaliseCancelled_def Let_def
      case_prod_unfold stream_metrics_tel split: sum.splits)

interpretation counted: pump_invariant E h "\<lambda>pw. stream_metrics (snd pw) = ms" for E h ms
proof (standard, goal_cases)
  case (5 p w ev t)
  then show ?case by (simp add: stream_metrics_flush)
next
  case (6 pw)
  then show ?case by (simp add: stream_metrics_flush)
next
  case (7 pw t)
  then show ?case by (cases pw) (simp add: maybeFlushLastEventAt_def)
next
  case (8 pw ev t)
  then show ?case by (cases pw) (simp add: putPermission_def stream_metrics_tel)
next
  case (10 pw ev)
  then show ?case
    by (cases pw) (simp add: handleSandboxTokenRequest_def Let_def split: option.splits sum.splits)
next
  case (11 pw ev)
  then show ?case
    by (cases pw) (simp add: fulfilToolResult_def Let_def stream_metrics_tel split: sum.splits)
next
  case (12 pw n)
  then show ?case by (cases pw) (simp add: start_call_def Let_def case_prod_unfold)
next
  case (13 pw n)
  then show ?case
    by (cases pw) (simp add: answer_call_def settle_call_def Let_def case_prod_unfold
        stream_metrics_tel split: option.splits answer.splits)
qed (simp_all add: stream_metrics_tel stream_metrics_settle)


section \<open>One disposition per connection\<close>

text \<open>The measurements a connection of disposition \<open>d\<close> takes of itself.\<close>

definition stream_record :: "bool \<Rightarrow> disposition \<Rightarrow> measurement list" where
  "stream_record r d =
     HarnessSession r d @ (if d = SessionAssigned then SessionOpened r @ SessionClosed r else [])"

definition counts :: "'s World \<Rightarrow> 's World \<Rightarrow> bool" where
  "counts w w' \<longleftrightarrow> stream_metrics w' = stream_metrics w"

lemma run_assigned_counts:
  assumes "gaps_do counts gap" and "others_do counts ins"
  shows "stream_metrics (run_assigned E h s i j cfg gap ins w) = stream_metrics w"
proof -
  have g: "stream_metrics (gap k v) = stream_metrics v" for k v
    using gaps_doD [OF assms(1), of v k] by (simp add: counts_def)
  have r: "stream_metrics (snd (run E h ins (p, v))) = stream_metrics v" for p v
    using counted.run_kept [of "(p, v)" "stream_metrics v" ins E h] others_doD [OF assms(2)]
    by (simp add: counts_def)
  have p: "stream_metrics (snd (pump E i s d v)) = stream_metrics v" for d v
    by (simp add: pump_def Let_def case_prod_unfold)
  show ?thesis
    by (simp add: run_assigned_def Let_def case_prod_unfold g r p split: sum.splits)
qed

lemma serve_claim_counts:
  assumes "gaps_do counts gap" and "others_do counts ins"
  shows "\<exists>d. stream_metrics (snd (serve_claim E h s i j gap ins w)) =
    stream_metrics w @ stream_record (h_tel h) d"
proof -
  have g: "stream_metrics (gap k v) = stream_metrics v" for k v
    using gaps_doD [OF assms(1), of v k] by (simp add: counts_def)
  show ?thesis
  proof (cases "parseRunConfig E (j_RunConfigJSON j)")
    case (Inl e)
    then show ?thesis
      by (intro exI [of _ SessionUnusableRunConfig])
         (simp add: serve_claim_def stream_metrics_settle stream_metrics_tel stream_record_def)
  next
    case (Inr cfg)
    obtain e w1 where x: "session_Send E s (task_assignment cfg) (gap 1 w) = (e, w1)"
      by (cases "session_Send E s (task_assignment cfg) (gap 1 w)")
    have w1: "stream_metrics w1 = stream_metrics w"
      using stream_metrics_frame(2) [of E s "task_assignment cfg" "gap 1 w", unfolded x snd_conv g] .
    show ?thesis
    proof (cases e)
      case None
      with w1 show ?thesis
        by (intro exI [of _ SessionAssigned])
           (simp add: serve_claim_def Inr x stream_metrics_tel run_assigned_counts [OF assms]
              stream_record_def del: One_nat_def)
    next
      case (Some err)
      with w1 show ?thesis
        by (intro exI [of _ SessionAssignmentFailed])
           (simp add: serve_claim_def Inr x stream_metrics_tel stream_metrics_settle
              stream_record_def del: One_nat_def)
    qed
  qed
qed

lemma claim_counts:
  assumes "gaps_do counts gap" and "others_do counts ins"
  shows "\<exists>d. stream_metrics (snd (claim E h s i j gap ins w)) =
    stream_metrics w @ stream_record (h_tel h) d"
proof -
  obtain e w1 where r: "w_register i s (open_session s w) = (e, w1)"
    by (cases "w_register i s (open_session s w)")
  have w1: "stream_metrics w1 = stream_metrics w"
    using stream_metrics_frame(6) [of i s "open_session s w", unfolded r snd_conv] by simp
  show ?thesis
  proof (cases e)
    case None
    with serve_claim_counts [OF assms, of E h s i j w1] w1 r show ?thesis
      by (simp add: claim_def case_prod_unfold Let_def)
  next
    case (Some err)
    with w1 r show ?thesis
      by (intro exI [of _ SessionDuplicate])
         (simp add: claim_def stream_metrics_tel stream_record_def)
  qed
qed

lemma runTask_counts:
  assumes "gaps_do counts gap" and "others_do counts ins"
  shows "\<exists>d. stream_metrics (snd (runTask E h s first gap ins w)) =
    stream_metrics w @ stream_record (h_tel h) d"
proof (cases "admitted h first w")
  case None
  from runTask_refused [OF this, of E s gap ins] obtain d where "d \<noteq> SessionAssigned"
    and "runTask E h s first gap ins w = (None, tel (HarnessSession (h_tel h) d) w) \<or>
         runTask E h s first gap ins w = (None, sendCancel E s (tel (HarnessSession (h_tel h) d) w))"
    by blast
  then show ?thesis
    by (intro exI [of _ d]) (auto simp: stream_metrics_tel stream_record_def)
next
  case (Some ij)
  obtain i j where "ij = (i, j)" by (cases ij)
  with Some have a: "admitted h first w = Some (i, j)" by simp
  have g: "stream_metrics (gap 0 w) = stream_metrics w"
    using gaps_doD [OF assms(1), of w 0] by (simp add: counts_def)
  show ?thesis
  proof (cases "Terminal (j_Status j) \<or> j_CancelRequested j")
    case True
    then show ?thesis
      by (intro exI [of _ SessionClosedJob])
         (simp add: runTask_admitted [OF a] Let_def stream_metrics_tel stream_metrics_settle
            stream_record_def)
  next
    case False
    with claim_counts [OF assms, of E h s i j "gap 0 w"] g show ?thesis
      by (simp add: runTask_admitted [OF a])
  qed
qed

section \<open>Release of the registry\<close>

lemma unregister_gone: "map_of (Unregister i s r) i \<noteq> Some s"
  by (simp add: Unregister_def map_of_filter_key)

text \<open>
  When a claim ends the registry does not name this stream for the job, and no
  control event can be written through its session any more.
\<close>

lemma claim_released:
  assumes "map_of (w_reg w) i \<noteq> Some s"
  shows "map_of (w_reg (snd (claim E h s i j gap ins w))) i \<noteq> Some s"
proof (cases "map_of (w_reg w) i")
  case None
  then have r: "w_register i s (open_session s w) = (None, (open_session s w)\<lparr>w_reg := (i, s) # w_reg w\<rparr>)"
    by (simp add: w_register_def Register_def)
  show ?thesis
    by (simp add: claim_def r Let_def case_prod_unfold w_unregister_def unregister_gone)
next
  case (Some x)
  then have r: "w_register i s (open_session s w) =
      (Some (Sentinel ErrAlreadyConnected), (open_session s w)\<lparr>w_reg := w_reg w\<rparr>)"
    by (simp add: w_register_def Register_def)
  show ?thesis using assms by (simp add: claim_def r)
qed

end
