(* ===== verification/PumpSpec.thy ===== *)
theory PumpSpec
  imports PumpRun
begin

text \<open>
  What the pump answers: sandbox token requests and the results of memory calls.
\<close>

section \<open>Sandbox tokens\<close>

definition token_granted :: "'s Handler \<Rightarrow> eventPump \<Rightarrow> nat \<Rightarrow> string \<Rightarrow> bool" where
  "token_granted h p n token \<longleftrightarrow>
     (\<exists>iss x. h_issuer h = Some iss \<and> ep_sandboxIdentityDeclared p \<and>
        ep_sandboxTokens p < maxSandboxTokenRequests \<and>
        iss_Mint iss n (ep_jobID p) (ep_repoScope p) = Inr (token, x))"

lemma sendSandbox_sent:
  "\<exists>new. w_sent (sendSandboxTokenResponse E p ev tok x err reason w) = (w_sent w)(ep_sess p := w_sent w (ep_sess p) @ new) \<and>
    length new \<le> 1 \<and>
    (\<forall>(ce, b) \<in> set new. ce_RequestId ce = he_RequestId ev \<and> ce_Token ce = tok \<and> ce_IsError ce = Some err)"
proof (cases "w_closed w (ep_sess p)")
  case True
  then show ?thesis by (intro exI [of _ "[]"]) (simp add: sendSandboxTokenResponse_def Let_def session_Send_def)
next
  case False
  define resp where "resp = (let r = (control_event ctlSandboxTokenResponse)
      \<lparr>ce_RequestId := he_RequestId ev, ce_Token := tok, ce_IsError := Some err, ce_Reason := reason\<rparr>
    in if \<not> err \<and> \<not> IsZero x then r\<lparr>ce_ExpiresAt := Some (Unix x)\<rparr> else r)"
  have "w_sent (sendSandboxTokenResponse E p ev tok x err reason w) = (w_sent w)(ep_sess p :=
      w_sent w (ep_sess p) @ [(resp, env_wire E (ep_sess p) (length (w_sent w (ep_sess p))) = None)])"
    using False unfolding sendSandboxTokenResponse_def Let_def resp_def
    by (simp add: session_Send_def stream_Send_def Let_def)
  moreover have "ce_RequestId resp = he_RequestId ev \<and> ce_Token resp = tok \<and> ce_IsError resp = Some err"
    by (simp add: resp_def Let_def)
  ultimately show ?thesis
    by (intro exI [of _ "[(resp, env_wire E (ep_sess p) (length (w_sent w (ep_sess p))) = None)]"]) simp
qed

lemma sandbox_answer:
  assumes "handleSandboxTokenRequest E h ev (p, w) = (p', w')"
  shows "w_store w' = w_store w \<and>
    (\<exists>new. w_sent w' = (w_sent w)(ep_sess p := w_sent w (ep_sess p) @ new) \<and> length new \<le> 1 \<and>
      (\<forall>(ce, b) \<in> set new. ce_RequestId ce = he_RequestId ev \<and>
         (ce_Token ce \<noteq> [] \<longrightarrow> ce_IsError ce = Some False) \<and>
         (ce_IsError ce = Some False \<longrightarrow>
            token_granted h p (w_reads w) (ce_Token ce) \<and> ep_sandboxTokens p' = ep_sandboxTokens p + 1)))"
proof -
  have st: "w_store (sendSandboxTokenResponse E q ev tok x err reason w) = w_store w" for q tok x err reason
    by (simp add: sendSandboxTokenResponse_def Let_def)
  have refuse: ?thesis
    if wq: "w' = sendSandboxTokenResponse E q ev [] x True reason w" and sq: "ep_sess q = ep_sess p"
    for q x reason
  proof -
    from sendSandbox_sent [of E q ev "[]" x True reason w] obtain new where
      "w_sent w' = (w_sent w)(ep_sess p := w_sent w (ep_sess p) @ new)" "length new \<le> 1"
      "\<forall>(ce, b) \<in> set new. ce_RequestId ce = he_RequestId ev \<and> ce_Token ce = [] \<and> ce_IsError ce = Some True"
      unfolding wq sq by blast
    then show ?thesis using st wq by (intro conjI exI [of _ new]) auto
  qed
  show ?thesis
  proof (cases "maxRequestIDBytes < length (he_RequestId ev)")
    case True
    with assms have "w' = w" by (simp add: handleSandboxTokenRequest_def)
    then show ?thesis by (intro conjI exI [of _ "[]"]) simp_all
  next
    case short: False
    show ?thesis
    proof (cases "h_issuer h")
      case None
      with assms short have "w' = sendSandboxTokenResponse E p ev [] 0 True sandboxTokenRefusal w"
        by (auto simp: handleSandboxTokenRequest_def)
      then show ?thesis by (rule refuse) simp
    next
      case (Some iss)
      show ?thesis
      proof (cases "\<not> ep_sandboxIdentityDeclared p \<or> maxSandboxTokenRequests \<le> ep_sandboxTokens p")
        case True
        with assms short Some have "w' = sendSandboxTokenResponse E p ev [] 0 True
            (if \<not> ep_sandboxIdentityDeclared p then sandboxTokenUndeclaredRefusal
             else sandboxTokenLimitRefusal) w"
          by (auto simp: handleSandboxTokenRequest_def)
        then show ?thesis by (rule refuse) simp
      next
        case ok: False
        let ?q = "p\<lparr>ep_sandboxTokens := ep_sandboxTokens p + 1\<rparr>"
        show ?thesis
        proof (cases "iss_Mint iss (w_reads w) (ep_jobID p) (ep_repoScope p)")
          case (Inl e)
          with assms short Some ok have
            "w' = sendSandboxTokenResponse E ?q ev [] 0 True sandboxTokenIssuanceFailure w"
            by (auto simp: handleSandboxTokenRequest_def Let_def)
          then show ?thesis by (rule refuse) simp
        next
          case (Inr tx)
          obtain tok x where tx: "tx = (tok, x)" by (cases tx)
          have p': "p' = ?q" and w': "w' = sendSandboxTokenResponse E ?q ev tok x False [] w"
            using assms short Some ok Inr tx by (auto simp: handleSandboxTokenRequest_def Let_def)
          have "token_granted h p (w_reads w) tok"
            using Some ok Inr tx by (auto simp: token_granted_def not_le)
          moreover from sendSandbox_sent [of E ?q ev tok x False "[]" w] obtain new where
            "w_sent w' = (w_sent w)(ep_sess p := w_sent w (ep_sess p) @ new)" "length new \<le> 1"
            "\<forall>(ce, b) \<in> set new. ce_RequestId ce = he_RequestId ev \<and> ce_Token ce = tok \<and>
               ce_IsError ce = Some False"
            unfolding w' by auto
          ultimately show ?thesis using st p' w' by (intro conjI exI [of _ new]) auto
        qed
      qed
    qed
  qed
qed

section \<open>Answers of memory calls\<close>

definition tool_result :: "string \<Rightarrow> string \<Rightarrow> bool \<Rightarrow> ControlEvent" where
  "tool_result rid content err =
     (control_event ctlToolResultResponse)
       \<lparr>ce_RequestId := rid, ce_Content := content, ce_IsError := Some err\<rparr>"

lemma mem_append_last:
  assumes "h_store h = memStore_ops" and "mem_ok (w_store w)" and "ms_jobs (w_store w) (ep_jobID p) \<noteq> None"
  shows "\<exists>e. ms_events (w_store (append_ev E h p ev w)) (ep_jobID p) \<noteq> [] \<and>
    last (ms_events (w_store (append_ev E h p ev w)) (ep_jobID p)) = e \<and>
    e_Type e = e_Type ev \<and> e_PayloadJSON e = e_PayloadJSON ev"
proof -
  have pos: "0 < ms_maxLen (w_store w)" using assms(2) by (simp add: mem_ok_def)
  obtain j where j: "ms_jobs (w_store w) (ep_jobID p) = Some j" using assms(3) by blast
  have *: "\<exists>e. evs \<noteq> [] \<and> last evs = e \<and> e_Type e = e_Type ev \<and> e_PayloadJSON e = e_PayloadJSON ev"
    if "evs = keep_last (ms_maxLen (w_store w)) (xs @ [stamp t q ev])" for evs xs t q
    using keep_last_snoc [OF pos, of xs "stamp t q ev"] that by (auto simp: stamp_def Let_def)
  show ?thesis
    using * j
    by (auto simp: append_ev_def assms(1) w_AppendEvent_def mem_AppendEvent_def Let_def now_def)
qed

lemma sendToolResult_effect:
  assumes "h_store h = memStore_ops" and "mem_ok (w_store w)" and "ms_jobs (w_store w) (ep_jobID p) \<noteq> None"
    and "env_marshal_control E (tool_result rid content err) = Inr payload"
  shows "\<exists>e b. ms_events (w_store (sendToolResult E h p rid content err w)) (ep_jobID p) \<noteq> [] \<and>
    last (ms_events (w_store (sendToolResult E h p rid content err w)) (ep_jobID p)) = e \<and>
    e_Type e = ctlToolResultResponse \<and> e_PayloadJSON e = payload \<and>
    w_sent (sendToolResult E h p rid content err w) (ep_sess p) =
      w_sent w (ep_sess p) @ (if w_closed w (ep_sess p) then [] else [(tool_result rid content err, b)])"
proof -
  let ?w1 = "snd (session_Send E (ep_sess p) (tool_result rid content err) w)"
  let ?ev = "\<lparr>e_ID = [], e_Type = ctlToolResultResponse, e_PayloadJSON = payload, e_At = fst (now E ?w1)\<rparr>"
  have eq: "sendToolResult E h p rid content err w = append_ev E h p ?ev (snd (now E ?w1))"
    using assms(4)
    by (simp add: sendToolResult_def Let_def case_prod_unfold appendControl_def tool_result_def)
  have "w_sent ?w1 (ep_sess p) =
      w_sent w (ep_sess p) @ (if w_closed w (ep_sess p) then []
        else [(tool_result rid content err, env_wire E (ep_sess p) (length (w_sent w (ep_sess p))) = None)])"
    by (simp add: session_Send_def stream_Send_def Let_def)
  moreover have "w_sent (append_ev E h p ?ev (snd (now E ?w1))) = w_sent ?w1"
    by (simp add: append_ev_def)
  moreover have "mem_ok (w_store (snd (now E ?w1)))" "ms_jobs (w_store (snd (now E ?w1))) (ep_jobID p) \<noteq> None"
    using assms(2,3) by simp_all
  note mem_append_last [OF assms(1) this, of E ?ev]
  ultimately show ?thesis unfolding eq by auto
qed

end
