(* ===== verification/RunConfigs.thy ===== *)
theory RunConfigs
  imports Harness Memory "HOL-Library.Char_ord" "HOL-Library.List_Lexorder"
begin

text \<open>
  The checks and defaults applied to a submitted run configuration:
  \<open>src/internal/service/executor.go\<close>, \<open>tools.go\<close>, \<open>traceemitter.go\<close>,
  \<open>profiles.go\<close>, the validators of \<open>submit.go\<close>, and \<open>ExecutorDefaults\<close> of
  \<open>src/internal/config/config.go\<close>. All of it is pure.
\<close>

text \<open>The error of a rejected argument.\<close>

definition invalid :: "string \<Rightarrow> string list \<Rightarrow> goerror" where
  "invalid fmt args = Errorf (fmt @ '': %w'') args (Some (Sentinel ErrInvalidArgument))"

lemma invalid_Is [simp]: "errors_Is (invalid f as) s \<longleftrightarrow> s = ErrInvalidArgument"
  by (auto simp: invalid_def)

section \<open>Executors\<close>

record ExecutorDefaults =
  ed_Image :: string
  ed_Namespace :: string
  ed_ServiceAccount :: string
  ed_Runtime :: string

definition isK8sExecutor :: "string \<Rightarrow> bool" where
  "isK8sExecutor t \<longleftrightarrow> t = ''k8s'' \<or> t = ''k8s-sandbox''"

definition validK8sRuntime :: "string \<Rightarrow> bool" where
  "validK8sRuntime r \<longleftrightarrow>
     r \<in> set [''runc'', ''gvisor'', ''kata-qemu'', ''kata-fc'', ''kata-clh'']"

definition applyExecutorDefaults :: "RunConfig \<Rightarrow> ExecutorDefaults \<Rightarrow> RunConfig" where
  "applyExecutorDefaults cfg d =
     (case rc_Executor cfg of
        None \<Rightarrow> cfg
      | Some ex \<Rightarrow>
          if \<not> isK8sExecutor (ex_Type ex) then cfg
          else
            let e1 = (if ex_Image ex = [] then ex\<lparr>ex_Image := ed_Image d\<rparr> else ex);
                e2 = (if ex_K8SNamespace e1 = [] then e1\<lparr>ex_K8SNamespace := ed_Namespace d\<rparr> else e1);
                e3 = (if ex_K8SServiceAccount e2 = []
                      then e2\<lparr>ex_K8SServiceAccount := ed_ServiceAccount d\<rparr> else e2);
                e4 = (if ex_Runtime e3 = [] then e3\<lparr>ex_Runtime := ed_Runtime d\<rparr> else e3)
            in cfg\<lparr>rc_Executor := Some e4\<rparr>)"

definition applyTraceEmitterDefault :: "RunConfig \<Rightarrow> string \<Rightarrow> RunConfig" where
  "applyTraceEmitterDefault cfg endpoint =
     (if endpoint = [] \<or> rc_TraceEmitter cfg \<noteq> None then cfg
      else cfg\<lparr>rc_TraceEmitter :=
                 Some \<lparr>te_Type = ''otel'', te_Endpoint = endpoint, te_other = []\<rparr>\<rparr>)"

text \<open>\<open>None\<close> is a nil error.\<close>

definition validateExecutor :: "ExecutorConfig \<Rightarrow> goerror option" where
  \<open>validateExecutor ex =
     (if \<not> isK8sExecutor (ex_Type ex) then None
      else
        let kind = ex_Type ex; runtime = ex_Runtime ex in
        if ex_Image ex = [] then
          Some (invalid ''executor.image is required for executor.type=%q and no sandbox image default is configured'' [kind])
        else if ex_K8SNamespace ex = [] then
          Some (invalid ''executor.k8sNamespace is required for executor.type=%q and no sandbox namespace default is configured'' [kind])
        else if ex_Workspace ex \<noteq> [] then
          Some (invalid ''executor.workspace is not valid for executor.type=%q (the Pod workspace is fixed at /workspace)'' [kind])
        else if kind = ''k8s-sandbox'' \<and> runtime \<noteq> [] \<and> runtime \<noteq> ''gvisor'' then
          Some (invalid ''executor.runtime must be %q or empty for executor.type=%q, got %q''
                  [''gvisor'', kind, runtime])
        else if kind \<noteq> ''k8s-sandbox'' \<and> runtime \<noteq> [] \<and> \<not> validK8sRuntime runtime then
          Some (invalid ''unsupported executor.runtime %q for executor.type=%q'' [runtime, kind])
        else case ex_Network ex of
          None \<Rightarrow>
            Some (invalid ''executor.network is required for executor.type=%q (set mode to "none" or "allowlist")'' [kind])
        | Some nw \<Rightarrow>
            if nw_Mode nw = ''allowlist'' then
              (if ex_K8SEgressProxyUrl ex = [] then
                 Some (invalid ''executor.k8sEgressProxyUrl is required when executor.network.mode is "allowlist"'' [])
               else None)
            else if nw_Mode nw = ''none'' then
              (if ex_K8SEgressProxyUrl ex \<noteq> [] then
                 Some (invalid ''executor.k8sEgressProxyUrl is only valid when executor.network.mode is "allowlist"'' [])
               else None)
            else
              Some (invalid ''executor.network.mode must be "none" or "allowlist", got %q'' [nw_Mode nw]))\<close>

section \<open>Control-plane tools\<close>

text \<open>\<open>time.Duration(secs) * time.Second\<close>, an \<open>int64\<close> product.\<close>

fun validateControlPlaneTools :: "ControlPlaneToolConfig list \<Rightarrow> bool \<Rightarrow> goerror option" where
  "validateControlPlaneTools [] memoryEnabled = None"
| "validateControlPlaneTools (t # ts) memoryEnabled =
     (if \<not> IsMemoryTool (ct_Name t) then
        Some (invalid ''hairpin does not fulfil control-plane tool %q; only %s and %s are supported''
                [ct_Name t, ToolSearch, ToolSave])
      else if \<not> memoryEnabled then
        Some (invalid ''control-plane tool %q needs a memory backend, but hairpin was started without -billet-addr''
                [ct_Name t])
      else if ct_TimeoutSeconds t \<noteq> 0 \<and> wrap64 (ct_TimeoutSeconds t * Second) < CallTimeout then
        Some (Errorf (''control-plane tool %q sets timeoutSeconds=%d, shorter than hairpin'' @ [CHR 0x27] @
                      ''s %s memory call timeout: %w'')
                [ct_Name t, itoa (ct_TimeoutSeconds t), ''10s''] (Some (Sentinel ErrInvalidArgument)))
      else validateControlPlaneTools ts memoryEnabled)"

section \<open>The run configuration\<close>

definition validateRunConfig :: "RunConfig \<Rightarrow> goerror option" where
  "validateRunConfig cfg =
     (if rc_Prompt cfg = [] then Some (invalid ''prompt is required'' [])
      else if rc_Mode cfg = [] then
        Some (invalid ''run config mode is required (execution, planning, review, research, toil)'' [])
      else if GetProviderType (rc_Provider cfg) = [] \<and> rc_Providers cfg = [] then
        Some (invalid ''run config needs provider.type or a providers map'' [])
      else if rc_MaxTurns cfg < 1 \<or> 100 < rc_MaxTurns cfg then
        Some (invalid ''run config max_turns must be 1-100, got %d'' [itoa (rc_MaxTurns cfg)])
      else if rc_Timeout cfg = None then Some (invalid ''run config timeout is required'' [])
      else if GetTimeout cfg < 1 \<or> 3600 < GetTimeout cfg then
        Some (invalid ''run config timeout must be 1-3600 seconds, got %d'' [itoa (GetTimeout cfg)])
      else case rc_Executor cfg of
        None \<Rightarrow>
          Some (invalid ''run config executor.type is required (local, container, k8s, k8s-sandbox, api, none)'' [])
      | Some ex \<Rightarrow>
          if ex_Type ex = [] then
            Some (invalid ''run config executor.type is required (local, container, k8s, k8s-sandbox, api, none)'' [])
          else validateExecutor ex)"

section \<open>Repository scopes\<close>

definition maxRepoScopeEntries :: nat where "maxRepoScopeEntries = 32"
definition maxRepoScopeEntryBytes :: nat where "maxRepoScopeEntryBytes = 256"

text \<open>
  The code points a \<open>range\<close> over a string yields: a malformed byte gives
  U+FFFD and advances by one.
\<close>

definition rune_at :: "string \<Rightarrow> nat" where
  "rune_at s =
     (let n = utf8_len s; b = (\<lambda>k. of_char (s ! k) :: nat) in
      if n = 0 then 65533
      else if n = 1 then b 0
      else if n = 2 then (b 0 - 192) * 64 + (b 1 - 128)
      else if n = 3 then (b 0 - 224) * 4096 + (b 1 - 128) * 64 + (b 2 - 128)
      else (b 0 - 240) * 262144 + (b 1 - 128) * 4096 + (b 2 - 128) * 64 + (b 3 - 128))"

function runes :: "string \<Rightarrow> nat list" where
  "runes s = (if s = [] then [] else rune_at s # runes (drop (max 1 (utf8_len s)) s))"
  by pat_completeness auto
termination
  by (relation "measure length") auto

declare runes.simps [simp del]

text \<open>
  \<open>unicode.IsSpace\<close> and \<open>unicode.IsPrint\<close>. Above Latin-1 the latter is a lookup
  in the tables of the Unicode standard, the argument \<open>tbl\<close>.
\<close>

definition unicode_IsSpace :: "nat \<Rightarrow> bool" where
  "unicode_IsSpace r \<longleftrightarrow>
     (if r \<le> 255 then r \<in> {9, 10, 11, 12, 13, 32, 133, 160}
      else r \<in> {5760, 8232, 8233, 8239, 8287, 12288} \<or> 8192 \<le> r \<and> r \<le> 8202)"

definition unicode_IsPrint :: "(nat \<Rightarrow> bool) \<Rightarrow> nat \<Rightarrow> bool" where
  "unicode_IsPrint tbl r \<longleftrightarrow>
     (if r \<le> 255 then 32 \<le> r \<and> r \<le> 126 \<or> 161 \<le> r \<and> r \<noteq> 173 else tbl r)"

definition scope_entry_error :: "(nat \<Rightarrow> bool) \<Rightarrow> string \<Rightarrow> goerror option" where
  "scope_entry_error tbl entry =
     (if entry = [] then Some (invalid ''repo_scope entries must not be empty'' [])
      else if maxRepoScopeEntryBytes < length entry then
        Some (invalid ''repo_scope entry of %d bytes exceeds the %d byte limit''
                [utoa (length entry), utoa maxRepoScopeEntryBytes])
      else if list_ex (\<lambda>r. unicode_IsSpace r \<or> \<not> unicode_IsPrint tbl r) (runes entry) then
        Some (invalid ''repo_scope entry %q must not contain whitespace or control characters'' [entry])
      else None)"

fun first_error :: "goerror option list \<Rightarrow> goerror option" where
  "first_error [] = None"
| "first_error (None # es) = first_error es"
| "first_error (Some e # es) = Some e"

definition validateRepoScope :: "(nat \<Rightarrow> bool) \<Rightarrow> string list \<Rightarrow> goerror option" where
  "validateRepoScope tbl scope =
     (if maxRepoScopeEntries < length scope then
        Some (invalid ''repo_scope has %d entries, max %d''
                [utoa (length scope), utoa maxRepoScopeEntries])
      else first_error (map (scope_entry_error tbl) scope))"

section \<open>Profiles\<close>

text \<open>The templates are a Go map: an association list with distinct names.\<close>

record Profiles =
  pr_templates :: "(string \<times> RunConfig) list"
  pr_def :: string

definition NewProfiles :: "(string \<times> RunConfig) list \<Rightarrow> string \<Rightarrow> Profiles result" where
  "NewProfiles templates defaultProfile =
     (if templates = [] then Inr \<lparr>pr_templates = [], pr_def = []\<rparr>
      else if defaultProfile \<noteq> [] \<and> map_of templates defaultProfile = None then
        Inl (Errorf ''default profile %q is not among the %d loaded profiles''
               [defaultProfile, utoa (length templates)] None)
      else Inr \<lparr>pr_templates = templates, pr_def = defaultProfile\<rparr>)"

definition profile_Names :: "Profiles \<Rightarrow> string list" where
  "profile_Names p = sort (map fst (pr_templates p))"

definition profile_Get :: "Profiles \<Rightarrow> string \<Rightarrow> RunConfig option" where
  "profile_Get p name = map_of (pr_templates p) name"

text \<open>The \<open>%v\<close> of a string slice.\<close>

definition slice_text :: "string list \<Rightarrow> string" where
  "slice_text xs = ''['' @ intersperse '' '' xs @ '']''"

section \<open>What the checks establish\<close>

lemma first_error_None: "first_error es = None \<longleftrightarrow> set es \<subseteq> {None}"
  by (induction es rule: first_error.induct) auto

lemma validateControlPlaneTools_None:
  "validateControlPlaneTools ts m = None \<longleftrightarrow>
     (\<forall>t \<in> set ts. IsMemoryTool (ct_Name t) \<and> m \<and>
        (ct_TimeoutSeconds t = 0 \<or> CallTimeout \<le> wrap64 (ct_TimeoutSeconds t * Second)))"
  by (induction ts) (auto simp: not_less)

lemma wrap64_small: "- (2 ^ 63) \<le> x \<Longrightarrow> x < 2 ^ 63 \<Longrightarrow> wrap64 x = x"
  by (simp add: wrap64_def)

text \<open>No overflow on an \<open>int32\<close> number of seconds.\<close>

lemma tool_timeout_no_overflow:
  assumes "- (2 ^ 31) \<le> s" and "s < 2 ^ 31"
  shows "wrap64 (s * Second) = s * Second"
  using assms by (intro wrap64_small) (simp_all add: Second_def Millisecond_def)

lemma applyExecutorDefaults_idem:
  "applyExecutorDefaults (applyExecutorDefaults cfg d) d = applyExecutorDefaults cfg d"
  by (cases "rc_Executor cfg") (simp_all add: applyExecutorDefaults_def Let_def)

end
