(* ===== verification/Service.thy ===== *)
theory Service
  imports World RunConfigs
begin

text \<open>
  The caller-facing operations of \<open>src/internal/service/service.go\<close> and
  \<open>submit.go\<close>: submission with the background launch, inspection, cancellation
  and the answering of permission requests.

  The launcher, the tables of the Unicode standard, the random material and the
  trace context of a submission are arguments. \<open>gap k\<close> is what the rest of the
  program does between two shared operations of a call, as in theory
  \<open>RunTask\<close>. A clock reading made inside an update function is taken just
  before the update.
\<close>

section \<open>The service\<close>

record 's Service =
  svc_store :: "'s Store"
  svc_launcher :: "nat \<Rightarrow> Job \<Rightarrow> goerror option"
  svc_profiles :: Profiles
  svc_executorDefaults :: ExecutorDefaults
  svc_traceEndpoint :: string
  svc_memoryTools :: bool
  svc_tel :: bool
  svc_print_table :: "nat \<Rightarrow> bool"

definition EventTypeStatusChange :: string where
  "EventTypeStatusChange = ''status_change''"

definition checkID :: "string \<Rightarrow> goerror option" where
  "checkID i = (if \<not> ValidID i then Some (invalid ''malformed job id %q'' [i]) else None)"

definition svc_Get :: "'s Service \<Rightarrow> string \<Rightarrow> 's World \<Rightarrow> Job result" where
  "svc_Get sv i w =
     (case checkID i of Some e \<Rightarrow> Inl e | None \<Rightarrow> s_GetJob (svc_store sv) i (w_store w))"

definition svc_List :: "'s Service \<Rightarrow> int \<Rightarrow> string \<Rightarrow> 's World \<Rightarrow> (Job list \<times> string) result" where
  "svc_List sv limit pageToken w = s_ListJobs (svc_store sv) limit pageToken (w_store w)"

definition svc_ListPermissions :: "'s Service \<Rightarrow> string \<Rightarrow> 's World \<Rightarrow> PermissionRequest list result" where
  "svc_ListPermissions sv i w =
     (case checkID i of Some e \<Rightarrow> Inl e | None \<Rightarrow> s_ListPermissions (svc_store sv) i (w_store w))"

section \<open>Status events\<close>

text \<open>\<open>json.Marshal\<close> of \<open>statusPayload\<close>: the error is omitted when empty.\<close>

definition statusPayload :: "Status \<Rightarrow> string \<Rightarrow> string" where
  \<open>statusPayload status errText =
     ''{"status":'' @ json_string (status_string status) @
     (if errText = [] then [] else '',"error":'' @ json_string errText) @ ''}''\<close>

definition appendStatusEvent ::
  "env \<Rightarrow> 's Store \<Rightarrow> string \<Rightarrow> Status \<Rightarrow> string \<Rightarrow> 's World \<Rightarrow> 's World" where
  "appendStatusEvent E st i status errText w =
     (let (t, w1) = now E w
      in snd (w_AppendEvent E st i
                \<lparr>e_ID = [], e_Type = EventTypeStatusChange,
                 e_PayloadJSON = statusPayload status errText, e_At = t\<rparr> w1))"

section \<open>Cancellation\<close>

definition fn_cancelRequested :: update_fn where
  "fn_cancelRequested j c = (Inr (j\<lparr>j_CancelRequested := True\<rparr>), c)"

definition fn_cancelUnassigned :: "gotime \<Rightarrow> update_fn" where
  "fn_cancelUnassigned t j c =
     (if Terminal (j_Status j) then (Inr j, c)
      else (Inr (j\<lparr>j_Status := StatusCancelled, j_CancelRequested := True, j_FinishedAt := t\<rparr>),
            c\<lparr>c_moved := True\<rparr>))"

definition cancelUnassigned :: "env \<Rightarrow> 's Service \<Rightarrow> string \<Rightarrow> 's World \<Rightarrow> Job result \<times> 's World" where
  "cancelUnassigned E sv i w =
     (let (t, w1) = now E w;
          (r, c, w2) = w_UpdateJob (svc_store sv) i (fn_cancelUnassigned t) no_capture w1
      in case r of
           Inl e \<Rightarrow> (Inl e, w2)
         | Inr j \<Rightarrow>
             (Inr j,
              if c_moved c
              then tel (JobCompleted (svc_tel sv) StatusCancelled ''cancelled'' 0)
                     (appendStatusEvent E (svc_store sv) i StatusCancelled [] w2)
              else w2))"

definition Cancel ::
  "env \<Rightarrow> 's Service \<Rightarrow> (nat \<Rightarrow> 's World \<Rightarrow> 's World) \<Rightarrow> string \<Rightarrow> 's World \<Rightarrow>
   Job result \<times> 's World" where
  "Cancel E sv gap i w =
     (case checkID i of
        Some e \<Rightarrow> (Inl e, w)
      | None \<Rightarrow>
          (case s_GetJob (svc_store sv) i (w_store w) of
             Inl e \<Rightarrow> (Inl e, w)
           | Inr j \<Rightarrow>
               if Terminal (j_Status j) then (Inr j, w)
               else
                 let w0 = gap 0 w
                 in if Connected (w_reg w0) i then
                      (let (r, c, w1) = w_UpdateJob (svc_store sv) i fn_cancelRequested no_capture (gap 1 w0)
                       in case r of
                            Inl e \<Rightarrow> (Inl e, w1)
                          | Inr j1 \<Rightarrow>
                              (let (se, w2) = registry_Send E i (control_event ''cancel'') (gap 2 w1)
                               in case se of
                                    None \<Rightarrow> (Inr j1, w2)
                                  | Some e \<Rightarrow>
                                      if errors_Is e ErrNotConnected then
                                        cancelUnassigned E sv i (gap 3 w2)
                                      else
                                        (Inl (Errorf ''send cancel to job %s: %w'' [i] (Some e)), w2)))
                    else cancelUnassigned E sv i w0))"

section \<open>Permission requests\<close>

definition permission_response :: "string \<Rightarrow> bool \<Rightarrow> string \<Rightarrow> ControlEvent" where
  "permission_response requestID allow reason =
     (control_event ''permission_response'')
       \<lparr>ce_RequestId := requestID, ce_Allowed := Some allow, ce_Reason := reason\<rparr>"

definition answered :: "PermissionRequest \<Rightarrow> bool \<Rightarrow> string \<Rightarrow> gotime \<Rightarrow> PermissionRequest" where
  "answered p allow reason t =
     p\<lparr>p_State := (if \<not> allow then PermissionDenied else PermissionAllowed),
       p_Reason := reason, p_AnsweredAt := t\<rparr>"

definition AnswerPermission ::
  "env \<Rightarrow> 's Service \<Rightarrow> (nat \<Rightarrow> 's World \<Rightarrow> 's World) \<Rightarrow> string \<Rightarrow> string \<Rightarrow> bool \<Rightarrow> string \<Rightarrow> 's World \<Rightarrow>
   PermissionRequest result \<times> 's World" where
  "AnswerPermission E sv gap i requestID allow reason w =
     (case checkID i of
        Some e \<Rightarrow> (Inl e, w)
      | None \<Rightarrow>
          (case s_GetPermission (svc_store sv) i requestID (w_store w) of
             Inl e \<Rightarrow> (Inl e, w)
           | Inr p \<Rightarrow>
               if p_State p \<noteq> PermissionPending then
                 (Inl (invalid ''permission %s is already %s''
                         [requestID, permission_state_string (p_State p)]), w)
               else
                 let (t, w1) = now E (gap 0 w);
                     a = answered p allow reason t;
                     (r, w2) = w_PutPermission (svc_store sv) i a w1
                 in case r of
                      Inl e \<Rightarrow> (Inl e, w2)
                    | Inr _ \<Rightarrow>
                        (let (se, w3) = registry_Send E i (permission_response requestID allow reason) (gap 1 w2);
                             w4 = tel (PermissionAnswered (svc_tel sv) allow (se = None)) w3
                         in case se of
                              None \<Rightarrow> (Inr a, w4)
                            | Some e \<Rightarrow>
                                (let w5 = snd (w_PutPermission (svc_store sv) i p (gap 2 w4))
                                 in if errors_Is e ErrNotConnected then
                                      (Inl (Errorf ''job %s has no live harness to answer permission %s: %w''
                                              [i, requestID] (Some (Sentinel ErrNotConnected))), w5)
                                    else
                                      (Inl (Errorf ''send permission response for job %s: %w'' [i] (Some e)),
                                       w5)))))"

section \<open>Submission\<close>

record SubmitParams =
  sp_Prompt :: string
  sp_Profile :: string
  sp_RunConfigJSON :: string
  sp_RepoScope :: "string list"

text \<open>The random material and the trace context of one submission.\<close>

record submit_input =
  su_ulid :: string
  su_token :: "nat list"
  su_traceparent :: string

definition resolveConfig :: "env \<Rightarrow> 's Service \<Rightarrow> SubmitParams \<Rightarrow> (RunConfig \<times> string) result" where
  "resolveConfig E sv p =
     (if sp_RunConfigJSON p \<noteq> [] then
        if sp_Profile p \<noteq> [] then
          Inl (invalid ''profile and run_config_json are mutually exclusive'' [])
        else
          (case env_parse_config E (sp_RunConfigJSON p) of
             Inl err \<Rightarrow> Inl (invalid ''parse run_config_json: %v'' [Error err])
           | Inr cfg \<Rightarrow> Inr (cfg, []))
      else
        let name = (if sp_Profile p = [] then pr_def (svc_profiles sv) else sp_Profile p)
        in if name = [] then
             Inl (invalid ''no profile given and no default profile configured; supply run_config_json'' [])
           else
             (case profile_Get (svc_profiles sv) name of
                None \<Rightarrow>
                  Inl (invalid ''unknown profile %q (have %v)''
                         [name, slice_text (profile_Names (svc_profiles sv))])
              | Some cfg \<Rightarrow> Inr (cfg, name)))"

text \<open>The configuration as stored: identifier, prompt and server defaults filled in.\<close>

definition prepareConfig :: "'s Service \<Rightarrow> SubmitParams \<Rightarrow> string \<Rightarrow> RunConfig \<Rightarrow> RunConfig" where
  "prepareConfig sv p i cfg =
     (let c1 = cfg\<lparr>rc_RunId := i\<rparr>;
          c2 = (if sp_Prompt p \<noteq> [] then c1\<lparr>rc_Prompt := sp_Prompt p\<rparr> else c1)
      in applyTraceEmitterDefault (applyExecutorDefaults c2 (svc_executorDefaults sv))
           (svc_traceEndpoint sv))"

definition newJob :: "submit_input \<Rightarrow> SubmitParams \<Rightarrow> string \<Rightarrow> string \<Rightarrow> string \<Rightarrow> string \<Rightarrow> gotime \<Rightarrow> Job" where
  "newJob u p i prompt profile runConfigJSON t =
     \<lparr>j_ID = i, j_Status = StatusQueued, j_Prompt = prompt, j_Profile = profile,
      j_RunConfigJSON = runConfigJSON, j_StopReason = [], j_Error = [], j_FinalText = [],
      j_CreatedAt = t, j_StartedAt = 0, j_FinishedAt = 0, j_LastEventAt = 0,
      j_CancelRequested = False, j_TraceParent = su_traceparent u,
      j_HarnessToken = NewHarnessToken (su_token u), j_RepoScope = sp_RepoScope p\<rparr>"

text \<open>
  The closure \<open>fail\<close> of \<open>Submit\<close> counts the outcome; the rejection of a
  repository scope returns without it.
\<close>

definition submit_fail ::
  "'s Service \<Rightarrow> string \<Rightarrow> string \<Rightarrow> goerror \<Rightarrow> 's World \<Rightarrow> Job result \<times> 's World" where
  "submit_fail sv profile outcome err w =
     (Inl err, tel (JobSubmitted (svc_tel sv) profile outcome) w)"

definition Submit ::
  "env \<Rightarrow> 's Service \<Rightarrow> submit_input \<Rightarrow> SubmitParams \<Rightarrow> 's World \<Rightarrow> Job result \<times> 's World" where
  "Submit E sv u p w =
     (case resolveConfig E sv p of
        Inl err \<Rightarrow> submit_fail sv [] SubmissionRejected err w
      | Inr (cfg0, profile) \<Rightarrow>
          case validateRepoScope (svc_print_table sv) (sp_RepoScope p) of
            Some err \<Rightarrow> (Inl err, w)
          | None \<Rightarrow>
              let i = NewID (su_ulid u); cfg = prepareConfig sv p i cfg0
              in case validateRunConfig cfg of
                   Some err \<Rightarrow> submit_fail sv profile SubmissionRejected err w
                 | None \<Rightarrow>
                     case validateControlPlaneTools (GetControlPlane (rc_Tools cfg)) (svc_memoryTools sv) of
                       Some err \<Rightarrow> submit_fail sv profile SubmissionRejected err w
                     | None \<Rightarrow>
                         case env_marshal_config E cfg of
                           Inl err \<Rightarrow>
                             submit_fail sv profile SubmissionFailed
                               (Errorf ''encode run config: %w'' [] (Some err)) w
                         | Inr runConfigJSON \<Rightarrow>
                             let (t, w1) = now E w;
                                 j = newJob u p i (rc_Prompt cfg) profile runConfigJSON t;
                                 (r, w2) = w_CreateJob (svc_store sv) j w1
                             in case r of
                                  Inl err \<Rightarrow> submit_fail sv profile SubmissionFailed err w2
                                | Inr _ \<Rightarrow>
                                    (Inr j,
                                     appendStatusEvent E (svc_store sv) i StatusQueued []
                                       (tel (JobSubmitted (svc_tel sv) profile SubmissionAccepted) w2)))"

section \<open>The background launch\<close>

definition fn_transition :: "Status \<Rightarrow> Status \<Rightarrow> string \<Rightarrow> gotime \<Rightarrow> update_fn" where
  "fn_transition from to errText t j c =
     (if j_Status j \<noteq> from then (Inr j, c)
      else
        (Inr (j\<lparr>j_Status := to, j_Error := (if errText \<noteq> [] then errText else j_Error j),
                j_FinishedAt := (if Terminal to then t else j_FinishedAt j)\<rparr>),
         c\<lparr>c_moved := True\<rparr>))"

definition transition ::
  "env \<Rightarrow> 's Service \<Rightarrow> string \<Rightarrow> Status \<Rightarrow> Status \<Rightarrow> string \<Rightarrow> 's World \<Rightarrow> bool \<times> 's World" where
  "transition E sv i from to errText w =
     (let (t, w1) = now E w;
          (r, c, w2) = w_UpdateJob (svc_store sv) i (fn_transition from to errText t) no_capture w1
      in case r of
           Inl _ \<Rightarrow> (False, w2)
         | Inr _ \<Rightarrow>
             (c_moved c,
              if c_moved c then
                let w3 = appendStatusEvent E (svc_store sv) i to errText w2
                in if Terminal to then tel (JobCompleted (svc_tel sv) to [] 0) w3 else w3
              else w2))"

definition launch ::
  "env \<Rightarrow> 's Service \<Rightarrow> (nat \<Rightarrow> 's World \<Rightarrow> 's World) \<Rightarrow> Job \<Rightarrow> 's World \<Rightarrow> 's World" where
  "launch E sv gap j w =
     (let (moved, w1) = transition E sv (j_ID j) StatusQueued StatusLaunching [] w
      in if \<not> moved then tel (JobLaunched (svc_tel sv) LaunchSkipped 0) w1
         else
           let (started, w2) = now E w1;
               e = svc_launcher sv (w_reads w2) j;
               (t, w3) = now E (gap 0 w2)
           in case e of
                Some err \<Rightarrow>
                  snd (transition E sv (j_ID j) StatusLaunching StatusFailed (Error err)
                         (tel (JobLaunched (svc_tel sv) LaunchFailed (time_Sub t started)) w3))
              | None \<Rightarrow>
                  snd (transition E sv (j_ID j) StatusLaunching StatusAwaitingHarness []
                         (tel (JobLaunched (svc_tel sv) LaunchSucceeded (time_Sub t started)) w3)))"

end
