(* ===== verification/Watch.thy ===== *)
theory Watch
  imports Service
begin

text \<open>
  Following a job's timeline, \<open>src/internal/service/watch.go\<close>. A finished job is
  replayed page by page; a live one is forwarded from the store's watch until the
  event that announces a terminal status.

  The replay loop runs on fuel, \<open>None\<close> being a loop that has not ended. The
  consumer takes every event (its context is not cancelled).
\<close>

definition historyPage :: int where
  "historyPage = 500"

section \<open>Terminal status events\<close>

fun decode_status :: "(string \<times> json) list \<Rightarrow> string \<times> string \<Rightarrow> (string \<times> string) option" where
  "decode_status [] p = Some p"
| "decode_status ((k, v) # ms) p =
     (case field_for [''status'', ''error''] k of
        None \<Rightarrow> decode_status ms p
      | Some f \<Rightarrow>
          (case string_of v of
             Inl _ \<Rightarrow> None
           | Inr None \<Rightarrow> decode_status ms p
           | Inr (Some s) \<Rightarrow>
               decode_status ms (if f = ''status'' then (s, snd p) else (fst p, s))))"

definition parse_statusPayload :: "string \<Rightarrow> (string \<times> string) option" where
  "parse_statusPayload s =
     (case json_parse s of
        Some JNull \<Rightarrow> Some ([], [])
      | Some (JObj ms) \<Rightarrow> decode_status ms ([], [])
      | _ \<Rightarrow> None)"

definition isTerminalStatusEvent :: "Event \<Rightarrow> bool" where
  "isTerminalStatusEvent ev \<longleftrightarrow>
     e_Type ev = EventTypeStatusChange \<and>
     (case parse_statusPayload (e_PayloadJSON ev) of
        None \<Rightarrow> False
      | Some (status, _) \<Rightarrow> Terminal (status_of_string status))"

section \<open>Replay and forwarding\<close>

fun replay :: "'s Store \<Rightarrow> nat \<Rightarrow> string \<Rightarrow> string \<Rightarrow> 's \<Rightarrow> Event list option" where
  "replay st 0 i cursor s = None"
| "replay st (Suc n) i cursor s =
     (case s_ReadEvents st i cursor historyPage s of
        Inl _ \<Rightarrow> Some []
      | Inr evs \<Rightarrow>
          if evs = [] then Some []
          else map_option (\<lambda>out. evs @ out) (replay st n i (e_ID (last evs)) s))"

text \<open>What the wrapper goroutine sends on of the events its source delivers.\<close>

fun forward :: "Event list \<Rightarrow> Event list" where
  "forward [] = []"
| "forward (ev # evs) = ev # (if isTerminalStatusEvent ev then [] else forward evs)"

datatype watch_source =
    Replay
  | Live nat

definition svc_Watch ::
  "'s Service \<Rightarrow> (nat \<Rightarrow> 's World \<Rightarrow> 's World) \<Rightarrow> string \<Rightarrow> string \<Rightarrow> 's World \<Rightarrow>
   (watch_source result \<times> 's World) option" where
  "svc_Watch sv gap i afterID w =
     (case checkID i of
        Some e \<Rightarrow> Some (Inl e, w)
      | None \<Rightarrow>
          (case s_GetJob (svc_store sv) i (w_store w) of
             Inl e \<Rightarrow> Some (Inl e, w)
           | Inr j \<Rightarrow>
               if Terminal (j_Status j) then Some (Inr Replay, w)
               else
                 let w1 = gap 0 w
                 in case s_WatchEvents (svc_store sv) i afterID (w_store w1) of
                      None \<Rightarrow> None
                    | Some (Inl e, s') \<Rightarrow> Some (Inl e, w1\<lparr>w_store := s'\<rparr>)
                    | Some (Inr ch, s') \<Rightarrow> Some (Inr (Live ch), w1\<lparr>w_store := s'\<rparr>)))"

end
