(* ===== verification/Reaper.thy ===== *)
theory Reaper
  imports Service
begin

text \<open>
  The periodic maintenance of \<open>src/internal/reaper/reaper.go\<close>: jobs whose harness
  never connected are failed past their deadline, and settled jobs are deleted
  past the retention window.

  Listing pages through the store with the rest of the program acting between
  pages (\<open>gap\<close>); the paging loop runs on fuel, \<open>None\<close> being a loop that has not
  ended. The random part of the jitter is an argument.
\<close>

definition stuckHarnessError :: string where
  "stuckHarnessError = ''harness never connected before deadline''"

definition defaultInterval :: duration where "defaultInterval = 5 * Minute"
definition defaultPageSize :: int where "defaultPageSize = 200"
definition awaitingHarnessMargin :: duration where "awaitingHarnessMargin = 5 * Minute"
definition awaitingHarnessFallback :: duration where "awaitingHarnessFallback = Hour"

record 's Reaper =
  rp_store :: "'s Store"
  rp_tel :: bool
  rp_retention :: duration
  rp_deadlineSlack :: duration
  rp_interval :: duration
  rp_pageSize :: int

definition WithInterval :: "duration \<Rightarrow> 's Reaper \<Rightarrow> 's Reaper" where
  "WithInterval d r = (if 0 < d then r\<lparr>rp_interval := d\<rparr> else r)"

definition WithPageSize :: "int \<Rightarrow> 's Reaper \<Rightarrow> 's Reaper" where
  "WithPageSize n r = (if 0 < n then r\<lparr>rp_pageSize := n\<rparr> else r)"

definition rp_WithTelemetry :: "bool \<Rightarrow> 's Reaper \<Rightarrow> 's Reaper" where
  "rp_WithTelemetry rec r = r\<lparr>rp_tel := rec\<rparr>"

definition NewReaper ::
  "'s Store \<Rightarrow> duration \<Rightarrow> duration \<Rightarrow> ('s Reaper \<Rightarrow> 's Reaper) list \<Rightarrow> 's Reaper" where
  "NewReaper st retention deadlineSlack opts =
     fold (\<lambda>opt. opt) opts
       \<lparr>rp_store = st, rp_tel = False, rp_retention = retention, rp_deadlineSlack = deadlineSlack,
        rp_interval = defaultInterval, rp_pageSize = defaultPageSize\<rparr>"

text \<open>\<open>rnd n\<close> is the result of \<open>rand.Int63n(n)\<close>.\<close>

definition jitter :: "(int \<Rightarrow> int) \<Rightarrow> duration \<Rightarrow> duration" where
  "jitter rnd d = (if d \<le> 0 then d else wrap64 (d + rnd (d div 10 + 1)))"

section \<open>Listing\<close>

fun listAllJobs ::
  "'s Reaper \<Rightarrow> (nat \<Rightarrow> 's World \<Rightarrow> 's World) \<Rightarrow> nat \<Rightarrow> string \<Rightarrow> Job list \<Rightarrow> 's World \<Rightarrow>
   (Job list result \<times> 's World) option" where
  "listAllJobs rp gap 0 token all w = None"
| "listAllJobs rp gap (Suc n) token all w =
     (case s_ListJobs (rp_store rp) (rp_pageSize rp) token (w_store w) of
        Inl e \<Rightarrow> Some (Inl e, w)
      | Inr (jobs, next) \<Rightarrow>
          if next = [] then Some (Inr (all @ jobs), w)
          else listAllJobs rp gap n next (all @ jobs) (gap n w))"

section \<open>Jobs whose harness never connected\<close>

definition awaitingHarnessDeadline :: "env \<Rightarrow> string \<Rightarrow> duration \<Rightarrow> duration" where
  "awaitingHarnessDeadline E runConfigJSON slack =
     (case env_parse_config E runConfigJSON of
        Inl _ \<Rightarrow> wrap64 (awaitingHarnessFallback + slack)
      | Inr cfg \<Rightarrow>
          if rc_Timeout cfg = None then wrap64 (awaitingHarnessFallback + slack)
          else wrap64 (wrap64 (wrap64 (GetTimeout cfg * Second) + slack) + awaitingHarnessMargin))"

text \<open>The reaper writes status events with code of its own, to the same effect as the service's.\<close>

definition eventStatusChange :: string where
  "eventStatusChange = ''status_change''"

definition rp_statusPayload :: "Status \<Rightarrow> string \<Rightarrow> string" where
  \<open>rp_statusPayload status errText =
     ''{"status":'' @ json_string (status_string status) @
     (if errText = [] then [] else '',"error":'' @ json_string errText) @ ''}''\<close>

definition rp_appendStatusEvent ::
  "env \<Rightarrow> 's Reaper \<Rightarrow> string \<Rightarrow> Status \<Rightarrow> string \<Rightarrow> 's World \<Rightarrow> 's World" where
  "rp_appendStatusEvent E rp i status errText w =
     (let (t, w1) = now E w
      in snd (w_AppendEvent E (rp_store rp) i
                \<lparr>e_ID = [], e_Type = eventStatusChange,
                 e_PayloadJSON = rp_statusPayload status errText, e_At = t\<rparr> w1))"

lemma rp_appendStatusEvent_eq [simp]:
  "rp_appendStatusEvent E rp i status errText w = appendStatusEvent E (rp_store rp) i status errText w"
  by (simp add: rp_appendStatusEvent_def appendStatusEvent_def eventStatusChange_def EventTypeStatusChange_def
      rp_statusPayload_def statusPayload_def)

definition fn_failStuck :: "gotime \<Rightarrow> update_fn" where
  "fn_failStuck t j c =
     (if j_Status j \<noteq> StatusAwaitingHarness then (Inr j, c)
      else (Inr (j\<lparr>j_Status := StatusFailed, j_Error := stuckHarnessError, j_FinishedAt := t\<rparr>),
            c\<lparr>c_moved := True\<rparr>))"

definition failStuckHarness :: "env \<Rightarrow> 's Reaper \<Rightarrow> string \<Rightarrow> 's World \<Rightarrow> bool result \<times> 's World" where
  "failStuckHarness E rp i w =
     (let (t, w1) = now E w;
          (r, c, w2) = w_UpdateJob (rp_store rp) i (fn_failStuck t) no_capture w1
      in case r of
           Inl e \<Rightarrow> (Inl e, w2)
         | Inr _ \<Rightarrow>
             (Inr (c_moved c),
              if c_moved c
              then tel (JobCompleted (rp_tel rp) StatusFailed StopHarnessNeverConnected 0)
                     (rp_appendStatusEvent E rp i StatusFailed stuckHarnessError w2)
              else w2))"

definition is_stuck :: "env \<Rightarrow> 's Reaper \<Rightarrow> gotime \<Rightarrow> Job \<Rightarrow> bool" where
  "is_stuck E rp t j \<longleftrightarrow>
     j_Status j = StatusAwaitingHarness \<and>
     awaitingHarnessDeadline E (j_RunConfigJSON j) (rp_deadlineSlack rp) < time_Sub t (j_CreatedAt j)"

fun fail_each :: "env \<Rightarrow> 's Reaper \<Rightarrow> gotime \<Rightarrow> Job list \<Rightarrow> 's World \<Rightarrow> 's World" where
  "fail_each E rp t [] w = w"
| "fail_each E rp t (j # js) w =
     fail_each E rp t js (if is_stuck E rp t j then snd (failStuckHarness E rp (j_ID j) w) else w)"

definition reapAwaitingHarness :: "env \<Rightarrow> 's Reaper \<Rightarrow> Job list \<Rightarrow> 's World \<Rightarrow> 's World" where
  "reapAwaitingHarness E rp jobs w = (let (t, w1) = now E w in fail_each E rp t jobs w1)"

section \<open>Retention\<close>

definition is_expired :: "'s Reaper \<Rightarrow> gotime \<Rightarrow> Job \<Rightarrow> bool" where
  "is_expired rp t j \<longleftrightarrow>
     Terminal (j_Status j) \<and> \<not> IsZero (j_FinishedAt j) \<and>
     rp_retention rp < time_Sub t (j_FinishedAt j)"

fun delete_each :: "'s Reaper \<Rightarrow> gotime \<Rightarrow> Job list \<Rightarrow> 's World \<Rightarrow> 's World" where
  "delete_each rp t [] w = w"
| "delete_each rp t (j # js) w =
     delete_each rp t js
       (if is_expired rp t j then snd (w_DeleteJob (rp_store rp) (j_ID j) w) else w)"

definition reapRetention :: "env \<Rightarrow> 's Reaper \<Rightarrow> Job list \<Rightarrow> 's World \<Rightarrow> 's World" where
  "reapRetention E rp jobs w = (let (t, w1) = now E w in delete_each rp t jobs w1)"

section \<open>The sweep\<close>

definition sweep ::
  "env \<Rightarrow> 's Reaper \<Rightarrow> (nat \<Rightarrow> 's World \<Rightarrow> 's World) \<Rightarrow> nat \<Rightarrow> 's World \<Rightarrow> 's World option" where
  "sweep E rp gap n w =
     (case listAllJobs rp gap n [] [] w of
        None \<Rightarrow> None
      | Some (Inl e, w1) \<Rightarrow> Some w1
      | Some (Inr jobs, w1) \<Rightarrow>
          (let w2 = reapAwaitingHarness E rp jobs w1
           in Some (if 0 < rp_retention rp then reapRetention E rp jobs w2 else w2)))"

end
