(* ===== verification/ServiceInv.thy ===== *)
theory ServiceInv
  imports Watch Reaper RunTask
begin

text \<open>
  The service and the reaper against the store contract: no call disturbs a
  settled job, and what each call promises its caller.
\<close>

section \<open>Update functions\<close>

lemma safe_fn_cancelRequested: "safe_fn fn_cancelRequested"
  by (rule safe_fnI) (auto simp: fn_cancelRequested_def same_outcome_def)

lemma safe_fn_cancelUnassigned: "safe_fn (fn_cancelUnassigned t)"
  by (rule safe_fnI) (auto simp: fn_cancelUnassigned_def split: if_splits)

lemma settling_cancelUnassigned: "settling (fn_cancelUnassigned t)"
  using safe_fn_cancelUnassigned by (simp add: settling_def fn_cancelUnassigned_def)

lemma safe_fn_transition: "\<not> Terminal from \<Longrightarrow> safe_fn (fn_transition from to e t)"
  by (rule safe_fnI) (auto simp: fn_transition_def split: if_splits)

lemma safe_fn_failStuck: "safe_fn (fn_failStuck t)"
  by (rule safe_fnI) (auto simp: fn_failStuck_def split: if_splits)

section \<open>Settled jobs stay settled\<close>

context watched_store
begin

lemma quiet_appendStatusEvent: "quiet w (appendStatusEvent E ops i s e w)"
  by (simp add: appendStatusEvent_def Let_def case_prod_unfold
      quiet_trans [OF quiet_now quiet_w_AppendEvent])

lemmas keeps_appendStatusEvent = quiet_keeps [OF quiet_appendStatusEvent]

lemma keeps_cancelUnassigned:
  assumes "svc_store sv = ops"
  shows "keeps w (snd (cancelUnassigned E sv i w))"
proof -
  obtain t w1 where n: "now E w = (t, w1)" by (cases "now E w")
  obtain r c w2 where u: "w_UpdateJob ops i (fn_cancelUnassigned t) no_capture w1 = (r, c, w2)"
    by (metis prod_cases3)
  have k: "keeps w w2"
    by (rule keeps_trans [OF keeps_eq(1) [OF n]
          keeps_eq(9) [OF settling_safe [OF settling_cancelUnassigned] u]])
  show ?thesis
    by (simp add: cancelUnassigned_def n assms u k
        keeps_trans [OF k keeps_trans [OF keeps_appendStatusEvent keeps_tel]] split: sum.splits)
qed

lemma keeps_Cancel:
  assumes st: "svc_store sv = ops" and g: "gaps_do keeps gap"
  shows "keeps w (snd (Cancel E sv gap i w))"
proof -
  obtain r c w1 where u: "w_UpdateJob ops i fn_cancelRequested no_capture (gap 1 (gap 0 w)) = (r, c, w1)"
    by (metis prod_cases3)
  obtain e w2 where s: "registry_Send E i (control_event ''cancel'') (gap 2 w1) = (e, w2)"
    by (cases "registry_Send E i (control_event ''cancel'') (gap 2 w1)")
  have k0: "keeps w (gap 0 w)" by (rule gaps_doD [OF g])
  have k1: "keeps w w1"
    by (rule keeps_trans [OF k0 keeps_trans [OF gaps_doD [OF g]
          keeps_eq(9) [OF safe_fn_cancelRequested u]]])
  have k2: "keeps w w2"
    by (rule keeps_trans [OF k1 keeps_trans [OF gaps_doD [OF g] keeps_eq(4) [OF s]]])
  have k3: "keeps w (snd (cancelUnassigned E sv i (gap 3 w2)))"
    by (rule keeps_trans [OF k2 keeps_trans [OF gaps_doD [OF g] keeps_cancelUnassigned [OF st]]])
  show ?thesis
    by (simp add: Cancel_def st u s k1 k2 k3 keeps_refl Let_def
        keeps_trans [OF k0 keeps_cancelUnassigned [OF st]]
        del: One_nat_def split: option.splits sum.splits)
qed

lemma keeps_AnswerPermission:
  assumes st: "svc_store sv = ops" and g: "gaps_do keeps gap"
  shows "keeps w (snd (AnswerPermission E sv gap i rid allow reason w))"
proof -
  obtain t w1 where n: "now E (gap 0 w) = (t, w1)" by (cases "now E (gap 0 w)")
  have k1: "keeps w w1" by (rule keeps_trans [OF gaps_doD [OF g] keeps_eq(1) [OF n]])
  have k2: "keeps w w2" if "w_PutPermission ops i a w1 = (r, w2)" for a r w2
    by (rule keeps_trans [OF k1 keeps_eq(7) [OF that]])
  have k3: "keeps w w3" if "w_PutPermission ops i a w1 = (r, w2)"
    and "registry_Send E i ev (gap 1 w2) = (e, w3)" for a r w2 e ev w3
    by (rule keeps_trans [OF k2 [OF that(1)] keeps_trans [OF gaps_doD [OF g] keeps_eq(4) [OF that(2)]]])
  have k4: "keeps w (tel ms w3)" "keeps w (snd (w_PutPermission ops i p (gap 2 (tel ms w3))))"
    if "w_PutPermission ops i a w1 = (r, w2)" and "registry_Send E i ev (gap 1 w2) = (e, w3)"
    for a r w2 e ev w3 p ms
    using keeps_trans [OF k3 [OF that] keeps_tel]
      keeps_trans [OF keeps_trans [OF keeps_trans [OF k3 [OF that] keeps_tel] gaps_doD [OF g]]
        keeps_w_PutPermission] by blast+
  show ?thesis
    by (auto simp: AnswerPermission_def st n keeps_refl Let_def k2 k4
        simp del: One_nat_def split: option.splits sum.splits prod.splits)
qed

lemma keeps_Submit:
  assumes st: "svc_store sv = ops"
  shows "keeps w (snd (Submit E sv u p w))"
proof -
  obtain t w1 where n: "now E w = (t, w1)" by (cases "now E w")
  have k1: "keeps w w1" by (rule keeps_eq(1) [OF n])
  have k2: "keeps w w2" if "w_CreateJob ops j w1 = (r, w2)" for j r w2
    by (rule keeps_trans [OF k1 keeps_eq(8) [OF that]])
  show ?thesis
    by (auto simp: Submit_def st n submit_fail_def keeps_refl keeps_tel Let_def
        keeps_trans [OF k2 keeps_tel]
        keeps_trans [OF keeps_trans [OF k2 keeps_tel] keeps_appendStatusEvent]
        split: option.splits sum.splits prod.splits)
qed

lemma keeps_transition:
  assumes st: "svc_store sv = ops" and nt: "\<not> Terminal from"
  shows "keeps w (snd (transition E sv i from to e w))"
proof -
  obtain t w1 where n: "now E w = (t, w1)" by (cases "now E w")
  obtain r c w2 where u: "w_UpdateJob ops i (fn_transition from to e t) no_capture w1 = (r, c, w2)"
    by (metis prod_cases3)
  have k: "keeps w w2"
    by (rule keeps_trans [OF keeps_eq(1) [OF n] keeps_eq(9) [OF safe_fn_transition [OF nt] u]])
  show ?thesis
    by (simp add: transition_def n st u k keeps_trans [OF k keeps_appendStatusEvent] Let_def
        keeps_trans [OF k keeps_trans [OF keeps_appendStatusEvent keeps_tel]] split: sum.splits)
qed

lemma keeps_launch:
  assumes st: "svc_store sv = ops" and g: "gaps_do keeps gap"
  shows "keeps w (launch E sv gap j w)"
proof -
  obtain m w1 where x: "transition E sv (j_ID j) StatusQueued StatusLaunching [] w = (m, w1)"
    by (cases "transition E sv (j_ID j) StatusQueued StatusLaunching [] w")
  have k1: "keeps w w1" using keeps_transition [OF st, of StatusQueued w E "j_ID j"] x by (metis snd_conv Terminal.simps(4))
  have k2: "keeps w (snd (now E (gap 0 (snd (now E w1)))))"
    by (rule keeps_trans [OF k1 keeps_trans [OF keeps_now keeps_trans [OF gaps_doD [OF g] keeps_now]]])
  have k3: "keeps w (snd (transition E sv i StatusLaunching to e
      (tel ms (snd (now E (gap 0 (snd (now E w1))))))))" for i to e ms
    by (rule keeps_trans [OF k2 keeps_trans [OF keeps_tel keeps_transition [OF st]]]) simp
  show ?thesis
    by (simp add: launch_def x Let_def case_prod_unfold k3 keeps_trans [OF k1 keeps_tel]
        split: option.splits)
qed

lemma keeps_failStuckHarness:
  assumes st: "rp_store rp = ops"
  shows "keeps w (snd (failStuckHarness E rp i w))"
proof -
  obtain t w1 where n: "now E w = (t, w1)" by (cases "now E w")
  obtain r c w2 where u: "w_UpdateJob ops i (fn_failStuck t) no_capture w1 = (r, c, w2)"
    by (metis prod_cases3)
  have k: "keeps w w2"
    by (rule keeps_trans [OF keeps_eq(1) [OF n] keeps_eq(9) [OF safe_fn_failStuck u]])
  show ?thesis
    by (simp add: failStuckHarness_def n st u k
        keeps_trans [OF k keeps_trans [OF keeps_appendStatusEvent keeps_tel]] split: sum.splits)
qed

lemma keeps_fail_each:
  assumes "rp_store rp = ops"
  shows "keeps w (fail_each E rp t js w)"
proof (induction js arbitrary: w)
  case (Cons j js)
  then show ?case using keeps_trans [OF keeps_failStuckHarness [OF assms] Cons.IH] by simp
qed (simp add: keeps_refl)

lemma keeps_reapAwaitingHarness:
  assumes "rp_store rp = ops"
  shows "keeps w (reapAwaitingHarness E rp js w)"
  by (simp add: reapAwaitingHarness_def case_prod_unfold Let_def
      keeps_trans [OF keeps_now keeps_fail_each [OF assms]])

end

section \<open>What a call promises\<close>

text \<open>No other activity during a call.\<close>

definition alone :: "nat \<Rightarrow> 'w \<Rightarrow> 'w" where
  "alone k w = w"

lemma alone_eq [simp]: "alone k w = w"
  by (simp add: alone_def)

definition cancel_delivered :: "string \<Rightarrow> 's World \<Rightarrow> 's World \<Rightarrow> bool" where
  "cancel_delivered i w w' \<longleftrightarrow>
     (\<exists>s. map_of (w_reg w) i = Some s \<and> \<not> w_closed w s \<and>
        w_sent w' s = w_sent w s @ [(control_event ''cancel'', True)])"

lemma registry_Send_ok:
  assumes "registry_Send E i ev w = (None, w')"
  shows "\<exists>s. map_of (w_reg w) i = Some s \<and> \<not> w_closed w s \<and> w_sent w' s = w_sent w s @ [(ev, True)]"
  using assms
  by (auto simp: registry_Send_def Send_def session_Send_def stream_Send_def Let_def
      split: option.splits if_splits)

context job_store_once
begin

lemma cancelUnassigned_result:
  assumes st: "svc_store sv = ops" and ok: "invar (w_store w)" and j: "job_of (w_store w) i = Some j"
  shows "\<exists>j' w'. cancelUnassigned E sv i w = (Inr j', w') \<and> Terminal (j_Status j') \<and>
    (Terminal (j_Status j) \<longrightarrow> j' = j) \<and>
    (\<not> Terminal (j_Status j) \<longrightarrow> j_Status j' = StatusCancelled \<and> j_CancelRequested j') \<and>
    (\<exists>k. job_of (w_store w') i = Some k \<and> same_outcome j' k)"
proof -
  obtain t w1 where n: "now E w = (t, w1)" by (cases "now E w")
  then have w1: "w_store w1 = w_store w" using now_frame(1) [of E w] by simp
  have ok1: "invar (w_store w1)" and j1: "job_of (w_store w1) i = Some j" using ok j w1 by simp_all
  obtain j' c where f: "fn_cancelUnassigned t j no_capture = (Inr j', c)"
    and T: "Terminal (j_Status j')" "Terminal (j_Status j) \<longrightarrow> j' = j"
      "\<not> Terminal (j_Status j) \<longrightarrow> j_Status j' = StatusCancelled \<and> j_CancelRequested j'"
      "j_ID j' = j_ID j"
  proof (cases "Terminal (j_Status j)")
    case True
    then show thesis by (intro that [of j no_capture]) (simp_all add: fn_cancelUnassigned_def)
  next
    case False
    then show thesis
      by (intro that [of "j\<lparr>j_Status := StatusCancelled, j_CancelRequested := True, j_FinishedAt := t\<rparr>"
            "no_capture\<lparr>c_moved := True\<rparr>"]) (simp_all add: fn_cancelUnassigned_def)
  qed
  from w_UpdateJob_ok [where fn = "fn_cancelUnassigned t" and c = no_capture, OF ok1 j1 f T(4)]
  obtain w2 where u: "w_UpdateJob ops i (fn_cancelUnassigned t) no_capture w1 = (Inr j', c, w2)"
    and w2: "invar (w_store w2)" "job_of (w_store w2) = (job_of (w_store w1))(i \<mapsto> j')" .
  let ?w = "if c_moved c then tel (JobCompleted (svc_tel sv) StatusCancelled ''cancelled'' 0)
      (appendStatusEvent E ops i StatusCancelled [] w2) else w2"
  have eq: "cancelUnassigned E sv i w = (Inr j', ?w)"
    by (simp add: cancelUnassigned_def n st u)
  have "keeps w2 ?w"
    by (simp add: keeps_refl keeps_trans [OF keeps_appendStatusEvent keeps_tel])
  then have "jobs_persist (job_of (w_store w2)) (job_of (w_store ?w))"
    using w2(1) by (simp add: keeps_def)
  then have "\<exists>k. job_of (w_store ?w) i = Some k \<and> same_outcome j' k"
    by (rule settled_outcome) (simp_all add: w2 T(1))
  with eq T show ?thesis by blast
qed

text \<open>
  A successful cancellation left the job settled, or marked it and handed the
  cancel to its live session.
\<close>

lemma Cancel_promise:
  assumes st: "svc_store sv = ops" and ok: "invar (w_store w)"
    and c: "Cancel E sv alone i w = (Inr j', w')"
  shows "settled (job_of (w_store w')) i \<or>
    cancel_delivered i w w' \<and>
      (\<exists>k. job_of (w_store w') i = Some k \<and> j_CancelRequested k)"
proof -
  have valid: "checkID i = None" using c by (simp add: Cancel_def split: option.splits)
  obtain j where g: "s_GetJob ops i (w_store w) = Inr j"
    using c by (auto simp: Cancel_def valid st split: sum.splits)
  then have j: "job_of (w_store w) i = Some j"
    using get_missing [OF ok, of i] get_found [OF ok, of i] by (cases "job_of (w_store w) i") auto
  have un: "settled (job_of (w_store v')) i"
    if "cancelUnassigned E sv i v = (Inr j', v')" "invar (w_store v)" "job_of (w_store v) i = Some k" for v v' k
    using cancelUnassigned_result [OF st that(2,3), of E] that(1)
    by (auto simp: settled_def same_outcome_fields)
  show ?thesis
  proof (cases "Terminal (j_Status j)")
    case True
    with c valid g st j show ?thesis by (simp add: Cancel_def settled_def)
  next
    case nt: False
    show ?thesis
    proof (cases "Connected (w_reg w) i")
      case False
      with c valid g st nt have "cancelUnassigned E sv i w = (Inr j', w')" by (simp add: Cancel_def)
      from un [OF this ok j] show ?thesis by simp
    next
      case True
      let ?j = "j\<lparr>j_CancelRequested := True\<rparr>"
      have f: "fn_cancelRequested j no_capture = (Inr ?j, no_capture)"
        by (simp add: fn_cancelRequested_def)
      have "j_ID ?j = j_ID j" by simp
      from w_UpdateJob_ok [where fn = fn_cancelRequested and c = no_capture, OF ok j f this]
      obtain w1 where u: "w_UpdateJob ops i fn_cancelRequested no_capture w = (Inr ?j, no_capture, w1)"
        and w1: "invar (w_store w1)" "job_of (w_store w1) = (job_of (w_store w))(i \<mapsto> ?j)" .
      have fr: "w_reg w1 = w_reg w" "w_sent w1 = w_sent w" "w_closed w1 = w_closed w"
        using w_UpdateJob_frame [of ops i fn_cancelRequested no_capture w] by (simp_all add: u)
      obtain e w2 where s: "registry_Send E i (control_event ''cancel'') w1 = (e, w2)"
        by (cases "registry_Send E i (control_event ''cancel'') w1")
      have st2: "w_store w2 = w_store w1"
        using registry_Send_frame(1) [of E i "control_event ''cancel''" w1] by (simp add: s)
      show ?thesis
      proof (cases e)
        case None
        with c valid g st nt True u s have "w' = w2" by (simp add: Cancel_def)
        with registry_Send_ok [OF s [unfolded None]] fr w1 st2 show ?thesis
          by (auto simp: cancel_delivered_def)
      next
        case (Some err)
        then have "cancelUnassigned E sv i w2 = (Inr j', w')"
          using c valid g st nt True u s by (simp add: Cancel_def split: if_splits)
        from un [OF this, of ?j] w1 st2 show ?thesis by simp
      qed
    qed
  qed
qed

end

end
