(* ===== verification/ServiceSpec.thy ===== *)
theory ServiceSpec
  imports ServiceInv
begin

text \<open>
  What answering a permission request, submitting a job and launching its harness
  promise, against the store contract.
\<close>

lemma registry_Send_error:
  assumes "registry_Send E i ev w = (Some e, w')"
  shows "w_store w' = w_store w"
  using registry_Send_frame(1) [of E i ev w] assms by simp

context job_store_once
begin

lemma w_PutPermission_ok:
  assumes "invar (w_store w)" and "job_of (w_store w) i \<noteq> None"
  obtains w' where "w_PutPermission ops i p w = (Inr (), w')" and "invar (w_store w')"
    and "job_of (w_store w') = job_of (w_store w)"
    and "perm_of (w_store w') = (perm_of (w_store w))(i := (perm_of (w_store w) i)(p_RequestID p \<mapsto> p))"
    and "w_reg w' = w_reg w" and "w_sent w' = w_sent w" and "w_closed w' = w_closed w"
proof -
  obtain j where "job_of (w_store w) i = Some j" using assms(2) by blast
  from put_found [OF assms(1) this, of p] obtain s' where
    "s_PutPermission ops i p (w_store w) = (Inr (), s')" "invar s'" "job_of s' = job_of (w_store w)"
    "perm_of s' = (perm_of (w_store w))(i := (perm_of (w_store w) i)(p_RequestID p \<mapsto> p))" by blast
  then show ?thesis by (intro that [of "w\<lparr>w_store := s'\<rparr>"]) (simp_all add: w_PutPermission_def)
qed

text \<open>
  A pending request: the decision is recorded and delivered, or the call fails
  and the request is pending again, as it was.
\<close>

lemma AnswerPermission_promise:
  assumes st: "svc_store sv = ops" and ok: "invar (w_store w)" and id: "ValidID i"
    and j: "job_of (w_store w) i \<noteq> None"
    and p: "perm_of (w_store w) i rid = Some p" and pend: "p_State p = PermissionPending"
  shows "case AnswerPermission E sv alone i rid allow reason w of
      (Inr a, w') \<Rightarrow>
        perm_of (w_store w') = (perm_of (w_store w))(i := (perm_of (w_store w) i)(rid \<mapsto> a)) \<and>
        p_State a = (if allow then PermissionAllowed else PermissionDenied) \<and> p_Reason a = reason \<and>
        (\<exists>s. map_of (w_reg w) i = Some s \<and>
           w_sent w' s = w_sent w s @ [(permission_response rid allow reason, True)])
    | (Inl e, w') \<Rightarrow> perm_of (w_store w') = perm_of (w_store w)"
proof -
  obtain t w1 where n: "now E w = (t, w1)" by (cases "now E w")
  have fr1: "w_store w1 = w_store w" "w_reg w1 = w_reg w" "w_sent w1 = w_sent w" "w_closed w1 = w_closed w"
    using now_frame [of E w] by (simp_all add: n)
  let ?a = "answered p allow reason t"
  have rid: "p_RequestID p = rid" by (rule perm_key [OF ok p])
  have rida: "p_RequestID ?a = rid" by (simp add: answered_def rid)
  obtain w2 where w2: "w_PutPermission ops i ?a w1 = (Inr (), w2)" "invar (w_store w2)"
      "job_of (w_store w2) = job_of (w_store w)"
      "perm_of (w_store w2) = (perm_of (w_store w))(i := (perm_of (w_store w) i)(rid \<mapsto> ?a))"
      "w_reg w2 = w_reg w" "w_sent w2 = w_sent w" "w_closed w2 = w_closed w"
    using w_PutPermission_ok [of w1 i ?a] fr1 ok j rida by metis
  obtain e w3 where s: "registry_Send E i (permission_response rid allow reason) w2 = (e, w3)"
    by (cases "registry_Send E i (permission_response rid allow reason) w2")
  have st3: "w_store w3 = w_store w2"
    using registry_Send_frame(1) [of E i "permission_response rid allow reason" w2] by (simp add: s)
  have valid: "checkID i = None" using id by (simp add: checkID_def)
  show ?thesis
  proof (cases e)
    case None
    then have A: "AnswerPermission E sv alone i rid allow reason w =
        (Inr ?a, tel (PermissionAnswered (svc_tel sv) allow True) w3)"
      by (simp add: AnswerPermission_def valid st getp_found [OF ok p] pend n w2(1) s)
    from registry_Send_ok [OF s [unfolded None]] show ?thesis unfolding A
      by (auto simp: w2 st3 answered_def)
  next
    case (Some err)
    let ?w3 = "tel (PermissionAnswered (svc_tel sv) allow False) w3"
    obtain w5 where w5: "w_PutPermission ops i p ?w3 = (Inr (), w5)"
        "perm_of (w_store w5) = (perm_of (w_store w3))(i := (perm_of (w_store w3) i)(rid \<mapsto> p))"
      using w_PutPermission_ok [of ?w3 i p] w2(2,3) j st3 rid by (metis tel_frame(1))
    have "perm_of (w_store w5) = perm_of (w_store w)"
      unfolding w5(2) st3 w2(4) using p by (auto simp: fun_eq_iff)
    moreover have "\<exists>e'. AnswerPermission E sv alone i rid allow reason w = (Inl e', w5)"
      by (simp add: AnswerPermission_def valid st getp_found [OF ok p] pend n w2(1) s Some w5(1))
    ultimately show ?thesis by auto
  qed
qed

lemma w_CreateJob_cases:
  assumes "invar (w_store w)"
  obtains (fresh) w' where "job_of (w_store w) (j_ID j) = None" "w_CreateJob ops j w = (Inr (), w')"
      "invar (w_store w')" "job_of (w_store w') = (job_of (w_store w))(j_ID j \<mapsto> j)"
    | (taken) e where "job_of (w_store w) (j_ID j) \<noteq> None" "w_CreateJob ops j w = (Inl e, w)"
proof (cases "job_of (w_store w) (j_ID j)")
  case None
  from create_fresh [OF assms None] obtain s' where
    "s_CreateJob ops j (w_store w) = (Inr (), s')" "invar s'"
    "job_of s' = (job_of (w_store w))(j_ID j \<mapsto> j)" by blast
  with None show ?thesis by (intro fresh [of "w\<lparr>w_store := s'\<rparr>"]) (simp_all add: w_CreateJob_def)
next
  case (Some k)
  from create_taken [OF assms Some] show ?thesis
    using taken Some by (auto simp: w_CreateJob_def)
qed

text \<open>An accepted submission is a valid queued job, new to the store.\<close>

lemma Submit_accepted:
  assumes st: "svc_store sv = ops" and ok: "invar (w_store w)" and s: "Submit E sv u p w = (Inr j, w')"
  shows "\<exists>cfg profile.
    (\<exists>cfg0. resolveConfig E sv p = Inr (cfg0, profile) \<and> cfg = prepareConfig sv p (j_ID j) cfg0) \<and>
    env_marshal_config E cfg = Inr (j_RunConfigJSON j) \<and>
    validateRunConfig cfg = None \<and>
    validateControlPlaneTools (GetControlPlane (rc_Tools cfg)) (svc_memoryTools sv) = None \<and>
    validateRepoScope (svc_print_table sv) (j_RepoScope j) = None \<and>
    j = newJob u p (NewID (su_ulid u)) (rc_Prompt cfg) profile (j_RunConfigJSON j) (fst (now E w)) \<and>
    job_of (w_store w) (j_ID j) = None"
    (is "\<exists>cfg profile. ?P cfg profile")
    and "live_only ((job_of (w_store w))(j_ID j \<mapsto> j)) (job_of (w_store w'))"
proof -
  obtain cfg0 profile where rc: "resolveConfig E sv p = Inr (cfg0, profile)"
    using s by (auto simp: Submit_def submit_fail_def split: sum.splits)
  let ?i = "NewID (su_ulid u)"
  let ?cfg = "prepareConfig sv p ?i cfg0"
  have sc: "validateRepoScope (svc_print_table sv) (sp_RepoScope p) = None"
    using s by (auto simp: Submit_def rc split: option.splits)
  have vr: "validateRunConfig ?cfg = None"
    using s by (auto simp: Submit_def rc sc Let_def submit_fail_def split: option.splits)
  have vt: "validateControlPlaneTools (GetControlPlane (rc_Tools ?cfg)) (svc_memoryTools sv) = None"
    using s by (auto simp: Submit_def rc sc vr Let_def submit_fail_def split: option.splits)
  obtain js where mj: "env_marshal_config E ?cfg = Inr js"
    using s by (auto simp: Submit_def rc sc vr vt Let_def submit_fail_def split: sum.splits)
  obtain t w1 where n: "now E w = (t, w1)" by (cases "now E w")
  have w1: "w_store w1 = w_store w" using now_frame(1) [of E w] by (simp add: n)
  let ?j = "newJob u p ?i (rc_Prompt ?cfg) profile js t"
  have ok1: "invar (w_store w1)" using ok w1 by simp
  obtain w2 where fresh: "job_of (w_store w1) (j_ID ?j) = None" "w_CreateJob ops ?j w1 = (Inr (), w2)"
      "invar (w_store w2)" "job_of (w_store w2) = (job_of (w_store w1))(j_ID ?j \<mapsto> ?j)"
  proof (rule w_CreateJob_cases [OF ok1, of ?j])
    fix e
    assume "w_CreateJob ops ?j w1 = (Inl e, w1)"
    with s show thesis by (simp add: Submit_def rc sc vr vt mj n st Let_def submit_fail_def)
  qed (rule that)
  let ?w = "appendStatusEvent E ops ?i StatusQueued [] (tel (JobSubmitted (svc_tel sv) profile SubmissionAccepted) w2)"
  have e: "Submit E sv u p w = (Inr ?j, ?w)"
    by (simp add: Submit_def rc sc vr vt mj n st fresh(2) Let_def)
  then have j: "j = ?j" and w': "w' = ?w" using s by simp_all
  have id: "j_ID j = ?i" "j_RunConfigJSON j = js" "j_RepoScope j = sp_RepoScope p"
    by (simp_all add: j newJob_def)
  show "\<exists>cfg profile. ?P cfg profile"
    using rc mj vr vt sc fresh(1) w1 id j n
    by (intro exI [of _ ?cfg] exI [of _ profile]) (simp add: newJob_def)
  have "quiet w2 ?w" by (rule quiet_trans [OF quiet_tel quiet_appendStatusEvent])
  with fresh(3,4) w1 j show "live_only ((job_of (w_store w))(j_ID j \<mapsto> j)) (job_of (w_store w'))"
    by (simp add: quiet_def w')
qed

text \<open>A failed submission leaves the store as it was.\<close>

lemma Submit_rejected:
  assumes st: "svc_store sv = ops" and ok: "invar (w_store w)" and s: "Submit E sv u p w = (Inl e, w')"
  shows "w_store w' = w_store w"
proof -
  obtain t w1 where n: "now E w = (t, w1)" by (cases "now E w")
  have w1: "w_store w1 = w_store w" using now_frame(1) [of E w] by (simp add: n)
  have ok1: "invar (w_store w1)" using ok w1 by simp
  have c: "w_store w2 = w_store w" if "w_CreateJob ops j w1 = (Inl e2, w2)" for j e2 w2
    using w_CreateJob_cases [OF ok1, of j] that w1 by fastforce
  show ?thesis using s c
    by (auto simp: Submit_def submit_fail_def Let_def n st
        split: sum.splits option.splits prod.splits)
qed

end

end
