(* ===== verification/MemList.thy ===== *)
theory MemList
  imports MemStore Reaper Watch
begin

text \<open>
  Paging through the in-memory store: \<open>ListJobs\<close> gives every job once, newest
  first, whatever the page size; the reaper's listing loop ends with all of them;
  the replay of a timeline ends and gives each event once when the identifiers
  increase.
\<close>

section \<open>Jobs\<close>

text \<open>The jobs at the positions below \<open>k\<close>, newest first.\<close>

definition jobs_below :: "memStore \<Rightarrow> nat \<Rightarrow> Job list" where
  "jobs_below m k = map (\<lambda>i. the (ms_jobs m i)) (rev (take k (ms_order m)))"

lemma jobs_below_Suc:
  "k < length (ms_order m) \<Longrightarrow> jobs_below m (Suc k) = the (ms_jobs m (ms_order m ! k)) # jobs_below m k"
  by (simp add: jobs_below_def take_Suc_conv_app_nth)

lemma length_jobs_below: "k \<le> length (ms_order m) \<Longrightarrow> length (jobs_below m k) = k"
  by (simp add: jobs_below_def)

lemma list_walk_page:
  assumes "mem_ok m" and "k \<le> length (ms_order m)"
  shows "list_walk m limit k out =
    (let n = min (limit - length out) k
     in Inr (out @ take n (jobs_below m k), int (k - n) - 1))"
  using assms(2)
proof (induction k arbitrary: out)
  case (Suc k)
  then have k: "k < length (ms_order m)" by simp
  then obtain j where j: "ms_jobs m (ms_order m ! k) = Some j"
    using mem_ok_order [OF assms(1), of "ms_order m ! k"] by auto
  show ?case
  proof (cases "length out < limit")
    case True
    have n: "min (limit - length out) (Suc k) = Suc (min (limit - length (out @ [j])) k)"
      using True by simp
    have "list_walk m limit (Suc k) out = list_walk m limit k (out @ [j])"
      using True k j by simp
    also have "\<dots> = (let n = min (limit - length (out @ [j])) k
        in Inr ((out @ [j]) @ take n (jobs_below m k), int (k - n) - 1))"
      by (rule Suc.IH) (use k in simp)
    also have "\<dots> = (let n = min (limit - length out) (Suc k)
        in Inr (out @ take n (jobs_below m (Suc k)), int (Suc k - n) - 1))"
      unfolding n Let_def by (simp add: jobs_below_Suc [OF k] j)
    finally show ?thesis .
  next
    case False
    then show ?thesis by simp
  qed
qed simp

text \<open>
  The position a page token stands for: nothing for the first page. A token past
  the end of the list is not one the store has given out.
\<close>

definition token_at :: "memStore \<Rightarrow> nat \<Rightarrow> string" where
  "token_at m k = (if k = 0 then [] else itoa (int k - 1))"

lemma token_at_nonempty: "0 < k \<Longrightarrow> token_at m k \<noteq> []"
  by (simp add: token_at_def itoa_def)

lemma ListJobs_page:
  assumes "mem_ok m" and "k \<le> length (ms_order m)" and "k < 2 ^ 63" and "0 < limit"
    and "tok = [] \<and> k = length (ms_order m) \<or> tok = token_at m k \<and> 0 < k"
  shows "mem_ListJobs limit tok m =
    (let n = min (nat limit) k in Inr (take n (jobs_below m k), token_at m (k - n)))"
proof -
  have start: "(if tok = [] then Some (int (length (ms_order m)) - 1)
      else map_option fst (scan_int64 tok)) = Some (int k - 1)"
  proof (cases "tok = []")
    case True
    with token_at_nonempty [of k m] assms(5) show ?thesis by auto
  next
    case False
    then have "tok = itoa (int k - 1)" "0 < k" using assms(5) by (auto simp: token_at_def)
    moreover have "scan_int64 (itoa (int k - 1)) = Some (int k - 1, [])"
      using \<open>0 < k\<close> assms(3) by (intro scan_int64_itoa_nonneg) simp_all
    ultimately show ?thesis using False by simp
  qed
  have "list_walk m (nat limit) k [] =
      (let n = min (nat limit) k in Inr (take n (jobs_below m k), int (k - n) - 1))"
    using list_walk_page [OF assms(1,2), of "nat limit" "[]"] by simp
  then show ?thesis
    using assms(4) unfolding mem_ListJobs_def Let_def start
    by (simp add: token_at_def of_nat_diff)
qed

text \<open>The pages fit together, and the listing loop ends.\<close>

lemma listAllJobs_mem:
  assumes "mem_ok (w_store w)" and "k \<le> length (ms_order (w_store w))" and "k < 2 ^ 63"
    and "rp_store rp = memStore_ops" and "0 < rp_pageSize rp" and "k < n"
    and "tok = [] \<and> k = length (ms_order (w_store w)) \<or> tok = token_at (w_store w) k \<and> 0 < k"
  shows "listAllJobs rp (\<lambda>_ v. v) n tok all w = Some (Inr (all @ jobs_below (w_store w) k), w)"
  using assms(2,3,6,7)
proof (induction n arbitrary: k tok all)
  case (Suc n)
  define m where "m = min (nat (rp_pageSize rp)) k"
  have m: "m \<le> k" "k = 0 \<or> 0 < m" using assms(5) by (auto simp: m_def)
  have page: "mem_ListJobs (rp_pageSize rp) tok (w_store w) =
      Inr (take m (jobs_below (w_store w) k), token_at (w_store w) (k - m))"
    using ListJobs_page [OF assms(1) Suc.prems(1,2) assms(5) Suc.prems(4)] by (simp add: Let_def m_def)
  show ?case
  proof (cases "k - m = 0")
    case True
    then have "take m (jobs_below (w_store w) k) = jobs_below (w_store w) k"
      using length_jobs_below [OF Suc.prems(1)] by simp
    then show ?thesis using True by (simp add: assms(4) page token_at_def)
  next
    case False
    then have pos: "0 < m" "0 < k - m" using m by auto
    have nonempty: "token_at (w_store w) (k - m) \<noteq> []" by (rule token_at_nonempty [OF pos(2)])
    have "listAllJobs rp (\<lambda>_ v. v) n (token_at (w_store w) (k - m))
        (all @ take m (jobs_below (w_store w) k)) w =
        Some (Inr ((all @ take m (jobs_below (w_store w) k)) @ jobs_below (w_store w) (k - m)), w)"
      by (rule Suc.IH) (use Suc.prems(1-3) pos in auto)
    moreover have "jobs_below (w_store w) (k - m) = drop m (jobs_below (w_store w) k)"
      using Suc.prems(1) m(1) by (simp add: jobs_below_def rev_take drop_map [symmetric] min_def add.commute)
    ultimately show ?thesis using nonempty by (simp add: assms(4) page)
  qed
qed simp

section \<open>Timelines\<close>

lemma mem_ReadEvents_eq:
  assumes "ms_jobs m i \<noteq> None"
  shows "mem_ReadEvents i cur historyPage m = Inr (take 500 (filter (after cur) (ms_events m i)))"
  using assms by (auto simp: mem_ReadEvents_def historyPage_def)

text \<open>
  The events after the last one of a page are strictly fewer than before, so the
  loop ends on any timeline.
\<close>

lemma length_filter_less_implies:
  assumes "\<And>y. y \<in> set xs \<Longrightarrow> Q y \<Longrightarrow> P y" and "x \<in> set xs" and "P x" and "\<not> Q x"
  shows "length (filter Q xs) < length (filter P xs)"
proof -
  have "filter Q xs = filter Q (filter P xs)"
    using assms(1) by (auto simp: filter_filter intro: filter_cong)
  moreover have "x \<in> set (filter P xs)" using assms(2,3) by simp
  ultimately show ?thesis using length_filter_less [of x "filter P xs" Q] assms(4) by simp
qed

definition ids_ok :: "Event list \<Rightarrow> bool" where
  "ids_ok evs \<longleftrightarrow> (\<forall>ev \<in> set evs. e_ID ev \<noteq> [])"

lemma after_next:
  assumes "e_ID x \<noteq> []" and "after cur x"
  shows "after (e_ID x) y \<Longrightarrow> after cur y" and "\<not> after (e_ID x) x"
  using assms streamIDLess_irrefl by (auto simp: after_def intro: streamIDLess_trans)

lemma replay_page:
  assumes "ms_jobs m i \<noteq> None" and "filter (after cur) (ms_events m i) \<noteq> []"
  obtains x where "x \<in> set (ms_events m i)" and "after cur x"
    and "x = last (take 500 (filter (after cur) (ms_events m i)))"
    and "replay memStore_ops (Suc n) i cur m =
      map_option (\<lambda>out. take 500 (filter (after cur) (ms_events m i)) @ out)
        (replay memStore_ops n i (e_ID x) m)"
proof -
  let ?F = "filter (after cur) (ms_events m i)"
  have ne: "take 500 ?F \<noteq> []" using assms(2) by (cases ?F) simp_all
  have "last (take 500 ?F) \<in> set ?F" using last_in_set [OF ne] by (blast dest: in_set_takeD)
  then show ?thesis
    using ne by (intro that [of "last (take 500 ?F)"]) (auto simp: mem_ReadEvents_eq [OF assms(1)])
qed

lemma replay_ends:
  assumes "ms_jobs m i \<noteq> None" and "ids_ok (ms_events m i)"
    and "length (filter (after cur) (ms_events m i)) < n"
  shows "\<exists>out. replay memStore_ops n i cur m = Some out"
  using assms(3)
proof (induction n arbitrary: cur)
  case (Suc n)
  show ?case
  proof (cases "filter (after cur) (ms_events m i) = []")
    case True
    then show ?thesis by (simp add: mem_ReadEvents_eq [OF assms(1)])
  next
    case False
    from replay_page [OF assms(1) False, of n] obtain x where x: "x \<in> set (ms_events m i)" "after cur x"
      and r: "replay memStore_ops (Suc n) i cur m =
        map_option (\<lambda>out. take 500 (filter (after cur) (ms_events m i)) @ out)
          (replay memStore_ops n i (e_ID x) m)" by blast
    have "e_ID x \<noteq> []" using assms(2) x(1) by (simp add: ids_ok_def)
    note nxt = after_next [OF this x(2)]
    have "length (filter (after (e_ID x)) (ms_events m i)) < length (filter (after cur) (ms_events m i))"
      by (rule length_filter_less_implies [where x = x]) (use nxt x in simp_all)
    then have "\<exists>out. replay memStore_ops n i (e_ID x) m = Some out"
      using Suc.prems by (intro Suc.IH) simp
    then show ?thesis unfolding r by auto
  qed
qed simp

text \<open>On a timeline in identifier order the replay is exact.\<close>

definition increasing_ids :: "Event list \<Rightarrow> bool" where
  "increasing_ids evs \<longleftrightarrow> sorted_wrt (\<lambda>x y. streamIDLess (e_ID x) (e_ID y)) evs"

lemma filter_after_last:
  assumes "increasing_ids xs" and "ids_ok xs" and "filter (after cur) xs \<noteq> []" and "0 < k"
  shows "filter (after (e_ID (last (take k (filter (after cur) xs))))) xs = drop k (filter (after cur) xs)"
proof -
  let ?F = "filter (after cur) xs"
  let ?x = "last (take k ?F)"
  have ne: "take k ?F \<noteq> []" using assms(3,4) by (cases ?F) simp_all
  have xF: "?x \<in> set ?F" using last_in_set [OF ne] by (blast dest: in_set_takeD)
  then have x: "e_ID ?x \<noteq> []" "after cur ?x" using assms(2) by (auto simp: ids_ok_def)
  have sF: "increasing_ids (take k ?F @ drop k ?F)"
    using assms(1) by (simp add: increasing_ids_def sorted_wrt_filter)
  have before: "\<not> after (e_ID ?x) y" if "y \<in> set (take k ?F)" for y
  proof -
    obtain as z where as: "take k ?F = as @ [z]" using ne by (metis append_butlast_last_id)
    then have z: "?x = z" by simp
    have "y = z \<or> streamIDLess (e_ID y) (e_ID z)"
      using sF that unfolding as by (auto simp: increasing_ids_def sorted_wrt_append)
    then have "y = ?x \<or> streamIDLess (e_ID y) (e_ID ?x)" by (simp only: z)
    then show ?thesis using x streamIDLess_irrefl by (auto simp: after_def dest: streamIDLess_trans)
  qed
  have beyond: "after (e_ID ?x) y" if "y \<in> set (drop k ?F)" for y
    using sF that last_in_set [OF ne] unfolding increasing_ids_def sorted_wrt_append after_def by blast
  have "filter (after (e_ID ?x)) xs = filter (after (e_ID ?x)) ?F"
    unfolding filter_filter by (rule filter_cong) (use after_next(1) [OF x] in blast)+
  also have "\<dots> = filter (after (e_ID ?x)) (take k ?F) @ filter (after (e_ID ?x)) (drop k ?F)"
    by (metis append_take_drop_id filter_append)
  also have "\<dots> = drop k ?F"
    using before beyond by (simp add: filter_empty_conv filter_id_conv)
  finally show ?thesis .
qed

lemma replay_exact:
  assumes "ms_jobs m i \<noteq> None" and "ids_ok (ms_events m i)" and "increasing_ids (ms_events m i)"
    and "length (filter (after cur) (ms_events m i)) < n"
  shows "replay memStore_ops n i cur m = Some (filter (after cur) (ms_events m i))"
  using assms(4)
proof (induction n arbitrary: cur)
  case (Suc n)
  let ?F = "filter (after cur) (ms_events m i)"
  show ?case
  proof (cases "?F = []")
    case True
    then show ?thesis by (simp add: mem_ReadEvents_eq [OF assms(1)])
  next
    case False
    from replay_page [OF assms(1) False, of n] obtain x where x: "x = last (take 500 ?F)"
      and r: "replay memStore_ops (Suc n) i cur m =
        map_option (\<lambda>out. take 500 ?F @ out) (replay memStore_ops n i (e_ID x) m)" by blast
    have F: "filter (after (e_ID x)) (ms_events m i) = drop 500 ?F"
      unfolding x by (rule filter_after_last [OF assms(3,2) False]) simp
    have "0 < length ?F" using False by simp
    then have "length (filter (after (e_ID x)) (ms_events m i)) < n"
      using Suc.prems unfolding F length_drop by linarith
    from Suc.IH [OF this] show ?thesis unfolding r F by simp
  qed
qed simp

end
