(* ===== verification/ReaperSpec.thy ===== *)
theory ReaperSpec
  imports ServiceSpec MemList
begin

text \<open>
  What a sweep does to the in-memory store: exactly the jobs that are stuck are
  failed, exactly the jobs past the retention window are deleted, and the deadline
  of a job is computed without overflow.
\<close>

section \<open>Jobs whose harness never connected\<close>

definition stuck_job :: "gotime \<Rightarrow> Job \<Rightarrow> Job" where
  "stuck_job t j = j\<lparr>j_Status := StatusFailed, j_Error := stuckHarnessError, j_FinishedAt := t\<rparr>"

lemma mem_w_AppendEvent_jobs: "ms_jobs (w_store (snd (w_AppendEvent E memStore_ops i ev w))) = ms_jobs (w_store w)"
  by (simp add: w_AppendEvent_def mem_AppendEvent_def now_def Let_def split: option.splits prod.splits)

lemma mem_appendStatusEvent_jobs:
  "ms_jobs (w_store (appendStatusEvent E memStore_ops i s e w)) = ms_jobs (w_store w)"
  by (simp add: appendStatusEvent_def case_prod_unfold Let_def mem_w_AppendEvent_jobs)

lemma failStuck_jobs:
  assumes "rp_store rp = memStore_ops"
  shows "ms_jobs (w_store (snd (failStuckHarness E rp i w))) =
    (case ms_jobs (w_store w) i of
       None \<Rightarrow> ms_jobs (w_store w)
     | Some j \<Rightarrow>
         if j_Status j = StatusAwaitingHarness
         then (ms_jobs (w_store w))(i \<mapsto> stuck_job (fst (now E w)) j)
         else ms_jobs (w_store w))"
  by (auto simp: failStuckHarness_def assms case_prod_unfold Let_def w_UpdateJob_def mem_UpdateJob_def
      fn_failStuck_def no_capture_def mem_appendStatusEvent_jobs stuck_job_def fun_upd_idem
      split: option.splits)

text \<open>The fate of one job under the loop over a snapshot.\<close>

lemma fail_each_job:
  assumes st: "rp_store rp = memStore_ops"
  shows "case ms_jobs (w_store w) i of
      None \<Rightarrow> ms_jobs (w_store (fail_each E rp t js w)) i = None
    | Some j \<Rightarrow>
        if j_Status j = StatusAwaitingHarness \<and> (\<exists>k \<in> set js. j_ID k = i \<and> is_stuck E rp t k)
        then \<exists>t'. ms_jobs (w_store (fail_each E rp t js w)) i = Some (stuck_job t' j)
        else ms_jobs (w_store (fail_each E rp t js w)) i = Some j"
proof (induction js arbitrary: w)
  case Nil
  then show ?case by (simp split: option.splits)
next
  case (Cons k js)
  define v where "v = (if is_stuck E rp t k then snd (failStuckHarness E rp (j_ID k) w) else w)"
  have run: "fail_each E rp t (k # js) w = fail_each E rp t js v" by (simp add: v_def)
  note IH = Cons.IH [of v]
  show ?case unfolding run
  proof (cases "is_stuck E rp t k \<and> j_ID k = i")
    case True
    show "case ms_jobs (w_store w) i of
        None \<Rightarrow> ms_jobs (w_store (fail_each E rp t js v)) i = None
      | Some j \<Rightarrow>
          if j_Status j = StatusAwaitingHarness \<and> (\<exists>x \<in> set (k # js). j_ID x = i \<and> is_stuck E rp t x)
          then \<exists>t'. ms_jobs (w_store (fail_each E rp t js v)) i = Some (stuck_job t' j)
          else ms_jobs (w_store (fail_each E rp t js v)) i = Some j"
    proof (cases "ms_jobs (w_store w) i")
      case None
      with True IH show ?thesis by (simp add: failStuck_jobs [OF st] v_def)
    next
      case (Some j)
      then have "ms_jobs (w_store v) i =
          Some (if j_Status j = StatusAwaitingHarness then stuck_job (fst (now E w)) j else j)"
        using True by (simp add: failStuck_jobs [OF st] v_def)
      with Some True IH show ?thesis
        by (cases "j_Status j = StatusAwaitingHarness") (auto simp: stuck_job_def)
    qed
  next
    case False
    then have "ms_jobs (w_store v) i = ms_jobs (w_store w) i"
      by (auto simp: failStuck_jobs [OF st] v_def split: option.splits)
    moreover have "(\<exists>x \<in> set (k # js). j_ID x = i \<and> is_stuck E rp t x) \<longleftrightarrow>
        (\<exists>x \<in> set js. j_ID x = i \<and> is_stuck E rp t x)"
      using False by auto
    ultimately show "case ms_jobs (w_store w) i of
        None \<Rightarrow> ms_jobs (w_store (fail_each E rp t js v)) i = None
      | Some j \<Rightarrow>
          if j_Status j = StatusAwaitingHarness \<and> (\<exists>x \<in> set (k # js). j_ID x = i \<and> is_stuck E rp t x)
          then \<exists>t'. ms_jobs (w_store (fail_each E rp t js v)) i = Some (stuck_job t' j)
          else ms_jobs (w_store (fail_each E rp t js v)) i = Some j"
      using IH by (simp only:)
  qed
qed

section \<open>Retention\<close>

lemma delete_each_jobs:
  assumes "rp_store rp = memStore_ops"
  shows "ms_jobs (w_store (delete_each rp t js w)) i =
    (if \<exists>k \<in> set js. j_ID k = i \<and> is_expired rp t k then None else ms_jobs (w_store w) i)"
proof (induction js arbitrary: w)
  case (Cons k js)
  have "ms_jobs (w_store (snd (w_DeleteJob (rp_store rp) (j_ID k) w))) = (ms_jobs (w_store w))(j_ID k := None)"
    by (auto simp: assms w_DeleteJob_def mem_DeleteJob_def split: option.splits prod.splits)
  with Cons show ?case by auto
qed simp

lemma reapRetention_jobs:
  assumes "rp_store rp = memStore_ops"
  shows "ms_jobs (w_store (reapRetention E rp js w)) i =
    (if \<exists>k \<in> set js. j_ID k = i \<and> is_expired rp (fst (now E w)) k then None
     else ms_jobs (w_store w) i)"
  using delete_each_jobs [OF assms, of "fst (now E w)" js "snd (now E w)" i]
  by (simp only: reapRetention_def case_prod_unfold Let_def now_frame)

lemma reapAwaiting_job:
  assumes "rp_store rp = memStore_ops"
  shows "case ms_jobs (w_store w) i of
      None \<Rightarrow> ms_jobs (w_store (reapAwaitingHarness E rp js w)) i = None
    | Some j \<Rightarrow>
        if j_Status j = StatusAwaitingHarness \<and>
           (\<exists>k \<in> set js. j_ID k = i \<and> is_stuck E rp (fst (now E w)) k)
        then \<exists>t'. ms_jobs (w_store (reapAwaitingHarness E rp js w)) i = Some (stuck_job t' j)
        else ms_jobs (w_store (reapAwaitingHarness E rp js w)) i = Some j"
  using fail_each_job [OF assms, where w = "snd (now E w)" and i = i and E = E and
      t = "fst (now E w)" and js = js]
  by (simp only: reapAwaitingHarness_def case_prod_unfold Let_def now_frame)

section \<open>A whole sweep\<close>

lemma jobs_below_all:
  assumes "mem_ok m"
  shows "k \<in> set (jobs_below m (length (ms_order m))) \<longleftrightarrow> ms_jobs m (j_ID k) = Some k"
proof -
  have "k \<in> set (jobs_below m (length (ms_order m))) \<longleftrightarrow> (\<exists>i. ms_jobs m i = Some k)"
    using mem_ok_order [OF assms] by (force simp: jobs_below_def)
  then show ?thesis using mem_ok_jobs [OF assms] by auto
qed

lemma snapshot_exists:
  assumes "mem_ok m" and "ms_jobs m i = Some j"
  shows "(\<exists>k \<in> set (jobs_below m (length (ms_order m))). j_ID k = i \<and> P k) \<longleftrightarrow> P j"
  using assms mem_ok_jobs [OF assms] by (auto simp: jobs_below_all [OF assms(1)])

text \<open>
  The clock is read once for each of the two passes; a job failed in the first
  is not in the snapshot as a terminal one, so the second leaves it alone.
\<close>

lemma sweep_outcome:
  assumes "rp_store rp = memStore_ops" and "mem_ok (w_store w)" and "0 < rp_pageSize rp"
    and "length (ms_order (w_store w)) < n" and "length (ms_order (w_store w)) < 2 ^ 63"
  shows "\<exists>w' t. sweep E rp (\<lambda>_ v. v) n w = Some w' \<and>
    (\<forall>i. case ms_jobs (w_store w) i of
       None \<Rightarrow> ms_jobs (w_store w') i = None
     | Some j \<Rightarrow>
         if is_stuck E rp (fst (now E w)) j
         then \<exists>t'. ms_jobs (w_store w') i = Some (stuck_job t' j)
         else ms_jobs (w_store w') i = (if 0 < rp_retention rp \<and> is_expired rp t j then None else Some j))"
proof -
  let ?js = "jobs_below (w_store w) (length (ms_order (w_store w)))"
  define w2 where "w2 = reapAwaitingHarness E rp ?js w"
  define w' where "w' = (if 0 < rp_retention rp then reapRetention E rp ?js w2 else w2)"
  define t where "t = fst (now E w2)"
  have "listAllJobs rp (\<lambda>_ v. v) n [] [] w = Some (Inr ?js, w)"
    using listAllJobs_mem [OF assms(2) _ assms(5,1,3,4), of "[]" "[]"] by simp
  then have sweep: "sweep E rp (\<lambda>_ v. v) n w = Some w'"
    by (simp add: sweep_def w2_def w'_def Let_def)
  have fate: "case ms_jobs (w_store w) i of
       None \<Rightarrow> ms_jobs (w_store w') i = None
     | Some j \<Rightarrow>
         if is_stuck E rp (fst (now E w)) j
         then \<exists>t'. ms_jobs (w_store w') i = Some (stuck_job t' j)
         else ms_jobs (w_store w') i = (if 0 < rp_retention rp \<and> is_expired rp t j then None else Some j)" for i
  proof -
    have second: "ms_jobs (w_store w') i =
        (if 0 < rp_retention rp \<and> (\<exists>k \<in> set ?js. j_ID k = i \<and> is_expired rp t k) then None
         else ms_jobs (w_store w2) i)"
      using reapRetention_jobs [OF assms(1), of E ?js w2 i] by (auto simp: w'_def t_def)
    note first = reapAwaiting_job [OF assms(1), where w = w and i = i and E = E and js = ?js, folded w2_def]
    show ?thesis
    proof (cases "ms_jobs (w_store w) i")
      case None
      with first second show ?thesis by simp
    next
      case (Some j)
      note ex = snapshot_exists [OF assms(2) Some]
      have "is_stuck E rp (fst (now E w)) j \<Longrightarrow> \<not> is_expired rp t j"
        by (auto simp: is_stuck_def is_expired_def)
      moreover have "is_stuck E rp (fst (now E w)) j \<Longrightarrow> j_Status j = StatusAwaitingHarness"
        by (simp add: is_stuck_def)
      ultimately show ?thesis using first second Some ex by auto
    qed
  qed
  show ?thesis using sweep fate by blast
qed

section \<open>Deadlines\<close>

lemma deadline_no_overflow:
  assumes "env_parse_config E js = Inr cfg" and "rc_Timeout cfg = Some t"
    and "0 \<le> t" and "t < 2 ^ 31" and "0 \<le> slack" and "slack \<le> 2 ^ 62"
  shows "awaitingHarnessDeadline E js slack = t * Second + slack + awaitingHarnessMargin"
proof -
  have "0 \<le> t * Second" "t * Second \<le> 2 ^ 31 * 1000000000"
    using assms(3,4) by (simp_all add: Second_def)
  then show ?thesis
    using assms by (simp add: awaitingHarnessDeadline_def GetTimeout_def awaitingHarnessMargin_def
        Minute_def wrap64_id min_int64_def max_int64_def)
qed

end
