(* ===== verification/LaunchSpec.thy ===== *)
theory LaunchSpec
  imports ReaperSpec
begin

text \<open>
  The background launch of a job: it moves a queued job to launching, calls the
  launcher, and records the outcome, without overwriting what happened to the job
  while the launcher ran.
\<close>

definition move_job :: "Status \<Rightarrow> Status \<Rightarrow> string \<Rightarrow> gotime \<Rightarrow> Job \<Rightarrow> Job" where
  "move_job from to e t j =
     (if j_Status j = from
      then j\<lparr>j_Status := to, j_Error := (if e \<noteq> [] then e else j_Error j),
             j_FinishedAt := (if Terminal to then t else j_FinishedAt j)\<rparr>
      else j)"

lemma transition_mem:
  assumes "svc_store sv = memStore_ops"
  shows "ms_jobs (w_store (snd (transition E sv i from to e w))) =
      (ms_jobs (w_store w))(i := map_option (move_job from to e (fst (now E w))) (ms_jobs (w_store w) i))"
    and "fst (transition E sv i from to e w) \<longleftrightarrow>
      (\<exists>j. ms_jobs (w_store w) i = Some j \<and> j_Status j = from)"
  using assms
  by (auto simp: transition_def w_UpdateJob_def mem_UpdateJob_def fn_transition_def no_capture_def
      mem_appendStatusEvent_jobs move_job_def now_frame Let_def case_prod_unfold fun_eq_iff
      split: option.splits)

definition launch_outcome :: "goerror option \<Rightarrow> gotime \<Rightarrow> Job \<Rightarrow> Job" where
  "launch_outcome r t =
     (case r of
        Some err \<Rightarrow> move_job StatusLaunching StatusFailed (Error err) t
      | None \<Rightarrow> move_job StatusLaunching StatusAwaitingHarness [] t)"

text \<open>
  \<open>v\<close> is the world in which the launcher runs: the job is launching. When it
  returns, only a job that is still launching takes the outcome.
\<close>

lemma launch_queued:
  assumes "svc_store sv = memStore_ops" and "ms_jobs (w_store w) (j_ID j) = Some k"
    and "j_Status k = StatusQueued"
  shows "\<exists>v t. ms_jobs (w_store v) = (ms_jobs (w_store w))(j_ID j \<mapsto> k\<lparr>j_Status := StatusLaunching\<rparr>) \<and>
    ms_jobs (w_store (launch E sv gap j w)) =
      (ms_jobs (w_store (gap 0 v)))(j_ID j := map_option (launch_outcome (svc_launcher sv (w_reads v) j) t)
         (ms_jobs (w_store (gap 0 v)) (j_ID j)))"
proof -
  obtain m w1 where tr: "transition E sv (j_ID j) StatusQueued StatusLaunching [] w = (m, w1)"
    by (cases "transition E sv (j_ID j) StatusQueued StatusLaunching [] w")
  have m: "m" and w1: "ms_jobs (w_store w1) = (ms_jobs (w_store w))(j_ID j \<mapsto> k\<lparr>j_Status := StatusLaunching\<rparr>)"
    using transition_mem [OF assms(1), of E "j_ID j" StatusQueued StatusLaunching "[]" w] assms(2,3)
    by (simp_all add: tr move_job_def)
  define v where "v = snd (now E w1)"
  define w3 where "w3 = snd (now E (gap 0 v))"
  have jobs: "ms_jobs (w_store v) = ms_jobs (w_store w1)" "ms_jobs (w_store w3) = ms_jobs (w_store (gap 0 v))"
    by (simp_all add: v_def w3_def now_frame)
  have "\<exists>ms. launch E sv gap j w =
      (case svc_launcher sv (w_reads v) j of
         Some err \<Rightarrow> snd (transition E sv (j_ID j) StatusLaunching StatusFailed (Error err) (tel ms w3))
       | None \<Rightarrow> snd (transition E sv (j_ID j) StatusLaunching StatusAwaitingHarness [] (tel ms w3)))"
    using m by (auto simp: launch_def tr Let_def v_def w3_def case_prod_unfold split: option.splits)
  then have "\<exists>t. ms_jobs (w_store (launch E sv gap j w)) =
      (ms_jobs (w_store w3))(j_ID j := map_option (launch_outcome (svc_launcher sv (w_reads v) j) t)
         (ms_jobs (w_store w3) (j_ID j)))"
    by (cases "svc_launcher sv (w_reads v) j")
       (auto simp: transition_mem(1) [OF assms(1)] launch_outcome_def)
  then show ?thesis using w1 jobs by (intro exI [of _ v]) simp
qed

lemma launch_skipped:
  assumes "svc_store sv = memStore_ops"
    and "\<And>k. ms_jobs (w_store w) (j_ID j) = Some k \<Longrightarrow> j_Status k \<noteq> StatusQueued"
  shows "ms_jobs (w_store (launch E sv gap j w)) = ms_jobs (w_store w)"
proof -
  obtain m w1 where tr: "transition E sv (j_ID j) StatusQueued StatusLaunching [] w = (m, w1)"
    by (cases "transition E sv (j_ID j) StatusQueued StatusLaunching [] w")
  have "\<not> m" "ms_jobs (w_store w1) = ms_jobs (w_store w)"
    using transition_mem [OF assms(1), of E "j_ID j" StatusQueued StatusLaunching "[]" w] assms(2)
    by (cases "ms_jobs (w_store w) (j_ID j)"; auto simp: tr move_job_def fun_eq_iff)+
  then show ?thesis by (simp add: launch_def tr Let_def)
qed

end
