(* ===== verification/MemSpec.thy ===== *)
theory MemSpec
  imports MemList
begin

text \<open>
  Timelines, watches and permission lists of the in-memory store: what is kept,
  in which order, and what a watcher receives.
\<close>

section \<open>Order of a timeline\<close>

text \<open>
  Every event carries the identifier of its instant and of a sequence number already
  used, and sequence numbers have not wrapped.
\<close>

definition stamped :: "memStore \<Rightarrow> string \<Rightarrow> bool" where
  "stamped m i \<longleftrightarrow>
     ms_seq m < 2 ^ 64 - 1 \<and>
     (\<forall>ev \<in> set (ms_events m i). 0 \<le> UnixMilli (e_At ev) \<and> UnixMilli (e_At ev) < 2 ^ 64 \<and>
        (\<exists>q \<le> ms_seq m. e_ID ev = stream_id (UnixMilli (e_At ev)) q))"

lemma stamped_ids_ok: "stamped m i \<Longrightarrow> ids_ok (ms_events m i)"
  by (auto simp: stamped_def ids_ok_def stream_id_def)

lemma next_seq_small: "n < 2 ^ 64 - 1 \<Longrightarrow> next_seq n = n + 1"
  by (simp add: next_seq_def)

lemma append_events:
  assumes "ms_jobs m i \<noteq> None"
  shows "ms_events (snd (mem_AppendEvent t i ev m)) i =
      keep_last (ms_maxLen m) (ms_events m i @ [stamp t (next_seq (ms_seq m)) ev])"
    and "ms_seq (snd (mem_AppendEvent t i ev m)) = next_seq (ms_seq m)"
  using assms by (auto simp: mem_AppendEvent_def Let_def)

text \<open>
  Appending an event whose instant is not before any recorded one keeps the
  identifiers strictly increasing.
\<close>

lemma append_in_order:
  assumes "ms_jobs m i \<noteq> None" and "stamped m i" and "increasing_ids (ms_events m i)"
    and "at = (if IsZero (e_At ev) then t else e_At ev)" and "0 \<le> UnixMilli at" and "UnixMilli at < 2 ^ 64"
    and "\<forall>x \<in> set (ms_events m i). e_At x \<le> at"
  shows "increasing_ids (ms_events (snd (mem_AppendEvent t i ev m)) i)"
proof -
  define s where "s = stamp t (next_seq (ms_seq m)) ev"
  have q: "ms_seq m < 2 ^ 64 - 1" using assms(2) by (simp add: stamped_def)
  have s: "e_ID s = stream_id (UnixMilli at) (ms_seq m + 1)"
    using assms(4) next_seq_small [OF q] by (simp add: s_def stamp_def Let_def)
  have "streamIDLess (e_ID x) (e_ID s)" if x: "x \<in> set (ms_events m i)" for x
  proof -
    obtain k where k: "k \<le> ms_seq m" "e_ID x = stream_id (UnixMilli (e_At x)) k"
      and r: "0 \<le> UnixMilli (e_At x)" "UnixMilli (e_At x) < 2 ^ 64"
      using assms(2) x by (auto simp: stamped_def)
    have "UnixMilli (e_At x) \<le> UnixMilli at" using assms(7) x by (simp add: UnixMilli_mono)
    then show ?thesis
      unfolding k(2) s using k(1) q r assms(5,6) by (subst streamIDLess_stream_id) auto
  qed
  then have "increasing_ids (ms_events m i @ [s])"
    using assms(3) by (simp add: increasing_ids_def sorted_wrt_append)
  then show ?thesis
    unfolding append_events(1) [OF assms(1)] s_def [symmetric]
    by (simp add: increasing_ids_def sorted_wrt_keep_last)
qed

section \<open>Watches\<close>

lemma WatchEvents_history:
  assumes "mem_ok m" and "ms_jobs m i \<noteq> None"
  shows "\<exists>w m'. mem_WatchEvents i a m = Some (Inr w, m') \<and> w \<in> set (ms_watchers m' i) \<and>
    mw_ch (ms_heap m' w) = filter (after a) (ms_events m i) \<and>
    length (mw_ch (ms_heap m' w)) + 64 \<le> watch_cap m' \<and> ms_jobs m' = ms_jobs m"
proof -
  have "length (filter (after a) (ms_events m i)) \<le> ms_maxLen m"
    by (rule le_trans [OF length_filter_le]) (use assms(1) in \<open>simp add: mem_ok_def\<close>)
  with assms(2) show ?thesis by (auto simp: mem_WatchEvents_def Let_def watch_cap_def)
qed

fun appends :: "(gotime \<times> Event) list \<Rightarrow> string \<Rightarrow> memStore \<Rightarrow> memStore" where
  "appends [] i m = m"
| "appends ((t, ev) # evs) i m = appends evs i (snd (mem_AppendEvent t i ev m))"

text \<open>A watcher with room left receives every live append, in order.\<close>

lemma appends_delivered:
  assumes "ms_jobs m i \<noteq> None" and "w \<in> set (ms_watchers m i)"
    and "length (mw_ch (ms_heap m w)) + length evs \<le> watch_cap m"
  shows "\<exists>new. mw_ch (ms_heap (appends evs i m) w) = mw_ch (ms_heap m w) @ new \<and>
    map e_Type new = map (e_Type \<circ> snd) evs \<and> map e_PayloadJSON new = map (e_PayloadJSON \<circ> snd) evs"
  using assms
proof (induction evs arbitrary: m)
  case Nil
  then show ?case by simp
next
  case (Cons te evs)
  obtain t ev where te: "te = (t, ev)" by (cases te)
  define m' where "m' = snd (mem_AppendEvent t i ev m)"
  define s where "s = stamp t (next_seq (ms_seq m)) ev"
  have m': "ms_jobs m' = ms_jobs m" "ms_watchers m' = ms_watchers m" "watch_cap m' = watch_cap m"
    "mw_ch (ms_heap m' w) = mw_ch (ms_heap m w) @ [s]"
    using Cons.prems
    by (auto simp: m'_def s_def mem_AppendEvent_def Let_def watch_cap_def offer_def split: option.splits)
  from Cons.IH [of m'] Cons.prems m' obtain new where
    "mw_ch (ms_heap (appends evs i m') w) = mw_ch (ms_heap m' w) @ new"
    "map e_Type new = map (e_Type \<circ> snd) evs" "map e_PayloadJSON new = map (e_PayloadJSON \<circ> snd) evs"
    by auto
  then show ?case
    by (intro exI [of _ "s # new"]) (simp add: te m'_def [symmetric] m'(4), simp add: s_def stamp_def Let_def)
qed

section \<open>Permission lists\<close>

lemma ListPermissions_sorted:
  "\<exists>ps. mem_ListPermissions i m = Inr ps \<and> sorted (map permission_key ps) \<and>
     set ps = snd ` set (ms_perms m i) \<and> length ps = length (ms_perms m i)"
  by (simp add: mem_ListPermissions_def)

section \<open>Page tokens out of range\<close>

lemma ListJobs_panics:
  assumes "length (ms_order m) \<le> k" and "k < 2 ^ 63" and "0 < limit"
  shows "mem_ListJobs limit (itoa (int k)) m = Inl (Panicked ''runtime error: index out of range'')"
proof -
  have "scan_int64 (itoa (int k)) = Some (int k, [])" using assms(2) by (intro scan_int64_itoa_nonneg) simp_all
  moreover have "itoa (int k) \<noteq> []" by (simp add: itoa_def)
  moreover have "nat (int k + 1) = Suc k" by simp
  ultimately show ?thesis using assms(1,3) by (simp add: mem_ListJobs_def Let_def)
qed

end
