(* ===== verification/JsonText.thy ===== *)
theory JsonText
  imports Json
begin

text \<open>
  The string encoder and the decoder are inverse on well-formed UTF-8, and so are
  arrays of strings and objects whose members are strings.
\<close>

section \<open>Sequences\<close>

lemma utf8_len_append: "utf8_len s \<noteq> 0 \<Longrightarrow> utf8_len (s @ r) = utf8_len s"
  by (cases s) (auto simp: utf8_len.simps split: if_splits list.splits)

lemma utf8_len_le: "utf8_len s \<le> length s"
  by (cases s) (auto simp: utf8_len.simps split: if_splits list.splits)

lemma utf8_len_cases:
  assumes "utf8_len s \<noteq> 0"
  obtains (one) a t where "s = a # t" "byte_in 0 127 a"
    | (two) a b t where "s = a # b # t" "\<And>r. utf8_len (a # b # r) = 2"
    | (three) a b c t where "s = a # b # c # t" "\<And>r. utf8_len (a # b # c # r) = 3"
    | (four) a b c d t where "s = a # b # c # d # t" "\<And>r. utf8_len (a # b # c # d # r) = 4"
proof (cases s)
  case Nil
  then show thesis using assms by simp
next
  case (Cons a t)
  consider "byte_in 0 127 a" | "\<not> byte_in 0 127 a" "byte_in 194 223 a"
    | "\<not> byte_in 0 127 a" "\<not> byte_in 194 223 a" "byte_in 224 239 a"
    | "\<not> byte_in 0 127 a" "\<not> byte_in 194 223 a" "\<not> byte_in 224 239 a" "byte_in 240 244 a"
    using assms unfolding Cons utf8_len.simps by argo
  then show thesis
  proof cases
    case 1
    then show thesis using one Cons by blast
  next
    case 2
    then have len: "(case t of b # _ \<Rightarrow> if byte_in 128 191 b then 2 else 0 | [] \<Rightarrow> 0) \<noteq> (0::nat)"
      using assms by (simp add: Cons utf8_len.simps)
    then obtain b t' where t: "t = b # t'" and b: "byte_in 128 191 b"
      by (cases t) (auto split: if_splits)
    have "utf8_len (a # b # r) = 2" for r using 2 b by (simp add: utf8_len.simps)
    then show thesis using two Cons t by blast
  next
    case 3
    have "utf8_len [a] = 0" and "utf8_len [a, b] = 0" for b using 3 by (simp_all add: utf8_len.simps)
    then obtain b c t' where t: "t = b # c # t'" using assms unfolding Cons by (metis list.exhaust)
    have "utf8_len (a # b # c # r) = 3" for r
      using 3 assms by (simp add: Cons t utf8_len.simps split: if_splits)
    then show thesis using three Cons t by blast
  next
    case 4
    have "utf8_len [a] = 0" and "utf8_len [a, b] = 0" and "utf8_len [a, b, c] = 0" for b c
      using 4 by (simp_all add: utf8_len.simps)
    then obtain b c d t' where t: "t = b # c # d # t'"
      using assms unfolding Cons by (metis list.exhaust)
    have "utf8_len (a # b # c # d # r) = 4" for r
      using 4 assms by (simp add: Cons t utf8_len.simps split: if_splits)
    then show thesis using four Cons t by blast
  qed
qed

lemma utf8_len_take:
  assumes "utf8_len s \<noteq> 0"
  shows "utf8_len (take (utf8_len s) s @ r) = utf8_len s"
  using assms by (rule utf8_len_cases) (simp_all add: utf8_len_ascii)

lemma utf8_len_ascii_iff: "utf8_len (a # s) = 1 \<longleftrightarrow> byte_in 0 127 a"
  by (auto simp: utf8_len.simps split: if_splits list.splits)

lemma utf8_len_multi:
  assumes "utf8_len (a # s) \<noteq> 0" and "utf8_len (a # s) \<noteq> 1"
  shows "194 \<le> (of_char a :: nat)"
  using assms by (auto simp: utf8_len.simps byte_in_def split: if_splits)

section \<open>Single characters\<close>

lemma hex_val_hex_char: "d < 16 \<Longrightarrow> hex_val (hex_char d) = Some d"
  by (auto simp: hex_val_def hex_char_def of_char_of Let_def)

lemma hex4_zero_zero:
  assumes "n < 256"
  shows "hex4 (CHR ''0'' # CHR ''0'' # hex_char (n div 16) # hex_char (n mod 16) # r) = Some n"
proof -
  have "hex_val CHR ''0'' = Some 0" by (simp add: hex_val_def)
  then show ?thesis using assms by (simp add: hex_val_hex_char)
qed

lemma parse_str_quote: "parse_str (CHR 0x22 # t) = Some ([], t)"
  by (subst parse_str.simps) simp

lemma parse_str_two:
  assumes "(e, d) \<in> {(CHR 0x22, CHR 0x22), (CHR 0x5C, CHR 0x5C), (CHR ''b'', CHR 0x08),
    (CHR ''f'', CHR 0x0C), (CHR ''n'', CHR 0x0A), (CHR ''r'', CHR 0x0D), (CHR ''t'', CHR 0x09)}"
  shows "parse_str (CHR 0x5C # e # r) = map_option (\<lambda>(x, y). (d # x, y)) (parse_str r)"
  using assms by (elim insertE emptyE; subst parse_str.simps; simp)

lemma parse_str_escape_byte:
  assumes "byte_in 0 127 c"
  shows "parse_str (json_escape_byte c @ r) = map_option (\<lambda>(x, y). (c # x, y)) (parse_str r)"
proof -
  define n where "n = (of_char c :: nat)"
  have c: "c = char_of n" by (simp add: n_def)
  have n: "n \<le> 127" using assms by (simp add: byte_in_def n_def)
  consider "n \<in> {34, 92, 8, 12, 10, 13, 9}"
    | "n \<notin> {34, 92, 8, 12, 10, 13, 9}" "n < 32 \<or> n = 60 \<or> n = 62 \<or> n = 38"
    | "n \<notin> {34, 92, 60, 62, 38}" "32 \<le> n" by fastforce
  then show ?thesis
  proof cases
    case 1
    then have "c \<in> {CHR 0x22, CHR 0x5C, CHR 0x08, CHR 0x0C, CHR 0x0A, CHR 0x0D, CHR 0x09}"
      by (auto simp: c char_of_eq_iff take_bit_eq_mod)
    then show ?thesis
      by (elim insertE emptyE; simp add: json_escape_byte_def parse_str_two)
  next
    case 2
    then have "json_escape_byte c = CHR 0x5C # ''u00'' @ [hex_char (n div 16), hex_char (n mod 16)]"
      by (auto simp: json_escape_byte_def Let_def n_def)
    moreover have "hex4 (CHR ''0'' # CHR ''0'' # hex_char (n div 16) # hex_char (n mod 16) # r) = Some n"
      using n by (intro hex4_zero_zero) simp
    moreover have "utf8_encode n = [c]" using n by (simp add: utf8_encode_def c)
    ultimately show ?thesis using n by (subst parse_str.simps) simp
  next
    case 3
    then have "json_escape_byte c = [c]" by (auto simp: json_escape_byte_def Let_def n_def)
    moreover have "utf8_len (c # r) = 1" using assms by (rule utf8_len_ascii)
    ultimately show ?thesis using 3 n_def by (subst parse_str.simps) simp
  qed
qed

section \<open>The round trip\<close>

lemma line_separator_bytes:
  "char_of (226::nat) = CHR 0xE2" "char_of (128::nat) = CHR 0x80"
  "char_of (168::nat) = CHR 0xA8" "char_of (169::nat) = CHR 0xA9"
  by (simp_all add: char_of_eq_iff take_bit_eq_mod)

lemma line_separator_cases:
  assumes "is_line_separator s"
  obtains t where "s = CHR 0xE2 # CHR 0x80 # CHR 0xA8 # t" | t where "s = CHR 0xE2 # CHR 0x80 # CHR 0xA9 # t"
  using assms unfolding is_line_separator_def
  by (cases s; cases "tl s"; cases "tl (tl s)") auto

lemma line_separator_len: "is_line_separator s \<Longrightarrow> utf8_len s = 3"
  by (erule line_separator_cases) (simp_all add: utf8_len.simps byte_in_def)

lemma parse_str_separator:
  assumes "is_line_separator s"
  shows "parse_str (CHR 0x5C # ''u202'' @ [hex_char (of_char (s ! 2) mod 16)] @ r) =
    map_option (\<lambda>(x, y). (take 3 s @ x, y)) (parse_str r)"
  using assms
  by (rule line_separator_cases; subst parse_str.simps;
      simp add: hex_char_def hex_val_def utf8_encode_def line_separator_bytes)

lemma parse_str_sequence:
  assumes "utf8_len s \<noteq> 0" and "utf8_len s \<noteq> 1"
  shows "parse_str (take (utf8_len s) s @ r) =
    map_option (\<lambda>(x, y). (take (utf8_len s) s @ x, y)) (parse_str r)"
proof -
  obtain a t where s: "s = a # t" using assms by (cases s) auto
  have a: "194 \<le> (of_char a :: nat)" using utf8_len_multi assms unfolding s by blast
  have len: "utf8_len (take (utf8_len s) s @ r) = utf8_len s" using assms by (intro utf8_len_take)
  have le: "length (take (utf8_len s) s) = utf8_len s" using utf8_len_le [of s] by simp
  obtain k where k: "utf8_len s = Suc k" using assms by (cases "utf8_len s") auto
  have split: "take (utf8_len s) s @ r = a # (take k t @ r)" unfolding k by (simp add: s)
  have "parse_str (take (utf8_len s) s @ r) =
      map_option (\<lambda>(x, y). (take (utf8_len s) (take (utf8_len s) s @ r) @ x, y))
        (parse_str (drop (utf8_len s) (take (utf8_len s) s @ r)))"
    using a assms(1) len unfolding split by (subst parse_str.simps) (simp add: Let_def)
  then show ?thesis using le by simp
qed

lemma parse_str_replacement:
  "parse_str (CHR 0x5C # ''ufffd'' @ r) = map_option (\<lambda>(x, y). (utf8_encode 65533 @ x, y)) (parse_str r)"
  by (subst parse_str.simps) (simp add: hex_val_def)

text \<open>
  Every escaped text decodes, up to its closing quote; a well-formed one decodes
  to itself.
\<close>

lemma parse_str_escape:
  "\<exists>x. parse_str (json_escape s @ CHR 0x22 # t) = Some (x, t) \<and> (utf8_valid s \<longrightarrow> x = s)"
proof (induction s rule: json_escape.induct)
  case (1 s)
  show ?case
  proof (cases "s = []")
    case True
    then show ?thesis by (simp add: json_escape.simps parse_str_quote)
  next
    case ne: False
    show ?thesis
    proof (cases "utf8_len s = 0")
      case True
      have "json_escape s = CHR 0x5C # ''ufffd'' @ json_escape (tl s)" "\<not> utf8_valid s"
        using ne True by (simp_all add: json_escape.simps [of s] utf8_valid.simps [of s])
      then show ?thesis
        using 1(1) [OF ne True] parse_str_replacement [of "json_escape (tl s) @ CHR 0x22 # t"] by auto
    next
      case len: False
      have valid: "utf8_valid s \<longleftrightarrow> utf8_valid (drop (utf8_len s) s)"
        using ne len by (simp add: utf8_valid.simps [of s])
      show ?thesis
      proof (cases "utf8_len s = 1")
        case True
        obtain a r where s: "s = a # r" using ne by (cases s) auto
        have a: "byte_in 0 127 a" using True utf8_len_ascii_iff unfolding s by blast
        obtain x where "parse_str (json_escape r @ CHR 0x22 # t) = Some (x, t)"
          "utf8_valid r \<longrightarrow> x = r" using 1(2) [OF ne len True] s by auto
        then show ?thesis
          using valid True parse_str_escape_byte [OF a]
          by (simp add: json_escape.simps [of "a # r"] s)
      next
        case multi: False
        have sep: "is_line_separator s \<Longrightarrow> utf8_len s = 3" by (rule line_separator_len)
        let ?esc = "if is_line_separator s
          then CHR 0x5C # ''u202'' @ [hex_char (of_char (s ! 2) mod 16)] else take (utf8_len s) s"
        have "json_escape s = ?esc @ json_escape (drop (utf8_len s) s)"
          using ne len multi sep by (simp add: json_escape.simps [of s])
        moreover have "parse_str (?esc @ r) =
            map_option (\<lambda>(x, y). (take (utf8_len s) s @ x, y)) (parse_str r)" for r
          using parse_str_separator [of s r] parse_str_sequence [OF len multi, of r] sep by auto
        moreover obtain x where "parse_str (json_escape (drop (utf8_len s) s) @ CHR 0x22 # t) = Some (x, t)"
          "utf8_valid (drop (utf8_len s) s) \<longrightarrow> x = drop (utf8_len s) s"
          using 1(3) [OF ne len multi] 1(4) [OF ne len multi] sep by (cases "is_line_separator s") auto
        ultimately show ?thesis using valid by simp
      qed
    qed
  qed
qed

section \<open>Values, arrays and objects of strings\<close>

lemma parse_value_string:
  "\<exists>x. parse_value (Suc n) (json_string s @ t) = Some (JStr x, t) \<and> (utf8_valid s \<longrightarrow> x = s)"
  using parse_str_escape [of s t] by (auto simp: json_string_def)

fun json_join :: "string list \<Rightarrow> string" where
  "json_join [] = []"
| "json_join [x] = x"
| "json_join (x # y # zs) = x @ CHR '','' # json_join (y # zs)"

definition json_array :: "string list \<Rightarrow> string" where
  "json_array xs = CHR ''['' # json_join (map json_string xs) @ '']''"

definition json_member :: "string \<times> string \<Rightarrow> string" where
  "json_member kv = json_string (fst kv) @ CHR '':'' # json_string (snd kv)"

definition json_object :: "(string \<times> string) list \<Rightarrow> string" where
  "json_object ms = CHR ''{'' # json_join (map json_member ms) @ ''}''"

lemma skip_ws_simps [simp]:
  "skip_ws (CHR '','' # u) = CHR '','' # u" "skip_ws (CHR '']'' # u) = CHR '']'' # u"
  "skip_ws (CHR ''}'' # u) = CHR ''}'' # u" "skip_ws (CHR ''{'' # u) = CHR ''{'' # u"
  "skip_ws (CHR ''['' # u) = CHR ''['' # u" "skip_ws (CHR '':'' # u) = CHR '':'' # u"
  "skip_ws (CHR 0x22 # u) = CHR 0x22 # u" "skip_ws [] = []"
  "skip_ws (json_string s @ u) = json_string s @ u"
  by (simp_all add: skip_ws_def json_ws_def json_string_def)

lemma skip_ws_join [simp]:
  "xs \<noteq> [] \<Longrightarrow> skip_ws (json_join (map json_string xs) @ u) = json_join (map json_string xs) @ u"
  "ms \<noteq> [] \<Longrightarrow> skip_ws (json_join (map json_member ms) @ u) = json_join (map json_member ms) @ u"
  by (cases xs; cases "tl xs"; simp) (cases ms; cases "tl ms"; simp add: json_member_def)

lemma parse_elems_strings:
  assumes "xs \<noteq> []" and "list_all utf8_valid xs"
  shows "parse_elems (Suc (length xs + n)) (json_join (map json_string xs) @ CHR '']'' # t) =
    Some (map JStr xs, t)"
  using assms
proof (induction xs)
  case (Cons x xs)
  have v: "parse_value (length (x # xs) + n) (json_string x @ u) = Some (JStr x, u)" for u
    using parse_value_string [of "length xs + n" x u] Cons.prems by simp
  show ?case
  proof (cases xs)
    case Nil
    with v show ?thesis by (subst parse_elems.simps) simp
  next
    case (Cons y ys)
    have "parse_elems (Suc (length xs + n)) (json_join (map json_string xs) @ CHR '']'' # t) =
        Some (map JStr xs, t)"
      using Cons.IH Cons.prems Cons by simp
    with v skip_ws_join(1) [of xs "CHR '']'' # t"] show ?thesis
      by (subst parse_elems.simps) (simp add: Cons del: parse_elems.simps parse_value.simps skip_ws_join)
  qed
qed simp

lemma parse_members_strings:
  assumes "ms \<noteq> []" and "list_all (\<lambda>(k, v). utf8_valid k \<and> utf8_valid v) ms"
  shows "parse_members (Suc (length ms + n)) (json_join (map json_member ms) @ CHR ''}'' # t) =
    Some (map (\<lambda>(k, v). (k, JStr v)) ms, t)"
  using assms
proof (induction ms)
  case (Cons m ms)
  obtain k w where m: "m = (k, w)" by (cases m)
  have v: "parse_value (Suc (length ms + n)) (json_string w @ u) = Some (JStr w, u)" for u
    using parse_value_string [of "length ms + n" w u] Cons.prems m by simp
  have k: "parse_str (json_escape k @ CHR 0x22 # u) = Some (k, u)" for u
    using parse_str_escape [of k u] Cons.prems m by auto
  have step: "parse_members (Suc (length (m # ms) + n)) (json_member m @ u) =
    (case skip_ws u of
       [] \<Rightarrow> None
     | d # r' \<Rightarrow>
         if d = CHR ''}'' then Some ([(k, JStr w)], r')
         else if d = CHR '','' then
           map_option (\<lambda>(ms, t). ((k, JStr w) # ms, t)) (parse_members (length (m # ms) + n) (skip_ws r'))
         else None)" for u
    by (subst parse_members.simps, simp add: m json_member_def json_string_def [of k] k
        del: parse_value.simps parse_members.simps) (simp add: v del: parse_value.simps parse_members.simps)
  show ?case
  proof (cases ms)
    case Nil
    with step [of "CHR ''}'' # t"] m show ?thesis by simp
  next
    case (Cons y ys)
    have "parse_members (Suc (length ms + n)) (json_join (map json_member ms) @ CHR ''}'' # t) =
        Some (map (\<lambda>(k, v). (k, JStr v)) ms, t)"
      using Cons.IH Cons.prems Cons by simp
    with step [of "CHR '','' # json_join (map json_member ms) @ CHR ''}'' # t"] Cons m
      skip_ws_join(2) [of ms "CHR ''}'' # t"] show ?thesis
      by (simp del: parse_members.simps skip_ws_join)
  qed
qed simp

lemma length_json_join: "list_all (\<lambda>x. x \<noteq> []) xs \<Longrightarrow> length xs \<le> length (json_join xs)"
  by (induction xs rule: json_join.induct) (auto simp: Suc_le_eq)

lemma json_texts_nonempty [simp]: "json_string s \<noteq> []" "json_member m \<noteq> []"
  by (simp_all add: json_string_def json_member_def)

lemma json_join_head:
  "xs \<noteq> [] \<Longrightarrow> \<exists>u. json_join (map json_string xs) = CHR 0x22 # u"
  "ms \<noteq> [] \<Longrightarrow> \<exists>u. json_join (map json_member ms) = CHR 0x22 # u"
  by (cases xs; cases "tl xs"; simp add: json_string_def)
     (cases ms; cases "tl ms"; simp add: json_member_def json_string_def)

lemma json_parse_array:
  assumes "list_all utf8_valid xs"
  shows "json_parse (json_array xs) = Some (JArr (map JStr xs))"
proof (cases "xs = []")
  case True
  then show ?thesis by (simp add: json_parse_def json_array_def numeral_eq_Suc)
next
  case False
  let ?b = "json_join (map json_string xs) @ CHR '']'' # []"
  obtain u where u: "?b = CHR 0x22 # u" using json_join_head(1) [OF False] by auto
  have "length xs \<le> length ?b" using length_json_join [of "map json_string xs"] by (simp add: list_all_iff)
  then obtain n where n: "2 * length (json_array xs) + 1 = Suc (length xs + n)"
    by (intro that [of "2 * length (json_array xs) - length xs"]) (simp add: json_array_def)
  have "parse_elems (2 * length (json_array xs) + 1) ?b = Some (map JStr xs, [])"
    unfolding n using parse_elems_strings [OF False assms, of n "[]"] by simp
  then have "parse_value (Suc (2 * length (json_array xs) + 1)) (CHR ''['' # ?b) = Some (JArr (map JStr xs), [])"
    unfolding u by (subst parse_value.simps) simp
  then show ?thesis by (simp add: json_parse_def json_array_def)
qed

lemma json_parse_object:
  assumes "ms \<noteq> []" and "list_all (\<lambda>(k, v). utf8_valid k \<and> utf8_valid v) ms"
  shows "json_parse (json_object ms) = Some (JObj (map (\<lambda>(k, v). (k, JStr v)) ms))"
proof -
  let ?b = "json_join (map json_member ms) @ CHR ''}'' # []"
  obtain u where u: "?b = CHR 0x22 # u" using json_join_head(2) [OF assms(1)] by auto
  have "length ms \<le> length ?b" using length_json_join [of "map json_member ms"] by (simp add: list_all_iff)
  then obtain n where n: "2 * length (json_object ms) + 1 = Suc (length ms + n)"
    by (intro that [of "2 * length (json_object ms) - length ms"]) (simp add: json_object_def)
  have "parse_members (2 * length (json_object ms) + 1) ?b = Some (map (\<lambda>(k, v). (k, JStr v)) ms, [])"
    unfolding n using parse_members_strings [OF assms, of n "[]"] by simp
  then have "parse_value (Suc (2 * length (json_object ms) + 1)) (CHR ''{'' # ?b) =
      Some (JObj (map (\<lambda>(k, v). (k, JStr v)) ms), [])"
    unfolding u by (subst parse_value.simps) simp
  then show ?thesis by (simp add: json_parse_def json_object_def)
qed

end
