(* ===== verification/JsonSpec.thy ===== *)
theory JsonSpec
  imports Watch ControlPlane JsonText
begin

text \<open>
  The status events hairpin writes are read back as the statuses they announce.
\<close>

lemma json_escape_keys: "json_escape ''status'' = ''status''" "json_escape ''error'' = ''error''"
  by code_simp+

lemma parse_members_string:
  assumes "parse_str (k @ CHR 0x22 # CHR '':'' # json_string s @ t) =
    Some (k, CHR '':'' # json_string s @ t)"
  shows "\<exists>x. (utf8_valid s \<longrightarrow> x = s) \<and>
    parse_members (Suc (Suc n)) (CHR 0x22 # k @ CHR 0x22 # CHR '':'' # json_string s @ t) =
    (case skip_ws t of
       [] \<Rightarrow> None
     | d # r' \<Rightarrow>
         if d = CHR ''}'' then Some ([(k, JStr x)], r')
         else if d = CHR '','' then
           map_option (\<lambda>(ms, t). ((k, JStr x) # ms, t)) (parse_members (Suc n) (skip_ws r'))
         else None)"
proof -
  obtain x where x: "parse_value (Suc n) (json_string s @ t) = Some (JStr x, t)"
      "utf8_valid s \<longrightarrow> x = s" using parse_value_string by blast
  have ws: "skip_ws (CHR '':'' # u) = CHR '':'' # u" "skip_ws (json_string s @ t) = json_string s @ t" for u
    by (simp_all add: skip_ws_def json_ws_def json_string_def)
  show ?thesis
    by (rule exI [of _ x], subst parse_members.simps) (simp add: assms x ws del: parse_value.simps parse_members.simps)
qed

lemma parse_statusPayload_encoded:
  assumes "utf8_valid (status_string s)"
  shows "\<exists>e. parse_statusPayload (statusPayload s err) = Some (status_string s, e)"
proof -
  let ?n = "2 * length (statusPayload s err)"
  obtain n where n: "?n = Suc (Suc (Suc n))"
    by (rule that [of "?n - 3"]) (simp add: statusPayload_def)
  have keys: "parse_str (''status'' @ CHR 0x22 # t) = Some (''status'', t)"
      "parse_str (''error'' @ CHR 0x22 # t) = Some (''error'', t)" for t
    using parse_str_escape [of "''status''" t] parse_str_escape [of "''error''" t]
      utf8_valid_ascii [of "''status''"] utf8_valid_ascii [of "''error''"]
    by (simp_all add: json_escape_keys byte_in_def)
  have ws: "skip_ws (CHR ''}'' # u) = CHR ''}'' # u" "skip_ws (CHR '','' # u) = CHR '','' # u"
     "skip_ws (CHR 0x22 # u) = CHR 0x22 # u" "skip_ws (CHR ''{'' # u) = CHR ''{'' # u" for u
    by (simp_all add: skip_ws_def json_ws_def)
  let ?tail = "(if err = [] then [] else CHR '','' # CHR 0x22 # ''error'' @ CHR 0x22 # CHR '':'' # json_string err) @ ''}''"
  have enc: "statusPayload s err =
      CHR ''{'' # CHR 0x22 # ''status'' @ CHR 0x22 # CHR '':'' # json_string (status_string s) @ ?tail"
    by (simp add: statusPayload_def)
  obtain x where x: "parse_members (Suc (Suc (Suc n)))
      (CHR 0x22 # ''error'' @ CHR 0x22 # CHR '':'' # json_string err @ [CHR ''}'']) = Some ([(''error'', JStr x)], [])"
    using parse_members_string [where n = "Suc n" and s = err and t = "''}''", OF keys(2)] by (auto simp: ws)
  define body where "body = CHR 0x22 # ''status'' @ CHR 0x22 # CHR '':'' # json_string (status_string s) @ ?tail"
  have body: "statusPayload s err = CHR ''{'' # body" "skip_ws body = body" "\<exists>r. body = CHR 0x22 # r"
    unfolding enc body_def by (simp_all add: ws)
  have "parse_members (Suc (Suc (Suc (Suc n)))) body
      = Some ((''status'', JStr (status_string s)) # (if err = [] then [] else [(''error'', JStr x)]), [])"
    using parse_members_string [where n = "Suc (Suc n)" and s = "status_string s" and t = ?tail, OF keys(1)] assms x
    unfolding body_def by (auto simp: ws simp del: parse_members.simps)
  then have "parse_value (?n + 2) (CHR ''{'' # body) =
      Some (JObj ((''status'', JStr (status_string s)) # (if err = [] then [] else [(''error'', JStr x)])), [])"
    using body(2,3) unfolding n by (auto simp del: parse_members.simps)
  then have "json_parse (statusPayload s err) =
      Some (JObj ((''status'', JStr (status_string s)) # (if err = [] then [] else [(''error'', JStr x)])))"
    by (simp add: json_parse_def body(1) ws)
  then show ?thesis by (simp add: parse_statusPayload_def field_for_def string_of_def)
qed

lemma named_status_valid: "named_status s \<Longrightarrow> utf8_valid (status_string s)"
  by (cases s) (auto intro!: utf8_valid_ascii simp: byte_in_def)

lemma status_payload_same: "named_status s \<Longrightarrow> status_payload s = statusPayload s []"
  by (cases s; (simp only: named_status_simps)?; (code_simp | simp))

theorem status_event_recognised:
  assumes "named_status s"
  shows "isTerminalStatusEvent \<lparr>e_ID = i, e_Type = EventTypeStatusChange,
           e_PayloadJSON = statusPayload s err, e_At = t\<rparr> \<longleftrightarrow> Terminal s"
    and "isTerminalStatusEvent \<lparr>e_ID = i, e_Type = EventStatusChange,
           e_PayloadJSON = status_payload s, e_At = t\<rparr> \<longleftrightarrow> Terminal s"
proof -
  note enc = parse_statusPayload_encoded [OF named_status_valid [OF assms]]
  have "isTerminalStatusEvent \<lparr>e_ID = i, e_Type = EventTypeStatusChange,
      e_PayloadJSON = statusPayload s x, e_At = t\<rparr> \<longleftrightarrow> Terminal s" for x
    using enc [of x] assms by (auto simp: isTerminalStatusEvent_def status_of_string_string)
  then show "isTerminalStatusEvent \<lparr>e_ID = i, e_Type = EventTypeStatusChange,
           e_PayloadJSON = statusPayload s err, e_At = t\<rparr> \<longleftrightarrow> Terminal s"
    and "isTerminalStatusEvent \<lparr>e_ID = i, e_Type = EventStatusChange,
           e_PayloadJSON = status_payload s, e_At = t\<rparr> \<longleftrightarrow> Terminal s"
    by (simp_all add: status_payload_same [OF assms] EventStatusChange_def EventTypeStatusChange_def)
qed

end
