(* ===== verification/Redis.thy ===== *)
theory Redis
  imports Prelude MemStore "HOL-Library.Char_ord" "HOL-Library.List_Lexorder"
begin

text \<open>
  The Redis server behind \<open>redisstore\<close>, as that package sees it through the
  go-redis client. The server is not part of the program: the record \<open>Redis\<close>
  is a parameter, one field for each command the store issues, over a state that
  stands for the server and the connection.

  What the store relies on is the locale \<open>redis_server\<close>: while the server is
  reachable, each command has its documented effect on the keyspace, written as the
  functions \<open>ref_\<dots>\<close> on a map from keys to typed values. Stream identifiers are
  chosen by the server; a transaction is refused when its watched key has changed.
  \<open>ref_redis\<close> is a server that meets these laws.
\<close>

section \<open>The keyspace\<close>

datatype rvalue =
    RHash "(string \<times> string) list"
  | RZSet "string set"
  | RStream "(string \<times> (string \<times> string) list) list"

type_synonym keyspace = "string \<Rightarrow> rvalue option"

text \<open>The writes of a \<open>MULTI\<close>/\<open>EXEC\<close> block.\<close>

datatype cmd =
    HSet string "(string \<times> string) list"
  | HDel string "string list"
  | Del "string list"
  | ZAdd string string
  | ZRem string string

section \<open>Commands\<close>

record 'r Redis =
  rd_Exists :: "string \<Rightarrow> 'r \<Rightarrow> int result"
  rd_HGetAll :: "string \<Rightarrow> 'r \<Rightarrow> (string \<times> string) list result"
  rd_HGet :: "string \<Rightarrow> string \<Rightarrow> 'r \<Rightarrow> string option result"
  rd_ZRevRangeByLex :: "string \<Rightarrow> string \<Rightarrow> int \<Rightarrow> 'r \<Rightarrow> string list result"
  rd_XRangeN :: "string \<Rightarrow> string \<Rightarrow> int \<Rightarrow> 'r \<Rightarrow> (string \<times> (string \<times> string) list) list result"
  rd_XAdd :: "string \<Rightarrow> int \<Rightarrow> (string \<times> string) list \<Rightarrow> 'r \<Rightarrow> string result \<times> 'r"
  rd_Pipe :: "cmd list \<Rightarrow> 'r \<Rightarrow> unit result \<times> 'r"
  rd_Watch :: "string \<Rightarrow> 'r \<Rightarrow> unit result"
  rd_Exec :: "string \<Rightarrow> 'r \<Rightarrow> cmd list \<Rightarrow> 'r \<Rightarrow> unit result \<times> 'r"

text \<open>
  \<open>HGet\<close> gives \<open>None\<close> for \<open>redis.Nil\<close>. \<open>ZRevRangeByLex\<close> runs from its start down
  to \<open>-\<close>, \<open>XRangeN\<close> from its start up to \<open>+\<close>. \<open>Exec\<close> is given the state in which its key was
  watched, and fails with \<open>TxFailedErr\<close> when the key has changed since.
\<close>

section \<open>Documented effects\<close>

definition wrong_type :: goerror where
  "wrong_type = Errorf ''WRONGTYPE Operation against a key holding the wrong kind of value'' [] None"

definition ref_Exists :: "string \<Rightarrow> keyspace \<Rightarrow> int" where
  "ref_Exists k V = (if V k = None then 0 else 1)"

definition ref_HGetAll :: "string \<Rightarrow> keyspace \<Rightarrow> (string \<times> string) list result" where
  "ref_HGetAll k V =
     (case V k of None \<Rightarrow> Inr [] | Some (RHash f) \<Rightarrow> Inr f | Some _ \<Rightarrow> Inl wrong_type)"

definition ref_HGet :: "string \<Rightarrow> string \<Rightarrow> keyspace \<Rightarrow> string option result" where
  "ref_HGet k f V =
     (case V k of None \<Rightarrow> Inr None | Some (RHash fs) \<Rightarrow> Inr (map_of fs f) | Some _ \<Rightarrow> Inl wrong_type)"

text \<open>A bound is \<open>+\<close>, or an excluded member behind an opening parenthesis.\<close>

definition below :: "string \<Rightarrow> string \<Rightarrow> bool" where
  "below start x \<longleftrightarrow> (case start of [] \<Rightarrow> False | c # m \<Rightarrow> c = CHR ''+'' \<or> c = CHR ''('' \<and> x < m)"

definition ref_ZRevRangeByLex :: "string \<Rightarrow> string \<Rightarrow> int \<Rightarrow> keyspace \<Rightarrow> string list result" where
  "ref_ZRevRangeByLex k start n V =
     (case V k of
        None \<Rightarrow> Inr []
      | Some (RZSet ms) \<Rightarrow> Inr (take (nat n) (rev (sorted_list_of_set {x \<in> ms. below start x})))
      | Some _ \<Rightarrow> Inl wrong_type)"

text \<open>A stream identifier the server accepts.\<close>

definition proper_id :: "string \<Rightarrow> bool" where
  "proper_id s \<longleftrightarrow> (\<exists>m q. s = utoa m @ ''-'' @ utoa q \<and> m < 2 ^ 64 \<and> q < 2 ^ 64)"

lemma proper_id_nonempty: "proper_id s \<Longrightarrow> s \<noteq> []"
  by (auto simp: proper_id_def)

definition ref_XRangeN ::
  "string \<Rightarrow> string \<Rightarrow> int \<Rightarrow> keyspace \<Rightarrow> (string \<times> (string \<times> string) list) list result" where
  "ref_XRangeN k start n V =
     (case V k of
        None \<Rightarrow> Inr []
      | Some (RStream es) \<Rightarrow>
          Inr (take (nat n) (if start = ''-'' then es
                             else filter (\<lambda>(i, _). streamIDLess (tl start) i) es))
      | Some _ \<Rightarrow> Inl wrong_type)"

definition hash_entries :: "rvalue option \<Rightarrow> (string \<times> string) list" where
  "hash_entries v = (case v of Some (RHash f) \<Rightarrow> f | _ \<Rightarrow> [])"

definition zset_members :: "rvalue option \<Rightarrow> string set" where
  "zset_members v = (case v of Some (RZSet ms) \<Rightarrow> ms | _ \<Rightarrow> {})"

definition stream_entries :: "rvalue option \<Rightarrow> (string \<times> (string \<times> string) list) list" where
  "stream_entries v = (case v of Some (RStream es) \<Rightarrow> es | _ \<Rightarrow> [])"

text \<open>A hash without fields and a set without members are absent keys.\<close>

definition hash_value :: "(string \<times> string) list \<Rightarrow> rvalue option" where
  "hash_value f = (if f = [] then None else Some (RHash f))"

definition zset_value :: "string set \<Rightarrow> rvalue option" where
  "zset_value ms = (if ms = {} then None else Some (RZSet ms))"

fun ref_cmd :: "cmd \<Rightarrow> keyspace \<Rightarrow> keyspace" where
  "ref_cmd (HSet k f) V = V(k := hash_value (AList.updates (map fst f) (map snd f) (hash_entries (V k))))"
| "ref_cmd (HDel k ns) V = V(k := hash_value (filter (\<lambda>(n, _). n \<notin> set ns) (hash_entries (V k))))"
| "ref_cmd (Del ks) V = (\<lambda>k. if k \<in> set ks then None else V k)"
| "ref_cmd (ZAdd k m) V = V(k := zset_value (insert m (zset_members (V k))))"
| "ref_cmd (ZRem k m) V = V(k := zset_value (zset_members (V k) - {m}))"

definition ref_cmds :: "cmd list \<Rightarrow> keyspace \<Rightarrow> keyspace" where
  "ref_cmds cs V = fold ref_cmd cs V"

text \<open>The keys a command is applied to hold values of its type, or none.\<close>

fun well_typed :: "cmd \<Rightarrow> keyspace \<Rightarrow> bool" where
  "well_typed (HSet k f) V = (case V k of None \<Rightarrow> True | Some (RHash _) \<Rightarrow> True | _ \<Rightarrow> False)"
| "well_typed (HDel k ns) V = (case V k of None \<Rightarrow> True | Some (RHash _) \<Rightarrow> True | _ \<Rightarrow> False)"
| "well_typed (Del ks) V = True"
| "well_typed (ZAdd k m) V = (case V k of None \<Rightarrow> True | Some (RZSet _) \<Rightarrow> True | _ \<Rightarrow> False)"
| "well_typed (ZRem k m) V = (case V k of None \<Rightarrow> True | Some (RZSet _) \<Rightarrow> True | _ \<Rightarrow> False)"

section \<open>What the store relies on\<close>

locale redis_server =
  fixes R :: "'r Redis"
    and keys :: "'r \<Rightarrow> keyspace"
    and up :: "'r \<Rightarrow> bool"
    and room :: "'r \<Rightarrow> string \<Rightarrow> bool"
  assumes Exists: "up s \<Longrightarrow> rd_Exists R k s = Inr (ref_Exists k (keys s))"
    and HGetAll: "up s \<Longrightarrow> rd_HGetAll R k s = ref_HGetAll k (keys s)"
    and HGet: "up s \<Longrightarrow> rd_HGet R k fld s = ref_HGet k fld (keys s)"
    and ZRevRangeByLex: "up s \<Longrightarrow> rd_ZRevRangeByLex R k start n s = ref_ZRevRangeByLex k start n (keys s)"
    and XRangeN:
      "up s \<Longrightarrow> start = ''-'' \<or> (\<exists>i. start = CHR ''('' # i \<and> proper_id i) \<Longrightarrow>
       rd_XRangeN R k start n s = ref_XRangeN k start n (keys s)"
    and XAdd:
      "up s \<Longrightarrow> keys s k = None \<or> (\<exists>es. keys s k = Some (RStream es)) \<Longrightarrow> room s k \<Longrightarrow> 0 < n \<Longrightarrow>
       \<exists>i m s'. rd_XAdd R k n vs s = (Inr i, s') \<and> up s' \<and> proper_id i \<and>
         (\<forall>(x, _) \<in> set (stream_entries (keys s k)). streamIDLess x i) \<and>
         m \<le> length (stream_entries (keys s k)) \<and>
         (m = 0 \<or> nat n \<le> Suc (length (stream_entries (keys s k))) - m) \<and>
         keys s' = (keys s)(k \<mapsto> RStream (drop m (stream_entries (keys s k)) @ [(i, vs)]))"
    and Pipe:
      "up s \<Longrightarrow> list_all (\<lambda>c. well_typed c (keys s)) cs \<Longrightarrow>
       \<exists>s'. rd_Pipe R cs s = (Inr (), s') \<and> up s' \<and> keys s' = ref_cmds cs (keys s)"
    and Watch: "up s \<Longrightarrow> rd_Watch R k s = Inr ()"
    and Exec_same:
      "up s \<Longrightarrow> list_all (\<lambda>c. well_typed c (keys s)) cs \<Longrightarrow>
       \<exists>s'. rd_Exec R k s cs s = (Inr (), s') \<and> up s' \<and> keys s' = ref_cmds cs (keys s)"
    and Exec_changed:
      "up s0 \<Longrightarrow> up s \<Longrightarrow> keys s k \<noteq> keys s0 k \<Longrightarrow>
       rd_Exec R k s0 cs s = (Inl (Sentinel TxFailedErr), s)"
    and Exec_cases:
      "up s0 \<Longrightarrow> up s \<Longrightarrow> list_all (\<lambda>c. well_typed c (keys s)) cs \<Longrightarrow>
       rd_Exec R k s0 cs s = (Inl (Sentinel TxFailedErr), s) \<or>
       (\<exists>s'. rd_Exec R k s0 cs s = (Inr (), s') \<and> up s' \<and> keys s' = ref_cmds cs (keys s))"

section \<open>A server that meets the laws\<close>

text \<open>
  It names entries after the largest identifier of the stream, trims exactly, and
  compares the watched value itself.
\<close>

definition next_id :: "(string \<times> (string \<times> string) list) list \<Rightarrow> nat \<times> nat" where
  "next_id es =
     (fold (\<lambda>(i, _). max (fst (scan_stream_id i))) es 0, Suc (fold (\<lambda>(i, _). max (snd (scan_stream_id i))) es 0))"

definition ref_XAdd ::
  "string \<Rightarrow> int \<Rightarrow> (string \<times> string) list \<Rightarrow> keyspace \<Rightarrow> string result \<times> keyspace" where
  "ref_XAdd k n vs V =
     (let es = stream_entries (V k); (a, b) = next_id es; i = utoa a @ ''-'' @ utoa b
      in (Inr i, V(k \<mapsto> RStream (keep_last (nat n) (es @ [(i, vs)])))))"

definition ref_redis :: "keyspace Redis" where
  "ref_redis =
     \<lparr>rd_Exists = (\<lambda>k V. Inr (ref_Exists k V)), rd_HGetAll = ref_HGetAll, rd_HGet = ref_HGet,
      rd_ZRevRangeByLex = ref_ZRevRangeByLex, rd_XRangeN = ref_XRangeN, rd_XAdd = ref_XAdd,
      rd_Pipe = (\<lambda>cs V. (Inr (), ref_cmds cs V)), rd_Watch = (\<lambda>k V. Inr ()),
      rd_Exec = (\<lambda>k V0 cs V. if V k = V0 k then (Inr (), ref_cmds cs V)
                             else (Inl (Sentinel TxFailedErr), V))\<rparr>"

definition ref_room :: "keyspace \<Rightarrow> string \<Rightarrow> bool" where
  "ref_room V k \<longleftrightarrow> snd (next_id (stream_entries (V k))) < 2 ^ 64"

lemma scan_stream_id_bounds: "fst (scan_stream_id x) < 2 ^ 64" "snd (scan_stream_id x) < 2 ^ 64"
  by (auto simp: scan_stream_id_def scan_uint64_def split: option.splits list.splits if_splits)

lemma fold_max_ge: "x \<in> set xs \<Longrightarrow> g x \<le> fold (\<lambda>x. max (g x)) xs (a::nat)"
  "a \<le> fold (\<lambda>x. max (g x)) xs a"
proof (induction xs arbitrary: a)
  case (Cons y ys)
  { case 1 with Cons(1,2) [of "max (g y) a"] show ?case by (auto intro: order_trans) }
  { case 2 with Cons(2) [of "max (g y) a"] show ?case by simp }
qed simp_all

lemma fold_max_less: "(\<And>x. x \<in> set xs \<Longrightarrow> g x < b) \<Longrightarrow> a < b \<Longrightarrow> fold (\<lambda>x. max (g x)) xs (a::nat) < b"
  by (induction xs arbitrary: a) simp_all

interpretation rr: redis_server ref_redis "\<lambda>V. V" "\<lambda>_. True" ref_room
proof (standard, goal_cases)
  case (6 s k n vs)
  let ?es = "stream_entries (s k)"
  obtain a b where ab: "next_id ?es = (a, b)" by (cases "next_id ?es")
  let ?i = "utoa a @ ''-'' @ utoa b"
  have a: "a < 2 ^ 64"
    using ab fold_max_less [of ?es "\<lambda>(i, _). fst (scan_stream_id i)" "2 ^ 64" 0] scan_stream_id_bounds(1)
    by (auto simp: next_id_def case_prod_unfold)
  have b: "b < 2 ^ 64" using 6(3) ab by (simp add: ref_room_def)
  have i: "?i = stream_id (int a) b" by (simp add: stream_id_def itoa_def)
  have "streamIDLess x ?i" if x: "(x, y) \<in> set ?es" for x y
  proof -
    have "fst (scan_stream_id x) \<le> a" "snd (scan_stream_id x) < b"
      using ab fold_max_ge(1) [OF x, of "\<lambda>(i, _). fst (scan_stream_id i)" 0]
        fold_max_ge(1) [OF x, of "\<lambda>(i, _). snd (scan_stream_id i)" 0]
      by (auto simp: next_id_def case_prod_unfold)
    then show ?thesis
      unfolding streamIDLess_iff_lex i using scan_stream_id_stream_id [of "int a" b] a b
      by (cases "scan_stream_id x") auto
  qed
  moreover have "proper_id ?i" using a b by (auto simp: proper_id_def)
  moreover define m where "m = Suc (length ?es) - nat n"
  have "keep_last (nat n) (?es @ [(?i, vs)]) = drop m ?es @ [(?i, vs)]" "m \<le> length ?es"
    "m = 0 \<or> nat n \<le> Suc (length ?es) - m"
    using 6(4) by (auto simp: keep_last_def m_def)
  ultimately show ?case
    using ab by (intro exI [of _ ?i] exI [of _ m]) (auto simp: ref_redis_def ref_XAdd_def Let_def)
qed (auto simp: ref_redis_def)

end
