(* ===== verification/GoTime.thy ===== *)
theory GoTime
  imports Prelude "HOL-Library.Monad_Syntax"
begin

text \<open>
  \<open>time.Format\<close> and \<open>time.Parse\<close> of the standard library with the layout
  \<open>RFC3339Nano\<close>, the form in which the Redis store keeps every instant, and the
  proof that they are inverse.

  An instant has no location in this development, so the offset from UTC (in
  minutes) of the location it is printed in is an argument. The parser takes the
  form of RFC 3339; Go's also takes a few shorter ones (a one-digit hour), which
  nothing here writes. The text of a parse error is abbreviated.
\<close>

section \<open>Civil dates\<close>

text \<open>Days since 1 January of year 1, in the proleptic Gregorian calendar.\<close>

definition days_before :: "int \<Rightarrow> int" where
  "days_before y = 365 * (y - 1) + (y - 1) div 4 - (y - 1) div 100 + (y - 1) div 400"

definition year_of :: "int \<Rightarrow> int" where
  "year_of d =
     (let y = 400 * d div 146097 + 1
      in if d < days_before y then y - 1 else if days_before (y + 1) \<le> d then y + 1 else y)"

definition is_leap :: "int \<Rightarrow> bool" where
  "is_leap y \<longleftrightarrow> y mod 4 = 0 \<and> (y mod 100 \<noteq> 0 \<or> y mod 400 = 0)"

definition month_lengths :: "int \<Rightarrow> int list" where
  "month_lengths y = [31, if is_leap y then 29 else 28, 31, 30, 31, 30, 31, 31, 30, 31, 30, 31]"

text \<open>The month (from \<open>0\<close>) and day of month (from \<open>0\<close>) of a day of the year.\<close>

fun month_day :: "int list \<Rightarrow> int \<Rightarrow> nat \<times> int" where
  "month_day [] n = (0, n)"
| "month_day (l # ls) n =
     (if n < l then (0, n) else let (m, d) = month_day ls (n - l) in (Suc m, d))"

lemma div_bounds:
  fixes k x :: int
  assumes "0 < k"
  shows "k * (x div k) \<le> x" "x < k * (x div k) + k"
  using assms mult_div_mod_eq [of k x] pos_mod_sign [of k x] pos_mod_bound [of k x] by linarith+

lemma div_less:
  fixes k x n :: int
  assumes "0 < k" and "x < n * k"
  shows "x div k < n"
proof (rule ccontr)
  assume "\<not> x div k < n"
  then have "k * n \<le> k * (x div k)" using assms(1) by (intro mult_left_mono) simp_all
  also have "\<dots> \<le> x" by (rule div_bounds(1) [OF assms(1)])
  finally show False using assms(2) by (simp add: mult.commute)
qed

lemma div_succ:
  fixes k x :: int
  assumes "0 < k"
  shows "(x + 1) div k = x div k + (if k dvd x + 1 then 1 else 0)"
proof -
  define q where "q = (x + 1) div k"
  have "x + 1 = k * q + (x + 1) mod k" unfolding q_def by simp
  moreover have "0 \<le> (x + 1) mod k" "(x + 1) mod k < k" using assms by simp_all
  moreover have "k dvd x + 1 \<longleftrightarrow> (x + 1) mod k = 0" by (simp add: dvd_eq_mod_eq_0)
  moreover have "x div k = (if (x + 1) mod k = 0 then q - 1 else q)"
  proof (cases "(x + 1) mod k = 0")
    case True
    with calculation(1) have "x = k * (q - 1) + (k - 1)" by (simp add: algebra_simps)
    from int_div_pos_eq [OF this] assms have "x div k = q - 1" by simp
    with True show ?thesis by simp
  next
    case False
    with calculation(1-3) have "x = k * q + ((x + 1) mod k - 1)" "0 \<le> (x + 1) mod k - 1"
      "(x + 1) mod k - 1 < k" by linarith+
    then have "x div k = q" by (rule int_div_pos_eq)
    with False show ?thesis by simp
  qed
  ultimately show ?thesis by (simp add: q_def [symmetric])
qed

lemma days_before_bounds:
  "146097 * (y - 1) - 699 \<le> 400 * days_before y" "400 * days_before y \<le> 146097 * (y - 1) + 396"
  using div_bounds [of 4 "y - 1"] div_bounds [of 100 "y - 1"] div_bounds [of 400 "y - 1"]
  unfolding days_before_def by simp_all

lemma year_of_bounds: "days_before (year_of d) \<le> d" "d < days_before (year_of d + 1)"
proof -
  define y where "y = 400 * d div 146097 + 1"
  have "146097 * (y - 1) \<le> 400 * d" "400 * d < 146097 * y"
    using div_bounds [of 146097 "400 * d"] unfolding y_def by simp_all
  then have "days_before (y - 1) \<le> d" "d < days_before (y + 2)"
    using days_before_bounds(2) [of "y - 1"] days_before_bounds(1) [of "y + 2"] by simp_all
  then show "days_before (year_of d) \<le> d" "d < days_before (year_of d + 1)"
    unfolding year_of_def y_def [symmetric] Let_def by (simp_all add: add.commute)
qed

lemma year_difference:
  fixes y a b c :: int
  assumes "u = a + (if p then 1 else 0)" "v = b + (if q then 1 else 0)" "w = c + (if r then 1 else 0)"
    and "r \<Longrightarrow> q" and "q \<Longrightarrow> p"
  shows "365 * y + u - v + w - (365 * (y - 1) + a - b + c) = (if p \<and> (\<not> q \<or> r) then 366 else 365)"
  using assms(4,5) unfolding assms(1-3) by (cases p; cases q; cases r) simp_all

lemma days_in_year: "days_before (y + 1) - days_before y = (if is_leap y then 366 else 365)"
proof -
  have leap: "is_leap y \<longleftrightarrow> 4 dvd y \<and> (\<not> 100 dvd y \<or> 400 dvd y)"
    by (simp add: is_leap_def dvd_eq_mod_eq_0)
  show ?thesis
    unfolding days_before_def add_diff_cancel_right' leap
  proof (rule year_difference)
    show "y div 4 = (y - 1) div 4 + (if 4 dvd y then 1 else 0)"
      by (rule div_succ [of 4 "y - 1", OF zero_less_numeral, unfolded diff_add_cancel])
    show "y div 100 = (y - 1) div 100 + (if 100 dvd y then 1 else 0)"
      by (rule div_succ [of 100 "y - 1", OF zero_less_numeral, unfolded diff_add_cancel])
    show "y div 400 = (y - 1) div 400 + (if 400 dvd y then 1 else 0)"
      by (rule div_succ [of 400 "y - 1", OF zero_less_numeral, unfolded diff_add_cancel])
  qed (rule dvd_trans [of 100 400] dvd_trans [of 4 100]; simp)+
qed

lemma days_before_mono:
  assumes "a \<le> b"
  shows "days_before a \<le> days_before b"
proof -
  have "days_before a \<le> days_before (a + int k)" for k
  proof (induction k)
    case (Suc k)
    have "days_before (a + int k) \<le> days_before (a + int k + 1)"
      using days_in_year [of "a + int k"] by (simp split: if_splits)
    with Suc show ?case by (simp add: add.assoc add.commute [of 1])
  qed simp
  from this [of "nat (b - a)"] assms show ?thesis by simp
qed

lemma sum_month_lengths: "sum_list (month_lengths y) = (if is_leap y then 366 else 365)"
  by (simp add: month_lengths_def)

lemma month_day_inverse:
  assumes "0 \<le> n" and "n < sum_list ls" and "month_day ls n = (m, d)"
  shows "m < length ls \<and> 0 \<le> d \<and> d < ls ! m \<and> sum_list (take m ls) + d = n"
  using assms
proof (induction ls arbitrary: n m)
  case (Cons l ls)
  show ?case
  proof (cases "n < l")
    case True
    with Cons.prems show ?thesis by simp
  next
    case False
    obtain k where k: "month_day ls (n - l) = (k, d)" "m = Suc k"
      using Cons.prems(3) False by (auto split: prod.splits)
    with Cons.IH [of "n - l" k] Cons.prems False show ?thesis by simp
  qed
qed simp

section \<open>Fixed-width decimal fields\<close>

fun zpad :: "nat \<Rightarrow> nat \<Rightarrow> string" where
  "zpad 0 n = []"
| "zpad (Suc k) n = zpad k (n div 10) @ [digit_char (n mod 10)]"

lemma length_zpad [simp]: "length (zpad k n) = k"
  by (induction k arbitrary: n) simp_all

lemma zpad_digits: "c \<in> set (zpad k n) \<Longrightarrow> is_digit c"
  by (induction k arbitrary: n) auto

lemma digits_val_zpad: "n < 10 ^ k \<Longrightarrow> digits_val (zpad k n) = n"
proof (induction k arbitrary: n)
  case 0
  then show ?case by (simp add: digits_val_def)
next
  case (Suc k)
  then have "n div 10 < 10 ^ k" by (simp add: less_mult_imp_div_less mult.commute)
  with Suc.IH [of "n div 10"] show ?case by (simp add: digits_val_snoc)
qed

text \<open>A field of \<open>k\<close> digits at the front of a text.\<close>

definition field :: "nat \<Rightarrow> string \<Rightarrow> (int \<times> string) option" where
  "field k s =
     (if k \<le> length s \<and> list_all is_digit (take k s) then Some (int (digits_val (take k s)), drop k s)
      else None)"

definition expect :: "char \<Rightarrow> string \<Rightarrow> string option" where
  "expect c s = (case s of [] \<Rightarrow> None | d # r \<Rightarrow> if d = c then Some r else None)"

lemma field_zpad_nat: "n < 10 ^ k \<Longrightarrow> field k (zpad k n @ r) = Some (int n, r)"
  using zpad_digits [of _ k n] digits_val_zpad [of n k] by (auto simp: field_def list_all_iff)

lemma field_zpad: "0 \<le> n \<Longrightarrow> n < 10 ^ k \<Longrightarrow> field k (zpad k (nat n) @ r) = Some (n, r)"
  using zpad_digits [of _ k "nat n"] digits_val_zpad [of "nat n" k]
  by (auto simp: field_def list_all_iff nat_less_iff)

lemma expect_Cons [simp]: "expect c (c # r) = Some r"
  by (simp add: expect_def)

section \<open>Fractions of a second\<close>

text \<open>Nine digits without their trailing zeros, and nothing when all are zero.\<close>

definition strip_zeros :: "string \<Rightarrow> string" where
  "strip_zeros s = rev (dropWhile (\<lambda>c. c = CHR ''0'') (rev s))"

definition frac_text :: "int \<Rightarrow> string" where
  "frac_text ns = (if ns = 0 then [] else CHR ''.'' # strip_zeros (zpad 9 (nat ns)))"

definition parse_frac :: "string \<Rightarrow> (int \<times> string) option" where
  "parse_frac s =
     (case s of
        [] \<Rightarrow> Some (0, s)
      | c # r \<Rightarrow>
          if c \<noteq> CHR ''.'' \<and> c \<noteq> CHR '','' then Some (0, s)
          else
            let ds = takeWhile is_digit r
            in if ds = [] then None
               else Some (int (digits_val (take 9 (ds @ replicate 9 (CHR ''0'')))), dropWhile is_digit r))"

lemma strip_zeros_pad:
  "strip_zeros s @ replicate (length s - length (strip_zeros s)) (CHR ''0'') = s"
proof -
  let ?z = "\<lambda>c. c = CHR ''0''"
  have "takeWhile ?z xs = replicate (length (takeWhile ?z xs)) (CHR ''0'')" for xs
    by (induction xs) auto
  then have "rev s = replicate (length (takeWhile ?z (rev s))) (CHR ''0'') @ dropWhile ?z (rev s)"
    by (metis takeWhile_dropWhile_id)
  then have "s = rev (replicate (length (takeWhile ?z (rev s))) (CHR ''0'') @ dropWhile ?z (rev s))"
    by (metis rev_rev_ident)
  then have e: "s = strip_zeros s @ replicate (length (takeWhile ?z (rev s))) (CHR ''0'')"
    by (simp add: strip_zeros_def)
  then have "length s = length (strip_zeros s) + length (takeWhile ?z (rev s))"
    by (metis length_append length_replicate)
  with e show ?thesis by simp
qed

lemma digits_val_zeros: "digits_val (replicate n (CHR ''0'')) = 0"
  by (induction n) (simp_all add: digits_val_def digit_val_def)

lemma set_strip_zeros: "set (strip_zeros s) \<subseteq> set s"
  unfolding strip_zeros_def by (auto dest: set_dropWhileD)

lemma parse_frac_frac_text:
  assumes "0 \<le> ns" and "ns < 10 ^ 9" and "r \<noteq> []" and "hd r \<in> {CHR ''Z'', CHR ''+'', CHR ''-''}"
  shows "parse_frac (frac_text ns @ r) = Some (ns, r)"
proof (cases "ns = 0")
  case True
  with assms(3,4) show ?thesis by (cases r) (auto simp: frac_text_def parse_frac_def)
next
  case False
  let ?z = "zpad 9 (nat ns)" and ?s = "strip_zeros (zpad 9 (nat ns))"
  have val: "digits_val ?z = nat ns" using assms(2) by (intro digits_val_zpad) (simp add: nat_less_iff)
  have pad: "?s @ replicate (9 - length ?s) (CHR ''0'') = ?z" using strip_zeros_pad [of ?z] by simp
  have len: "length ?s \<le> 9" using arg_cong [OF pad, of length] by simp
  have "take 9 (?s @ replicate 9 (CHR ''0'')) = ?z" using len pad by (simp add: min_def)
  moreover have digits: "list_all is_digit ?s"
    using set_strip_zeros [of ?z] zpad_digits [of _ 9 "nat ns"] by (auto simp: list_all_iff)
  moreover have "?s \<noteq> []"
  proof
    assume "?s = []"
    with pad have "?z = replicate 9 (CHR ''0'')" by simp
    then have "digits_val ?z = 0" by (simp only: digits_val_zeros)
    with val False assms(1) show False by simp
  qed
  moreover have "takeWhile is_digit (?s @ r) = ?s" "dropWhile is_digit (?s @ r) = r"
  proof -
    have "\<not> is_digit (hd r)" using assms(4) by (auto simp: is_digit_def)
    then show "takeWhile is_digit (?s @ r) = ?s" "dropWhile is_digit (?s @ r) = r"
      using digits assms(3) by (cases r; simp add: list_all_iff takeWhile_append dropWhile_append)+
  qed
  ultimately show ?thesis using False assms(1) val by (simp add: frac_text_def parse_frac_def Let_def)
qed

section \<open>Instants\<close>

definition zone_text :: "int \<Rightarrow> string" where
  "zone_text off =
     (if off = 0 then ''Z''
      else (if off < 0 then CHR ''-'' else CHR ''+'') #
           zpad 2 (nat (\<bar>off\<bar> div 60)) @ CHR '':'' # zpad 2 (nat (\<bar>off\<bar> mod 60)))"

definition date_text :: "int \<Rightarrow> string" where
  "date_text days =
     (let y = year_of days; (m, d) = month_day (month_lengths y) (days - days_before y)
      in zpad 4 (nat y) @ CHR ''-'' # zpad 2 (m + 1) @ CHR ''-'' # zpad 2 (nat (d + 1)))"

definition clock_text :: "int \<Rightarrow> string" where
  "clock_text s =
     zpad 2 (nat (s div 3600)) @ CHR '':'' # zpad 2 (nat (s div 60 mod 60)) @ CHR '':'' # zpad 2 (nat (s mod 60))"

definition time_Format :: "int \<Rightarrow> gotime \<Rightarrow> string" where
  "time_Format off t =
     (let l = t + off * Minute; secs = l div Second
      in date_text (secs div 86400) @ CHR ''T'' # clock_text (secs mod 86400) @
         frac_text (l mod Second) @ zone_text off)"

definition parse_zone :: "string \<Rightarrow> int option" where
  "parse_zone s =
     (case s of
        [] \<Rightarrow> None
      | c # r \<Rightarrow>
          if c = CHR ''Z'' then (if r = [] then Some 0 else None)
          else if c = CHR ''+'' \<or> c = CHR ''-'' then
            do {
              (h, r1) \<leftarrow> field 2 r;
              r2 \<leftarrow> expect CHR '':'' r1;
              (m, r3) \<leftarrow> field 2 r2;
              if r3 = [] \<and> h \<le> 24 \<and> m < 60 then Some (if c = CHR ''-'' then - (60 * h + m) else 60 * h + m)
              else None
            }
          else None)"

definition parse_date :: "string \<Rightarrow> (int \<times> string) option" where
  "parse_date s =
     do {
       (y, r1) \<leftarrow> field 4 s;
       r2 \<leftarrow> expect CHR ''-'' r1;
       (m, r3) \<leftarrow> field 2 r2;
       r4 \<leftarrow> expect CHR ''-'' r3;
       (d, r5) \<leftarrow> field 2 r4;
       if 1 \<le> m \<and> m \<le> 12 \<and> 1 \<le> d \<and> d \<le> month_lengths y ! nat (m - 1)
       then Some (days_before y + sum_list (take (nat (m - 1)) (month_lengths y)) + (d - 1), r5)
       else None
     }"

definition parse_clock :: "string \<Rightarrow> (int \<times> string) option" where
  "parse_clock s =
     do {
       (h, r1) \<leftarrow> field 2 s;
       r2 \<leftarrow> expect CHR '':'' r1;
       (m, r3) \<leftarrow> field 2 r2;
       r4 \<leftarrow> expect CHR '':'' r3;
       (x, r5) \<leftarrow> field 2 r4;
       if h < 24 \<and> m < 60 \<and> x < 60 then Some (3600 * h + 60 * m + x, r5) else None
     }"

definition parse_time :: "string \<Rightarrow> gotime option" where
  "parse_time s =
     do {
       (days, r1) \<leftarrow> parse_date s;
       r2 \<leftarrow> expect CHR ''T'' r1;
       (secs, r3) \<leftarrow> parse_clock r2;
       (ns, r4) \<leftarrow> parse_frac r3;
       off \<leftarrow> parse_zone r4;
       Some ((86400 * days + secs) * Second + ns - off * Minute)
     }"

definition time_Parse :: "string \<Rightarrow> gotime result" where
  "time_Parse s =
     (case parse_time s of
        Some t \<Rightarrow> Inr t
      | None \<Rightarrow> Inl (Errorf ''parsing time %q as RFC 3339: cannot parse'' [s] None))"

section \<open>The round trip\<close>

lemma parse_date_text:
  assumes "0 \<le> days" and "days < days_before 10000"
  shows "parse_date (date_text days @ r) = Some (days, r)"
proof -
  define y where "y = year_of days"
  obtain m d where md: "month_day (month_lengths y) (days - days_before y) = (m, d)"
    by (cases "month_day (month_lengths y) (days - days_before y)")
  note yb = year_of_bounds [of days, folded y_def]
  have "days - days_before y < sum_list (month_lengths y)"
    using yb(2) days_in_year [of y] unfolding sum_month_lengths by linarith
  from month_day_inverse [OF _ this md] yb(1) have
    m: "m < 12" and d: "0 \<le> d" "d < month_lengths y ! m"
    and sum: "sum_list (take m (month_lengths y)) + d = days - days_before y"
    by (simp_all add: month_lengths_def)
  have "month_lengths y ! m \<le> 31" using m by (auto simp: month_lengths_def less_Suc_eq numeral_eq_Suc)
  moreover have "0 < y" and "y < 10000"
  proof -
    show "0 < y"
    proof (rule ccontr)
      assume "\<not> 0 < y"
      then have "days_before (y + 1) \<le> days_before 1" by (intro days_before_mono) simp
      with yb(2) assms(1) show False by (simp add: days_before_def)
    qed
    show "y < 10000" using days_before_mono [of 10000 y] yb(1) assms(2) by (cases "y < 10000") auto
  qed
  ultimately show ?thesis
    using m d sum
    unfolding date_text_def parse_date_def y_def [symmetric] Let_def md
    by (simp add: field_zpad [of y 4] field_zpad_nat [of "Suc m" 2] field_zpad [of "d + 1" 2])
qed

lemma parse_clock_fields:
  assumes "0 \<le> h" "h < 24" "0 \<le> m" "m < 60" "0 \<le> x" "x < 60"
  shows "parse_clock (zpad 2 (nat h) @ CHR '':'' # zpad 2 (nat m) @ CHR '':'' # zpad 2 (nat x) @ r) =
    Some (3600 * h + 60 * m + x, r)"
  using assms by (simp add: parse_clock_def field_zpad)

lemma parse_clock_text:
  assumes "0 \<le> s" and "s < 86400"
  shows "parse_clock (clock_text s @ r) = Some (s, r)"
proof -
  have b: "0 \<le> s div 3600" "s div 3600 < 24" "0 \<le> s div 60 mod 60" "s div 60 mod 60 < 60"
    "0 \<le> s mod 60" "s mod 60 < 60"
    using assms by (simp_all add: div_int_pos_iff)
  have "s div 3600 = s div 60 div 60" by (simp add: zdiv_zmult2_eq [symmetric])
  then have "3600 * (s div 3600) + 60 * (s div 60 mod 60) + s mod 60 = s"
    using mult_div_mod_eq [of 60 s] mult_div_mod_eq [of 60 "s div 60"] by linarith
  with parse_clock_fields [OF b, of r] show ?thesis by (simp only: clock_text_def append_assoc append_Cons)
qed

lemma parse_zone_text:
  assumes "\<bar>off\<bar> < 1440"
  shows "parse_zone (zone_text off) = Some off"
proof (cases "off = 0")
  case True
  then show ?thesis by (simp add: zone_text_def parse_zone_def)
next
  case False
  let ?h = "\<bar>off\<bar> div 60" and ?m = "\<bar>off\<bar> mod 60"
  have b: "0 \<le> ?h" "?h < 24" "0 \<le> ?m" "?m < 60" using assms by (simp_all add: div_int_pos_iff)
  have "60 * ?h + ?m = \<bar>off\<bar>" by simp
  moreover have "field 2 (zpad 2 (nat ?m)) = Some (?m, [])"
    using field_zpad [of ?m 2 "[]"] b by simp
  ultimately show ?thesis
    using b False by (auto simp: zone_text_def parse_zone_def field_zpad [of ?h 2])
qed

lemma zone_text_head: "zone_text off \<noteq> [] \<and> hd (zone_text off) \<in> {CHR ''Z'', CHR ''+'', CHR ''-''}"
  by (simp add: zone_text_def)

theorem parse_time_Format:
  assumes "\<bar>off\<bar> < 1440" and "0 \<le> t + off * Minute" and "t + off * Minute < days_before 10000 * 86400 * Second"
  shows "parse_time (time_Format off t) = Some t"
proof -
  define l where "l = t + off * Minute"
  define secs where "secs = l div Second"
  have l: "l = secs * Second + l mod Second" and ns: "0 \<le> l mod Second" "l mod Second < 10 ^ 9"
    by (simp_all add: secs_def Second_def)
  have s: "0 \<le> secs" "secs < days_before 10000 * 86400"
    using assms(2,3) div_less [of Second l "days_before 10000 * 86400"]
    unfolding secs_def l_def [symmetric] by (simp_all add: Second_def div_int_pos_iff)
  have d: "0 \<le> secs div 86400" "secs div 86400 < days_before 10000"
    using s div_less [of 86400 secs "days_before 10000"] by (simp_all add: div_int_pos_iff)
  have c: "0 \<le> secs mod 86400" "secs mod 86400 < 86400" by simp_all
  have "86400 * (secs div 86400) + secs mod 86400 = secs" by simp
  moreover have "t = l - off * Minute" by (simp add: l_def)
  ultimately show ?thesis
    using l zone_text_head [of off] ns
    unfolding time_Format_def parse_time_def Let_def l_def [symmetric] secs_def [symmetric]
    by (simp add: parse_date_text [OF d] parse_clock_text [OF c] parse_frac_frac_text parse_zone_text [OF assms(1)])
qed

end
