(* ===== verification/RedisStore.thy ===== *)
theory RedisStore
  imports Redis GoTime Memory JsonText
begin

text \<open>
  The Redis-backed store of \<open>src/internal/store/redisstore\<close>: jobs are hashes,
  timelines are capped streams, permission requests are a hash of JSON documents, and
  the listing rides a set ordered by job identifier.

  Each operation issues several commands, and other clients of the server may act
  between two of them: \<open>gap\<close> is what they do before the \<open>n\<close>-th such point. The
  random delay between two attempts of an update has no effect but time and is left out.
\<close>

section \<open>State and keys\<close>

definition DefaultMaxEvents :: int where
  "DefaultMaxEvents = 10000"

record 'r redisStore =
  rs_client :: "'r Redis"
  rs_maxEvents :: int
  rs_zone :: "gotime \<Rightarrow> int"

text \<open>\<open>rs_zone\<close> is the offset, in minutes, of the location an instant carries.\<close>

definition NewRedisStore :: "'r Redis \<Rightarrow> int \<Rightarrow> (gotime \<Rightarrow> int) \<Rightarrow> 'r redisStore" where
  "NewRedisStore client maxEvents zone =
     \<lparr>rs_client = client, rs_maxEvents = (if maxEvents \<le> 0 then DefaultMaxEvents else maxEvents),
      rs_zone = zone\<rparr>"

definition jobsIndexKey :: string where
  "jobsIndexKey = ''hairpin:jobs''"

definition jobKey :: "string \<Rightarrow> string" where
  "jobKey i = ''hairpin:job:'' @ i"

definition eventsKey :: "string \<Rightarrow> string" where
  "eventsKey i = jobKey i @ '':events''"

definition permsKey :: "string \<Rightarrow> string" where
  "permsKey i = jobKey i @ '':perms''"

definition notFoundf :: "string \<Rightarrow> string list \<Rightarrow> goerror" where
  "notFoundf fmt args = Errorf (fmt @ '': %w'') args (Some (Sentinel ErrNotFound))"

definition conflictf :: "string \<Rightarrow> string list \<Rightarrow> goerror" where
  "conflictf fmt args = Errorf (fmt @ '': %w'') args (Some (Sentinel ErrConflict))"

definition maxUpdateRetries :: nat where
  "maxUpdateRetries = 30"

section \<open>The job hash\<close>

definition boolField :: "bool \<Rightarrow> string" where
  "boolField b = (if b then ''1'' else ''0'')"

definition repoScopeField :: "string list \<Rightarrow> string" where
  "repoScopeField scope = (if scope = [] then [] else json_array scope)"

definition time_entry :: "(gotime \<Rightarrow> int) \<Rightarrow> string \<Rightarrow> gotime \<Rightarrow> (string \<times> string) list" where
  "time_entry zone name t = (if IsZero t then [] else [(name, time_Format (zone t) t)])"

definition jobSetFields :: "(gotime \<Rightarrow> int) \<Rightarrow> Job \<Rightarrow> (string \<times> string) list" where
  "jobSetFields zone j =
     [(''id'', j_ID j), (''status'', status_string (j_Status j)), (''prompt'', j_Prompt j),
      (''profile'', j_Profile j), (''run_config_json'', j_RunConfigJSON j),
      (''stop_reason'', j_StopReason j), (''error'', j_Error j), (''final_text'', j_FinalText j),
      (''cancel_requested'', boolField (j_CancelRequested j)), (''harness_token'', j_HarnessToken j),
      (''trace_parent'', j_TraceParent j), (''repo_scope'', repoScopeField (j_RepoScope j))] @
     time_entry zone ''created_at'' (j_CreatedAt j) @ time_entry zone ''started_at'' (j_StartedAt j) @
     time_entry zone ''finished_at'' (j_FinishedAt j) @ time_entry zone ''last_event_at'' (j_LastEventAt j)"

definition jobClearFields :: "Job \<Rightarrow> string list" where
  "jobClearFields j =
     (if IsZero (j_CreatedAt j) then [''created_at''] else []) @
     (if IsZero (j_StartedAt j) then [''started_at''] else []) @
     (if IsZero (j_FinishedAt j) then [''finished_at''] else []) @
     (if IsZero (j_LastEventAt j) then [''last_event_at''] else [])"

text \<open>Reading a Go map at an absent key gives the empty string.\<close>

definition fget :: "(string \<times> string) list \<Rightarrow> string \<Rightarrow> string" where
  "fget flds name = (case map_of flds name of None \<Rightarrow> [] | Some v \<Rightarrow> v)"

definition parseTimeField :: "(string \<times> string) list \<Rightarrow> string \<Rightarrow> gotime result" where
  "parseTimeField flds name =
     (let v = fget flds name
      in if v = [] then Inr zero_time
         else case time_Parse v of
                Inl e \<Rightarrow> Inl (Errorf ''field %s: %w'' [name] (Some e))
              | Inr t \<Rightarrow> Inr t)"

text \<open>\<open>json.Unmarshal\<close> into a \<open>[]string\<close>: \<open>null\<close> leaves an element empty.\<close>

fun decode_strings :: "json list \<Rightarrow> string list option" where
  "decode_strings [] = Some []"
| "decode_strings (v # vs) =
     (case string_of v of
        Inl _ \<Rightarrow> None
      | Inr x \<Rightarrow> map_option (\<lambda>xs. (case x of None \<Rightarrow> [] | Some s \<Rightarrow> s) # xs) (decode_strings vs))"

definition unmarshal_strings :: "string \<Rightarrow> string list option" where
  "unmarshal_strings s =
     (case json_parse s of
        Some JNull \<Rightarrow> Some []
      | Some (JArr vs) \<Rightarrow> decode_strings vs
      | _ \<Rightarrow> None)"

definition json_error :: goerror where
  "json_error = Errorf ''json: cannot unmarshal'' [] None"

text \<open>
  The four instants are read in a fixed order; Go ranges over a map, so which of
  several malformed ones is reported is unspecified there.
\<close>

definition jobFromFields :: "(string \<times> string) list \<Rightarrow> Job result" where
  "jobFromFields flds =
     (case (if fget flds ''repo_scope'' = [] then Some []
            else unmarshal_strings (fget flds ''repo_scope'')) of
        None \<Rightarrow> Inl (Errorf ''field repo_scope: %w'' [] (Some json_error))
      | Some scope \<Rightarrow>
          (case parseTimeField flds ''created_at'' of
             Inl e \<Rightarrow> Inl e
           | Inr created \<Rightarrow>
          (case parseTimeField flds ''started_at'' of
             Inl e \<Rightarrow> Inl e
           | Inr started \<Rightarrow>
          (case parseTimeField flds ''finished_at'' of
             Inl e \<Rightarrow> Inl e
           | Inr finished \<Rightarrow>
          (case parseTimeField flds ''last_event_at'' of
             Inl e \<Rightarrow> Inl e
           | Inr seen \<Rightarrow>
               Inr \<lparr>j_ID = fget flds ''id'', j_Status = status_of_string (fget flds ''status''),
                    j_Prompt = fget flds ''prompt'', j_Profile = fget flds ''profile'',
                    j_RunConfigJSON = fget flds ''run_config_json'',
                    j_StopReason = fget flds ''stop_reason'', j_Error = fget flds ''error'',
                    j_FinalText = fget flds ''final_text'', j_CreatedAt = created,
                    j_StartedAt = started, j_FinishedAt = finished, j_LastEventAt = seen,
                    j_CancelRequested = (fget flds ''cancel_requested'' = ''1''),
                    j_TraceParent = fget flds ''trace_parent'',
                    j_HarnessToken = fget flds ''harness_token'', j_RepoScope = scope\<rparr>)))))"

section \<open>Jobs\<close>

definition rds_CreateJob ::
  "'r redisStore \<Rightarrow> (nat \<Rightarrow> 'r \<Rightarrow> 'r) \<Rightarrow> Job \<Rightarrow> 'r \<Rightarrow> unit result \<times> 'r" where
  "rds_CreateJob st gap j s =
     (let R = rs_client st; key = jobKey (j_ID j);
          (txErr, s') =
            (case rd_Watch R key s of
               Inl e \<Rightarrow> (Inl e, s)
             | Inr _ \<Rightarrow>
                 (case rd_Exists R key s of
                    Inl e \<Rightarrow> (Inl e, s)
                  | Inr n \<Rightarrow>
                      if n \<noteq> 0 then (Inl (Sentinel ErrConflict), s)
                      else rd_Exec R key s
                             [HSet key (jobSetFields (rs_zone st) j), ZAdd jobsIndexKey (j_ID j)] (gap 0 s)))
      in case txErr of
           Inr _ \<Rightarrow> (Inr (), s')
         | Inl e \<Rightarrow>
             if errors_Is e ErrConflict \<or> errors_Is e TxFailedErr then (Inl (conflictf ''job %s'' [j_ID j]), s')
             else (Inl (Errorf ''create job %s: %w'' [j_ID j] (Some e)), s'))"

definition rds_GetJob :: "'r redisStore \<Rightarrow> string \<Rightarrow> 'r \<Rightarrow> Job result" where
  "rds_GetJob st i s =
     (case rd_HGetAll (rs_client st) (jobKey i) s of
        Inl e \<Rightarrow> Inl (Errorf ''job %s: %w'' [i] (Some e))
      | Inr flds \<Rightarrow> if flds = [] then Inl (notFoundf ''job %s'' [i]) else jobFromFields flds)"

fun rds_get_each ::
  "'r redisStore \<Rightarrow> (nat \<Rightarrow> 'r \<Rightarrow> 'r) \<Rightarrow> string list \<Rightarrow> Job list \<Rightarrow> 'r \<Rightarrow> Job list result \<times> 'r" where
  "rds_get_each st gap [] out s = (Inr out, s)"
| "rds_get_each st gap (i # is) out s =
     (let s1 = gap (length is) s
      in case rds_GetJob st i s1 of
           Inl e \<Rightarrow>
             if errors_Is e ErrNotFound then rds_get_each st gap is out s1
             else (Inl (Errorf ''list jobs: %w'' [] (Some e)), s1)
         | Inr j \<Rightarrow> rds_get_each st gap is (out @ [j]) s1)"

definition rds_ListJobs ::
  "'r redisStore \<Rightarrow> (nat \<Rightarrow> 'r \<Rightarrow> 'r) \<Rightarrow> int \<Rightarrow> string \<Rightarrow> 'r \<Rightarrow> (Job list \<times> string) result \<times> 'r" where
  "rds_ListJobs st gap limit pageToken s =
     (let lim = nat (if limit \<le> 0 then 50 else limit);
          start = (if pageToken \<noteq> [] then CHR ''('' # pageToken else ''+'')
      in case rd_ZRevRangeByLex (rs_client st) jobsIndexKey start (int lim + 1) s of
           Inl e \<Rightarrow> (Inl (Errorf ''list jobs: %w'' [] (Some e)), s)
         | Inr ids \<Rightarrow>
             (let hasMore = lim < length ids; ids' = (if hasMore then take lim ids else ids)
              in case rds_get_each st gap ids' [] s of
                   (Inl e, s') \<Rightarrow> (Inl e, s')
                 | (Inr out, s') \<Rightarrow> (Inr (out, if hasMore then last ids' else []), s')))"

text \<open>
  One attempt of an update, and the loop over the attempts: \<open>n\<close> is how many are
  left. The closure may run again on the record a lost race left behind, with the
  variables it captured as they are.
\<close>

definition rds_attempt ::
  "'r redisStore \<Rightarrow> ('r \<Rightarrow> 'r) \<Rightarrow> string \<Rightarrow> update_fn \<Rightarrow> captured \<Rightarrow> 'r \<Rightarrow> Job result \<times> captured \<times> 'r" where
  "rds_attempt st others i fn c s =
     (let R = rs_client st; key = jobKey i
      in case rd_Watch R key s of
           Inl e \<Rightarrow> (Inl e, c, s)
         | Inr _ \<Rightarrow>
             (case rd_HGetAll R key s of
                Inl e \<Rightarrow> (Inl e, c, s)
              | Inr flds \<Rightarrow>
                  if flds = [] then (Inl (Sentinel ErrNotFound), c, s)
                  else case jobFromFields flds of
                         Inl e \<Rightarrow> (Inl e, c, s)
                       | Inr j \<Rightarrow>
                           (case fn j c of
                              (Inl e, c') \<Rightarrow> (Inl e, c', s)
                            | (Inr j', c') \<Rightarrow>
                                (let clear = jobClearFields j';
                                     (r, s') = rd_Exec R key s
                                       (HSet key (jobSetFields (rs_zone st) j') #
                                        (if clear = [] then [] else [HDel key clear])) (others s)
                                 in case r of Inl e \<Rightarrow> (Inl e, c', s') | Inr _ \<Rightarrow> (Inr j', c', s')))))"

fun rds_update_loop ::
  "'r redisStore \<Rightarrow> (nat \<Rightarrow> 'r \<Rightarrow> 'r) \<Rightarrow> string \<Rightarrow> update_fn \<Rightarrow> nat \<Rightarrow> captured \<Rightarrow> 'r \<Rightarrow>
   Job result \<times> captured \<times> 'r" where
  "rds_update_loop st gap i fn 0 c s =
     (Inl (conflictf ''job %s: update lost the race %d times'' [i, utoa maxUpdateRetries]), c, s)"
| "rds_update_loop st gap i fn (Suc n) c s =
     (case rds_attempt st (gap n) i fn c s of
        (Inr j, c', s') \<Rightarrow> (Inr j, c', s')
      | (Inl e, c', s') \<Rightarrow>
          if errors_Is e TxFailedErr then rds_update_loop st gap i fn n c' s'
          else if errors_Is e ErrNotFound then (Inl (notFoundf ''job %s'' [i]), c', s')
          else (Inl e, c', s'))"

definition rds_UpdateJob ::
  "'r redisStore \<Rightarrow> (nat \<Rightarrow> 'r \<Rightarrow> 'r) \<Rightarrow> string \<Rightarrow> update_fn \<Rightarrow> captured \<Rightarrow> 'r \<Rightarrow>
   Job result \<times> captured \<times> 'r" where
  "rds_UpdateJob st gap i fn c s = rds_update_loop st gap i fn maxUpdateRetries c s"

definition jobExists :: "'r redisStore \<Rightarrow> string \<Rightarrow> 'r \<Rightarrow> bool result" where
  "jobExists st i s = (case rd_Exists (rs_client st) (jobKey i) s of Inl e \<Rightarrow> Inl e | Inr n \<Rightarrow> Inr (n \<noteq> 0))"

definition rds_DeleteJob :: "'r redisStore \<Rightarrow> (nat \<Rightarrow> 'r \<Rightarrow> 'r) \<Rightarrow> string \<Rightarrow> 'r \<Rightarrow> unit result \<times> 'r" where
  "rds_DeleteJob st gap i s =
     (case jobExists st i s of
        Inl e \<Rightarrow> (Inl (Errorf ''delete job %s: %w'' [i] (Some e)), s)
      | Inr ok \<Rightarrow>
          if \<not> ok then (Inl (notFoundf ''job %s'' [i]), s)
          else
            (case rd_Pipe (rs_client st) [Del [jobKey i, eventsKey i, permsKey i], ZRem jobsIndexKey i] (gap 0 s) of
               (Inl e, s') \<Rightarrow> (Inl (Errorf ''delete job %s: %w'' [i] (Some e)), s')
             | (Inr _, s') \<Rightarrow> (Inr (), s')))"

section \<open>Timelines\<close>

definition rds_AppendEvent ::
  "'r redisStore \<Rightarrow> (nat \<Rightarrow> 'r \<Rightarrow> 'r) \<Rightarrow> gotime \<Rightarrow> string \<Rightarrow> Event \<Rightarrow> 'r \<Rightarrow> string result \<times> 'r" where
  "rds_AppendEvent st gap now i ev s =
     (case jobExists st i s of
        Inl e \<Rightarrow> (Inl (Errorf ''append event job %s: %w'' [i] (Some e)), s)
      | Inr ok \<Rightarrow>
          if \<not> ok then (Inl (notFoundf ''job %s'' [i]), s)
          else
            (let at = (if IsZero (e_At ev) then now else e_At ev)
             in case rd_XAdd (rs_client st) (eventsKey i) (rs_maxEvents st)
                       [(''type'', e_Type ev), (''payload'', e_PayloadJSON ev),
                        (''at'', time_Format (rs_zone st at) at)] (gap 0 s) of
                  (Inl e, s') \<Rightarrow> (Inl (Errorf ''append event job %s: %w'' [i] (Some e)), s')
                | (Inr eid, s') \<Rightarrow> (Inr eid, s')))"

definition eventFromMessage :: "string \<times> (string \<times> string) list \<Rightarrow> Event result" where
  "eventFromMessage msg =
     (let (eid, vs) = msg; ev = \<lparr>e_ID = eid, e_Type = fget vs ''type'', e_PayloadJSON = fget vs ''payload'',
                                 e_At = zero_time\<rparr>
      in if fget vs ''at'' = [] then Inr ev
         else case time_Parse (fget vs ''at'') of
                Inl e \<Rightarrow> Inl (Errorf ''event %s field at: %w'' [eid] (Some e))
              | Inr t \<Rightarrow> Inr (ev\<lparr>e_At := t\<rparr>))"

fun decode_messages :: "(string \<times> (string \<times> string) list) list \<Rightarrow> Event list result" where
  "decode_messages [] = Inr []"
| "decode_messages (m # ms) =
     (case eventFromMessage m of
        Inl e \<Rightarrow> Inl e
      | Inr ev \<Rightarrow> (case decode_messages ms of Inl e \<Rightarrow> Inl e | Inr evs \<Rightarrow> Inr (ev # evs)))"

definition rds_ReadEvents ::
  "'r redisStore \<Rightarrow> (nat \<Rightarrow> 'r \<Rightarrow> 'r) \<Rightarrow> string \<Rightarrow> string \<Rightarrow> int \<Rightarrow> 'r \<Rightarrow> Event list result \<times> 'r" where
  "rds_ReadEvents st gap i afterID limit s =
     (let lim = (if limit \<le> 0 then 1000 else limit)
      in case jobExists st i s of
           Inl e \<Rightarrow> (Inl (Errorf ''read events job %s: %w'' [i] (Some e)), s)
         | Inr ok \<Rightarrow>
             if \<not> ok then (Inl (notFoundf ''job %s'' [i]), s)
             else
               (let s1 = gap 0 s; start = (if afterID \<noteq> [] then CHR ''('' # afterID else ''-'')
                in case rd_XRangeN (rs_client st) (eventsKey i) start lim s1 of
                     Inl e \<Rightarrow> (Inl (Errorf ''read events job %s: %w'' [i] (Some e)), s1)
                   | Inr msgs \<Rightarrow> (decode_messages msgs, s1)))"

text \<open>
  The goroutine of \<open>WatchEvents\<close>: \<open>n\<close> rounds of its loop, each a read of up to 100
  events after the cursor, with the receiver taking all of them. It ends early when
  a read fails. Whether a round that read nothing sleeps does not matter here.
\<close>

fun watch_rounds ::
  "'r redisStore \<Rightarrow> (nat \<Rightarrow> 'r \<Rightarrow> 'r) \<Rightarrow> string \<Rightarrow> nat \<Rightarrow> string \<Rightarrow> 'r \<Rightarrow> Event list \<times> 'r" where
  "watch_rounds st gap i 0 cursor s = ([], s)"
| "watch_rounds st gap i (Suc n) cursor s =
     (case rds_ReadEvents st (\<lambda>_ v. v) i cursor 100 (gap n s) of
        (Inl e, s') \<Rightarrow> ([], s')
      | (Inr evs, s') \<Rightarrow>
          (let (out, s'') = watch_rounds st gap i n (if evs = [] then cursor else e_ID (last evs)) s'
           in (evs @ out, s'')))"

definition rds_WatchEvents :: "'r redisStore \<Rightarrow> string \<Rightarrow> 'r \<Rightarrow> unit result" where
  "rds_WatchEvents st i s =
     (case jobExists st i s of
        Inl e \<Rightarrow> Inl (Errorf ''watch events job %s: %w'' [i] (Some e))
      | Inr ok \<Rightarrow> if ok then Inr () else Inl (notFoundf ''job %s'' [i]))"

section \<open>Permission requests\<close>

text \<open>
  \<open>json.Marshal\<close> of a request: Go's field names, and instants as RFC 3339 texts,
  which is an error outside the years 0 to 9999.
\<close>

definition marshal_time :: "(gotime \<Rightarrow> int) \<Rightarrow> gotime \<Rightarrow> string option" where
  "marshal_time zone t =
     (let l = t + zone t * Minute; y = year_of (l div Second div 86400)
      in if 0 \<le> y \<and> y \<le> 9999 \<and> \<bar>zone t\<bar> < 1440 then Some (time_Format (zone t) t) else None)"

definition marshal_permission :: "(gotime \<Rightarrow> int) \<Rightarrow> PermissionRequest \<Rightarrow> string result" where
  "marshal_permission zone p =
     (case (marshal_time zone (p_RequestedAt p), marshal_time zone (p_AnsweredAt p)) of
        (Some r, Some a) \<Rightarrow>
          Inr (json_object
            [(''RequestID'', p_RequestID p), (''ToolName'', p_ToolName p), (''InputJSON'', p_InputJSON p),
             (''State'', permission_state_string (p_State p)), (''Reason'', p_Reason p),
             (''RequestedAt'', r), (''AnsweredAt'', a)])
      | _ \<Rightarrow> Inl (Errorf ''json: error calling MarshalJSON for type time.Time'' [] None))"

definition permission_fields :: "string list" where
  "permission_fields = [''RequestID'', ''ToolName'', ''InputJSON'', ''State'', ''Reason'', ''RequestedAt'', ''AnsweredAt'']"

definition zero_permission :: PermissionRequest where
  "zero_permission = \<lparr>p_RequestID = [], p_ToolName = [], p_InputJSON = [], p_State = PermissionOther [],
     p_Reason = [], p_RequestedAt = zero_time, p_AnsweredAt = zero_time\<rparr>"

definition set_permission_field :: "string \<Rightarrow> string \<Rightarrow> PermissionRequest \<Rightarrow> PermissionRequest option" where
  "set_permission_field f s p =
     (if f = ''RequestID'' then Some (p\<lparr>p_RequestID := s\<rparr>)
      else if f = ''ToolName'' then Some (p\<lparr>p_ToolName := s\<rparr>)
      else if f = ''InputJSON'' then Some (p\<lparr>p_InputJSON := s\<rparr>)
      else if f = ''State'' then Some (p\<lparr>p_State := permission_state_of s\<rparr>)
      else if f = ''Reason'' then Some (p\<lparr>p_Reason := s\<rparr>)
      else if f = ''RequestedAt'' then map_option (\<lambda>t. p\<lparr>p_RequestedAt := t\<rparr>) (parse_time s)
      else map_option (\<lambda>t. p\<lparr>p_AnsweredAt := t\<rparr>) (parse_time s))"

fun decode_permission :: "(string \<times> json) list \<Rightarrow> PermissionRequest \<Rightarrow> PermissionRequest option" where
  "decode_permission [] p = Some p"
| "decode_permission ((k, v) # ms) p =
     (case field_for permission_fields k of
        None \<Rightarrow> decode_permission ms p
      | Some f \<Rightarrow>
          (case string_of v of
             Inl _ \<Rightarrow> None
           | Inr None \<Rightarrow> decode_permission ms p
           | Inr (Some s) \<Rightarrow>
               (case set_permission_field f s p of None \<Rightarrow> None | Some p' \<Rightarrow> decode_permission ms p')))"

definition unmarshal_permission :: "string \<Rightarrow> PermissionRequest result" where
  "unmarshal_permission s =
     (case json_parse s of
        Some JNull \<Rightarrow> Inr zero_permission
      | Some (JObj ms) \<Rightarrow>
          (case decode_permission ms zero_permission of Some p \<Rightarrow> Inr p | None \<Rightarrow> Inl json_error)
      | _ \<Rightarrow> Inl json_error)"

definition rds_PutPermission ::
  "'r redisStore \<Rightarrow> (nat \<Rightarrow> 'r \<Rightarrow> 'r) \<Rightarrow> string \<Rightarrow> PermissionRequest \<Rightarrow> 'r \<Rightarrow> unit result \<times> 'r" where
  "rds_PutPermission st gap i p s =
     (case jobExists st i s of
        Inl e \<Rightarrow> (Inl (Errorf ''put permission %s/%s: %w'' [i, p_RequestID p] (Some e)), s)
      | Inr ok \<Rightarrow>
          if \<not> ok then (Inl (notFoundf ''job %s'' [i]), s)
          else
            (case marshal_permission (rs_zone st) p of
               Inl e \<Rightarrow> (Inl (Errorf ''put permission %s/%s: %w'' [i, p_RequestID p] (Some e)), s)
             | Inr data \<Rightarrow>
                 (case rd_Pipe (rs_client st) [HSet (permsKey i) [(p_RequestID p, data)]] (gap 0 s) of
                    (Inl e, s') \<Rightarrow> (Inl (Errorf ''put permission %s/%s: %w'' [i, p_RequestID p] (Some e)), s')
                  | (Inr _, s') \<Rightarrow> (Inr (), s'))))"

definition rds_GetPermission :: "'r redisStore \<Rightarrow> string \<Rightarrow> string \<Rightarrow> 'r \<Rightarrow> PermissionRequest result" where
  "rds_GetPermission st i rid s =
     (case rd_HGet (rs_client st) (permsKey i) rid s of
        Inl e \<Rightarrow> Inl (Errorf ''get permission %s/%s: %w'' [i, rid] (Some e))
      | Inr None \<Rightarrow> Inl (notFoundf ''permission %s/%s'' [i, rid])
      | Inr (Some data) \<Rightarrow>
          (case unmarshal_permission data of
             Inl e \<Rightarrow> Inl (Errorf ''get permission %s/%s: %w'' [i, rid] (Some e))
           | Inr p \<Rightarrow> Inr p))"

fun decode_permissions :: "(string \<times> string) list \<Rightarrow> PermissionRequest list result" where
  "decode_permissions [] = Inr []"
| "decode_permissions ((_, data) # fs) =
     (case unmarshal_permission data of
        Inl e \<Rightarrow> Inl e
      | Inr p \<Rightarrow> (case decode_permissions fs of Inl e \<Rightarrow> Inl e | Inr ps \<Rightarrow> Inr (p # ps)))"

definition rds_ListPermissions :: "'r redisStore \<Rightarrow> string \<Rightarrow> 'r \<Rightarrow> PermissionRequest list result" where
  "rds_ListPermissions st i s =
     (case rd_HGetAll (rs_client st) (permsKey i) s of
        Inl e \<Rightarrow> Inl (Errorf ''list permissions job %s: %w'' [i] (Some e))
      | Inr flds \<Rightarrow>
          (case decode_permissions flds of
             Inl e \<Rightarrow> Inl (Errorf ''list permissions job %s: %w'' [i] (Some e))
           | Inr ps \<Rightarrow> Inr (sort_key permission_key ps)))"

end
