(* ===== verification/RedisCodec.thy ===== *)
theory RedisCodec
  imports RedisStore
begin

text \<open>
  What the Redis store writes it reads back: the job hash, also when it overwrites an
  older one field by field, events and permission requests.
\<close>

section \<open>Instants\<close>

definition storable_time :: "(gotime \<Rightarrow> int) \<Rightarrow> gotime \<Rightarrow> bool" where
  "storable_time zone t \<longleftrightarrow>
     \<bar>zone t\<bar> < 1440 \<and> 0 \<le> t + zone t * Minute \<and> t + zone t * Minute < days_before 10000 * 86400 * Second"

lemma time_Format_nonempty [simp]: "time_Format off t \<noteq> []"
  by (simp add: time_Format_def Let_def)

lemma time_Parse_Format: "storable_time zone t \<Longrightarrow> time_Parse (time_Format (zone t) t) = Inr t"
  using parse_time_Format [of "zone t" t] by (simp add: storable_time_def time_Parse_def)

section \<open>The job hash\<close>

definition storable_job :: "(gotime \<Rightarrow> int) \<Rightarrow> Job \<Rightarrow> bool" where
  "storable_job zone j \<longleftrightarrow>
     (\<forall>t \<in> {j_CreatedAt j, j_StartedAt j, j_FinishedAt j, j_LastEventAt j}. IsZero t \<or> storable_time zone t) \<and>
     list_all utf8_valid (j_RepoScope j) \<and> status_of_string (status_string (j_Status j)) = j_Status j"

definition job_names :: "string list" where
  "job_names = [''id'', ''status'', ''prompt'', ''profile'', ''run_config_json'', ''stop_reason'', ''error'',
     ''final_text'', ''cancel_requested'', ''harness_token'', ''trace_parent'', ''repo_scope'',
     ''created_at'', ''started_at'', ''finished_at'', ''last_event_at'']"

definition time_names :: "string list" where
  "time_names = [''created_at'', ''started_at'', ''finished_at'', ''last_event_at'']"

lemma fget_append: "fget (a @ b) n = (if n \<in> fst ` set a then fget a n else fget b n)"
proof -
  have "n \<in> fst ` set a \<longleftrightarrow> map_of a n \<noteq> None" by (simp add: map_of_eq_None_iff)
  then show ?thesis by (cases "map_of a n") (simp_all add: fget_def map_add_def)
qed

lemma fget_Cons [simp]: "fget ((m, v) # a) n = (if n = m then v else fget a n)" "fget [] n = []"
  by (auto simp: fget_def)

lemma time_entry_simps:
  "fget (time_entry zone m t) n = (if n = m \<and> \<not> IsZero t then time_Format (zone t) t else [])"
  "fst ` set (time_entry zone m t) = (if IsZero t then {} else {m})"
  by (auto simp: time_entry_def)

lemma fget_jobSetFields:
  "fget (jobSetFields zone j) ''id'' = j_ID j"
  "fget (jobSetFields zone j) ''status'' = status_string (j_Status j)"
  "fget (jobSetFields zone j) ''prompt'' = j_Prompt j"
  "fget (jobSetFields zone j) ''profile'' = j_Profile j"
  "fget (jobSetFields zone j) ''run_config_json'' = j_RunConfigJSON j"
  "fget (jobSetFields zone j) ''stop_reason'' = j_StopReason j"
  "fget (jobSetFields zone j) ''error'' = j_Error j"
  "fget (jobSetFields zone j) ''final_text'' = j_FinalText j"
  "fget (jobSetFields zone j) ''cancel_requested'' = boolField (j_CancelRequested j)"
  "fget (jobSetFields zone j) ''harness_token'' = j_HarnessToken j"
  "fget (jobSetFields zone j) ''trace_parent'' = j_TraceParent j"
  "fget (jobSetFields zone j) ''repo_scope'' = repoScopeField (j_RepoScope j)"
  "fget (jobSetFields zone j) ''created_at'' =
     (if IsZero (j_CreatedAt j) then [] else time_Format (zone (j_CreatedAt j)) (j_CreatedAt j))"
  "fget (jobSetFields zone j) ''started_at'' =
     (if IsZero (j_StartedAt j) then [] else time_Format (zone (j_StartedAt j)) (j_StartedAt j))"
  "fget (jobSetFields zone j) ''finished_at'' =
     (if IsZero (j_FinishedAt j) then [] else time_Format (zone (j_FinishedAt j)) (j_FinishedAt j))"
  "fget (jobSetFields zone j) ''last_event_at'' =
     (if IsZero (j_LastEventAt j) then [] else time_Format (zone (j_LastEventAt j)) (j_LastEventAt j))"
  by (simp_all add: jobSetFields_def fget_append time_entry_simps)

text \<open>A hash stands for a job when it agrees with the job's own encoding on the known fields.\<close>

definition encodes :: "(gotime \<Rightarrow> int) \<Rightarrow> (string \<times> string) list \<Rightarrow> Job \<Rightarrow> bool" where
  "encodes zone f j \<longleftrightarrow> (\<forall>n \<in> set job_names. fget f n = fget (jobSetFields zone j) n)"

lemma parseTimeField_encoded:
  assumes "IsZero t \<or> storable_time zone t"
    and "fget f n = (if IsZero t then [] else time_Format (zone t) t)"
  shows "parseTimeField f n = Inr t"
  using assms time_Parse_Format [of zone t] by (auto simp: parseTimeField_def Let_def IsZero_def)

lemma unmarshal_json_array:
  assumes "list_all utf8_valid xs"
  shows "unmarshal_strings (json_array xs) = Some xs"
proof -
  have "decode_strings (map JStr ys) = Some ys" for ys by (induction ys) (simp_all add: string_of_def)
  with json_parse_array [OF assms] show ?thesis by (simp add: unmarshal_strings_def)
qed

lemma json_array_nonempty [simp]: "json_array xs \<noteq> []"
  by (simp add: json_array_def)

theorem jobFromFields_encoded:
  assumes "storable_job zone j" and "encodes zone f j"
  shows "jobFromFields f = Inr j"
proof -
  note names = assms(2) [unfolded encodes_def job_names_def, simplified fget_jobSetFields set_simps ball_simps, simplified]
  have t: "parseTimeField f ''created_at'' = Inr (j_CreatedAt j)"
    "parseTimeField f ''started_at'' = Inr (j_StartedAt j)"
    "parseTimeField f ''finished_at'' = Inr (j_FinishedAt j)"
    "parseTimeField f ''last_event_at'' = Inr (j_LastEventAt j)"
    using assms(1) names by (intro parseTimeField_encoded [where zone = zone];
        simp add: storable_job_def fget_jobSetFields)+
  have scope: "(if fget f ''repo_scope'' = [] then Some []
      else unmarshal_strings (fget f ''repo_scope'')) = Some (j_RepoScope j)"
    using assms(1) names
    by (simp add: fget_jobSetFields repoScopeField_def unmarshal_json_array storable_job_def)
  show ?thesis
    unfolding jobFromFields_def scope t
    using names assms(1) by (cases j) (simp add: fget_jobSetFields boolField_def storable_job_def)
qed

text \<open>Writing a job over any older version of its hash.\<close>

lemma jobSetFields_distinct: "distinct (map fst (jobSetFields zone j))"
  by (auto simp: jobSetFields_def time_entry_def)

lemma fget_updates:
  assumes "distinct (map fst f)"
  shows "fget (AList.updates (map fst f) (map snd f) old) n = (if n \<in> fst ` set f then fget f n else fget old n)"
  using assms
proof (induction f arbitrary: old)
  case (Cons p f)
  obtain m v where p: "p = (m, v)" by (cases p)
  have "fget (AList.update m v old) n = (if n = m then v else fget old n)"
    by (simp add: fget_def update_conv')
  with Cons p show ?case by (auto simp: image_iff)
qed simp

lemma fget_filter: "fget (filter (\<lambda>(n, _). n \<notin> N) f) n = (if n \<in> N then [] else fget f n)"
  by (induction f) (auto simp: fget_def)

lemma jobSetFields_names:
  "fst ` set (jobSetFields zone j) = set job_names - set (jobClearFields j)"
  by (auto simp: jobSetFields_def time_entry_def jobClearFields_def job_names_def)

lemma fget_cleared: "n \<in> set (jobClearFields j) \<Longrightarrow> fget (jobSetFields zone j) n = []"
  by (auto simp: jobClearFields_def fget_jobSetFields split: if_splits)

lemma encodes_written:
  "encodes zone (filter (\<lambda>(n, _). n \<notin> set (jobClearFields j))
     (AList.updates (map fst (jobSetFields zone j)) (map snd (jobSetFields zone j)) old)) j"
  unfolding encodes_def
  by (auto simp: fget_filter fget_cleared fget_updates [OF jobSetFields_distinct] jobSetFields_names)

lemma encodes_created: "encodes zone (AList.updates (map fst (jobSetFields zone j)) (map snd (jobSetFields zone j)) []) j"
  unfolding encodes_def
  by (auto simp: fget_cleared fget_updates [OF jobSetFields_distinct] jobSetFields_names)

section \<open>Events\<close>

lemma eventFromMessage_encoded:
  assumes "storable_time zone at"
  shows "eventFromMessage (eid, [(''type'', ty), (''payload'', pl), (''at'', time_Format (zone at) at)]) =
    Inr \<lparr>e_ID = eid, e_Type = ty, e_PayloadJSON = pl, e_At = at\<rparr>"
  using time_Parse_Format [OF assms] by (simp add: eventFromMessage_def)

section \<open>Permission requests\<close>

definition storable_permission :: "(gotime \<Rightarrow> int) \<Rightarrow> PermissionRequest \<Rightarrow> bool" where
  "storable_permission zone p \<longleftrightarrow>
     list_all utf8_valid [p_RequestID p, p_ToolName p, p_InputJSON p, permission_state_string (p_State p), p_Reason p] \<and>
     permission_state_of (permission_state_string (p_State p)) = p_State p \<and>
     storable_time zone (p_RequestedAt p) \<and> storable_time zone (p_AnsweredAt p)"

lemma zpad_ascii: "list_all (byte_in 0 127) (zpad k n)"
  using zpad_digits [of _ k n] by (force simp: list_all_iff byte_in_def is_digit_def)

lemma time_Format_valid: "utf8_valid (time_Format off t)"
proof (rule utf8_valid_ascii)
  have "list_all (byte_in 0 127) (strip_zeros (zpad k n))" for k n
    using set_strip_zeros [of "zpad k n"] zpad_ascii [of k n] by (auto simp: list_all_iff)
  moreover have "byte_in 0 127 c" if "c \<in> {CHR ''T'', CHR ''Z'', CHR ''-'', CHR ''+'', CHR '':'', CHR ''.''}" for c
    using that by (auto simp: byte_in_def)
  ultimately show "list_all (byte_in 0 127) (time_Format off t)"
    by (simp add: time_Format_def Let_def date_text_def clock_text_def frac_text_def zone_text_def
        zpad_ascii case_prod_unfold)
qed

lemma storable_time_year:
  assumes "storable_time zone t"
  shows "marshal_time zone t = Some (time_Format (zone t) t)"
proof -
  let ?d = "(t + zone t * Minute) div Second div 86400"
  have "0 \<le> ?d" "?d < days_before 10000"
    using assms div_less [of Second "t + zone t * Minute" "days_before 10000 * 86400"]
      div_less [of 86400 "(t + zone t * Minute) div Second" "days_before 10000"]
    by (simp_all add: storable_time_def Second_def div_int_pos_iff)
  moreover have "0 \<le> year_of ?d"
  proof (rule ccontr)
    assume "\<not> ?thesis"
    then have "days_before (year_of ?d + 1) \<le> days_before 0" by (intro days_before_mono) simp
    with year_of_bounds(2) [of ?d] \<open>0 \<le> ?d\<close> show False by (simp add: days_before_def)
  qed
  moreover have "year_of ?d \<le> 9999"
    using days_before_mono [of 10000 "year_of ?d"] year_of_bounds(1) [of ?d] \<open>?d < days_before 10000\<close>
    by (cases "year_of ?d \<le> 9999") auto
  ultimately show ?thesis using assms by (simp add: marshal_time_def Let_def storable_time_def)
qed

theorem unmarshal_marshal_permission:
  assumes "storable_permission zone p"
  shows "\<exists>d. marshal_permission zone p = Inr d \<and> unmarshal_permission d = Inr p"
proof -
  let ?ms = "[(''RequestID'', p_RequestID p), (''ToolName'', p_ToolName p), (''InputJSON'', p_InputJSON p),
             (''State'', permission_state_string (p_State p)), (''Reason'', p_Reason p),
             (''RequestedAt'', time_Format (zone (p_RequestedAt p)) (p_RequestedAt p)),
             (''AnsweredAt'', time_Format (zone (p_AnsweredAt p)) (p_AnsweredAt p))]"
  have keys: "list_all utf8_valid (map fst ?ms)"
    by (auto intro!: utf8_valid_ascii simp: byte_in_def)
  have "list_all (\<lambda>(k, v). utf8_valid k \<and> utf8_valid v) ?ms"
    using assms keys by (simp add: storable_permission_def time_Format_valid)
  from json_parse_object [OF _ this] have
    p: "json_parse (json_object ?ms) = Some (JObj (map (\<lambda>(k, v). (k, JStr v)) ?ms))" by simp
  have t: "parse_time (time_Format (zone u) u) = Some u" if "storable_time zone u" for u
    using that parse_time_Format [of "zone u" u] by (simp add: storable_time_def)
  have "unmarshal_permission (json_object ?ms) = Inr p"
    using assms t unfolding unmarshal_permission_def p
    by (simp add: field_for_def permission_fields_def string_of_def set_permission_field_def storable_permission_def)
  moreover have "marshal_permission zone p = Inr (json_object ?ms)"
    using assms by (simp add: marshal_permission_def storable_time_year storable_permission_def)
  ultimately show ?thesis by blast
qed

end
