(* ===== verification/RedisSpec.thy ===== *)
theory RedisSpec
  imports RedisCodec
begin

text \<open>
  The Redis store implements the abstract store: a map of jobs, a timeline for each
  and a map of permission requests. \<open>rd_job\<close>, \<open>rd_events\<close> and \<open>rd_perm\<close> read that
  abstract state off a keyspace, \<open>redis_ok\<close> is the invariant of keyspaces the store
  keeps, and one lemma for each operation says what it does to the abstract state.

  Job identifiers are the well-formed ones, whose keys cannot collide.
\<close>

section \<open>Keys\<close>

lemma ValidID_length: "ValidID i \<Longrightarrow> length i = 29"
  by (simp add: ValidID_def)

lemma key_lengths:
  assumes "ValidID i"
  shows "length (jobKey i) = 41" "length (eventsKey i) = 48" "length (permsKey i) = 47"
    "length jobsIndexKey = 12"
  using ValidID_length [OF assms] by (simp_all add: jobKey_def eventsKey_def permsKey_def jobsIndexKey_def)

lemma keys_distinct:
  assumes "ValidID i" and "ValidID k"
  shows "jobKey i \<noteq> eventsKey k" "jobKey i \<noteq> permsKey k" "eventsKey i \<noteq> permsKey k"
    "eventsKey i \<noteq> jobKey k" "permsKey i \<noteq> jobKey k" "permsKey i \<noteq> eventsKey k"
  using key_lengths [OF assms(1)] key_lengths [OF assms(2)] by (metis numeral_eq_iff semiring_norm(85-90))+

lemma index_distinct [simp]:
  "jobKey i \<noteq> jobsIndexKey" "eventsKey i \<noteq> jobsIndexKey" "permsKey i \<noteq> jobsIndexKey"
  "jobsIndexKey \<noteq> jobKey i" "jobsIndexKey \<noteq> eventsKey i" "jobsIndexKey \<noteq> permsKey i"
  by (simp_all add: jobKey_def eventsKey_def permsKey_def jobsIndexKey_def)

lemma keys_inject [simp]:
  "jobKey i = jobKey k \<longleftrightarrow> i = k" "eventsKey i = eventsKey k \<longleftrightarrow> i = k" "permsKey i = permsKey k \<longleftrightarrow> i = k"
  by (simp_all add: jobKey_def eventsKey_def permsKey_def)

section \<open>The abstract state\<close>

definition rd_job :: "keyspace \<Rightarrow> string \<Rightarrow> Job option" where
  "rd_job V i =
     (if \<not> ValidID i then None
      else case V (jobKey i) of
        Some (RHash f) \<Rightarrow> (case jobFromFields f of Inr j \<Rightarrow> Some j | Inl _ \<Rightarrow> None)
      | _ \<Rightarrow> None)"

definition rd_events :: "keyspace \<Rightarrow> string \<Rightarrow> Event list" where
  "rd_events V i =
     (if \<not> ValidID i then []
      else case decode_messages (stream_entries (V (eventsKey i))) of Inr evs \<Rightarrow> evs | Inl _ \<Rightarrow> [])"

definition rd_perm :: "keyspace \<Rightarrow> string \<Rightarrow> string \<Rightarrow> PermissionRequest option" where
  "rd_perm V i rid =
     (if \<not> ValidID i then None
      else case map_of (hash_entries (V (permsKey i))) rid of
        None \<Rightarrow> None
      | Some d \<Rightarrow> (case unmarshal_permission d of Inr p \<Rightarrow> Some p | Inl _ \<Rightarrow> None))"

definition job_key_ok :: "(gotime \<Rightarrow> int) \<Rightarrow> keyspace \<Rightarrow> string \<Rightarrow> bool" where
  "job_key_ok zone V i \<longleftrightarrow>
     V (jobKey i) = None \<or>
     (\<exists>f j. V (jobKey i) = Some (RHash f) \<and> f \<noteq> [] \<and> jobFromFields f = Inr j \<and> j_ID j = i \<and> storable_job zone j)"

definition events_key_ok :: "keyspace \<Rightarrow> string \<Rightarrow> bool" where
  "events_key_ok V i \<longleftrightarrow>
     V (eventsKey i) = None \<or>
     (\<exists>es evs. V (eventsKey i) = Some (RStream es) \<and> decode_messages es = Inr evs \<and>
        list_all (\<lambda>(x, _). proper_id x) es \<and> sorted_wrt (\<lambda>x y. streamIDLess (fst x) (fst y)) es)"

definition perms_key_ok :: "keyspace \<Rightarrow> string \<Rightarrow> bool" where
  "perms_key_ok V i \<longleftrightarrow>
     V (permsKey i) = None \<or>
     (\<exists>f. V (permsKey i) = Some (RHash f) \<and> distinct (map fst f) \<and>
        (\<forall>(rid, d) \<in> set f. \<exists>p. unmarshal_permission d = Inr p \<and> p_RequestID p = rid))"

definition index_ok :: "keyspace \<Rightarrow> bool" where
  "index_ok V \<longleftrightarrow>
     V jobsIndexKey = zset_value {i. ValidID i \<and> V (jobKey i) \<noteq> None} \<and>
     finite {i. ValidID i \<and> V (jobKey i) \<noteq> None}"

definition redis_ok :: "(gotime \<Rightarrow> int) \<Rightarrow> keyspace \<Rightarrow> bool" where
  "redis_ok zone V \<longleftrightarrow> index_ok V \<and> (\<forall>i. ValidID i \<longrightarrow> job_key_ok zone V i \<and> events_key_ok V i \<and> perms_key_ok V i)"

lemma redis_ok_empty: "redis_ok zone Map.empty"
  by (simp add: redis_ok_def index_ok_def job_key_ok_def events_key_ok_def perms_key_ok_def zset_value_def)

lemma rd_job_absent: "ValidID i \<Longrightarrow> redis_ok zone V \<Longrightarrow> rd_job V i = None \<longleftrightarrow> V (jobKey i) = None"
  by (auto simp: rd_job_def redis_ok_def job_key_ok_def)

lemma rd_job_present:
  assumes "redis_ok zone V" and "rd_job V i = Some j"
  obtains f where "ValidID i" "V (jobKey i) = Some (RHash f)" "f \<noteq> []" "jobFromFields f = Inr j" "j_ID j = i"
    "storable_job zone j"
  using assms by (auto simp: rd_job_def redis_ok_def job_key_ok_def split: if_splits option.splits rvalue.splits sum.splits)

lemma rd_job_key: "redis_ok zone V \<Longrightarrow> rd_job V i = Some j \<Longrightarrow> j_ID j = i"
  by (erule rd_job_present)

lemma rd_job_storable: "redis_ok zone V \<Longrightarrow> rd_job V i = Some j \<Longrightarrow> storable_job zone j"
  by (erule rd_job_present)

section \<open>Writes on one key\<close>

text \<open>A change of the key of one job, timeline or permission hash leaves the others alone.\<close>

lemma frame_job:
  assumes "ValidID i"
  shows "rd_events (V(jobKey i := v)) = rd_events V" "rd_perm (V(jobKey i := v)) = rd_perm V"
    "k \<noteq> i \<Longrightarrow> rd_job (V(jobKey i := v)) k = rd_job V k"
  using keys_distinct [OF _ assms] by (auto simp: rd_events_def rd_perm_def rd_job_def fun_eq_iff)

lemma frame_events:
  assumes "ValidID i"
  shows "rd_job (V(eventsKey i := v)) = rd_job V" "rd_perm (V(eventsKey i := v)) = rd_perm V"
    "k \<noteq> i \<Longrightarrow> rd_events (V(eventsKey i := v)) k = rd_events V k"
  using keys_distinct [OF _ assms] by (auto simp: rd_events_def rd_perm_def rd_job_def fun_eq_iff)

lemma frame_perms:
  assumes "ValidID i"
  shows "rd_job (V(permsKey i := v)) = rd_job V" "rd_events (V(permsKey i := v)) = rd_events V"
    "k \<noteq> i \<Longrightarrow> rd_perm (V(permsKey i := v)) k = rd_perm V k"
  using keys_distinct [OF _ assms] by (auto simp: rd_events_def rd_perm_def rd_job_def fun_eq_iff)

lemma frame_index:
  "rd_job (V(jobsIndexKey := v)) = rd_job V" "rd_events (V(jobsIndexKey := v)) = rd_events V"
  "rd_perm (V(jobsIndexKey := v)) = rd_perm V"
  by (auto simp: rd_events_def rd_perm_def rd_job_def fun_eq_iff)

section \<open>Writing a job\<close>

definition write_job :: "(gotime \<Rightarrow> int) \<Rightarrow> string \<Rightarrow> Job \<Rightarrow> cmd list" where
  "write_job zone i j =
     HSet (jobKey i) (jobSetFields zone j) #
     (if jobClearFields j = [] then [] else [HDel (jobKey i) (jobClearFields j)])"

lemma nonempty_of_id: "fget f ''id'' \<noteq> [] \<Longrightarrow> f \<noteq> []"
  by auto

lemma ValidID_nonempty: "ValidID i \<Longrightarrow> i \<noteq> []"
  by (auto simp: ValidID_def)

lemma write_job_effect:
  assumes "ValidID i" and "j_ID j = i" and "storable_job zone j"
  shows "\<exists>f. ref_cmds (write_job zone i j) V = V(jobKey i \<mapsto> RHash f) \<and> f \<noteq> [] \<and> jobFromFields f = Inr j"
proof -
  let ?u = "AList.updates (map fst (jobSetFields zone j)) (map snd (jobSetFields zone j)) (hash_entries (V (jobKey i)))"
  let ?f = "filter (\<lambda>(n, _). n \<notin> set (jobClearFields j)) ?u"
  have enc: "encodes zone ?f j" by (rule encodes_written)
  have "fget ?f ''id'' = i" using enc assms(2) by (simp add: encodes_def job_names_def fget_jobSetFields)
  then have ne: "?f \<noteq> []" using nonempty_of_id ValidID_nonempty [OF assms(1)] by metis
  moreover have "?u \<noteq> []" using ne by auto
  ultimately have "ref_cmds (write_job zone i j) V = V(jobKey i \<mapsto> RHash ?f)"
    by (simp add: ref_cmds_def write_job_def hash_value_def hash_entries_def)
  with ne jobFromFields_encoded [OF assms(3) enc] show ?thesis by blast
qed

lemma write_job_typed:
  assumes "redis_ok zone V" and "ValidID i"
  shows "list_all (\<lambda>c. well_typed c V) (write_job zone i j)"
  using assms by (auto simp: write_job_def redis_ok_def job_key_ok_def)

text \<open>Overwriting a stored job.\<close>

lemma put_job:
  assumes "redis_ok zone V" and "ValidID i" and "V (jobKey i) \<noteq> None" and "f \<noteq> []"
    and "jobFromFields f = Inr j" and "j_ID j = i" and "storable_job zone j"
  shows "redis_ok zone (V(jobKey i \<mapsto> RHash f))" and "rd_job (V(jobKey i \<mapsto> RHash f)) = (rd_job V)(i \<mapsto> j)"
proof -
  let ?W = "V(jobKey i \<mapsto> RHash f)"
  have "{k. ValidID k \<and> ?W (jobKey k) \<noteq> None} = {k. ValidID k \<and> V (jobKey k) \<noteq> None}"
    using assms(3) by auto
  then have "index_ok ?W" using assms(1) by (simp add: redis_ok_def index_ok_def)
  moreover have "job_key_ok zone ?W k" "events_key_ok ?W k" "perms_key_ok ?W k" if "ValidID k" for k
    using assms that keys_distinct [OF that assms(2)]
    by (auto simp: redis_ok_def job_key_ok_def events_key_ok_def perms_key_ok_def)
  ultimately show "redis_ok zone ?W" by (simp add: redis_ok_def)
  show "rd_job ?W = (rd_job V)(i \<mapsto> j)"
    using assms by (auto simp: fun_eq_iff rd_job_def)
qed

lemma commit_job:
  assumes "redis_ok zone V" and "rd_job V i = Some k" and "j_ID j = i" and "storable_job zone j"
  shows "redis_ok zone (ref_cmds (write_job zone i j) V)"
    and "rd_job (ref_cmds (write_job zone i j) V) = (rd_job V)(i \<mapsto> j)"
    and "rd_events (ref_cmds (write_job zone i j) V) = rd_events V"
    and "rd_perm (ref_cmds (write_job zone i j) V) = rd_perm V"
proof -
  from rd_job_present [OF assms(1,2)] have v: "ValidID i" "V (jobKey i) \<noteq> None" by auto
  from write_job_effect [OF v(1) assms(3,4), of V] obtain f where
    f: "ref_cmds (write_job zone i j) V = V(jobKey i \<mapsto> RHash f)" "f \<noteq> []" "jobFromFields f = Inr j" by blast
  note put = put_job [OF assms(1) v f(2,3) assms(3,4)]
  show "redis_ok zone (ref_cmds (write_job zone i j) V)" unfolding f(1) by (rule put(1))
  show "rd_job (ref_cmds (write_job zone i j) V) = (rd_job V)(i \<mapsto> j)" unfolding f(1) by (rule put(2))
  show "rd_events (ref_cmds (write_job zone i j) V) = rd_events V"
    "rd_perm (ref_cmds (write_job zone i j) V) = rd_perm V"
    unfolding f(1) by (rule frame_job [OF v(1)])+
qed

section \<open>Reading and updating\<close>

definition storable_fn :: "(gotime \<Rightarrow> int) \<Rightarrow> update_fn \<Rightarrow> bool" where
  "storable_fn zone fn \<longleftrightarrow>
     (\<forall>j c j' c'. fn j c = (Inr j', c') \<longrightarrow>
        j_ID j' = j_ID j \<and> (storable_job zone j \<longrightarrow> storable_job zone j'))"

lemma storable_fn_ID: "storable_fn zone fn \<Longrightarrow> fn j c = (Inr j', c') \<Longrightarrow> j_ID j' = j_ID j"
  unfolding storable_fn_def by blast

lemma fn_result:
  assumes "storable_fn zone fn" and "fn j c = (Inr j', c')" and "redis_ok zone V" and "rd_job V i = Some j"
  shows "j_ID j' = i" and "storable_job zone j'"
  using assms(1,2) rd_job_key [OF assms(3,4)] rd_job_storable [OF assms(3,4)] by (auto simp: storable_fn_def)

text \<open>The states that are reached from \<open>s\<close> by steps of the other clients alone.\<close>

inductive others_only :: "(nat \<Rightarrow> 'r \<Rightarrow> 'r) \<Rightarrow> 'r \<Rightarrow> 'r \<Rightarrow> bool" for gap where
  none: "others_only gap s s"
| step: "others_only gap s v \<Longrightarrow> others_only gap s (gap n v)"

lemma others_only_trans: "others_only gap b c \<Longrightarrow> others_only gap a b \<Longrightarrow> others_only gap a c"
  by (induction rule: others_only.induct) (auto intro: others_only.step)

text \<open>What the other clients may do between two commands: anything that keeps the server reachable and the keyspace well-formed.\<close>

definition steady :: "(gotime \<Rightarrow> int) \<Rightarrow> ('r \<Rightarrow> keyspace) \<Rightarrow> ('r \<Rightarrow> bool) \<Rightarrow> ('r \<Rightarrow> 'r) \<Rightarrow> bool" where
  "steady zone keys up g \<longleftrightarrow> (\<forall>s. up s \<and> redis_ok zone (keys s) \<longrightarrow> up (g s) \<and> redis_ok zone (keys (g s)))"

lemma maxUpdateRetries_Suc: "maxUpdateRetries = Suc 29"
  by (simp add: maxUpdateRetries_def)

context redis_server
begin

lemma get_job:
  assumes "rs_client st = R" and "up s" and "redis_ok zone (keys s)" and "ValidID i"
  shows "rds_GetJob st i s =
    (case rd_job (keys s) i of Some j \<Rightarrow> Inr j | None \<Rightarrow> Inl (notFoundf ''job %s'' [i]))"
proof (cases "rd_job (keys s) i")
  case None
  with rd_job_absent [OF assms(4,3)] assms show ?thesis
    by (simp add: rds_GetJob_def HGetAll ref_HGetAll_def)
next
  case (Some j)
  from rd_job_present [OF assms(3) Some] obtain f where
    "keys s (jobKey i) = Some (RHash f)" "f \<noteq> []" "jobFromFields f = Inr j" by blast
  with Some assms show ?thesis by (simp add: rds_GetJob_def HGetAll ref_HGetAll_def)
qed

text \<open>
  One attempt either stops with an error and the state as the others left it, or
  commits the closure's result on a state in which the record is the one it read.
\<close>

lemma attempt_missing:
  assumes "rs_client st = R" and "up s" and "redis_ok zone (keys s)" and "ValidID i" and "rd_job (keys s) i = None"
  shows "rds_attempt st g i fn c s = (Inl (Sentinel ErrNotFound), c, s)"
  using rd_job_absent [OF assms(4,3)] assms
  by (simp add: rds_attempt_def Watch HGetAll ref_HGetAll_def Let_def)

lemma attempt_found:
  assumes st: "rs_client st = R" "rs_zone st = zone" and s: "up s" "redis_ok zone (keys s)"
    and j: "rd_job (keys s) i = Some j" and g: "steady zone keys up g" and fn: "storable_fn zone fn"
  shows "(\<exists>e c'. fn j c = (Inl e, c') \<and> rds_attempt st g i fn c s = (Inl e, c', s)) \<or>
    (\<exists>j' c'. fn j c = (Inr j', c') \<and>
       (rds_attempt st g i fn c s = (Inl (Sentinel TxFailedErr), c', g s) \<or>
        rd_job (keys (g s)) i = Some j \<and>
        (\<exists>s'. rds_attempt st g i fn c s = (Inr j', c', s') \<and> up s' \<and>
           keys s' = ref_cmds (write_job zone i j') (keys (g s)))))"
proof (cases "fn j c")
  case (Pair r c')
  from rd_job_present [OF s(2) j] obtain f where v: "ValidID i" and
    f: "keys s (jobKey i) = Some (RHash f)" "f \<noteq> []" "jobFromFields f = Inr j" by blast
  have run: "rds_attempt st g i fn c s =
      (case r of Inl e \<Rightarrow> (Inl e, c', s)
       | Inr j' \<Rightarrow> (let (x, s') = rd_Exec R (jobKey i) s (write_job zone i j') (g s)
                    in case x of Inl e \<Rightarrow> (Inl e, c', s') | Inr _ \<Rightarrow> (Inr j', c', s')))"
    using f Pair st s by (simp add: rds_attempt_def Watch HGetAll ref_HGetAll_def Let_def write_job_def
        split: sum.splits)
  show ?thesis
  proof (cases r)
    case (Inl e)
    with Pair run show ?thesis by auto
  next
    case (Inr j')
    have gs: "up (g s)" "redis_ok zone (keys (g s))" using g s by (auto simp: steady_def)
    note typed = write_job_typed [OF gs(2) v, where j = j']
    show ?thesis
    proof (cases "keys (g s) (jobKey i) = keys s (jobKey i)")
      case True
      then have "rd_job (keys (g s)) i = Some j" using j v f by (simp add: rd_job_def)
      with Exec_cases [OF s(1) gs(1) typed, of "jobKey i"] Pair Inr run show ?thesis by auto
    next
      case False
      from Exec_changed [OF s(1) gs(1) this] Pair Inr run show ?thesis by auto
    qed
  qed
qed

lemma update_loop:
  assumes st: "rs_client st = R" "rs_zone st = zone" and s: "up s" "redis_ok zone (keys s)" and v: "ValidID i"
    and g: "\<forall>n. steady zone keys up (gap n)" and fn: "storable_fn zone fn"
    and run: "rds_update_loop st gap i fn n c s = (r, c', s')"
  shows "up s' \<and> redis_ok zone (keys s') \<and>
    (case r of
       Inl e \<Rightarrow> others_only gap s s'
     | Inr j' \<Rightarrow>
         \<exists>u j k. others_only gap s u \<and> redis_ok zone (keys u) \<and> rd_job (keys u) i = Some j \<and> fn j k = (Inr j', c') \<and>
           keys s' = ref_cmds (write_job zone i j') (keys u))"
  using s run
proof (induction n arbitrary: c s)
  case 0
  then show ?case by (auto intro: others_only.none)
next
  case (Suc n)
  have gs: "up (gap n s)" "redis_ok zone (keys (gap n s))" using Suc.prems(1,2) g by (auto simp: steady_def)
  have retry: ?case if a: "rds_attempt st (gap n) i fn c s = (Inl e, k, u)" and e: "errors_Is e TxFailedErr"
    and u: "u = s \<or> u = gap n s" for e k u
  proof -
    have o: "others_only gap s u" using u by (auto intro: others_only.intros)
    have "rds_update_loop st gap i fn n k u = (r, c', s')" using Suc.prems(3) a e by simp
    with Suc.IH [of u k] u Suc.prems(1,2) gs have I: "up s' \<and> redis_ok zone (keys s') \<and>
      (case r of
         Inl e \<Rightarrow> others_only gap u s'
       | Inr j' \<Rightarrow>
           \<exists>w j k. others_only gap u w \<and> redis_ok zone (keys w) \<and> rd_job (keys w) i = Some j \<and> fn j k = (Inr j', c') \<and>
             keys s' = ref_cmds (write_job zone i j') (keys w))" by auto
    then show ?thesis using o by (cases r) (auto intro: others_only_trans)
  qed
  have stop: ?case if a: "rds_attempt st (gap n) i fn c s = (Inl e, k, s)" and e: "\<not> errors_Is e TxFailedErr" for e k
    using Suc.prems a e by (auto intro: others_only.none split: if_splits)
  show ?case
  proof (cases "rd_job (keys s) i")
    case None
    from stop [OF attempt_missing [OF st(1) Suc.prems(1,2) v None]] show ?thesis by simp
  next
    case (Some j)
    from attempt_found [OF st Suc.prems(1,2) Some spec [OF g, of n] fn, of c] show ?thesis
    proof (elim disjE exE conjE)
      fix e k assume "rds_attempt st (gap n) i fn c s = (Inl e, k, s)"
      then show ?thesis using retry [of e k s] stop [of e k] by (cases "errors_Is e TxFailedErr") auto
    next
      fix j' k assume "rds_attempt st (gap n) i fn c s = (Inl (Sentinel TxFailedErr), k, gap n s)"
      then show ?thesis by (rule retry) simp_all
    next
      fix j' k u assume f: "fn j c = (Inr j', k)" and j: "rd_job (keys (gap n s)) i = Some j"
        and a: "rds_attempt st (gap n) i fn c s = (Inr j', k, u)" and u: "up u"
        and w: "keys u = ref_cmds (write_job zone i j') (keys (gap n s))"
      have r: "r = Inr j'" "c' = k" "s' = u" using Suc.prems(3) a by simp_all
      have "j_ID j' = i" "storable_job zone j'"
        by (rule fn_result [OF fn f gs(2) j])+
      from commit_job(1) [OF gs(2) j this] w have "redis_ok zone (keys u)" by simp
      moreover have "others_only gap s (gap n s)" by (intro others_only.intros)
      ultimately show ?thesis using r u f j w gs(2) by auto
    qed
  qed
qed

lemma update_atomic:
  assumes st: "rs_client st = R" "rs_zone st = zone" and s: "up s" "redis_ok zone (keys s)" and v: "ValidID i"
    and g: "\<forall>n. steady zone keys up (gap n)" and fn: "storable_fn zone fn"
    and run: "rds_UpdateJob st gap i fn c s = (r, c', s')"
  shows "redis_ok zone (keys s') \<and>
    (case r of
       Inl e \<Rightarrow> others_only gap s s'
     | Inr j' \<Rightarrow> \<exists>u j k. others_only gap s u \<and> rd_job (keys u) i = Some j \<and> fn j k = (Inr j', c') \<and>
         rd_job (keys s') = (rd_job (keys u))(i \<mapsto> j') \<and> rd_events (keys s') = rd_events (keys u) \<and>
         rd_perm (keys s') = rd_perm (keys u))"
proof -
  note loop = update_loop [OF st s v g fn run [unfolded rds_UpdateJob_def]]
  show ?thesis
  proof (cases r)
    case (Inr j')
    with loop obtain u j k where u: "others_only gap s u" "redis_ok zone (keys u)" "rd_job (keys u) i = Some j"
      "fn j k = (Inr j', c')" "keys s' = ref_cmds (write_job zone i j') (keys u)" by auto
    note w = commit_job [OF u(2,3) fn_result [OF fn u(4,2,3)]]
    show ?thesis
      using Inr u w by (auto intro!: exI [of _ u] exI [of _ j] exI [of _ k])
  qed (use loop in simp)
qed

lemma update_once:
  assumes st: "rs_client st = R" "rs_zone st = zone" and s: "up s" "redis_ok zone (keys s)"
    and j: "rd_job (keys s) i = Some j" and f: "fn j c = (Inr j', c')"
    and j': "j_ID j' = i" "storable_job zone j'" and quiet: "gap n = (\<lambda>v. v)"
  shows "\<exists>s'. rds_update_loop st gap i fn (Suc n) c s = (Inr j', c', s') \<and> up s' \<and> redis_ok zone (keys s') \<and>
    rd_job (keys s') = (rd_job (keys s))(i \<mapsto> j') \<and> rd_events (keys s') = rd_events (keys s) \<and>
    rd_perm (keys s') = rd_perm (keys s)"
proof -
  from rd_job_present [OF s(2) j] obtain h where v: "ValidID i" and
    h: "keys s (jobKey i) = Some (RHash h)" "h \<noteq> []" "jobFromFields h = Inr j" by blast
  from Exec_same [OF s(1) write_job_typed [OF s(2) v, where j = j'], of "jobKey i"] obtain s' where
    e: "rd_Exec R (jobKey i) s (write_job zone i j') s = (Inr (), s')" "up s'"
    and w: "keys s' = ref_cmds (write_job zone i j') (keys s)" by blast
  have "rds_attempt st (\<lambda>v. v) i fn c s = (Inr j', c', s')"
    using e f h st s by (simp add: rds_attempt_def Watch HGetAll ref_HGetAll_def Let_def write_job_def)
  then have "rds_update_loop st gap i fn (Suc n) c s = (Inr j', c', s')" using quiet by simp
  with e(2) commit_job [OF s(2) j j'] w show ?thesis by auto
qed

lemma update_undisturbed:
  assumes "rs_client st = R" and "rs_zone st = zone" and "up s" and "redis_ok zone (keys s)"
    and "rd_job (keys s) i = Some j" and "fn j c = (Inr j', c')" and "j_ID j' = i" and "storable_job zone j'"
  shows "\<exists>s'. rds_UpdateJob st (\<lambda>_ v. v) i fn c s = (Inr j', c', s') \<and> up s' \<and> redis_ok zone (keys s') \<and>
    rd_job (keys s') = (rd_job (keys s))(i \<mapsto> j') \<and> rd_events (keys s') = rd_events (keys s) \<and>
    rd_perm (keys s') = rd_perm (keys s)"
  unfolding rds_UpdateJob_def maxUpdateRetries_Suc by (rule update_once [where fn = fn and c = c, OF assms refl])

text \<open>
  A closure that records in a captured variable that it acted keeps that mark over a
  lost race, although its second run did nothing: the update reports a move that the
  stored record does not show.
\<close>

lemma lost_race:
  assumes st: "rs_client st = R" "rs_zone st = zone" and s: "up s" "redis_ok zone (keys s)" "up (gap n s)"
    and j: "rd_job (keys s) i = Some j" and f: "fn j c = (Inr j', k)"
    and lost: "keys (gap n s) (jobKey i) \<noteq> keys s (jobKey i)"
  shows "rds_update_loop st gap i fn (Suc n) c s = rds_update_loop st gap i fn n k (gap n s)"
proof -
  from rd_job_present [OF s(2) j] obtain h where
    h: "keys s (jobKey i) = Some (RHash h)" "h \<noteq> []" "jobFromFields h = Inr j" by blast
  from Exec_changed [OF s(1,3) lost] have
    "rds_attempt st (gap n) i fn c s = (Inl (Sentinel TxFailedErr), k, gap n s)"
    using f h st s by (simp add: rds_attempt_def Watch HGetAll ref_HGetAll_def Let_def)
  then show ?thesis by simp
qed

section \<open>Creating and deleting\<close>

lemma create_taken:
  assumes "rs_client st = R" and "up s" and "redis_ok zone (keys s)" and "rd_job (keys s) (j_ID j) = Some k"
  shows "rds_CreateJob st gap j s = (Inl (conflictf ''job %s'' [j_ID j]), s)"
  using assms by (auto elim!: rd_job_present simp: rds_CreateJob_def Watch Exists ref_Exists_def Let_def)

text \<open>Creation under interference: the record is written only if nobody else wrote it.\<close>

lemma create_absent:
  assumes st: "rs_client st = R" "rs_zone st = zone" and s: "up s" "redis_ok zone (keys s)" and g: "steady zone keys up (gap 0)"
    and j: "ValidID (j_ID j)" "storable_job zone j" "rd_job (keys s) (j_ID j) = None"
  shows "rds_CreateJob st gap j s = (Inl (conflictf ''job %s'' [j_ID j]), gap 0 s) \<or>
    rd_job (keys (gap 0 s)) (j_ID j) = None \<and>
    (\<exists>s'. rds_CreateJob st gap j s = (Inr (), s') \<and> up s' \<and>
       keys s' = ref_cmds [HSet (jobKey (j_ID j)) (jobSetFields zone j), ZAdd jobsIndexKey (j_ID j)] (keys (gap 0 s)))"
proof -
  let ?k = "jobKey (j_ID j)"
  let ?cs = "[HSet ?k (jobSetFields zone j), ZAdd jobsIndexKey (j_ID j)]"
  have gs: "up (gap 0 s)" "redis_ok zone (keys (gap 0 s))" using g s by (auto simp: steady_def)
  have none: "keys s ?k = None" using rd_job_absent [OF j(1) s(2)] j(3) by simp
  have run: "rds_CreateJob st gap j s =
      (case rd_Exec R ?k s ?cs (gap 0 s) of
         (Inr _, s') \<Rightarrow> (Inr (), s')
       | (Inl e, s') \<Rightarrow>
           if errors_Is e ErrConflict \<or> errors_Is e TxFailedErr then (Inl (conflictf ''job %s'' [j_ID j]), s')
           else (Inl (Errorf ''create job %s: %w'' [j_ID j] (Some e)), s'))"
    using st s none by (simp add: rds_CreateJob_def Watch Exists ref_Exists_def Let_def split: prod.splits sum.splits)
  have typed: "list_all (\<lambda>c. well_typed c (keys (gap 0 s))) ?cs"
    using gs(2) j(1) by (auto simp: redis_ok_def job_key_ok_def index_ok_def zset_value_def)
  show ?thesis
  proof (cases "keys (gap 0 s) ?k = None")
    case True
    then have "rd_job (keys (gap 0 s)) (j_ID j) = None" using rd_job_absent [OF j(1) gs(2)] by simp
    with Exec_cases [OF s(1) gs(1) typed, of ?k] run show ?thesis by auto
  next
    case False
    with none Exec_changed [OF s(1) gs(1), of ?k ?cs] run show ?thesis by simp
  qed
qed

end

text \<open>The abstract effect of the transaction that creates a job.\<close>

lemma create_effect:
  assumes "redis_ok zone V" and j: "ValidID (j_ID j)" "storable_job zone j" and none: "rd_job V (j_ID j) = None"
  defines "W \<equiv> ref_cmds [HSet (jobKey (j_ID j)) (jobSetFields zone j), ZAdd jobsIndexKey (j_ID j)] V"
  shows "redis_ok zone W" and "rd_job W = (rd_job V)(j_ID j \<mapsto> j)" and "rd_events W = rd_events V"
    and "rd_perm W = rd_perm V"
proof -
  let ?i = "j_ID j"
  let ?f = "AList.updates (map fst (jobSetFields zone j)) (map snd (jobSetFields zone j)) []"
  let ?I = "{k. ValidID k \<and> V (jobKey k) \<noteq> None}"
  have absent: "V (jobKey ?i) = None" using rd_job_absent [OF j(1) assms(1)] none by simp
  have enc: "encodes zone ?f j" by (rule encodes_created)
  have dec: "jobFromFields ?f = Inr j" by (rule jobFromFields_encoded [OF j(2) enc])
  have "fget ?f ''id'' = ?i" using enc by (simp add: encodes_def job_names_def fget_jobSetFields)
  then have ne: "?f \<noteq> []" using nonempty_of_id ValidID_nonempty [OF j(1)] by metis
  have idx: "V jobsIndexKey = zset_value ?I" and fin: "finite ?I"
    using assms(1) by (simp_all add: redis_ok_def index_ok_def)
  have W: "W = V(jobKey ?i \<mapsto> RHash ?f, jobsIndexKey \<mapsto> RZSet (insert ?i ?I))"
    using absent ne idx
    by (auto simp: W_def ref_cmds_def hash_value_def hash_entries_def zset_value_def zset_members_def fun_eq_iff)
  have I': "{k. ValidID k \<and> W (jobKey k) \<noteq> None} = insert ?i ?I" using j(1) by (auto simp: W)
  have "index_ok W" unfolding index_ok_def I' using fin by (simp add: W zset_value_def)
  moreover have "job_key_ok zone W k" "events_key_ok W k" "perms_key_ok W k" if "ValidID k" for k
    using assms(1) that keys_distinct [OF that j(1)] ne dec j(2)
    by (auto simp: W redis_ok_def job_key_ok_def events_key_ok_def perms_key_ok_def)
  ultimately show "redis_ok zone W" by (simp add: redis_ok_def)
  show "rd_job W = (rd_job V)(?i \<mapsto> j)"
    using j(1) dec by (auto simp: W fun_eq_iff rd_job_def)
  show "rd_events W = rd_events V" "rd_perm W = rd_perm V"
    using keys_distinct [OF _ j(1)] by (auto simp: W fun_eq_iff rd_events_def rd_perm_def)
qed

lemma delete_effect:
  assumes "redis_ok zone V" and "ValidID i"
  defines "W \<equiv> ref_cmds [Del [jobKey i, eventsKey i, permsKey i], ZRem jobsIndexKey i] V"
  shows "redis_ok zone W" and "rd_job W = (rd_job V)(i := None)" and "rd_events W = (rd_events V)(i := [])"
    and "rd_perm W = (rd_perm V)(i := Map.empty)"
proof -
  let ?I = "{k. ValidID k \<and> V (jobKey k) \<noteq> None}"
  have idx: "V jobsIndexKey = zset_value ?I" and fin: "finite ?I"
    using assms(1) by (simp_all add: redis_ok_def index_ok_def)
  have W: "W = (\<lambda>k. if k = jobsIndexKey then zset_value (?I - {i})
      else if k \<in> {jobKey i, eventsKey i, permsKey i} then None else V k)"
    using idx by (auto simp: W_def ref_cmds_def zset_value_def zset_members_def fun_eq_iff)
  note d = keys_distinct [OF _ assms(2)] keys_distinct [OF assms(2)]
  have I': "{k. ValidID k \<and> W (jobKey k) \<noteq> None} = ?I - {i}" using d by (auto simp: W)
  have "index_ok W" unfolding index_ok_def I' using fin by (simp add: W)
  moreover have "job_key_ok zone W k" "events_key_ok W k" "perms_key_ok W k" if "ValidID k" for k
    using assms(1) that by (auto simp: W redis_ok_def job_key_ok_def events_key_ok_def perms_key_ok_def)
  ultimately show "redis_ok zone W" by (simp add: redis_ok_def)
  show "rd_job W = (rd_job V)(i := None)" "rd_events W = (rd_events V)(i := [])"
    "rd_perm W = (rd_perm V)(i := Map.empty)"
    using d by (auto simp: W fun_eq_iff rd_job_def rd_events_def rd_perm_def stream_entries_def hash_entries_def)
qed

end
