(* ===== verification/RedisOps.thy ===== *)
theory RedisOps
  imports RedisSpec Reaper
begin

text \<open>
  The operations of the Redis store, undisturbed: their results and effects in terms
  of the abstract state. \<open>redisStore_ops\<close> is the store as an instance of the
  \<open>Store\<close> interface.
\<close>

definition redisStore_ops :: "'r redisStore \<Rightarrow> (nat \<Rightarrow> 'r \<Rightarrow> 'r) \<Rightarrow> 'r Store" where
  "redisStore_ops st gap =
     \<lparr>s_CreateJob = rds_CreateJob st gap, s_GetJob = rds_GetJob st,
      s_ListJobs = (\<lambda>limit token s. fst (rds_ListJobs st (\<lambda>_ v. v) limit token s)),
      s_UpdateJob = rds_UpdateJob st gap, s_DeleteJob = rds_DeleteJob st gap,
      s_AppendEvent = rds_AppendEvent st gap,
      s_ReadEvents = (\<lambda>i cur limit s. fst (rds_ReadEvents st (\<lambda>_ v. v) i cur limit s)),
      s_WatchEvents = (\<lambda>i cur s. Some (map_sum id (\<lambda>_. 0) (rds_WatchEvents st i s), s)),
      s_PutPermission = rds_PutPermission st gap, s_GetPermission = rds_GetPermission st,
      s_ListPermissions = rds_ListPermissions st\<rparr>"

section \<open>Timelines\<close>

lemma eventFromMessage_ID: "eventFromMessage m = Inr ev \<Longrightarrow> e_ID ev = fst m"
  by (auto simp: eventFromMessage_def Let_def split: prod.splits if_splits sum.splits)

lemma decode_messages_append:
  "decode_messages (xs @ ys) =
     (case decode_messages xs of
        Inl e \<Rightarrow> Inl e
      | Inr a \<Rightarrow> (case decode_messages ys of Inl e \<Rightarrow> Inl e | Inr b \<Rightarrow> Inr (a @ b)))"
  by (induction xs) (auto split: sum.splits)

lemma decode_messages_drop: "decode_messages xs = Inr evs \<Longrightarrow> decode_messages (drop n xs) = Inr (drop n evs)"
  by (induction xs arbitrary: n evs) (auto simp: drop_Cons' split: sum.splits)

lemma decode_messages_take: "decode_messages xs = Inr evs \<Longrightarrow> decode_messages (take n xs) = Inr (take n evs)"
  by (induction xs arbitrary: n evs) (auto simp: take_Cons' split: sum.splits)

lemma decode_messages_length: "decode_messages xs = Inr evs \<Longrightarrow> length evs = length xs"
  by (induction xs arbitrary: evs) (auto split: sum.splits)

lemma decode_messages_IDs: "decode_messages xs = Inr evs \<Longrightarrow> map e_ID evs = map fst xs"
  by (induction xs arbitrary: evs) (auto split: sum.splits dest: eventFromMessage_ID)

lemma decode_messages_filter:
  "decode_messages xs = Inr evs \<Longrightarrow>
   decode_messages (filter (\<lambda>(i, _). P i) xs) = Inr (filter (\<lambda>ev. P (e_ID ev)) evs)"
proof (induction xs arbitrary: evs)
  case (Cons x xs)
  then obtain ev rest where "eventFromMessage x = Inr ev" "decode_messages xs = Inr rest" "evs = ev # rest"
    by (auto split: sum.splits)
  with Cons.IH [of rest] eventFromMessage_ID [of x ev] show ?case by (auto split: prod.splits)
qed simp

lemma events_decode:
  assumes "redis_ok zone V" and "ValidID i"
  shows "decode_messages (stream_entries (V (eventsKey i))) = Inr (rd_events V i)"
  using assms by (auto simp: redis_ok_def events_key_ok_def rd_events_def stream_entries_def)

lemma events_increasing:
  assumes "redis_ok zone V" and "ValidID i"
  shows "sorted_wrt (\<lambda>x y. streamIDLess (e_ID x) (e_ID y)) (rd_events V i)"
    and "ev \<in> set (rd_events V i) \<Longrightarrow> proper_id (e_ID ev)"
proof -
  let ?es = "stream_entries (V (eventsKey i))"
  have ids: "map e_ID (rd_events V i) = map fst ?es" by (rule decode_messages_IDs [OF events_decode [OF assms]])
  have es: "sorted_wrt (\<lambda>x y. streamIDLess (fst x) (fst y)) ?es" "list_all (\<lambda>(x, _). proper_id x) ?es"
    using assms by (auto simp: redis_ok_def events_key_ok_def stream_entries_def)
  have "sorted_wrt streamIDLess (map e_ID (rd_events V i))" unfolding ids using es(1) by (simp add: sorted_wrt_map)
  then show "sorted_wrt (\<lambda>x y. streamIDLess (e_ID x) (e_ID y)) (rd_events V i)" by (simp add: sorted_wrt_map)
  assume "ev \<in> set (rd_events V i)"
  then have "e_ID ev \<in> set (map fst ?es)" unfolding ids [symmetric] by simp
  with es(2) show "proper_id (e_ID ev)" by (auto simp: list_all_iff)
qed

lemma append_effect:
  assumes ok: "redis_ok zone V" and v: "ValidID i" and at: "storable_time zone at" and i: "proper_id eid"
    and larger: "\<forall>(x, _) \<in> set (stream_entries (V (eventsKey i))). streamIDLess x eid"
    and W_def: "W = V(eventsKey i \<mapsto> RStream (drop n (stream_entries (V (eventsKey i))) @
      [(eid, [(''type'', ty), (''payload'', pl), (''at'', time_Format (zone at) at)])]))"
  shows "redis_ok zone W" and "rd_job W = rd_job V" and "rd_perm W = rd_perm V"
    and "rd_events W = (rd_events V)(i := drop n (rd_events V i) @
      [\<lparr>e_ID = eid, e_Type = ty, e_PayloadJSON = pl, e_At = at\<rparr>])"
proof -
  let ?es = "stream_entries (V (eventsKey i))"
  let ?m = "(eid, [(''type'', ty), (''payload'', pl), (''at'', time_Format (zone at) at)])"
  have es: "sorted_wrt (\<lambda>x y. streamIDLess (fst x) (fst y)) ?es" "list_all (\<lambda>(x, _). proper_id x) ?es"
    using ok v by (auto simp: redis_ok_def events_key_ok_def stream_entries_def)
  have dec: "decode_messages (drop n ?es @ [?m]) = Inr (drop n (rd_events V i) @
      [\<lparr>e_ID = eid, e_Type = ty, e_PayloadJSON = pl, e_At = at\<rparr>])"
    using decode_messages_drop [OF events_decode [OF ok v], of n] eventFromMessage_encoded [OF at]
    by (simp add: decode_messages_append)
  have "sorted_wrt (\<lambda>x y. streamIDLess (fst x) (fst y)) (drop n ?es @ [?m])"
    using es(1) larger by (fastforce simp: sorted_wrt_append sorted_wrt_drop dest: in_set_dropD)
  moreover have "list_all (\<lambda>(x, _). proper_id x) (drop n ?es @ [?m])"
    using es(2) i by (auto simp: list_all_iff dest: in_set_dropD)
  ultimately have key: "events_key_ok W i" using dec by (auto simp: W_def events_key_ok_def)
  note d = keys_distinct [OF _ v]
  have "job_key_ok zone W k" "events_key_ok W k" "perms_key_ok W k" if "ValidID k" for k
    using ok that d [OF that] key
    by (auto simp: W_def redis_ok_def job_key_ok_def perms_key_ok_def events_key_ok_def)
  moreover have "index_ok W" using ok d by (simp add: W_def redis_ok_def index_ok_def cong: conj_cong)
  ultimately show "redis_ok zone W" by (simp add: redis_ok_def)
  show "rd_job W = rd_job V" "rd_perm W = rd_perm V" unfolding W_def by (rule frame_events [OF v])+
  show "rd_events W = (rd_events V)(i := drop n (rd_events V i) @
      [\<lparr>e_ID = eid, e_Type = ty, e_PayloadJSON = pl, e_At = at\<rparr>])"
  proof
    fix k
    show "rd_events W k = ((rd_events V)(i := drop n (rd_events V i) @
      [\<lparr>e_ID = eid, e_Type = ty, e_PayloadJSON = pl, e_At = at\<rparr>])) k"
      using frame_events(3) [OF v, of k V] dec v
      by (cases "k = i") (auto simp: W_def rd_events_def stream_entries_def)
  qed
qed

section \<open>Permission requests\<close>

lemma perms_hash:
  assumes "redis_ok zone V" and "ValidID i"
  shows "distinct (map fst (hash_entries (V (permsKey i))))"
    and "\<forall>(r, d) \<in> set (hash_entries (V (permsKey i))). \<exists>q. unmarshal_permission d = Inr q \<and> p_RequestID q = r"
    and "V (permsKey i) = None \<or> V (permsKey i) = Some (RHash (hash_entries (V (permsKey i))))"
proof -
  have "perms_key_ok V i" using assms by (simp add: redis_ok_def)
  then have "V (permsKey i) = None \<or> (\<exists>f. V (permsKey i) = Some (RHash f) \<and> distinct (map fst f) \<and>
      (\<forall>(r, d) \<in> set f. \<exists>q. unmarshal_permission d = Inr q \<and> p_RequestID q = r))"
    unfolding perms_key_ok_def .
  then show "distinct (map fst (hash_entries (V (permsKey i))))"
    "\<forall>(r, d) \<in> set (hash_entries (V (permsKey i))). \<exists>q. unmarshal_permission d = Inr q \<and> p_RequestID q = r"
    "V (permsKey i) = None \<or> V (permsKey i) = Some (RHash (hash_entries (V (permsKey i))))"
    by (elim disjE exE conjE, simp add: hash_entries_def, simp add: hash_entries_def)+
qed

lemma perm_effect:
  assumes ok: "redis_ok zone V" and v: "ValidID i" and m: "marshal_permission zone p = Inr d"
    and s: "storable_permission zone p"
  defines "W \<equiv> ref_cmds [HSet (permsKey i) [(p_RequestID p, d)]] V"
  shows "redis_ok zone W" and "rd_job W = rd_job V" and "rd_events W = rd_events V"
    and "rd_perm W = (rd_perm V)(i := (rd_perm V i)(p_RequestID p \<mapsto> p))"
proof -
  let ?h = "hash_entries (V (permsKey i))"
  have dec: "unmarshal_permission d = Inr p" using unmarshal_marshal_permission [OF s] m by auto
  have W: "W = V(permsKey i \<mapsto> RHash (AList.update (p_RequestID p) d ?h))"
    by (simp add: W_def ref_cmds_def hash_value_def)
  have h: "distinct (map fst ?h)" "\<forall>(r, x) \<in> set ?h. \<exists>q. unmarshal_permission x = Inr q \<and> p_RequestID q = r"
    by (rule perms_hash [OF ok v])+
  have "\<forall>(r, x) \<in> set (AList.update (p_RequestID p) d ?h). \<exists>q. unmarshal_permission x = Inr q \<and> p_RequestID q = r"
  proof (clarify)
    fix r x assume "(r, x) \<in> set (AList.update (p_RequestID p) d ?h)"
    then have "map_of (AList.update (p_RequestID p) d ?h) r = Some x"
      using distinct_update [OF h(1)] by simp
    then show "\<exists>q. unmarshal_permission x = Inr q \<and> p_RequestID q = r"
      using h dec by (auto simp: update_conv' split: if_splits dest!: map_of_SomeD)
  qed
  then have key: "perms_key_ok W i" using distinct_update [OF h(1)] by (simp add: W perms_key_ok_def)
  note d = keys_distinct [OF _ v]
  have "job_key_ok zone W k" "events_key_ok W k" "perms_key_ok W k" if "ValidID k" for k
    using ok that d [OF that] key
    by (auto simp: W redis_ok_def job_key_ok_def perms_key_ok_def events_key_ok_def)
  moreover have "index_ok W" using ok d by (simp add: W redis_ok_def index_ok_def cong: conj_cong)
  ultimately show "redis_ok zone W" by (simp add: redis_ok_def)
  show "rd_job W = rd_job V" "rd_events W = rd_events V" unfolding W by (rule frame_perms [OF v])+
  show "rd_perm W = (rd_perm V)(i := (rd_perm V i)(p_RequestID p \<mapsto> p))"
  proof
    fix k
    show "rd_perm W k = ((rd_perm V)(i := (rd_perm V i)(p_RequestID p \<mapsto> p))) k"
      using frame_perms(3) [OF v, of k V] dec v
      by (cases "k = i") (auto simp: W rd_perm_def hash_entries_def update_conv' fun_eq_iff)
  qed
qed

section \<open>The operations\<close>

context redis_server
begin

lemma exists_job:
  assumes "rs_client st = R" and "up s" and "redis_ok zone (keys s)" and "ValidID i"
  shows "jobExists st i s = Inr (rd_job (keys s) i \<noteq> None)"
  using rd_job_absent [OF assms(4,3)] assms(1,2) by (simp add: jobExists_def Exists ref_Exists_def)

lemma create_fresh:
  assumes st: "rs_client st = R" "rs_zone st = zone" and s: "up s" "redis_ok zone (keys s)"
    and j: "ValidID (j_ID j)" "storable_job zone j" "rd_job (keys s) (j_ID j) = None"
  shows "\<exists>s'. rds_CreateJob st (\<lambda>_ v. v) j s = (Inr (), s') \<and> up s' \<and> redis_ok zone (keys s') \<and>
    rd_job (keys s') = (rd_job (keys s))(j_ID j \<mapsto> j) \<and> rd_events (keys s') = rd_events (keys s) \<and>
    rd_perm (keys s') = rd_perm (keys s)"
proof -
  let ?k = "jobKey (j_ID j)"
  let ?cs = "[HSet ?k (jobSetFields zone j), ZAdd jobsIndexKey (j_ID j)]"
  have none: "keys s ?k = None" using rd_job_absent [OF j(1) s(2)] j(3) by simp
  have typed: "list_all (\<lambda>c. well_typed c (keys s)) ?cs"
    using s(2) j(1) by (auto simp: redis_ok_def job_key_ok_def index_ok_def zset_value_def)
  from Exec_same [OF s(1) typed, of ?k] obtain s' where
    e: "rd_Exec R ?k s ?cs s = (Inr (), s')" "up s'" "keys s' = ref_cmds ?cs (keys s)" by blast
  have "rds_CreateJob st (\<lambda>_ v. v) j s = (Inr (), s')"
    using st s none e(1) by (simp add: rds_CreateJob_def Watch Exists ref_Exists_def Let_def)
  with e(2,3) create_effect [OF s(2) j] show ?thesis by auto
qed

lemma delete_found:
  assumes st: "rs_client st = R" and s: "up s" "redis_ok zone (keys s)" and j: "rd_job (keys s) i = Some j"
  shows "\<exists>s'. rds_DeleteJob st (\<lambda>_ v. v) i s = (Inr (), s') \<and> up s' \<and> redis_ok zone (keys s') \<and>
    rd_job (keys s') = (rd_job (keys s))(i := None) \<and> rd_events (keys s') = (rd_events (keys s))(i := []) \<and>
    rd_perm (keys s') = (rd_perm (keys s))(i := Map.empty)"
proof -
  have v: "ValidID i" using rd_job_present [OF s(2) j] by blast
  let ?cs = "[Del [jobKey i, eventsKey i, permsKey i], ZRem jobsIndexKey i]"
  have typed: "list_all (\<lambda>c. well_typed c (keys s)) ?cs"
    using s(2) by (auto simp: redis_ok_def index_ok_def zset_value_def)
  from Pipe [OF s(1) typed] obtain s' where
    e: "rd_Pipe R ?cs s = (Inr (), s')" "up s'" "keys s' = ref_cmds ?cs (keys s)" by blast
  have "rds_DeleteJob st (\<lambda>_ v. v) i s = (Inr (), s')"
    using e(1) j st by (simp add: rds_DeleteJob_def exists_job [OF st s v])
  with e(2,3) delete_effect [OF s(2) v] show ?thesis by auto
qed

lemma delete_missing:
  assumes "rs_client st = R" and "up s" and "redis_ok zone (keys s)" and "ValidID i" and "rd_job (keys s) i = None"
  shows "rds_DeleteJob st gap i s = (Inl (notFoundf ''job %s'' [i]), s)"
  using assms by (simp add: rds_DeleteJob_def exists_job)

lemma append_found:
  assumes st: "rs_client st = R" "rs_zone st = zone" "0 < rs_maxEvents st" and s: "up s" "redis_ok zone (keys s)"
    and j: "rd_job (keys s) i = Some j" and at: "at = (if IsZero (e_At ev) then t else e_At ev)" "storable_time zone at"
    and room: "room s (eventsKey i)"
  shows "\<exists>eid n s'. rds_AppendEvent st (\<lambda>_ v. v) t i ev s = (Inr eid, s') \<and> up s' \<and> redis_ok zone (keys s') \<and>
    rd_job (keys s') = rd_job (keys s) \<and> rd_perm (keys s') = rd_perm (keys s) \<and>
    n \<le> length (rd_events (keys s) i) \<and>
    (n = 0 \<or> nat (rs_maxEvents st) \<le> Suc (length (rd_events (keys s) i)) - n) \<and>
    rd_events (keys s') = (rd_events (keys s))(i := drop n (rd_events (keys s) i) @ [ev\<lparr>e_ID := eid, e_At := at\<rparr>])"
proof -
  have v: "ValidID i" using rd_job_present [OF s(2) j] by blast
  let ?vs = "[(''type'', e_Type ev), (''payload'', e_PayloadJSON ev), (''at'', time_Format (zone at) at)]"
  have len: "length (stream_entries (keys s (eventsKey i))) = length (rd_events (keys s) i)"
    using decode_messages_length [OF events_decode [OF s(2) v]] by simp
  have "keys s (eventsKey i) = None \<or> (\<exists>es. keys s (eventsKey i) = Some (RStream es))"
    using s(2) v by (auto simp: redis_ok_def events_key_ok_def)
  from XAdd [OF s(1) this room st(3), of ?vs] obtain eid n s' where
    x: "rd_XAdd R (eventsKey i) (rs_maxEvents st) ?vs s = (Inr eid, s')" "up s'" "proper_id eid"
      "\<forall>(x, _) \<in> set (stream_entries (keys s (eventsKey i))). streamIDLess x eid"
    and n: "n \<le> length (rd_events (keys s) i)"
      "n = 0 \<or> nat (rs_maxEvents st) \<le> Suc (length (rd_events (keys s) i)) - n"
    and k: "keys s' = (keys s)(eventsKey i \<mapsto> RStream (drop n (stream_entries (keys s (eventsKey i))) @ [(eid, ?vs)]))"
    unfolding len by blast
  have "rds_AppendEvent st (\<lambda>_ v. v) t i ev s = (Inr eid, s')"
    using x(1) j at st by (simp add: rds_AppendEvent_def exists_job [OF st(1) s v] Let_def)
  moreover note w = append_effect [OF s(2) v at(2) x(3,4) k]
  moreover have "\<lparr>e_ID = eid, e_Type = e_Type ev, e_PayloadJSON = e_PayloadJSON ev, e_At = at\<rparr> = ev\<lparr>e_ID := eid, e_At := at\<rparr>"
    by simp
  from w(4) [unfolded this] have
    "rd_events (keys s') = (rd_events (keys s))(i := drop n (rd_events (keys s) i) @ [ev\<lparr>e_ID := eid, e_At := at\<rparr>])" .
  ultimately show ?thesis
    using x(2) n by (intro exI [of _ eid] exI [of _ n] exI [of _ s'] conjI)
qed

text \<open>The cursor is empty or an identifier the store has given out.\<close>

lemma read_events:
  assumes st: "rs_client st = R" and s: "up s" "redis_ok zone (keys s)" and j: "rd_job (keys s) i = Some j"
    and cur: "cur = [] \<or> proper_id cur"
  shows "rds_ReadEvents st (\<lambda>_ v. v) i cur limit s =
    (Inr (take (nat (if limit \<le> 0 then 1000 else limit)) (filter (after cur) (rd_events (keys s) i))), s)"
proof -
  have v: "ValidID i" using rd_job_present [OF s(2) j] by blast
  define es where "es = stream_entries (keys s (eventsKey i))"
  define start where "start = (if cur \<noteq> [] then CHR ''('' # cur else ''-'')"
  define lim where "lim = (if limit \<le> 0 then 1000 else limit)"
  have start: "start = ''-'' \<or> (\<exists>x. start = CHR ''('' # x \<and> proper_id x)" using cur by (auto simp: start_def)
  have "rd_XRangeN R (eventsKey i) start lim s = ref_XRangeN (eventsKey i) start lim (keys s)"
    by (rule XRangeN [OF s(1) start])
  also have "\<dots> = Inr (take (nat lim) (filter (\<lambda>(x, _). cur = [] \<or> streamIDLess cur x) es))"
    using s(2) v by (auto simp: ref_XRangeN_def redis_ok_def events_key_ok_def stream_entries_def es_def start_def)
  finally have x: "rd_XRangeN R (eventsKey i) start lim s =
      Inr (take (nat lim) (filter (\<lambda>(x, _). cur = [] \<or> streamIDLess cur x) es))" .
  have f: "filter (after cur) evs = filter (\<lambda>ev. cur = [] \<or> streamIDLess cur (e_ID ev)) evs" for evs
    by (rule filter_cong) (simp_all add: after_def)
  have d: "decode_messages (take (nat lim) (filter (\<lambda>(x, _). cur = [] \<or> streamIDLess cur x) es)) =
      Inr (take (nat lim) (filter (after cur) (rd_events (keys s) i)))"
    unfolding f es_def by (rule decode_messages_take [OF decode_messages_filter [OF events_decode [OF s(2) v]]])
  show ?thesis
    unfolding rds_ReadEvents_def exists_job [OF st s v] Let_def st start_def [symmetric] lim_def [symmetric] x
    using j d by simp
qed

lemma put_permission:
  assumes st: "rs_client st = R" "rs_zone st = zone" and s: "up s" "redis_ok zone (keys s)"
    and j: "rd_job (keys s) i = Some j" and p: "storable_permission zone p"
  shows "\<exists>s'. rds_PutPermission st (\<lambda>_ v. v) i p s = (Inr (), s') \<and> up s' \<and> redis_ok zone (keys s') \<and>
    rd_job (keys s') = rd_job (keys s) \<and> rd_events (keys s') = rd_events (keys s) \<and>
    rd_perm (keys s') = (rd_perm (keys s))(i := (rd_perm (keys s) i)(p_RequestID p \<mapsto> p))"
proof -
  have v: "ValidID i" using rd_job_present [OF s(2) j] by blast
  from unmarshal_marshal_permission [OF p] obtain d where d: "marshal_permission zone p = Inr d" by blast
  let ?cs = "[HSet (permsKey i) [(p_RequestID p, d)]]"
  have typed: "list_all (\<lambda>c. well_typed c (keys s)) ?cs"
    using s(2) v by (auto simp: redis_ok_def perms_key_ok_def)
  from Pipe [OF s(1) typed] obtain s' where
    e: "rd_Pipe R ?cs s = (Inr (), s')" "up s'" "keys s' = ref_cmds ?cs (keys s)" by blast
  have "rds_PutPermission st (\<lambda>_ v. v) i p s = (Inr (), s')"
    using e(1) j st d by (simp add: rds_PutPermission_def exists_job [OF st(1) s v])
  with e(2,3) perm_effect [OF s(2) v d p] show ?thesis by auto
qed

lemma get_permission:
  assumes "rs_client st = R" and "up s" and "redis_ok zone (keys s)" and "ValidID i"
  shows "rds_GetPermission st i rid s =
    (case rd_perm (keys s) i rid of
       Some p \<Rightarrow> Inr p
     | None \<Rightarrow> Inl (notFoundf ''permission %s/%s'' [i, rid]))"
proof -
  let ?h = "hash_entries (keys s (permsKey i))"
  have "rd_HGet R (permsKey i) rid s = Inr (map_of ?h rid)"
    using perms_hash(3) [OF assms(3,4)]
    by (auto simp: HGet [OF assms(2)] ref_HGet_def hash_entries_def split: option.splits rvalue.splits)
  moreover have "\<exists>q. unmarshal_permission d = Inr q" if "map_of ?h rid = Some d" for d
    using perms_hash(2) [OF assms(3,4)] map_of_SomeD [OF that] by blast
  ultimately show ?thesis
    using assms(1,4) by (cases "map_of ?h rid") (auto simp: rds_GetPermission_def rd_perm_def)
qed

end

end
