(* ===== verification/RedisList.thy ===== *)
theory RedisList
  imports RedisOps MemList
begin

text \<open>
  Paging and watching over Redis: the pages of \<open>ListJobs\<close> fit together to the whole
  index, newest identifier first, and the polling loop of \<open>WatchEvents\<close> delivers
  every event after its cursor once and in order.
\<close>

section \<open>The index\<close>

definition rd_ids :: "keyspace \<Rightarrow> string list" where
  "rd_ids V = rev (sorted_list_of_set {i. ValidID i \<and> V (jobKey i) \<noteq> None})"

lemma rd_ids_facts:
  assumes "redis_ok zone V"
  shows "set (rd_ids V) = {i. rd_job V i \<noteq> None}" and "sorted_wrt (\<lambda>x y. y < x) (rd_ids V)"
proof -
  have fin: "finite {i. ValidID i \<and> V (jobKey i) \<noteq> None}"
    using assms by (simp add: redis_ok_def index_ok_def)
  have "ValidID i \<and> V (jobKey i) \<noteq> None \<longleftrightarrow> rd_job V i \<noteq> None" for i
    using rd_job_absent [OF _ assms, of i] by (cases "ValidID i") (auto simp: rd_job_def)
  then show "set (rd_ids V) = {i. rd_job V i \<noteq> None}" using fin by (simp add: rd_ids_def)
  show "sorted_wrt (\<lambda>x y. y < x) (rd_ids V)"
    unfolding rd_ids_def by (simp add: sorted_wrt_rev strict_sorted_list_of_set)
qed

lemma descending_distinct: "sorted_wrt (\<lambda>x y. y < x) (xs :: string list) \<Longrightarrow> distinct xs"
  by (induction xs) auto

lemma filtered_ids:
  assumes "finite S"
  shows "rev (sorted_list_of_set {x \<in> S. P x}) = filter P (rev (sorted_list_of_set S))"
proof -
  have "sorted_list_of_set {x \<in> S. P x} = filter P (sorted_list_of_set S)"
    by (rule sorted_distinct_set_unique) (use assms in \<open>simp_all add: sorted_filter [where f = id, simplified]\<close>)
  then show ?thesis by (simp add: rev_filter)
qed

lemma range_index:
  assumes "redis_ok zone V"
  shows "ref_ZRevRangeByLex jobsIndexKey start n V = Inr (take (nat n) (filter (below start) (rd_ids V)))"
proof -
  let ?I = "{i. ValidID i \<and> V (jobKey i) \<noteq> None}"
  have idx: "V jobsIndexKey = zset_value ?I" "finite ?I" using assms by (simp_all add: redis_ok_def index_ok_def)
  show ?thesis
  proof (cases "?I = {}")
    case True
    have "rd_ids V = []" unfolding rd_ids_def True by simp
    moreover have "V jobsIndexKey = None" using idx(1) unfolding True by (simp add: zset_value_def)
    ultimately show ?thesis by (simp add: ref_ZRevRangeByLex_def)
  next
    case False
    then have "V jobsIndexKey = Some (RZSet ?I)" using idx(1) by (simp only: zset_value_def if_False)
    then have "ref_ZRevRangeByLex jobsIndexKey start n V =
        Inr (take (nat n) (rev (sorted_list_of_set {x \<in> ?I. below start x})))"
      by (simp only: ref_ZRevRangeByLex_def option.case rvalue.case)
    then show ?thesis unfolding filtered_ids [OF idx(2)] rd_ids_def .
  qed
qed

text \<open>The identifiers below the last one of a page are the rest of the list.\<close>

lemma below_last:
  fixes xs :: "string list"
  assumes "sorted_wrt (\<lambda>x y. y < x) xs" and "0 < k" and "k \<le> length xs"
  shows "filter (below (CHR ''('' # last (take k xs))) xs = drop k xs"
proof -
  define m where "m = last (take k xs)"
  have b: "below (CHR ''('' # m) x \<longleftrightarrow> x < m" for x by (simp add: below_def)
  have ne: "take k xs \<noteq> []" using assms(2,3) by auto
  have s: "sorted_wrt (\<lambda>x y. y < x) (take k xs @ drop k xs)" using assms(1) by simp
  have "\<not> x < m" if x: "x \<in> set (take k xs)" for x
  proof -
    obtain ys where ys: "take k xs = ys @ [m]" using ne unfolding m_def by (metis append_butlast_last_id)
    have "sorted_wrt (\<lambda>x y. y < x) (ys @ [m])" using s unfolding sorted_wrt_append ys by simp
    moreover have "x \<in> set (ys @ [m])" using x ys by simp
    ultimately show ?thesis by (auto simp: sorted_wrt_append)
  qed
  moreover have "x < m" if "x \<in> set (drop k xs)" for x
    using s that last_in_set [OF ne] unfolding m_def sorted_wrt_append by blast
  moreover have "filter (\<lambda>x. x < m) xs = filter (\<lambda>x. x < m) (take k xs) @ filter (\<lambda>x. x < m) (drop k xs)"
    by (metis append_take_drop_id filter_append)
  ultimately have "filter (\<lambda>x. x < m) xs = drop k xs" by (simp add: filter_id_conv filter_empty_conv)
  moreover have "below (CHR ''('' # m) = (\<lambda>x. x < m)" by (simp add: fun_eq_iff b)
  ultimately show ?thesis unfolding m_def [symmetric] by simp
qed

text \<open>What the other clients do to a job that is being watched: they append to its timeline.\<close>

definition appends_only :: "(gotime \<Rightarrow> int) \<Rightarrow> ('r \<Rightarrow> keyspace) \<Rightarrow> ('r \<Rightarrow> bool) \<Rightarrow> string \<Rightarrow> ('r \<Rightarrow> 'r) \<Rightarrow> bool" where
  "appends_only zone keys up i g \<longleftrightarrow>
     (\<forall>s. up s \<and> redis_ok zone (keys s) \<and> rd_job (keys s) i \<noteq> None \<longrightarrow>
        up (g s) \<and> redis_ok zone (keys (g s)) \<and> rd_job (keys (g s)) i \<noteq> None \<and>
        (\<exists>new. rd_events (keys (g s)) i = rd_events (keys s) i @ new))"

context redis_server
begin

lemma get_each:
  assumes st: "rs_client st = R" and s: "up s" "redis_ok zone (keys s)" and ids: "\<forall>i \<in> set is. rd_job (keys s) i \<noteq> None"
  shows "rds_get_each st (\<lambda>_ v. v) is out s = (Inr (out @ map (\<lambda>i. the (rd_job (keys s) i)) is), s)"
  using ids
proof (induction "is" arbitrary: out)
  case (Cons i "is")
  then obtain j where j: "rd_job (keys s) i = Some j" by auto
  have v: "ValidID i" using rd_job_present [OF s(2) j] by blast
  with Cons j show ?case by (simp add: get_job [OF st s v])
qed simp

text \<open>
  A page: the jobs at the positions from \<open>n\<close> on, where the token of \<open>n > 0\<close> is the
  identifier before.
\<close>

lemma list_page:
  assumes st: "rs_client st = R" and s: "up s" "redis_ok zone (keys s)" and lim: "0 < limit"
    and tok: "tok = [] \<and> n = 0 \<or> 0 < n \<and> n \<le> length (rd_ids (keys s)) \<and> tok = rd_ids (keys s) ! (n - 1)"
  shows "rds_ListJobs st (\<lambda>_ v. v) limit tok s =
    (let page = take (nat limit) (drop n (rd_ids (keys s)))
     in (Inr (map (\<lambda>i. the (rd_job (keys s) i)) page,
              if n + nat limit < length (rd_ids (keys s)) then rd_ids (keys s) ! (n + nat limit - 1) else []), s))"
proof -
  define xs where "xs = rd_ids (keys s)"
  define start where "start = (if tok \<noteq> [] then CHR ''('' # tok else ''+'')"
  define l where "l = nat limit"
  have l: "0 < l" "nat (int l + 1) = Suc l" using lim by (simp_all add: l_def)
  note facts = rd_ids_facts [OF s(2), folded xs_def]
  have rest: "filter (below start) xs = drop n xs"
  proof (cases "n = 0")
    case True
    with tok have "start = ''+''" by (simp add: start_def)
    then have "below start = (\<lambda>_. True)" by (simp add: below_def fun_eq_iff)
    then show ?thesis using True by simp
  next
    case False
    with tok have n: "0 < n" "n \<le> length xs" "tok = xs ! (n - 1)" by (auto simp: xs_def)
    then have "tok \<in> {i. rd_job (keys s) i \<noteq> None}" unfolding facts(1) [symmetric] by simp
    then have "ValidID tok" by (auto simp: rd_job_def split: if_splits)
    then have "tok \<noteq> []" by (rule ValidID_nonempty)
    moreover have "take n xs \<noteq> []" using n(1,2) by auto
    then have "last (take n xs) = tok" using n by (simp add: last_conv_nth min_def)
    ultimately show ?thesis using below_last [OF facts(2) n(1,2)] by (simp add: start_def)
  qed
  have range: "rd_ZRevRangeByLex R jobsIndexKey start (int l + 1) s = Inr (take (Suc l) (drop n xs))"
    using ZRevRangeByLex [OF s(1)] range_index [OF s(2)] rest l by (simp add: xs_def)
  have more: "l < length (take (Suc l) (drop n xs)) \<longleftrightarrow> n + l < length xs" by auto
  have page: "(if l < length (take (Suc l) (drop n xs)) then take l (take (Suc l) (drop n xs))
      else take (Suc l) (drop n xs)) = take l (drop n xs)" by auto
  have "\<forall>i \<in> set (take l (drop n xs)). rd_job (keys s) i \<noteq> None"
    using facts(1) by (auto dest!: in_set_takeD in_set_dropD)
  note each = get_each [OF st s this, of "[]"]
  have nxt: "n + l < length xs \<Longrightarrow> last (take l (drop n xs)) = xs ! (n + l - 1)"
    using l by (simp add: last_conv_nth)
  have lim': "nat (if limit \<le> 0 then 50 else limit) = l" using lim by (simp add: l_def)
  show ?thesis
    unfolding rds_ListJobs_def Let_def st start_def [symmetric] xs_def [symmetric] lim' range sum.case more
      page [unfolded more] l_def [symmetric]
    using each nxt by simp
qed

lemma list_all_pages:
  assumes st: "rs_client st = R" and s: "up (w_store w)" "redis_ok zone (keys (w_store w))"
    and rp: "rp_store rp = redisStore_ops st gap" "0 < rp_pageSize rp"
    and tok: "tok = [] \<and> n = 0 \<or>
      0 < n \<and> n \<le> length (rd_ids (keys (w_store w))) \<and> tok = rd_ids (keys (w_store w)) ! (n - 1)"
    and fuel: "length (rd_ids (keys (w_store w))) - n < fuel"
  shows "listAllJobs rp (\<lambda>_ v. v) fuel tok all w =
    Some (Inr (all @ map (\<lambda>i. the (rd_job (keys (w_store w)) i)) (drop n (rd_ids (keys (w_store w))))), w)"
  using tok fuel
proof (induction fuel arbitrary: n tok all)
  case (Suc fuel)
  define xs where "xs = rd_ids (keys (w_store w))"
  define l where "l = nat (rp_pageSize rp)"
  have l: "0 < l" using rp(2) by (simp add: l_def)
  have page: "s_ListJobs (rp_store rp) (rp_pageSize rp) tok (w_store w) =
      Inr (map (\<lambda>i. the (rd_job (keys (w_store w)) i)) (take l (drop n xs)),
           if n + l < length xs then xs ! (n + l - 1) else [])"
    using list_page [OF st s rp(2) Suc.prems(1)] rp(1) by (simp add: redisStore_ops_def Let_def xs_def l_def)
  show ?case
  proof (cases "n + l < length xs")
    case False
    with page show ?thesis by (simp add: xs_def)
  next
    case True
    have "xs ! (n + l - 1) \<in> set xs" using True by simp
    then have "xs ! (n + l - 1) \<noteq> []"
      using rd_ids_facts(1) [OF s(2), folded xs_def] ValidID_nonempty by (auto simp: rd_job_def split: if_splits)
    moreover have "listAllJobs rp (\<lambda>_ v. v) fuel (xs ! (n + l - 1))
        (all @ map (\<lambda>i. the (rd_job (keys (w_store w)) i)) (take l (drop n xs))) w =
        Some (Inr ((all @ map (\<lambda>i. the (rd_job (keys (w_store w)) i)) (take l (drop n xs))) @
          map (\<lambda>i. the (rd_job (keys (w_store w)) i)) (drop (n + l) xs)), w)"
      unfolding xs_def by (rule Suc.IH) (use True Suc.prems(2) l in \<open>auto simp: xs_def\<close>)
    moreover have "take l (drop n xs) @ drop (n + l) xs = drop n xs"
      by (metis append_take_drop_id drop_drop add.commute)
    ultimately show ?thesis
      using page True by (simp add: xs_def [symmetric] map_append [symmetric] del: map_append)
  qed
qed simp

section \<open>Watching\<close>

lemma events_order:
  assumes "redis_ok zone (keys s)" and "ValidID i"
  shows "increasing_ids (rd_events (keys s) i)" and "ids_ok (rd_events (keys s) i)"
  using events_increasing [OF assms] proper_id_nonempty by (auto simp: increasing_ids_def ids_ok_def)

text \<open>The last event of a batch is one of the timeline's.\<close>

lemma batch_last:
  assumes "take n (filter P xs) \<noteq> []"
  shows "last (take n (filter P xs)) \<in> set xs"
  using in_set_takeD [OF last_in_set [OF assms]] by simp

lemma watch_delivers:
  assumes st: "rs_client st = R" and g: "\<forall>n. appends_only zone keys up i (gap n)"
    and s: "up s" "redis_ok zone (keys s)" "rd_job (keys s) i \<noteq> None" and cur: "cur = [] \<or> proper_id cur"
    and run: "watch_rounds st gap i n cur s = (out, s')"
  shows "redis_ok zone (keys s') \<and> (\<exists>new. rd_events (keys s') i = rd_events (keys s) i @ new) \<and>
    (\<exists>rest. filter (after cur) (rd_events (keys s') i) = out @ rest)"
  using s cur run
proof (induction n arbitrary: cur s out s')
  case 0
  then show ?case by simp
next
  case (Suc n)
  define s1 where "s1 = gap n s"
  have s1: "up s1" "redis_ok zone (keys s1)" "rd_job (keys s1) i \<noteq> None"
    and grow: "\<exists>new. rd_events (keys s1) i = rd_events (keys s) i @ new"
    using g Suc.prems(1-3) unfolding appends_only_def s1_def by blast+
  obtain j where j: "rd_job (keys s1) i = Some j" using s1(3) by blast
  have v: "ValidID i" using rd_job_present [OF s1(2) j] by blast
  define F where "F = filter (after cur) (rd_events (keys s1) i)"
  define evs where "evs = take 100 F"
  define cur' where "cur' = (if evs = [] then cur else e_ID (last evs))"
  have read: "rds_ReadEvents st (\<lambda>_ v. v) i cur 100 s1 = (Inr evs, s1)"
    using read_events [OF st s1(1,2) j Suc.prems(4), of 100] by (simp add: evs_def F_def)
  obtain out2 s2 where r2: "watch_rounds st gap i n cur' s1 = (out2, s2)"
    by (cases "watch_rounds st gap i n cur' s1")
  have out: "out = evs @ out2" "s' = s2"
    using Suc.prems(5) read r2 by (simp_all add: s1_def [symmetric] cur'_def)
  have c': "cur' = [] \<or> proper_id cur'"
  proof (cases "evs = []")
    case False
    then have "last evs \<in> set (rd_events (keys s1) i)"
      unfolding evs_def F_def by (rule batch_last)
    then show ?thesis using False events_increasing(2) [OF s1(2) v] by (simp add: cur'_def)
  qed (use Suc.prems(4) in \<open>simp add: cur'_def\<close>)
  from Suc.IH [OF s1 c' r2] obtain new rest where
    I: "redis_ok zone (keys s2)" "rd_events (keys s2) i = rd_events (keys s1) i @ new"
      "filter (after cur') (rd_events (keys s2) i) = out2 @ rest" by blast
  have all: "filter (after cur) (rd_events (keys s2) i) = F @ filter (after cur) new"
    by (simp add: I(2) F_def)
  have "\<exists>rest. filter (after cur) (rd_events (keys s2) i) = evs @ out2 @ rest"
  proof (cases "evs = []")
    case True
    with I(3) show ?thesis by (simp add: cur'_def)
  next
    case False
    let ?k = "length evs"
    have k: "take ?k (F @ filter (after cur) new) = evs" unfolding evs_def by (simp add: min_def)
    have "filter (after (e_ID (last evs))) (rd_events (keys s2) i) = drop ?k (F @ filter (after cur) new)"
      using filter_after_last [OF events_order [OF I(1) v], of cur ?k] False
      unfolding all k by (cases "F @ filter (after cur) new = []") (auto simp: evs_def)
    then have "out2 @ rest = drop ?k (F @ filter (after cur) new)" using I(3) False by (simp add: cur'_def)
    then show ?thesis unfolding all using k by (metis append_take_drop_id append_assoc)
  qed
  moreover have "\<exists>new. rd_events (keys s2) i = rd_events (keys s) i @ new" using grow I(2) by auto
  ultimately show ?case using I(1) out by simp
qed

text \<open>With nobody appending, \<open>n\<close> rounds drain a hundred events each.\<close>

lemma watch_drains:
  assumes st: "rs_client st = R" and s: "up s" "redis_ok zone (keys s)" "rd_job (keys s) i = Some j"
    and cur: "cur = [] \<or> proper_id cur"
  shows "watch_rounds st (\<lambda>_ v. v) i n cur s = (take (100 * n) (filter (after cur) (rd_events (keys s) i)), s)"
  using cur
proof (induction n arbitrary: cur)
  case (Suc n)
  have v: "ValidID i" using rd_job_present [OF s(2,3)] by blast
  define F where "F = filter (after cur) (rd_events (keys s) i)"
  have read: "rds_ReadEvents st (\<lambda>_ v. v) i cur 100 s = (Inr (take 100 F), s)"
    using read_events [OF st s Suc.prems, of 100] by (simp add: F_def)
  show ?case
  proof (cases "F = []")
    case True
    with Suc.IH [OF Suc.prems] read show ?thesis by (simp add: F_def)
  next
    case False
    define cur' where "cur' = e_ID (last (take 100 F))"
    have ne: "take 100 F \<noteq> []" using False by simp
    have "last (take 100 F) \<in> set (rd_events (keys s) i)"
      using ne unfolding F_def by (rule batch_last)
    then have c': "proper_id cur'" using events_increasing(2) [OF s(2) v] by (simp add: cur'_def)
    have "filter (after cur') (rd_events (keys s) i) = drop 100 F"
      unfolding cur'_def F_def
      by (rule filter_after_last [OF events_order [OF s(2) v]]) (use False in \<open>simp_all add: F_def\<close>)
    with Suc.IH [of cur'] c' have
      "watch_rounds st (\<lambda>_ v. v) i n cur' s = (take (100 * n) (drop 100 F), s)" by simp
    moreover have "take 100 F @ take (100 * n) (drop 100 F) = take (100 * Suc n) F"
      by (simp add: take_add [symmetric])
    ultimately show ?thesis
      unfolding F_def [symmetric] using read ne by (simp add: cur'_def [symmetric])
  qed
qed simp

end

end
