(* ===== verification/StoreEquiv.thy ===== *)
theory StoreEquiv
  imports RedisList MemSpec
begin

text \<open>
  One specification for both stores. A client sends requests through the \<open>Store\<close>
  interface; the abstract store answers them from two maps. The locale
  \<open>implements_store\<close> is the simulation of that abstract store by an implementation,
  proved once for whole request sequences; it holds of the in-memory store and of
  the Redis store over every server that meets the laws of \<open>redis_server\<close>.

  The requests are those whose answers the interface fixes. Event identifiers and page
  tokens are each store's own, so timelines and listings are compared by the lemmas
  of \<open>RedisOps\<close> and \<open>RedisList\<close> instead.
\<close>

section \<open>Requests and the abstract store\<close>

datatype request =
    CreateReq Job
  | GetReq string
  | UpdateReq string update_fn captured
  | DeleteReq string
  | PutPermReq string PermissionRequest
  | GetPermReq string string

datatype reply =
    UnitReply "unit result"
  | JobReply "Job result"
  | UpdateReply "Job result" captured
  | PermReply "PermissionRequest result"

record abstract_store =
  a_jobs :: "string \<Rightarrow> Job option"
  a_perms :: "string \<Rightarrow> string \<Rightarrow> PermissionRequest option"

definition permission_not_found :: "string \<Rightarrow> string \<Rightarrow> goerror" where
  "permission_not_found i r = Errorf ''permission %s/%s: %w'' [i, r] (Some (Sentinel ErrNotFound))"

fun a_serve :: "request \<Rightarrow> abstract_store \<Rightarrow> reply \<times> abstract_store" where
  "a_serve (CreateReq j) a =
     (if a_jobs a (j_ID j) \<noteq> None
      then (UnitReply (Inl (Errorf ''job %s: %w'' [j_ID j] (Some (Sentinel ErrConflict)))), a)
      else (UnitReply (Inr ()), a\<lparr>a_jobs := (a_jobs a)(j_ID j \<mapsto> j)\<rparr>))"
| "a_serve (GetReq i) a =
     (JobReply (case a_jobs a i of None \<Rightarrow> Inl (job_not_found i) | Some j \<Rightarrow> Inr j), a)"
| "a_serve (UpdateReq i fn c) a =
     (case a_jobs a i of
        None \<Rightarrow> (UpdateReply (Inl (job_not_found i)) c, a)
      | Some j \<Rightarrow>
          (case fn j c of
             (Inl e, c') \<Rightarrow> (UpdateReply (Inl e) c', a)
           | (Inr j', c') \<Rightarrow> (UpdateReply (Inr j') c', a\<lparr>a_jobs := (a_jobs a)(i \<mapsto> j')\<rparr>)))"
| "a_serve (DeleteReq i) a =
     (if a_jobs a i = None then (UnitReply (Inl (job_not_found i)), a)
      else (UnitReply (Inr ()),
            a\<lparr>a_jobs := (a_jobs a)(i := None), a_perms := (a_perms a)(i := Map.empty)\<rparr>))"
| "a_serve (PutPermReq i p) a =
     (if a_jobs a i = None then (UnitReply (Inl (job_not_found i)), a)
      else (UnitReply (Inr ()), a\<lparr>a_perms := (a_perms a)(i := (a_perms a i)(p_RequestID p \<mapsto> p))\<rparr>))"
| "a_serve (GetPermReq i r) a =
     (PermReply (case a_perms a i r of None \<Rightarrow> Inl (permission_not_found i r) | Some p \<Rightarrow> Inr p), a)"

text \<open>The same requests served through the interface.\<close>

fun serve :: "'s Store \<Rightarrow> request \<Rightarrow> 's \<Rightarrow> reply \<times> 's" where
  "serve ops (CreateReq j) s = (let (r, s') = s_CreateJob ops j s in (UnitReply r, s'))"
| "serve ops (GetReq i) s = (JobReply (s_GetJob ops i s), s)"
| "serve ops (UpdateReq i fn c) s = (let (r, c', s') = s_UpdateJob ops i fn c s in (UpdateReply r c', s'))"
| "serve ops (DeleteReq i) s = (let (r, s') = s_DeleteJob ops i s in (UnitReply r, s'))"
| "serve ops (PutPermReq i p) s = (let (r, s') = s_PutPermission ops i p s in (UnitReply r, s'))"
| "serve ops (GetPermReq i r) s = (PermReply (s_GetPermission ops i r s), s)"

fun serve_all :: "(request \<Rightarrow> 's \<Rightarrow> reply \<times> 's) \<Rightarrow> request list \<Rightarrow> 's \<Rightarrow> reply list \<times> 's" where
  "serve_all f [] s = ([], s)"
| "serve_all f (q # qs) s = (let (r, s') = f q s; (rs, s'') = serve_all f qs s' in (r # rs, s''))"

text \<open>
  Requests in the domain both stores share: well-formed job identifiers, records that
  survive the encodings, and closures whose errors the retry loop does not interpret.
\<close>

definition plain_fn :: "update_fn \<Rightarrow> bool" where
  "plain_fn fn \<longleftrightarrow>
     (\<forall>j c e c'. fn j c = (Inl e, c') \<longrightarrow> \<not> errors_Is e TxFailedErr \<and> \<not> errors_Is e ErrNotFound)"

fun proper :: "(gotime \<Rightarrow> int) \<Rightarrow> request \<Rightarrow> bool" where
  "proper zone (CreateReq j) \<longleftrightarrow> ValidID (j_ID j) \<and> storable_job zone j"
| "proper zone (GetReq i) \<longleftrightarrow> ValidID i"
| "proper zone (UpdateReq i fn c) \<longleftrightarrow> ValidID i \<and> storable_fn zone fn \<and> plain_fn fn"
| "proper zone (DeleteReq i) \<longleftrightarrow> ValidID i"
| "proper zone (PutPermReq i p) \<longleftrightarrow> ValidID i \<and> storable_permission zone p"
| "proper zone (GetPermReq i r) \<longleftrightarrow> ValidID i"

section \<open>The simulation\<close>

locale implements_store =
  fixes ops :: "'s Store"
    and inv :: "'s \<Rightarrow> bool"
    and abs :: "'s \<Rightarrow> abstract_store"
    and zone :: "gotime \<Rightarrow> int"
  assumes step: "inv s \<Longrightarrow> proper zone q \<Longrightarrow> serve ops q s = (r, s') \<Longrightarrow>
    inv s' \<and> a_serve q (abs s) = (r, abs s')"
begin

lemma simulates:
  assumes "inv s" and "list_all (proper zone) qs" and "serve_all (serve ops) qs s = (rs, s')"
  shows "inv s' \<and> serve_all a_serve qs (abs s) = (rs, abs s')"
  using assms
proof (induction qs arbitrary: s rs s')
  case (Cons q qs)
  obtain r s1 where q: "serve ops q s = (r, s1)" by (cases "serve ops q s")
  obtain rs1 s2 where qs: "serve_all (serve ops) qs s1 = (rs1, s2)" by (cases "serve_all (serve ops) qs s1")
  from step [OF Cons.prems(1) _ q] Cons.prems(2) have s1: "inv s1" "a_serve q (abs s) = (r, abs s1)" by auto
  from Cons.IH [OF s1(1) _ qs] Cons.prems(2) have "inv s2 \<and> serve_all a_serve qs (abs s1) = (rs1, abs s2)" by simp
  with Cons.prems(3) q qs s1(2) show ?case by auto
qed simp

end

text \<open>Two implementations of it cannot be told apart by these requests.\<close>

lemma implementations_agree:
  assumes "implements_store ops1 inv1 abs1 zone" and "implements_store ops2 inv2 abs2 zone"
    and "inv1 s1" and "inv2 s2" and "abs1 s1 = abs2 s2" and "list_all (proper zone) qs"
    and "serve_all (serve ops1) qs s1 = (rs1, s1')" and "serve_all (serve ops2) qs s2 = (rs2, s2')"
  shows "rs1 = rs2 \<and> abs1 s1' = abs2 s2'"
  using implements_store.simulates [OF assms(1,3,6,7)] implements_store.simulates [OF assms(2,4,6,8)] assms(5)
  by simp

section \<open>The in-memory store\<close>

definition mem_abs :: "memStore \<Rightarrow> abstract_store" where
  "mem_abs m = \<lparr>a_jobs = ms_jobs m, a_perms = (\<lambda>i. map_of (ms_perms m i))\<rparr>"

lemma mem_serve_ok:
  assumes "mem_ok m" and "proper zone q" and "serve memStore_ops q m = (r, m')"
  shows "mem_ok m'"
proof (cases q)
  case (UpdateReq i fn c)
  then have "\<And>j c j' c'. fn j c = (Inr j', c') \<Longrightarrow> j_ID j' = j_ID j"
    using assms(2) by (auto dest: storable_fn_ID)
  with UpdateReq assms show ?thesis
    by (auto intro: mem_ok_Update split: prod.splits)
qed (use assms in \<open>auto intro: mem_ok_Create mem_ok_Delete mem_ok_Put split: prod.splits\<close>)

lemma mem_serve_abs:
  assumes "serve memStore_ops q m = (r, m')"
  shows "a_serve q (mem_abs m) = (r, mem_abs m')"
  using assms
  by (cases q)
    (auto simp: mem_abs_def mem_CreateJob_def mem_GetJob_def mem_UpdateJob_def mem_DeleteJob_def
      mem_PutPermission_def mem_GetPermission_def permission_not_found_def update_conv' fun_eq_iff
      split: option.splits prod.splits sum.splits)

interpretation mem_impl: implements_store memStore_ops mem_ok mem_abs zone for zone
  by unfold_locales (blast intro: mem_serve_ok mem_serve_abs)

section \<open>The Redis store\<close>

definition rd_abs :: "keyspace \<Rightarrow> abstract_store" where
  "rd_abs V = \<lparr>a_jobs = rd_job V, a_perms = rd_perm V\<rparr>"

lemma redis_not_found:
  "notFoundf ''job %s'' [i] = job_not_found i"
  "notFoundf ''permission %s/%s'' [i, r] = permission_not_found i r"
  "conflictf ''job %s'' [i] = Errorf ''job %s: %w'' [i] (Some (Sentinel ErrConflict))"
  by (simp_all add: notFoundf_def conflictf_def job_not_found_def permission_not_found_def)

context redis_server
begin

lemma update_missing:
  assumes "rs_client st = R" and "up s" and "redis_ok zone (keys s)" and "ValidID i" and "rd_job (keys s) i = None"
  shows "rds_UpdateJob st (\<lambda>_ v. v) i fn c s = (Inl (job_not_found i), c, s)"
  using attempt_missing [OF assms]
  by (simp add: rds_UpdateJob_def maxUpdateRetries_def numeral_eq_Suc redis_not_found)

lemma update_refused:
  assumes st: "rs_client st = R" and s: "up s" "redis_ok zone (keys s)" and j: "rd_job (keys s) i = Some j"
    and f: "fn j c = (Inl e, c')" "plain_fn fn"
  shows "rds_UpdateJob st (\<lambda>_ v. v) i fn c s = (Inl e, c', s)"
proof -
  from rd_job_present [OF s(2) j] obtain h where
    h: "keys s (jobKey i) = Some (RHash h)" "h \<noteq> []" "jobFromFields h = Inr j" by blast
  have "rds_attempt st (\<lambda>v. v) i fn c s = (Inl e, c', s)"
    using f(1) h st s by (simp add: rds_attempt_def Watch HGetAll ref_HGetAll_def Let_def)
  moreover have "\<not> errors_Is e TxFailedErr" "\<not> errors_Is e ErrNotFound" using f by (auto simp: plain_fn_def)
  ultimately show ?thesis by (simp add: rds_UpdateJob_def maxUpdateRetries_def numeral_eq_Suc)
qed

lemma redis_step:
  assumes st: "rs_client st = R" "rs_zone st = zone" and s: "up s" "redis_ok zone (keys s)"
    and q: "proper zone q" and run: "serve (redisStore_ops st (\<lambda>_ v. v)) q s = (r, s')"
  shows "(up s' \<and> redis_ok zone (keys s')) \<and> a_serve q (rd_abs (keys s)) = (r, rd_abs (keys s'))"
proof (cases q)
  case (CreateReq j)
  then have v: "ValidID (j_ID j)" "storable_job zone j" using q by simp_all
  show ?thesis
  proof (cases "rd_job (keys s) (j_ID j)")
    case None
    from create_fresh [OF st s v None] run CreateReq None show ?thesis
      by (auto simp: redisStore_ops_def rd_abs_def)
  next
    case (Some k)
    with create_taken [OF st(1) s Some] run CreateReq s show ?thesis
      by (auto simp: redisStore_ops_def rd_abs_def redis_not_found)
  qed
next
  case (GetReq i)
  with get_job [OF st(1) s, of i] q run s show ?thesis
    by (auto simp: redisStore_ops_def rd_abs_def redis_not_found split: option.splits)
next
  case (UpdateReq i fn c)
  then have u: "ValidID i" "storable_fn zone fn" "plain_fn fn" using q by simp_all
  show ?thesis
  proof (cases "rd_job (keys s) i")
    case None
    with update_missing [OF st(1) s u(1) None] run UpdateReq s show ?thesis
      by (auto simp: redisStore_ops_def rd_abs_def)
  next
    case (Some j)
    obtain x c' where f: "fn j c = (x, c')" by (cases "fn j c")
    show ?thesis
    proof (cases x)
      case (Inl e)
      with update_refused [OF st(1) s Some _ u(3), of c e c'] f run UpdateReq s Some show ?thesis
        by (auto simp: redisStore_ops_def rd_abs_def)
    next
      case (Inr j')
      have "j_ID j' = i" "storable_job zone j'"
        by (rule fn_result [OF u(2) f [unfolded Inr] s(2) Some])+
      from update_undisturbed [where fn = fn and j' = j' and c' = c', OF st s Some f [unfolded Inr] this] f Inr run UpdateReq Some show ?thesis
        by (auto simp: redisStore_ops_def rd_abs_def)
    qed
  qed
next
  case (DeleteReq i)
  show ?thesis
  proof (cases "rd_job (keys s) i")
    case None
    with delete_missing [OF st(1) s _ None] run q DeleteReq s show ?thesis
      by (auto simp: redisStore_ops_def rd_abs_def redis_not_found)
  next
    case (Some j)
    from delete_found [OF st(1) s Some] run DeleteReq Some show ?thesis
      by (auto simp: redisStore_ops_def rd_abs_def)
  qed
next
  case (PutPermReq i p)
  then have v: "ValidID i" "storable_permission zone p" using q by simp_all
  show ?thesis
  proof (cases "rd_job (keys s) i")
    case None
    with exists_job [OF st(1) s v(1)] run PutPermReq s show ?thesis
      by (auto simp: redisStore_ops_def rds_PutPermission_def rd_abs_def redis_not_found)
  next
    case (Some j)
    from put_permission [OF st s Some v(2)] run PutPermReq Some show ?thesis
      by (auto simp: redisStore_ops_def rd_abs_def)
  qed
next
  case (GetPermReq i rid)
  with get_permission [OF st(1) s, of i rid] q run s show ?thesis
    by (auto simp: redisStore_ops_def rd_abs_def redis_not_found split: option.splits)
qed

lemma redis_implements:
  assumes "rs_client st = R" and "rs_zone st = zone"
  shows "implements_store (redisStore_ops st (\<lambda>_ v. v)) (\<lambda>s. up s \<and> redis_ok zone (keys s)) (\<lambda>s. rd_abs (keys s)) zone"
  by unfold_locales (use redis_step [OF assms] in blast)

end

interpretation ref_impl: implements_store "redisStore_ops (NewRedisStore ref_redis n zone) (\<lambda>_ v. v)"
  "\<lambda>V. True \<and> redis_ok zone V" rd_abs zone for n zone
  by (rule rr.redis_implements) (simp_all add: NewRedisStore_def)

end
