(* ===== verification/RedisRace.thy ===== *)
theory RedisRace
  imports StoreEquiv PumpSpec LaunchSpec
begin

text \<open>
  The program's own update closures on the Redis store, with other clients acting
  between its commands: the closures keep records storable, so the lemmas of
  \<open>RedisSpec\<close> apply to them, settled jobs keep their outcome, and a closure that
  is run again keeps what it captured on its first run.
\<close>

section \<open>The closures keep records storable\<close>

lemma storable_fnI:
  assumes "\<And>j c j' c'. fn j c = (Inr j', c') \<Longrightarrow> j_ID j' = j_ID j"
    and "\<And>j c j' c'. fn j c = (Inr j', c') \<Longrightarrow> storable_job zone j \<Longrightarrow> storable_job zone j'"
  shows "storable_fn zone fn"
  using assms unfolding storable_fn_def by blast

text \<open>The closures of the control plane, the pump, the service and the reaper.\<close>

inductive program_fn :: "(gotime \<Rightarrow> int) \<Rightarrow> update_fn \<Rightarrow> bool" for zone where
  running: "storable_time zone t \<Longrightarrow> program_fn zone (fn_running t)"
| cancelled: "storable_time zone t \<Longrightarrow> program_fn zone (fn_finaliseCancelled t)"
| failed: "storable_time zone t \<Longrightarrow> program_fn zone (fn_failJob reason t)"
| touched: "storable_time zone t \<Longrightarrow> program_fn zone (fn_lastEvent t)"
| finished: "storable_time zone t \<Longrightarrow> Terminal s \<Longrightarrow> program_fn zone (fn_finish s stop err final t)"
| closed: "storable_time zone t \<Longrightarrow> storable_time zone l \<Longrightarrow> program_fn zone (fn_closeUnfinished err final t l)"
| stuck: "storable_time zone t \<Longrightarrow> program_fn zone (fn_failStuck t)"
| requested: "program_fn zone fn_cancelRequested"
| unassigned: "storable_time zone t \<Longrightarrow> program_fn zone (fn_cancelUnassigned t)"
| moved: "storable_time zone t \<Longrightarrow> named_status to \<Longrightarrow> \<not> Terminal from \<Longrightarrow>
    program_fn zone (fn_transition from to err t)"

lemma storable_update:
  assumes "storable_job zone j" and "storable_time zone t"
  shows "storable_job zone (j\<lparr>j_StartedAt := t\<rparr>)" "storable_job zone (j\<lparr>j_FinishedAt := t\<rparr>)"
    "storable_job zone (j\<lparr>j_LastEventAt := t\<rparr>)"
  using assms by (simp_all add: storable_job_def)

lemma storable_update_other:
  assumes "storable_job zone j"
  shows "named_status s \<Longrightarrow> storable_job zone (j\<lparr>j_Status := s\<rparr>)" "storable_job zone (j\<lparr>j_StopReason := x\<rparr>)"
    "storable_job zone (j\<lparr>j_Error := x\<rparr>)" "storable_job zone (j\<lparr>j_FinalText := x\<rparr>)"
    "storable_job zone (j\<lparr>j_CancelRequested := b\<rparr>)"
  using assms by (simp_all add: storable_job_def status_of_string_string)

lemmas storable_updates = storable_update storable_update_other

lemma storable_transition:
  "storable_time zone t \<Longrightarrow> named_status to \<Longrightarrow> storable_fn zone (fn_transition from to err t)"
  by (rule storable_fnI) (auto simp: fn_transition_def intro!: storable_updates split: if_splits)

lemma storable_closeUnfinished:
  "storable_time zone t \<Longrightarrow> storable_time zone l \<Longrightarrow> storable_fn zone (fn_closeUnfinished err final t l)"
  by (rule storable_fnI) (auto simp: fn_closeUnfinished_def Let_def intro!: storable_updates split: if_splits)

lemma program_fn_storable:
  assumes "program_fn zone fn"
  shows "storable_fn zone fn"
  using assms
proof cases
  case (moved t to "from" err)
  then show ?thesis by (simp add: storable_transition)
next
  case (closed t l err final)
  then show ?thesis by (simp add: storable_closeUnfinished)
next
  case (finished t s stop err final)
  then show ?thesis
    by (auto simp: fn_finish_def Terminal_named intro!: storable_fnI storable_updates split: if_splits)
qed (auto simp: fn_running_def fn_finaliseCancelled_def fn_failJob_def fn_lastEvent_def fn_failStuck_def
    fn_cancelRequested_def fn_cancelUnassigned_def intro!: storable_fnI storable_updates split: if_splits)

lemma program_fn_safe: "program_fn zone fn \<Longrightarrow> safe_fn fn"
  by (induction rule: program_fn.induct)
    (simp_all add: safe_fn_running safe_fn_finaliseCancelled safe_fn_failJob safe_fn_lastEvent safe_fn_finish
      safe_fn_closeUnfinished safe_fn_cancelRequested safe_fn_cancelUnassigned safe_fn_transition safe_fn_failStuck)

section \<open>Settled jobs\<close>

definition keeps_settled :: "('r \<Rightarrow> keyspace) \<Rightarrow> ('r \<Rightarrow> 'r) \<Rightarrow> bool" where
  "keeps_settled keys g \<longleftrightarrow> (\<forall>s. jobs_persist (rd_job (keys s)) (rd_job (keys (g s))))"

lemma others_persist:
  assumes "others_only gap s u" and "\<forall>n. keeps_settled keys (gap n)"
  shows "jobs_persist (rd_job (keys s)) (rd_job (keys u))"
  using assms(1)
proof induction
  case (step s v n)
  from step.IH assms(2) show ?case unfolding keeps_settled_def by (blast intro: persist_on_trans)
qed simp

context redis_server
begin

lemma update_persists:
  assumes st: "rs_client st = R" "rs_zone st = zone" and s: "up s" "redis_ok zone (keys s)" and v: "ValidID i"
    and g: "\<forall>n. steady zone keys up (gap n)" "\<forall>n. keeps_settled keys (gap n)"
    and fn: "program_fn zone fn" and run: "rds_UpdateJob st gap i fn c s = (r, c', s')"
  shows "jobs_persist (rd_job (keys s)) (rd_job (keys s'))"
proof -
  note at = update_atomic [OF st s v g(1) program_fn_storable [OF fn] run]
  show ?thesis
  proof (cases r)
    case (Inl e)
    with at others_persist [OF _ g(2)] show ?thesis by simp
  next
    case (Inr j')
    with at obtain u j k where u: "others_only gap s u" "rd_job (keys u) i = Some j"
      and f: "fn j k = (Inr j', c')" and w: "rd_job (keys s') = (rd_job (keys u))(i \<mapsto> j')" by auto
    have "jobs_persist (rd_job (keys u)) ((rd_job (keys u))(i \<mapsto> j'))"
      using safe_fn_outcome [OF program_fn_safe [OF fn] f]
      by (intro persist_on_upd [where m = "rd_job (keys u)", OF u(2)])
    with others_persist [OF u(1) g(2)] w show ?thesis by (metis persist_on_trans)
  qed
qed

section \<open>A transition that lost its race\<close>

text \<open>
  Another client takes the job out of the status the transition starts from, between
  the read and the commit of the first attempt. The second attempt leaves the job as
  it is, and yet the captured mark says that it was moved.
\<close>

lemma transition_mark_is_stale:
  assumes st: "rs_client st = R" "rs_zone st = zone" and s: "up s" "redis_ok zone (keys s)"
    and j: "rd_job (keys s) i = Some j" "j_Status j = from"
    and s1: "up (gap 29 s)" "redis_ok zone (keys (gap 29 s))"
    and k: "rd_job (keys (gap 29 s)) i = Some k" "j_Status k \<noteq> from" and quiet: "gap 28 = (\<lambda>v. v)"
  shows "\<exists>s'. rds_UpdateJob st gap i (fn_transition from to err t) no_capture s =
      (Inr k, no_capture\<lparr>c_moved := True\<rparr>, s') \<and> rd_job (keys s') = rd_job (keys (gap 29 s))"
proof -
  have v: "ValidID i" using rd_job_present [OF s(2) j(1)] by blast
  have "k \<noteq> j" using j(2) k(2) by auto
  then have lost: "keys (gap 29 s) (jobKey i) \<noteq> keys s (jobKey i)"
    using j(1) k(1) v by (auto simp: rd_job_def)
  have f: "fn_transition from to err t j no_capture =
      (Inr (j\<lparr>j_Status := to, j_Error := (if err \<noteq> [] then err else j_Error j),
         j_FinishedAt := (if Terminal to then t else j_FinishedAt j)\<rparr>), no_capture\<lparr>c_moved := True\<rparr>)"
    using j(2) by (simp add: fn_transition_def)
  have f2: "fn_transition from to err t k c = (Inr k, c)" for c
    using k(2) by (simp add: fn_transition_def)
  note k' = rd_job_key [OF s1(2) k(1)] rd_job_storable [OF s1(2) k(1)]
  from update_once [where fn = "fn_transition from to err t" and c = "no_capture\<lparr>c_moved := True\<rparr>" and n = 28
      and j' = k and c' = "no_capture\<lparr>c_moved := True\<rparr>" and gap = gap, OF st s1 k(1) f2 k' quiet]
  obtain s' where again: "rds_update_loop st gap i (fn_transition from to err t) (Suc 28) (no_capture\<lparr>c_moved := True\<rparr>) (gap 29 s) =
      (Inr k, no_capture\<lparr>c_moved := True\<rparr>, s')" and keep: "rd_job (keys s') = (rd_job (keys (gap 29 s)))(i \<mapsto> k)"
    by blast
  have "rds_UpdateJob st gap i (fn_transition from to err t) no_capture s =
      rds_update_loop st gap i (fn_transition from to err t) 29 (no_capture\<lparr>c_moved := True\<rparr>) (gap 29 s)"
    unfolding rds_UpdateJob_def maxUpdateRetries_Suc 
    by (rule lost_race [where fn = "fn_transition from to err t" and c = no_capture and n = 29 and gap = gap
          and k = "no_capture\<lparr>c_moved := True\<rparr>", OF st s s1(1) j(1) f lost])
  moreover have "(29::nat) = Suc 28" by simp
  moreover have "(rd_job (keys (gap 29 s)))(i \<mapsto> k) = rd_job (keys (gap 29 s))"
    using k(1) by (simp add: fun_upd_idem)
  ultimately show ?thesis using again keep by metis
qed

end

end
