(* ===== verification/Billet.thy ===== *)
theory Billet
  imports Memory
begin

text \<open>
  The memory client of \<open>src/internal/memory/memory.go\<close>. The generated stub of Billet's
  RPC service is the argument \<open>MemoryService\<close>; the first argument of its operations is
  the number of the call. The deadline of a call, \<open>CallTimeout\<close> unless overridden, is
  the stub's to keep; the transport settings are left out.
\<close>

datatype ProtoKind = KIND_UNSPECIFIED | KIND_EVENT | KIND_FACT

record ProtoRecord =
  br_MemoryId :: string
  br_Content :: string
  br_Score :: "string option"
  br_CreatedAt :: string

record MemoryService =
  msv_SearchMemory :: "duration \<Rightarrow> nat \<Rightarrow> string \<Rightarrow> int \<Rightarrow> ProtoRecord list result"
  msv_SaveMemory :: "duration \<Rightarrow> nat \<Rightarrow> string \<Rightarrow> ProtoKind \<Rightarrow> (string \<times> bool) result"

record billetClient =
  bc_svc :: MemoryService
  bc_timeout :: duration

definition WithCallTimeout :: "duration \<Rightarrow> billetClient \<Rightarrow> billetClient" where
  "WithCallTimeout d c = (if 0 < d then c\<lparr>bc_timeout := d\<rparr> else c)"

text \<open>Kinds are checked when the tool's input is read, so the error branch is not reached.\<close>

fun protoKind :: "Kind \<Rightarrow> ProtoKind" where
  "protoKind KindUnspecified = KIND_UNSPECIFIED"
| "protoKind KindEvent = KIND_EVENT"
| "protoKind KindFact = KIND_FACT"

definition billet_Search :: "billetClient \<Rightarrow> nat \<Rightarrow> string \<Rightarrow> int \<Rightarrow> Record list result" where
  "billet_Search c n query limit =
     (case msv_SearchMemory (bc_svc c) (bc_timeout c) n query limit of
        Inl e \<Rightarrow> Inl e
      | Inr msg \<Rightarrow>
          Inr (map (\<lambda>r. \<lparr>r_MemoryID = br_MemoryId r, r_Content = br_Content r, r_Score = br_Score r,
                         r_CreatedAt = br_CreatedAt r\<rparr>) msg))"

definition billet_Save :: "billetClient \<Rightarrow> nat \<Rightarrow> string \<Rightarrow> Kind \<Rightarrow> SaveResult result" where
  "billet_Save c n content kind =
     (case msv_SaveMemory (bc_svc c) (bc_timeout c) n content (protoKind kind) of
        Inl e \<Rightarrow> Inl e
      | Inr (i, accepted) \<Rightarrow> Inr \<lparr>sv_MemoryID = i, sv_Accepted = accepted\<rparr>)"

definition client_of :: "billetClient \<Rightarrow> Client" where
  "client_of c = \<lparr>cl_Search = billet_Search c, cl_Save = billet_Save c\<rparr>"

text \<open>\<open>dial\<close> builds the stub for the address.\<close>

definition NewBilletClient :: "(string \<Rightarrow> MemoryService) \<Rightarrow> string \<Rightarrow> (billetClient \<Rightarrow> billetClient) list \<Rightarrow> Client" where
  "NewBilletClient dial addr opts =
     client_of (fold (\<lambda>opt. opt) opts \<lparr>bc_svc = dial (''http://'' @ addr), bc_timeout = CallTimeout\<rparr>)"

end
