(* ===== verification/Config.thy ===== *)
theory Config
  imports Complex_Main RunConfigs Service
begin

text \<open>
  The runtime configuration of \<open>src/internal/config/config.go\<close> and its validation,
  with the telemetry options of \<open>src/internal/telemetry/telemetry.go\<close> it embeds.
  The standard library functions they call, \<open>net.SplitHostPort\<close> and
  \<open>strconv.Atoi\<close>, are written out.
\<close>

section \<open>Telemetry options\<close>

text \<open>A \<open>float64\<close>, as far as comparisons see it: nothing is below or above a NaN.\<close>

datatype float64 = NaN | PosInf | NegInf | Fin rat

fun float_less :: "float64 \<Rightarrow> float64 \<Rightarrow> bool" where
  "float_less NaN y = False"
| "float_less x NaN = False"
| "float_less (Fin a) (Fin b) = (a < b)"
| "float_less NegInf y = (y \<noteq> NegInf)"
| "float_less x PosInf = (x \<noteq> PosInf)"
| "float_less x y = False"

definition ExporterNone :: string where "ExporterNone = ''none''"
definition ExporterOTLP :: string where "ExporterOTLP = ''otlp''"
definition ExporterStdout :: string where "ExporterStdout = ''stdout''"
definition ProtocolGRPC :: string where "ProtocolGRPC = ''grpc''"
definition ProtocolHTTP :: string where "ProtocolHTTP = ''http/protobuf''"

record TelemetryOptions =
  to_Exporter :: string
  to_Protocol :: string
  to_Endpoint :: string
  to_SampleRatio :: float64
  to_ServiceName :: string
  to_MetricInterval :: duration

definition Enabled :: "TelemetryOptions \<Rightarrow> bool" where
  "Enabled o' \<longleftrightarrow> to_Exporter o' \<noteq> [] \<and> to_Exporter o' \<noteq> ExporterNone"

text \<open>The argument of \<open>%v\<close> for the ratio is left out of the error text.\<close>

definition tel_Validate :: "TelemetryOptions \<Rightarrow> goerror option" where
  "tel_Validate o' =
     (if to_Exporter o' \<notin> set [[], ExporterNone, ExporterOTLP, ExporterStdout]
      then Some (Errorf ''unknown telemetry exporter %q (want none, otlp, or stdout)'' [to_Exporter o'] None)
      else if to_Protocol o' \<notin> set [[], ProtocolGRPC, ProtocolHTTP]
      then Some (Errorf ''unknown telemetry protocol %q (want %s or %s)''
                   [to_Protocol o', ProtocolGRPC, ProtocolHTTP] None)
      else if float_less (to_SampleRatio o') (Fin 0) \<or> float_less (Fin 1) (to_SampleRatio o')
      then Some (Errorf ''telemetry sample ratio must be between 0 and 1'' [] None)
      else if to_MetricInterval o' < 0
      then Some (Errorf ''telemetry metric interval must be non-negative'' [] None)
      else None)"

definition protocolOrDefault :: "string \<Rightarrow> string" where
  "protocolOrDefault protocol = (if protocol = [] then ProtocolGRPC else protocol)"

section \<open>Host and port\<close>

definition addr_error :: "string \<Rightarrow> string \<Rightarrow> goerror" where
  "addr_error hostport why = Errorf ''address %s: %s'' [hostport, why] None"

definition bracket_text :: "string \<Rightarrow> char \<Rightarrow> string" where
  "bracket_text why c = why @ '' '' @ [CHR 0x27, c, CHR 0x27] @ '' in address''"

text \<open>
  The last colon of the text separates the port; a host in brackets may hold colons
  itself.
\<close>

definition last_colon :: "string \<Rightarrow> (string \<times> string) option" where
  "last_colon s =
     (if CHR '':'' \<in> set s
      then Some (rev (tl (dropWhile (\<lambda>c. c \<noteq> CHR '':'') (rev s))), rev (takeWhile (\<lambda>c. c \<noteq> CHR '':'') (rev s)))
      else None)"

definition SplitHostPort :: "string \<Rightarrow> (string \<times> string) result" where
  "SplitHostPort hostport =
     (case last_colon hostport of
        None \<Rightarrow> Inl (addr_error hostport ''missing port in address'')
      | Some (before, port) \<Rightarrow>
          if hd hostport = CHR ''['' then
            (if CHR '']'' \<notin> set hostport
             then Inl (addr_error hostport (bracket_text ''missing'' CHR '']''))
             else
               let host = takeWhile (\<lambda>c. c \<noteq> CHR '']'') (tl hostport);
                   rest = tl (dropWhile (\<lambda>c. c \<noteq> CHR '']'') hostport)
               in if rest = [] then Inl (addr_error hostport ''missing port in address'')
                  else if length host + 2 \<noteq> length before
                  then Inl (addr_error hostport
                              (if hd rest = CHR '':'' then ''too many colons in address''
                               else ''missing port in address''))
                  else if CHR ''['' \<in> set (tl hostport)
                  then Inl (addr_error hostport (bracket_text ''unexpected'' CHR ''[''))
                  else if CHR '']'' \<in> set rest
                  then Inl (addr_error hostport (bracket_text ''unexpected'' CHR '']''))
                  else Inr (host, port))
          else if CHR '':'' \<in> set before
          then Inl (addr_error hostport ''too many colons in address'')
          else if CHR ''['' \<in> set hostport
          then Inl (addr_error hostport (bracket_text ''unexpected'' CHR ''[''))
          else if CHR '']'' \<in> set hostport
          then Inl (addr_error hostport (bracket_text ''unexpected'' CHR '']''))
          else Inr (before, port))"

text \<open>\<open>strconv.Atoi\<close>: an optional sign, then digits only, within \<open>int64\<close>.\<close>

definition Atoi :: "string \<Rightarrow> int option" where
  "Atoi s =
     (let neg = (s \<noteq> [] \<and> hd s = CHR ''-'');
          ds = (if s \<noteq> [] \<and> (hd s = CHR ''-'' \<or> hd s = CHR ''+'') then tl s else s);
          n = (if neg then - int (digits_val ds) else int (digits_val ds))
      in if ds \<noteq> [] \<and> list_all is_digit ds \<and> min_int64 \<le> n \<and> n \<le> max_int64 then Some n else None)"

definition validateHostPort :: "string \<Rightarrow> string \<Rightarrow> goerror option" where
  "validateHostPort label addr =
     (if addr = [] then None
      else case SplitHostPort addr of
             Inl e \<Rightarrow> Some (Errorf ''%s must be host:port: %w'' [label] (Some e))
           | Inr (host, port) \<Rightarrow>
               if host = [] \<or> port = []
               then Some (Errorf ''%s must be host:port, got %q'' [label, addr] None)
               else case Atoi port of
                      Some n \<Rightarrow>
                        if n < 1 \<or> 65535 < n
                        then Some (Errorf ''%s port must be a number between 1 and 65535, got %q'' [label, port] None)
                        else None
                    | None \<Rightarrow>
                        Some (Errorf ''%s port must be a number between 1 and 65535, got %q'' [label, port] None))"

section \<open>The configuration\<close>

record HarnessConfig =
  hc_Namespace :: string
  hc_Image :: string
  hc_Kubeconfig :: string
  hc_ServiceAccount :: string
  hc_EnvFromSecrets :: "string list"
  hc_TTLSecondsAfterFinished :: int
  hc_ActiveDeadlineSlack :: duration
  hc_Labels :: "(string \<times> string) list"

record SandboxTokenConfig =
  tc_KeyPath :: string
  tc_Issuer :: string
  tc_Audience :: string
  tc_TTL :: duration

record Config =
  cf_ListenAddr :: string
  cf_AdvertiseAddr :: string
  cf_RedisAddr :: string
  cf_RedisPassword :: string
  cf_RedisDB :: int
  cf_BilletAddr :: string
  cf_Launcher :: string
  cf_ProfilesDir :: string
  cf_DefaultProfile :: string
  cf_Retention :: duration
  cf_Harness :: HarnessConfig
  cf_Sandbox :: ExecutorDefaults
  cf_Telemetry :: TelemetryOptions
  cf_HarnessTelemetryEndpoint :: string
  cf_SandboxToken :: SandboxTokenConfig

definition DefaultHarnessImage :: string where
  "DefaultHarnessImage = ''ghcr.io/rxbynerd/stirrup:latest''"

definition DefaultSandboxImage :: string where
  "DefaultSandboxImage = ''ghcr.io/rxbynerd/stirrup-sandbox:latest''"

text \<open>The projected file is an argument: \<open>None\<close> when it cannot be read.\<close>

definition DetectNamespace :: "string option \<Rightarrow> string" where
  "DetectNamespace file = (case file of None \<Rightarrow> [] | Some raw \<Rightarrow> TrimSpace raw)"

definition simple_error :: "string \<Rightarrow> goerror option" where
  "simple_error m = Some (Errorf m [] None)"

definition validate_launcher :: "Config \<Rightarrow> goerror option" where
  "validate_launcher c =
     (if cf_Launcher c = ''kubernetes'' then
        (if hc_Namespace (cf_Harness c) = [] then simple_error ''kubernetes launcher requires a namespace''
         else if hc_Image (cf_Harness c) = [] then simple_error ''kubernetes launcher requires a harness image''
         else None)
      else if cf_Launcher c = ''none'' then None
      else Some (Errorf ''unknown launcher %q (want kubernetes or none)'' [cf_Launcher c] None))"

definition validate_token :: "SandboxTokenConfig \<Rightarrow> goerror option" where
  "validate_token t =
     (if tc_KeyPath t = [] \<and> (tc_Issuer t \<noteq> [] \<or> tc_Audience t \<noteq> [])
      then simple_error ''sandbox-token-issuer and sandbox-token-audience have no effect without sandbox-token-key''
      else if tc_KeyPath t \<noteq> [] then
        (if tc_Issuer t = [] then simple_error ''sandbox-token-issuer is required when sandbox-token-key is set''
         else if tc_Audience t = [] then simple_error ''sandbox-token-audience is required when sandbox-token-key is set''
         else if tc_TTL t \<le> 0 then simple_error ''sandbox-token-ttl must be positive''
         else None)
      else None)"

text \<open>
  \<open>Validate\<close> fills the sandbox namespace in before its last checks, also when one of
  those then fails.
\<close>

definition Validate :: "Config \<Rightarrow> goerror option \<times> Config" where
  "Validate c =
     (if cf_ListenAddr c = [] then (simple_error ''listen address is required'', c)
      else if cf_AdvertiseAddr c = []
      then (simple_error ''advertise address is required (harnesses must know where to dial back)'', c)
      else case validateHostPort ''billet address'' (cf_BilletAddr c) of
        Some e \<Rightarrow> (Some e, c)
      | None \<Rightarrow>
      (case validateHostPort ''harness telemetry endpoint'' (cf_HarnessTelemetryEndpoint c) of
        Some e \<Rightarrow> (Some e, c)
      | None \<Rightarrow>
          if cf_RedisDB c < 0 then (simple_error ''redis database number must be non-negative'', c)
          else if hc_TTLSecondsAfterFinished (cf_Harness c) < 0 then (simple_error ''job TTL must be non-negative'', c)
          else if hc_ActiveDeadlineSlack (cf_Harness c) < 0 then (simple_error ''deadline slack must be non-negative'', c)
          else case tel_Validate (cf_Telemetry c) of
            Some e \<Rightarrow> (Some e, c)
          | None \<Rightarrow>
              if ed_Runtime (cf_Sandbox c) \<notin> set [[], ''runc'', ''gvisor'', ''kata-qemu'', ''kata-fc'', ''kata-clh'']
              then (Some (Errorf ''unknown sandbox runtime %q'' [ed_Runtime (cf_Sandbox c)] None), c)
              else case validate_launcher c of
                Some e \<Rightarrow> (Some e, c)
              | None \<Rightarrow>
                  (let c' = (if ed_Namespace (cf_Sandbox c) = []
                             then c\<lparr>cf_Sandbox := (cf_Sandbox c)\<lparr>ed_Namespace := hc_Namespace (cf_Harness c)\<rparr>\<rparr>
                             else c)
                   in (validate_token (cf_SandboxToken c'), c'))))"

end
