(* ===== verification/Launcher.thy ===== *)
theory Launcher
  imports Config ReaperSpec
begin

text \<open>
  The launchers of \<open>src/internal/launcher\<close>. The Kubernetes launcher hands one
  batch/v1 Job to the API server; the record \<open>K8sJob\<close> holds the fields hairpin
  sets in it. The client-go call that creates it is the parameter \<open>create\<close>, given the
  namespace and the object; \<open>Some\<close> is its error. Building the client from a
  kubeconfig is left out, as is logging.
\<close>

section \<open>The object\<close>

datatype EnvFromSource = SecretRef string

record K8sContainer =
  kc_Name :: string
  kc_Image :: string
  kc_Args :: "string list"
  kc_AllowPrivilegeEscalation :: bool
  kc_ReadOnlyRootFilesystem :: bool
  kc_DropCapabilities :: "string list"
  kc_VolumeMounts :: "(string \<times> string) list"
  kc_Env :: "(string \<times> string) list"
  kc_EnvFrom :: "EnvFromSource list"
  kc_Requests :: "(string \<times> string) list"

record K8sPodSpec =
  kp_RestartPolicy :: string
  kp_ServiceAccountName :: string
  kp_AutomountServiceAccountToken :: bool
  kp_RunAsNonRoot :: bool
  kp_SeccompProfile :: string
  kp_EmptyDirVolumes :: "string list"
  kp_Containers :: "K8sContainer list"

record K8sJob =
  kj_Name :: string
  kj_Namespace :: string
  kj_Labels :: "string \<Rightarrow> string option"
  kj_BackoffLimit :: int
  kj_TTLSecondsAfterFinished :: int
  kj_ActiveDeadlineSeconds :: int
  kj_TemplateLabels :: "string \<Rightarrow> string option"
  kj_PodSpec :: K8sPodSpec

section \<open>Building it\<close>

definition fallbackTimeoutSeconds :: int where
  "fallbackTimeoutSeconds = 3600"

text \<open>The operator's labels first, in any order, then hairpin's own.\<close>

definition jobLabels :: "(string \<times> string) list \<Rightarrow> string \<Rightarrow> string \<Rightarrow> string option" where
  "jobLabels configured jobID =
     (map_of configured)(''app.kubernetes.io/name'' \<mapsto> ''stirrup'',
                         ''app.kubernetes.io/managed-by'' \<mapsto> ''hairpin'',
                         ''hairpin.rxbynerd.dev/job-id'' \<mapsto> jobID)"

definition runConfigTimeoutSeconds :: "env \<Rightarrow> string \<Rightarrow> int result" where
  "runConfigTimeoutSeconds E runConfigJSON =
     (if runConfigJSON = [] then Inl (Errorf ''empty run config'' [] None)
      else case env_parse_config E runConfigJSON of
             Inl e \<Rightarrow> Inl (Errorf ''unmarshal run config: %w'' [] (Some e))
           | Inr rc \<Rightarrow>
               if rc_Timeout rc = None then Inl (Errorf ''run config has no timeout'' [] None)
               else Inr (GetTimeout rc))"

text \<open>
  \<open>int64(d.Seconds())\<close> cuts the fraction of the seconds off. Go computes the seconds
  as a \<open>float64\<close>, which is exact enough for that below 97 days; this is the exact value.
\<close>

definition duration_seconds :: "duration \<Rightarrow> int" where
  "duration_seconds d = (if d < 0 then - ((- d) div Second) else d div Second)"

definition activeDeadlineSeconds :: "env \<Rightarrow> HarnessConfig \<Rightarrow> Job \<Rightarrow> int" where
  "activeDeadlineSeconds E cfg j =
     (let slackSeconds = duration_seconds (hc_ActiveDeadlineSlack cfg);
          timeoutSeconds = (case runConfigTimeoutSeconds E (j_RunConfigJSON j) of
                              Inl _ \<Rightarrow> fallbackTimeoutSeconds | Inr t \<Rightarrow> t)
      in wrap64 (timeoutSeconds + slackSeconds))"

definition envFromSecrets :: "string list \<Rightarrow> EnvFromSource list" where
  "envFromSecrets names = (if names = [] then [] else map SecretRef names)"

definition k8s_object :: "env \<Rightarrow> HarnessConfig \<Rightarrow> string \<Rightarrow> Job \<Rightarrow> K8sJob" where
  "k8s_object E cfg advertiseAddr j =
     \<lparr>kj_Name = j_ID j, kj_Namespace = hc_Namespace cfg, kj_Labels = jobLabels (hc_Labels cfg) (j_ID j),
      kj_BackoffLimit = 0, kj_TTLSecondsAfterFinished = hc_TTLSecondsAfterFinished cfg,
      kj_ActiveDeadlineSeconds = activeDeadlineSeconds E cfg j,
      kj_TemplateLabels = jobLabels (hc_Labels cfg) (j_ID j),
      kj_PodSpec =
        \<lparr>kp_RestartPolicy = ''Never'', kp_ServiceAccountName = hc_ServiceAccount cfg,
         kp_AutomountServiceAccountToken = (hc_ServiceAccount cfg \<noteq> []), kp_RunAsNonRoot = True,
         kp_SeccompProfile = ''RuntimeDefault'', kp_EmptyDirVolumes = [''tmp''],
         kp_Containers =
           [\<lparr>kc_Name = ''stirrup'', kc_Image = hc_Image cfg, kc_Args = [''job''],
             kc_AllowPrivilegeEscalation = False, kc_ReadOnlyRootFilesystem = True,
             kc_DropCapabilities = [''ALL''], kc_VolumeMounts = [(''tmp'', ''/tmp'')],
             kc_Env = [(''CONTROL_PLANE_ADDR'', advertiseAddr),
                       (''CONTROL_PLANE_SESSION_ID'', SessionString j)],
             kc_EnvFrom = envFromSecrets (hc_EnvFromSecrets cfg),
             kc_Requests = [(''cpu'', ''100m''), (''memory'', ''256Mi'')]\<rparr>]\<rparr>\<rparr>"

section \<open>Launching\<close>

record K8s =
  k8_cfg :: HarnessConfig
  k8_advertiseAddr :: string

text \<open>
  \<open>already\<close> is \<open>apierrors.IsAlreadyExists\<close>; the server's state is threaded through.
\<close>

definition k8s_Launch ::
  "env \<Rightarrow> (string \<Rightarrow> K8sJob \<Rightarrow> 'c \<Rightarrow> goerror option \<times> 'c) \<Rightarrow> (goerror \<Rightarrow> bool) \<Rightarrow> K8s \<Rightarrow> Job \<Rightarrow> 'c \<Rightarrow>
   goerror option \<times> 'c" where
  "k8s_Launch E create already l j c =
     (let (e, c') = create (hc_Namespace (k8_cfg l)) (k8s_object E (k8_cfg l) (k8_advertiseAddr l) j) c
      in case e of
           None \<Rightarrow> (None, c')
         | Some er \<Rightarrow>
             if already er then (None, c') else (Some (Errorf ''launcher: create k8s job: %w'' [] (Some er)), c'))"

definition none_Launch :: "Job \<Rightarrow> goerror option" where
  "none_Launch j = None"

section \<open>What is launched\<close>

text \<open>The identity labels are hairpin's whatever the operator configured.\<close>

lemma jobLabels_identity:
  "jobLabels ls i ''app.kubernetes.io/name'' = Some ''stirrup''"
  "jobLabels ls i ''app.kubernetes.io/managed-by'' = Some ''hairpin''"
  "jobLabels ls i ''hairpin.rxbynerd.dev/job-id'' = Some i"
  "k \<notin> {''app.kubernetes.io/name'', ''app.kubernetes.io/managed-by'', ''hairpin.rxbynerd.dev/job-id''} \<Longrightarrow>
   jobLabels ls i k = map_of ls k"
  by (simp_all add: jobLabels_def)

text \<open>The deadline is the timeout plus the slack, exactly, on the ranges the fields have.\<close>

lemma duration_seconds_bounds:
  assumes "0 \<le> d" and "d \<le> max_int64"
  shows "0 \<le> duration_seconds d" and "duration_seconds d < 2 ^ 34" and "duration_seconds d * Second \<le> d"
proof -
  show "0 \<le> duration_seconds d" using assms by (simp add: duration_seconds_def Second_def div_int_pos_iff)
  show "duration_seconds d * Second \<le> d"
    using assms by (simp add: duration_seconds_def Second_def)
  have "d div Second \<le> max_int64 div Second" using assms by (intro zdiv_mono1) (simp_all add: Second_def)
  also have "\<dots> < 2 ^ 34" by (simp add: max_int64_def Second_def)
  finally show "duration_seconds d < 2 ^ 34" using assms by (simp add: duration_seconds_def)
qed

lemma activeDeadline_exact:
  assumes "0 \<le> hc_ActiveDeadlineSlack cfg" and "hc_ActiveDeadlineSlack cfg \<le> max_int64"
    and "runConfigTimeoutSeconds E (j_RunConfigJSON j) = Inr t" and "- (2 ^ 31) \<le> t" and "t < 2 ^ 31"
  shows "activeDeadlineSeconds E cfg j = t + hc_ActiveDeadlineSlack cfg div Second"
proof -
  note b = duration_seconds_bounds [OF assms(1,2)]
  have "duration_seconds (hc_ActiveDeadlineSlack cfg) = hc_ActiveDeadlineSlack cfg div Second"
    using assms(1) by (simp add: duration_seconds_def)
  moreover have "wrap64 (t + duration_seconds (hc_ActiveDeadlineSlack cfg)) =
      t + duration_seconds (hc_ActiveDeadlineSlack cfg)"
    using b(1,2) assms(4,5) by (intro wrap64_id) (simp_all add: min_int64_def max_int64_def)
  ultimately show ?thesis using assms(3) by (simp add: activeDeadlineSeconds_def)
qed

section \<open>Deadlines of the launcher and the reaper\<close>

text \<open>
  With the same slack, the reaper waits at least as long for a harness as the Job it
  was launched in may run, whether or not the timeout can be read.
\<close>

lemma reaper_outlasts_deadline:
  assumes "j_RunConfigJSON j \<noteq> []" and "0 \<le> hc_ActiveDeadlineSlack cfg" and "hc_ActiveDeadlineSlack cfg \<le> 2 ^ 62"
    and t: "\<And>c t. env_parse_config E (j_RunConfigJSON j) = Inr c \<Longrightarrow> rc_Timeout c = Some t \<Longrightarrow> 0 \<le> t \<and> t < 2 ^ 31"
  shows "activeDeadlineSeconds E cfg j * Second \<le> awaitingHarnessDeadline E (j_RunConfigJSON j) (hc_ActiveDeadlineSlack cfg)"
proof -
  let ?d = "hc_ActiveDeadlineSlack cfg"
  have d: "?d \<le> max_int64" using assms(3) by (simp add: max_int64_def)
  note b = duration_seconds_bounds [OF assms(2) d]
  have fit: "wrap64 (x + duration_seconds ?d) = x + duration_seconds ?d" if "0 \<le> x" "x < 2 ^ 31" for x
    using b(1,2) that by (intro wrap64_id) (simp_all add: min_int64_def max_int64_def)
  have fallback: ?thesis
    if "runConfigTimeoutSeconds E (j_RunConfigJSON j) = Inl e"
      and "awaitingHarnessDeadline E (j_RunConfigJSON j) ?d = wrap64 (awaitingHarnessFallback + ?d)" for e
  proof -
    have "wrap64 (awaitingHarnessFallback + ?d) = awaitingHarnessFallback + ?d"
      using assms(2,3) by (intro wrap64_id) (simp_all add: awaitingHarnessFallback_def Hour_def min_int64_def max_int64_def)
    then show ?thesis
      using that b(3) fit [of 3600]
      by (simp add: activeDeadlineSeconds_def fallbackTimeoutSeconds_def awaitingHarnessFallback_def Hour_def
          Second_def algebra_simps)
  qed
  show ?thesis
  proof (cases "env_parse_config E (j_RunConfigJSON j)")
    case (Inl e)
    then show ?thesis
      using assms(1) by (intro fallback) (simp_all add: runConfigTimeoutSeconds_def awaitingHarnessDeadline_def)
  next
    case (Inr c)
    show ?thesis
    proof (cases "rc_Timeout c")
      case None
      with Inr assms(1) show ?thesis
        by (intro fallback) (simp_all add: runConfigTimeoutSeconds_def awaitingHarnessDeadline_def)
    next
      case (Some x)
      with t [OF Inr] have x: "0 \<le> x" "x < 2 ^ 31" by simp_all
      have "activeDeadlineSeconds E cfg j = x + duration_seconds ?d"
        using Inr Some assms(1) fit [OF x] by (simp add: activeDeadlineSeconds_def runConfigTimeoutSeconds_def GetTimeout_def)
      then show ?thesis
        using deadline_no_overflow [OF Inr Some x assms(2,3)] b(3)
        by (simp add: awaitingHarnessMargin_def Minute_def algebra_simps)
    qed
  qed
qed

end
