(* ===== verification/Encodings.thy ===== *)
theory Encodings
  imports JsonText "HOL-Library.Word"
begin

unbundle bit_operations_syntax

text \<open>
  The encodings the token issuer takes from Go's standard library: unpadded
  base64url (\<open>base64.RawURLEncoding\<close>), fixed-width big-endian integers, and
  SHA-256 on 32-bit words. Bytes are natural numbers below 256.
\<close>

section \<open>Base64\<close>

definition b64_char :: "nat \<Rightarrow> char" where
  "b64_char d =
     (if d < 26 then char_of (65 + d)
      else if d < 52 then char_of (71 + d)
      else if d < 62 then char_of (d - 4)
      else if d = 62 then CHR ''-'' else CHR ''_'')"

definition b64_val :: "char \<Rightarrow> nat" where
  "b64_val c =
     (let n = of_char c :: nat in
      if 65 \<le> n \<and> n \<le> 90 then n - 65
      else if 97 \<le> n \<and> n \<le> 122 then n - 71
      else if 48 \<le> n \<and> n \<le> 57 then n + 4
      else if n = 45 then 62 else 63)"

fun b64_encode :: "nat list \<Rightarrow> string" where
  "b64_encode [] = []"
| "b64_encode [a] = [b64_char (a div 4), b64_char (a mod 4 * 16)]"
| "b64_encode [a, b] = [b64_char (a div 4), b64_char (a mod 4 * 16 + b div 16), b64_char (b mod 16 * 4)]"
| "b64_encode (a # b # c # bs) =
     [b64_char (a div 4), b64_char (a mod 4 * 16 + b div 16), b64_char (b mod 16 * 4 + c div 64), b64_char (c mod 64)] @
     b64_encode bs"

text \<open>A reader of the encoding.\<close>

fun b64_decode :: "string \<Rightarrow> nat list option" where
  "b64_decode [] = Some []"
| "b64_decode [p] = None"
| "b64_decode [p, q] = Some [b64_val p * 4 + b64_val q div 16]"
| "b64_decode [p, q, r] =
     Some [b64_val p * 4 + b64_val q div 16, b64_val q mod 16 * 16 + b64_val r div 4]"
| "b64_decode (p # q # r # s # cs) =
     map_option (\<lambda>bs. [b64_val p * 4 + b64_val q div 16, b64_val q mod 16 * 16 + b64_val r div 4,
                       b64_val r mod 4 * 64 + b64_val s] @ bs) (b64_decode cs)"

lemma b64_val_char [simp]: "d < 64 \<Longrightarrow> b64_val (b64_char d) = d"
  by (auto simp: b64_val_def b64_char_def of_char_of Let_def)

lemma b64_digits:
  fixes a b c :: nat
  assumes "a < 256" and "b < 256" and "c < 256"
  shows "a div 4 < 64" "a mod 4 * 16 < 64" "a mod 4 * 16 + b div 16 < 64" "b mod 16 * 4 < 64"
    "b mod 16 * 4 + c div 64 < 64" "c mod 64 < 64"
  using assms by (auto simp: less_mult_imp_div_less)

lemma b64_decode_encode:
  assumes "list_all (\<lambda>b. b < 256) bs"
  shows "b64_decode (b64_encode bs) = Some bs"
  using assms
proof (induction bs rule: b64_encode.induct)
  case (4 a b c bs)
  then have d: "a < 256" "b < 256" "c < 256" by simp_all
  have "(a mod 4 * 16 + b div 16) div 16 = a mod 4" "(a mod 4 * 16 + b div 16) mod 16 = b div 16"
    "(b mod 16 * 4 + c div 64) div 4 = b mod 16" "(b mod 16 * 4 + c div 64) mod 4 = c div 64"
    using d by (simp_all add: less_mult_imp_div_less)
  with 4 show ?case by (simp add: b64_digits [OF d])
next
  case (3 a b)
  then have d: "a < 256" "b < 256" "(0::nat) < 256" by simp_all
  have "(a mod 4 * 16 + b div 16) div 16 = a mod 4" "(a mod 4 * 16 + b div 16) mod 16 = b div 16"
    using d by (simp_all add: less_mult_imp_div_less)
  with 3 show ?case by (simp add: b64_digits [OF d])
next
  case (2 a)
  then have d: "a < 256" "(0::nat) < 256" "(0::nat) < 256" by simp_all
  with 2 show ?case by (simp add: b64_digits [OF d])
qed simp

lemma b64_encode_inj:
  assumes "list_all (\<lambda>b. b < 256) xs" and "list_all (\<lambda>b. b < 256) ys" and "b64_encode xs = b64_encode ys"
  shows "xs = ys"
  using b64_decode_encode [OF assms(1)] b64_decode_encode [OF assms(2)] unfolding assms(3) by (metis option.inject)

lemma b64_char_ascii: "byte_in 0 127 (b64_char d)"
  by (cases "d < 26"; cases "d < 52"; cases "d < 62"; cases "d = 62") (simp_all add: byte_in_def b64_char_def of_char_of)

lemma b64_encode_ascii: "list_all (byte_in 0 127) (b64_encode bs)"
  by (induction bs rule: b64_encode.induct) (simp_all add: b64_char_ascii)

section \<open>Big-endian integers\<close>

fun be_bytes :: "nat \<Rightarrow> nat \<Rightarrow> nat list" where
  "be_bytes 0 n = []"
| "be_bytes (Suc k) n = be_bytes k (n div 256) @ [n mod 256]"

definition be_value :: "nat list \<Rightarrow> nat" where
  "be_value bs = foldl (\<lambda>n b. n * 256 + b) 0 bs"

lemma length_be_bytes [simp]: "length (be_bytes k n) = k"
  by (induction k arbitrary: n) simp_all

lemma be_bytes_bytes: "list_all (\<lambda>b. b < 256) (be_bytes k n)"
  by (induction k arbitrary: n) simp_all

lemma be_value_bytes: "n < 256 ^ k \<Longrightarrow> be_value (be_bytes k n) = n"
proof (induction k arbitrary: n)
  case (Suc k)
  then have "n div 256 < 256 ^ k" by (simp add: less_mult_imp_div_less mult.commute)
  with Suc.IH [OF this] show ?case by (simp add: be_value_def)
qed (simp add: be_value_def)

section \<open>SHA-256\<close>

text \<open>
  The constants are the first 32 bits of the fractional parts of the square roots of
  the first 8 primes and of the cube roots of the first 64: \<open>root_bits\<close> finds
  the integer root by bisection.
\<close>

primrec root_bits :: "nat \<Rightarrow> nat \<Rightarrow> nat \<Rightarrow> nat \<Rightarrow> nat" where
  "root_bits k x 0 r = r"
| "root_bits k x (Suc i) r = root_bits k x i (if (r + 2 ^ i) ^ k \<le> x then r + 2 ^ i else r)"

definition primes64 :: "nat list" where
  "primes64 = [2, 3, 5, 7, 11, 13, 17, 19, 23, 29, 31, 37, 41, 43, 47, 53, 59, 61, 67, 71, 73, 79, 83, 89, 97,
     101, 103, 107, 109, 113, 127, 131, 137, 139, 149, 151, 157, 163, 167, 173, 179, 181, 191, 193, 197, 199,
     211, 223, 227, 229, 233, 239, 241, 251, 257, 263, 269, 271, 277, 281, 283, 293, 307, 311]"

definition sha_init :: "32 word list" where
  "sha_init = map (\<lambda>p. of_nat (root_bits 2 (p * 2 ^ 64) 40 0)) (take 8 primes64)"

definition sha_k :: "32 word list" where
  "sha_k = map (\<lambda>p. of_nat (root_bits 3 (p * 2 ^ 96) 40 0)) primes64"

definition sha_small :: "nat \<Rightarrow> nat \<Rightarrow> nat \<Rightarrow> 32 word \<Rightarrow> 32 word" where
  "sha_small a b c x = word_rotr a x XOR word_rotr b x XOR drop_bit c x"

definition sha_big :: "nat \<Rightarrow> nat \<Rightarrow> nat \<Rightarrow> 32 word \<Rightarrow> 32 word" where
  "sha_big a b c x = word_rotr a x XOR word_rotr b x XOR word_rotr c x"

primrec sha_extend :: "nat \<Rightarrow> 32 word list \<Rightarrow> 32 word list" where
  "sha_extend 0 ws = ws"
| "sha_extend (Suc n) ws =
     sha_extend n
       (let l = length ws
        in ws @ [sha_small 17 19 10 (ws ! (l - 2)) + ws ! (l - 7) + sha_small 7 18 3 (ws ! (l - 15)) + ws ! (l - 16)])"

fun sha_round :: "32 word list \<Rightarrow> 32 word \<times> 32 word \<Rightarrow> 32 word list" where
  "sha_round [a, b, c, d, e, f, g, h] (k, w) =
     (let t1 = h + sha_big 6 11 25 e + ((e AND f) XOR (NOT e AND g)) + k + w;
          t2 = sha_big 2 13 22 a + ((a AND b) XOR (a AND c) XOR (b AND c))
      in [t1 + t2, a, b, c, d + t1, e, f, g])"
| "sha_round s _ = s"

fun chunks :: "nat \<Rightarrow> 'a list \<Rightarrow> 'a list list" where
  "chunks n xs = (if xs = [] \<or> n = 0 then [] else take n xs # chunks n (drop n xs))"

declare chunks.simps [simp del]

definition sha_block :: "32 word list \<Rightarrow> nat list \<Rightarrow> 32 word list" where
  "sha_block s block =
     (let ws = sha_extend 48 (map (\<lambda>bs. of_nat (be_value bs)) (chunks 4 block))
      in map2 (+) s (foldl sha_round s (zip sha_k ws)))"

definition sha_pad :: "nat list \<Rightarrow> nat list" where
  "sha_pad msg =
     (let n = length msg
      in msg @ [128] @ replicate ((119 - n mod 64) mod 64) 0 @ be_bytes 8 (n * 8))"

definition sha256_Sum256 :: "nat list \<Rightarrow> nat list" where
  "sha256_Sum256 msg =
     concat (map (\<lambda>w. be_bytes 4 (unat w)) (foldl sha_block sha_init (chunks 64 (sha_pad msg))))"

lemma sha256_bytes: "list_all (\<lambda>b. b < 256) (sha256_Sum256 msg)"
  unfolding sha256_Sum256_def list_all_iff set_concat using be_bytes_bytes by (fastforce simp: list_all_iff)

end
