(* ===== verification/TokenIssuer.thy ===== *)
theory TokenIssuer
  imports Encodings Config PumpSpec
begin

text \<open>
  The sandbox token issuer of \<open>src/internal/tokenissuer\<close>: key identifiers, the JWKS
  document and the claims of a token. The JWT library that serialises and signs a token
  is the parameter \<open>sign\<close>: it is given the signing method, the header fields set on
  the token, the claims and the key. Random bytes are an argument, \<open>Inl\<close> when the
  source of randomness fails. A nil key or curve is \<open>None\<close>.
\<close>

section \<open>Keys\<close>

record PublicKey =
  pub_Curve :: "string option"
  pub_X :: nat
  pub_Y :: nat

record PrivateKey =
  priv_Public :: PublicKey
  priv_D :: nat

text \<open>The curve P-256: its field and its equation.\<close>

definition p256 :: nat where
  "p256 = 2 ^ 256 - 2 ^ 224 + 2 ^ 192 + 2 ^ 96 - 1"

definition p256_b :: nat where
  "p256_b = 41058363725152142129326129780047268409114441015993725554835256314039467401291"

definition on_p256 :: "nat \<Rightarrow> nat \<Rightarrow> bool" where
  "on_p256 x y \<longleftrightarrow>
     x < p256 \<and> y < p256 \<and> (int y ^ 2 - (int x ^ 3 - 3 * int x + int p256_b)) mod int p256 = 0"

text \<open>\<open>PublicKey.Bytes\<close> on that curve: the uncompressed point, for a point of the curve.\<close>

definition pub_Bytes :: "PublicKey \<Rightarrow> nat list result" where
  "pub_Bytes pub =
     (if on_p256 (pub_X pub) (pub_Y pub)
      then Inr (4 # be_bytes 32 (pub_X pub) @ be_bytes 32 (pub_Y pub))
      else Inl (Errorf ''ecdsa: invalid public key'' [] None))"

definition coordSize :: nat where
  "coordSize = 32"

definition coords :: "PublicKey option \<Rightarrow> (string \<times> string) result" where
  "coords pub =
     (case pub of
        None \<Rightarrow> Inl (Errorf ''key is not on the P-256 curve'' [] None)
      | Some k \<Rightarrow>
          if pub_Curve k \<noteq> Some ''P-256'' then Inl (Errorf ''key is not on the P-256 curve'' [] None)
          else case pub_Bytes k of
                 Inl e \<Rightarrow> Inl (Errorf ''encode public key: %w'' [] (Some e))
               | Inr raw \<Rightarrow>
                   if length raw \<noteq> 1 + 2 * coordSize \<or> raw ! 0 \<noteq> 4
                   then Inl (Errorf ''unexpected public key encoding (%d bytes)'' [utoa (length raw)] None)
                   else Inr (b64_encode (take coordSize (drop 1 raw)), b64_encode (drop (1 + coordSize) raw)))"

definition bytes_of :: "string \<Rightarrow> nat list" where
  "bytes_of s = map of_char s"

text \<open>The canonical JSON of the thumbprint: the coordinates need no escaping.\<close>

definition canonical_jwk :: "string \<Rightarrow> string \<Rightarrow> string" where
  \<open>canonical_jwk x y = ''{"crv":"P-256","kty":"EC","x":"'' @ x @ ''","y":"'' @ y @ ''"}''\<close>

definition KeyID :: "PublicKey option \<Rightarrow> string result" where
  "KeyID pub =
     (case coords pub of
        Inl e \<Rightarrow> Inl e
      | Inr (x, y) \<Rightarrow> Inr (b64_encode (sha256_Sum256 (bytes_of (canonical_jwk x y)))))"

section \<open>The JWKS document\<close>

record jwk =
  jwk_Kty :: string
  jwk_Crv :: string
  jwk_X :: string
  jwk_Y :: string
  jwk_Kid :: string
  jwk_Alg :: string
  jwk_Use :: string

definition jwk_members :: "jwk \<Rightarrow> (string \<times> string) list" where
  "jwk_members k =
     [(''kty'', jwk_Kty k), (''crv'', jwk_Crv k), (''x'', jwk_X k), (''y'', jwk_Y k), (''kid'', jwk_Kid k),
      (''alg'', jwk_Alg k), (''use'', jwk_Use k)]"

definition marshal_jwks :: "jwk list \<Rightarrow> string" where
  "marshal_jwks ks =
     CHR ''{'' # json_string ''keys'' @ '':['' @ json_join (map (\<lambda>k. json_object (jwk_members k)) ks) @ '']}''"

definition JWKSDocument :: "PublicKey option \<Rightarrow> string result" where
  "JWKSDocument pub =
     (case KeyID pub of
        Inl e \<Rightarrow> Inl e
      | Inr kid \<Rightarrow>
          (case coords pub of
             Inl e \<Rightarrow> Inl e
           | Inr (x, y) \<Rightarrow>
               Inr (marshal_jwks
                 [\<lparr>jwk_Kty = ''EC'', jwk_Crv = ''P-256'', jwk_X = x, jwk_Y = y, jwk_Kid = kid,
                   jwk_Alg = ''ES256'', jwk_Use = ''sig''\<rparr>])))"

section \<open>The issuer\<close>

record Issuer =
  is_priv :: PrivateKey
  is_kid :: string
  is_jwks :: string
  is_issuer :: string
  is_audience :: string
  is_ttl :: duration
  is_now :: "nat \<Rightarrow> gotime"

text \<open>\<open>time.Now\<close> is the argument \<open>clock\<close>, read in sequence.\<close>

definition NewIssuer ::
  "(nat \<Rightarrow> gotime) \<Rightarrow> PrivateKey option \<Rightarrow> string \<Rightarrow> string \<Rightarrow> duration \<Rightarrow> Issuer result" where
  "NewIssuer clock priv issuer audience ttl =
     (case priv of
        None \<Rightarrow> Inl (Errorf ''signing key must be a P-256 ECDSA key'' [] None)
      | Some k \<Rightarrow>
          if pub_Curve (priv_Public k) \<noteq> Some ''P-256''
          then Inl (Errorf ''signing key must be a P-256 ECDSA key'' [] None)
          else if issuer = [] then Inl (Errorf ''issuer is required'' [] None)
          else if audience = [] then Inl (Errorf ''audience is required'' [] None)
          else if ttl \<le> 0 then Inl (Errorf ''ttl must be positive'' [] None)
          else case KeyID (Some (priv_Public k)) of
                 Inl e \<Rightarrow> Inl e
               | Inr kid \<Rightarrow>
                   (case JWKSDocument (Some (priv_Public k)) of
                      Inl e \<Rightarrow> Inl e
                    | Inr doc \<Rightarrow>
                        Inr \<lparr>is_priv = k, is_kid = kid, is_jwks = doc, is_issuer = issuer,
                             is_audience = audience, is_ttl = ttl, is_now = clock\<rparr>))"

definition tokenType :: string where
  "tokenType = ''at+jwt''"

definition repoScopeClaim :: string where
  "repoScopeClaim = ''haybale.dev/repos''"

definition jtiBytes :: nat where
  "jtiBytes = 16"

text \<open>The sixteen bytes \<open>rand.Read\<close> fills, or its error.\<close>

definition randomJTI :: "nat list result \<Rightarrow> string result" where
  "randomJTI rnd = (case rnd of Inl e \<Rightarrow> Inl e | Inr b \<Rightarrow> Inr (hex_encode (take jtiBytes b)))"

type_synonym signer =
  "string \<Rightarrow> (string \<times> string) list \<Rightarrow> (string \<times> json) list \<Rightarrow> PrivateKey \<Rightarrow> string result"

text \<open>A nil scope and an empty one are both the empty list.\<close>

definition token_claims :: "Issuer \<Rightarrow> gotime \<Rightarrow> string \<Rightarrow> string \<Rightarrow> string list \<Rightarrow> (string \<times> json) list" where
  "token_claims i t jti sub repoScope =
     [(''iss'', JStr (is_issuer i)), (''aud'', JStr (is_audience i)), (''sub'', JStr sub),
      (''iat'', JNum (itoa (Unix t))), (''exp'', JNum (itoa (Unix (t + is_ttl i)))), (''jti'', JStr jti),
      (repoScopeClaim, JArr (map JStr repoScope))]"

definition Mint ::
  "signer \<Rightarrow> Issuer \<Rightarrow> nat \<Rightarrow> nat list result \<Rightarrow> string \<Rightarrow> string list \<Rightarrow> (string \<times> gotime) result" where
  "Mint sign i n rnd sub repoScope =
     (let t = is_now i n; exp = t + is_ttl i
      in case randomJTI rnd of
           Inl e \<Rightarrow> Inl (Errorf ''generate jti: %w'' [] (Some e))
         | Inr jti \<Rightarrow>
             (case sign ''ES256'' [(''kid'', is_kid i), (''typ'', tokenType)]
                     (token_claims i t jti sub repoScope) (is_priv i) of
                Inl e \<Rightarrow> Inl (Errorf ''sign token: %w'' [] (Some e))
              | Inr tok \<Rightarrow> Inr (tok, exp)))"

text \<open>The issuer as the control plane sees it.\<close>

definition issuer_of :: "signer \<Rightarrow> (nat \<Rightarrow> nat list result) \<Rightarrow> Issuer \<Rightarrow> SandboxTokenIssuer" where
  "issuer_of sign rnd i = \<lparr>iss_Mint = (\<lambda>n. Mint sign i n (rnd n)), iss_Audience = is_audience i\<rparr>"

section \<open>Serving the document\<close>

record http_response =
  hr_status :: int
  hr_headers :: "(string \<times> string) list"
  hr_body :: string

definition jwksMaxAge :: duration where
  "jwksMaxAge = 5 * Minute"

definition JWKSHandler :: "Issuer \<Rightarrow> string \<Rightarrow> http_response" where
  "JWKSHandler i meth =
     (if meth \<noteq> ''GET'' \<and> meth \<noteq> ''HEAD''
      then \<lparr>hr_status = 405, hr_headers = [(''Allow'', ''GET, HEAD''), (''Content-Type'', ''text/plain; charset=utf-8''),
                          (''X-Content-Type-Options'', ''nosniff'')],
            hr_body = ''method not allowed'' @ [newline]\<rparr>
      else \<lparr>hr_status = 200,
            hr_headers = [(''Content-Type'', ''application/json''),
                          (''Cache-Control'', ''max-age='' @ itoa (jwksMaxAge div Second))],
            hr_body = is_jwks i\<rparr>)"

section \<open>Key files\<close>

text \<open>
  The PEM and DER decoders of the standard library are arguments: \<open>pem\<close> gives the first
  block's type and bytes, \<open>ec\<close> and \<open>pkcs8\<close> parse a key, the latter of any kind,
  with the name of that kind when it is no ECDSA key.
\<close>

definition ParsePrivateKeyPEM ::
  "(string \<Rightarrow> (string \<times> string) option) \<Rightarrow> (string \<Rightarrow> PrivateKey result) \<Rightarrow> (string \<Rightarrow> (string + PrivateKey) result) \<Rightarrow>
   string \<Rightarrow> PrivateKey result" where
  "ParsePrivateKeyPEM pem ec pkcs8 pemBytes =
     (case pem pemBytes of
        None \<Rightarrow> Inl (Errorf ''no PEM block found'' [] None)
      | Some (ty, der) \<Rightarrow>
          (case (if ty = ''EC PRIVATE KEY'' then
                   (case ec der of
                      Inl e \<Rightarrow> Inl (Errorf ''parse SEC1 EC private key: %w'' [] (Some e))
                    | Inr k \<Rightarrow> Inr k)
                 else if ty = ''PRIVATE KEY'' then
                   (case pkcs8 der of
                      Inl e \<Rightarrow> Inl (Errorf ''parse PKCS8 private key: %w'' [] (Some e))
                    | Inr (Inl kind) \<Rightarrow> Inl (Errorf ''PKCS8 key is %T, want *ecdsa.PrivateKey'' [kind] None)
                    | Inr (Inr k) \<Rightarrow> Inr k)
                 else Inl (Errorf ''unsupported PEM block type %q (want EC PRIVATE KEY or PRIVATE KEY)'' [ty] None)) of
             Inl e \<Rightarrow> Inl e
           | Inr k \<Rightarrow>
               if pub_Curve (priv_Public k) \<noteq> Some ''P-256''
               then Inl (Errorf ''key curve is %s, want P-256''
                           [case pub_Curve (priv_Public k) of None \<Rightarrow> [] | Some c \<Rightarrow> c] None)
               else Inr k))"

definition LoadKey ::
  "(string \<Rightarrow> (string \<times> string) option) \<Rightarrow> (string \<Rightarrow> PrivateKey result) \<Rightarrow> (string \<Rightarrow> (string + PrivateKey) result) \<Rightarrow>
   string \<Rightarrow> string result \<Rightarrow> PrivateKey result" where
  "LoadKey pem ec pkcs8 path file =
     (case file of
        Inl e \<Rightarrow> Inl (Errorf ''read %s: %w'' [path] (Some e))
      | Inr data \<Rightarrow>
          (case ParsePrivateKeyPEM pem ec pkcs8 data of
             Inl e \<Rightarrow> Inl (Errorf ''parse %s: %w'' [path] (Some e))
           | Inr key \<Rightarrow> Inr key))"

end
