(* ===== verification/TokenSpec.thy ===== *)
theory TokenSpec
  imports TokenIssuer GoTime
begin

text \<open>
  The key an issuer publishes is the key it signs with: the JWKS document parses, names
  the key by the identifier every token carries, and its coordinates decode to the
  public key. The claims of a token say whom it is for and until when.
\<close>

section \<open>The published key\<close>

lemma coords_point:
  assumes "pub_Curve k = Some ''P-256''" and "on_p256 (pub_X k) (pub_Y k)"
  shows "coords (Some k) = Inr (b64_encode (be_bytes 32 (pub_X k)), b64_encode (be_bytes 32 (pub_Y k)))"
  using assms by (simp add: coords_def pub_Bytes_def coordSize_def)

lemma coords_cases:
  assumes "coords pub = Inr (x, y)"
  obtains k where "pub = Some k" "pub_Curve k = Some ''P-256''" "on_p256 (pub_X k) (pub_Y k)"
    "x = b64_encode (be_bytes 32 (pub_X k))" "y = b64_encode (be_bytes 32 (pub_Y k))"
  using assms that coords_point
  by (auto simp: coords_def pub_Bytes_def coordSize_def split: option.splits sum.splits if_splits)

lemma on_p256_bound: "on_p256 x y \<Longrightarrow> x < 256 ^ 32 \<and> y < 256 ^ 32"
  by (simp add: on_p256_def p256_def)

lemma coordinate_round_trip:
  assumes "n < 256 ^ 32"
  shows "map_option be_value (b64_decode (b64_encode (be_bytes 32 n))) = Some n"
  by (simp add: b64_decode_encode [OF be_bytes_bytes] be_value_bytes [OF assms])

lemma coords_decode:
  assumes "coords (Some k) = Inr (x, y)"
  shows "map_option be_value (b64_decode x) = Some (pub_X k)" "map_option be_value (b64_decode y) = Some (pub_Y k)"
proof -
  from coords_cases [OF assms] have c: "on_p256 (pub_X k) (pub_Y k)" "x = b64_encode (be_bytes 32 (pub_X k))"
    "y = b64_encode (be_bytes 32 (pub_Y k))" by auto
  note b = on_p256_bound [OF c(1)]
  show "map_option be_value (b64_decode x) = Some (pub_X k)" unfolding c(2) by (rule coordinate_round_trip [OF conjunct1 [OF b]])
  show "map_option be_value (b64_decode y) = Some (pub_Y k)" unfolding c(3) by (rule coordinate_round_trip [OF conjunct2 [OF b]])
qed

text \<open>Two keys with the same coordinates in the document are the same point.\<close>

lemma coords_inj:
  assumes "coords (Some k) = Inr (x, y)" and "coords (Some l) = Inr (x, y)"
  shows "pub_X k = pub_X l \<and> pub_Y k = pub_Y l"
  using coords_decode [OF assms(1)] coords_decode [OF assms(2)] by simp

section \<open>The document as JSON\<close>

lemma parse_value_object:
  assumes "ms \<noteq> []" and "list_all (\<lambda>(k, v). utf8_valid k \<and> utf8_valid v) ms"
  shows "parse_value (Suc (Suc (length ms + n))) (json_object ms @ t) =
    Some (JObj (map (\<lambda>(k, v). (k, JStr v)) ms), t)"
proof -
  obtain u where u: "json_join (map json_member ms) = CHR 0x22 # u" using json_join_head(2) [OF assms(1)] by auto
  have "parse_members (Suc (length ms + n)) (CHR 0x22 # u @ CHR ''}'' # t) = Some (map (\<lambda>(k, v). (k, JStr v)) ms, t)"
    using parse_members_strings [OF assms, of n t] by (simp add: u)
  then show ?thesis
    unfolding json_object_def u by (subst parse_value.simps) simp
qed

lemma json_parse_jwks:
  assumes "list_all (\<lambda>(k, v). utf8_valid k \<and> utf8_valid v) (jwk_members k)"
  shows "json_parse (marshal_jwks [k]) =
    Some (JObj [(''keys'', JArr [JObj (map (\<lambda>(k, v). (k, JStr v)) (jwk_members k))])])"
proof -
  let ?o = "json_object (jwk_members k)"
  let ?v = "JObj (map (\<lambda>(k, v). (k, JStr v)) (jwk_members k))"
  have ne: "jwk_members k \<noteq> []" and len: "length (jwk_members k) = 7" by (simp_all add: jwk_members_def)
  have o: "parse_value (m + 9) (?o @ t) = Some (?v, t)" for m t
    using parse_value_object [OF ne assms, of m t] len by (simp add: numeral_eq_Suc add_ac)
  obtain u where u: "?o = CHR ''{'' # u" by (simp add: json_object_def)
  have e: "parse_elems (m + 10) (?o @ CHR '']'' # t) = Some ([?v], t)" for m t
    using o [of m "CHR '']'' # t"] by (subst numeral_eq_Suc, subst add_Suc_right, subst parse_elems.simps) (simp add: numeral_eq_Suc)
  have a: "parse_value (m + 11) (CHR ''['' # ?o @ CHR '']'' # t) = Some (JArr [?v], t)" for m t
    using e [of m t] by (subst numeral_eq_Suc, subst add_Suc_right, subst parse_value.simps) (simp add: u numeral_eq_Suc)
  have key: "parse_str (json_escape ''keys'' @ CHR 0x22 # t) = Some (''keys'', t)" for t
    using parse_str_escape [of "''keys''" t] by (auto simp: utf8_valid_ascii byte_in_def)
  have m: "parse_members (m + 12) (json_string ''keys'' @ CHR '':'' # CHR ''['' # ?o @ CHR '']'' # CHR ''}'' # t) =
      Some ([(''keys'', JArr [?v])], t)" for m t
    using a [of m "CHR ''}'' # t"]
    by (subst numeral_eq_Suc, subst add_Suc_right, subst parse_members.simps)
       (simp add: json_string_def key numeral_eq_Suc del: json_escape.simps)
  have whole: "parse_value (m + 13) (marshal_jwks [k]) = Some (JObj [(''keys'', JArr [?v])], [])" for m
    using m [of m "[]"]
    by (subst numeral_eq_Suc, subst add_Suc_right, subst parse_value.simps)
       (simp add: marshal_jwks_def json_string_def numeral_eq_Suc)
  have fuel: "2 * length (marshal_jwks [k]) + 2 = (2 * length (marshal_jwks [k]) - 11) + 13"
    by (simp add: marshal_jwks_def json_object_def json_string_def)
  have ws: "skip_ws (marshal_jwks [k]) = marshal_jwks [k]" by (simp add: marshal_jwks_def)
  show ?thesis unfolding json_parse_def ws fuel whole by simp
qed

lemma b64_valid: "utf8_valid (b64_encode bs)"
  by (rule utf8_valid_ascii [OF b64_encode_ascii])

lemma JWKSDocument_parses:
  assumes "JWKSDocument (Some k) = Inr doc"
  shows "\<exists>x y kid. KeyID (Some k) = Inr kid \<and> coords (Some k) = Inr (x, y) \<and>
    json_parse doc = Some (JObj [(''keys'', JArr [JObj
      [(''kty'', JStr ''EC''), (''crv'', JStr ''P-256''), (''x'', JStr x), (''y'', JStr y), (''kid'', JStr kid),
       (''alg'', JStr ''ES256''), (''use'', JStr ''sig'')]])])"
proof -
  from assms obtain kid x y where k: "KeyID (Some k) = Inr kid" "coords (Some k) = Inr (x, y)"
    and d: "doc = marshal_jwks [\<lparr>jwk_Kty = ''EC'', jwk_Crv = ''P-256'', jwk_X = x, jwk_Y = y, jwk_Kid = kid,
      jwk_Alg = ''ES256'', jwk_Use = ''sig''\<rparr>]"
    by (auto simp: JWKSDocument_def split: sum.splits)
  from k have "utf8_valid kid" by (auto simp: KeyID_def b64_valid)
  moreover obtain a b where "x = b64_encode a" "y = b64_encode b" using coords_cases [OF k(2)] by blast
  then have "utf8_valid x" "utf8_valid y" by (simp_all only: b64_valid)
  moreover have "list_all utf8_valid [''EC'', ''P-256'', ''ES256'', ''sig'', ''kty'', ''crv'', ''x'', ''y'', ''kid'', ''alg'', ''use'']"
    by (auto intro!: utf8_valid_ascii simp: byte_in_def)
  ultimately show ?thesis
    using k d json_parse_jwks [of "\<lparr>jwk_Kty = ''EC'', jwk_Crv = ''P-256'', jwk_X = x, jwk_Y = y, jwk_Kid = kid,
      jwk_Alg = ''ES256'', jwk_Use = ''sig''\<rparr>"]
    by (simp add: jwk_members_def)
qed

section \<open>The issuer\<close>

lemma NewIssuer_facts:
  assumes "NewIssuer clock priv issuer audience ttl = Inr i"
  obtains k where "priv = Some k" "is_priv i = k" "0 < is_ttl i" "is_now i = clock"
    "KeyID (Some (priv_Public k)) = Inr (is_kid i)" "JWKSDocument (Some (priv_Public k)) = Inr (is_jwks i)"
    "is_issuer i = issuer" "is_audience i = audience" "is_ttl i = ttl"
  using assms by (auto simp: NewIssuer_def split: option.splits if_splits sum.splits)

text \<open>An issuer can be made from every P-256 key with the other settings present.\<close>

lemma NewIssuer_succeeds:
  assumes "pub_Curve (priv_Public k) = Some ''P-256''" and "on_p256 (pub_X (priv_Public k)) (pub_Y (priv_Public k))"
    and "issuer \<noteq> []" and "audience \<noteq> []" and "0 < ttl"
  shows "\<exists>i. NewIssuer clock (Some k) issuer audience ttl = Inr i"
  using assms coords_point [OF assms(1,2)]
  by (simp add: NewIssuer_def KeyID_def JWKSDocument_def)

text \<open>What a verifier finds under the identifier a token names.\<close>

lemma published_key:
  assumes "NewIssuer clock (Some k) issuer audience ttl = Inr i"
  shows "\<exists>x y. json_parse (is_jwks i) = Some (JObj [(''keys'', JArr [JObj
      [(''kty'', JStr ''EC''), (''crv'', JStr ''P-256''), (''x'', JStr x), (''y'', JStr y),
       (''kid'', JStr (is_kid i)), (''alg'', JStr ''ES256''), (''use'', JStr ''sig'')]])]) \<and>
    map_option be_value (b64_decode x) = Some (pub_X (priv_Public (is_priv i))) \<and>
    map_option be_value (b64_decode y) = Some (pub_Y (priv_Public (is_priv i)))"
proof -
  from NewIssuer_facts [OF assms] have f: "is_priv i = k" "KeyID (Some (priv_Public k)) = Inr (is_kid i)"
    "JWKSDocument (Some (priv_Public k)) = Inr (is_jwks i)" by auto
  from JWKSDocument_parses [OF f(3)] f(2) obtain x y where
    "coords (Some (priv_Public k)) = Inr (x, y)"
    "json_parse (is_jwks i) = Some (JObj [(''keys'', JArr [JObj
      [(''kty'', JStr ''EC''), (''crv'', JStr ''P-256''), (''x'', JStr x), (''y'', JStr y),
       (''kid'', JStr (is_kid i)), (''alg'', JStr ''ES256''), (''use'', JStr ''sig'')]])])" by auto
  with coords_decode show ?thesis unfolding f(1) by blast
qed

text \<open>The lifetime of a token, in the whole seconds its claims are written in.\<close>

lemma token_lifetime:
  assumes "0 < ttl"
  shows "Unix t \<le> Unix (t + ttl)" and "ttl div Second \<le> Unix (t + ttl) - Unix t"
    and "Unix (t + ttl) - Unix t \<le> ttl div Second + 1"
proof -
  have split: "(t + ttl) div Second = t div Second + ttl div Second + (t mod Second + ttl mod Second) div Second"
    by (rule div_add1_eq)
  have S: "0 < Second" by (simp add: Second_def)
  have r: "0 \<le> t mod Second + ttl mod Second" "t mod Second + ttl mod Second < 2 * Second"
    using pos_mod_bound [OF S, of t] pos_mod_bound [OF S, of ttl] pos_mod_sign [OF S, of t] pos_mod_sign [OF S, of ttl]
    by linarith+
  have d: "0 \<le> (t mod Second + ttl mod Second) div Second" "(t mod Second + ttl mod Second) div Second \<le> 1"
    using r(1) S div_less [OF S r(2)] by (simp_all add: pos_imp_zdiv_nonneg_iff)
  have l: "0 \<le> ttl div Second" using assms S by (simp add: pos_imp_zdiv_nonneg_iff)
  have u: "Unix x = x div Second - 62135596800" for x by (simp add: Unix_def Second_def)
  show "Unix t \<le> Unix (t + ttl)" "ttl div Second \<le> Unix (t + ttl) - Unix t"
    "Unix (t + ttl) - Unix t \<le> ttl div Second + 1"
    using l d split unfolding u by linarith+
qed

lemma hex_encode_length: "length (hex_encode bs) = 2 * length bs"
  by (induction bs) (simp_all add: hex_encode_def)

lemma Mint_claims:
  assumes "Mint sign i n rnd sub scope = Inr (tok, x)"
  obtains jti where "x = is_now i n + is_ttl i" "randomJTI rnd = Inr jti"
    "sign ''ES256'' [(''kid'', is_kid i), (''typ'', tokenType)] (token_claims i (is_now i n) jti sub scope) (is_priv i) = Inr tok"
  using assms by (auto simp: Mint_def Let_def split: sum.splits)

end
