(* ===== verification/Api.thy ===== *)
theory Api
  imports Watch Config
begin

text \<open>
  The JobService handlers of \<open>src/internal/api\<close>: a thin layer over the service that
  converts records to their wire form and errors to RPC codes. The wire messages are
  records of the fields the handlers set; a timestamp is \<open>None\<close> when absent.
\<close>

section \<open>Wire messages\<close>

datatype JobStatus =
    JOB_STATUS_UNSPECIFIED
  | JOB_STATUS_QUEUED
  | JOB_STATUS_LAUNCHING
  | JOB_STATUS_AWAITING_HARNESS
  | JOB_STATUS_RUNNING
  | JOB_STATUS_SUCCEEDED
  | JOB_STATUS_FAILED
  | JOB_STATUS_CANCELLED

record ProtoJob =
  pj_Id :: string
  pj_Status :: JobStatus
  pj_Prompt :: string
  pj_Profile :: string
  pj_StopReason :: string
  pj_Error :: string
  pj_FinalText :: string
  pj_CreatedAt :: "gotime option"
  pj_StartedAt :: "gotime option"
  pj_FinishedAt :: "gotime option"
  pj_LastEventAt :: "gotime option"

record ProtoEvent =
  pe_Id :: string
  pe_Type :: string
  pe_PayloadJson :: string
  pe_At :: "gotime option"

record ProtoPermission =
  pp_RequestId :: string
  pp_ToolName :: string
  pp_InputJson :: string
  pp_State :: string
  pp_Reason :: string
  pp_RequestedAt :: "gotime option"
  pp_AnsweredAt :: "gotime option"

section \<open>Conversions\<close>

definition timestampOrNil :: "gotime \<Rightarrow> gotime option" where
  "timestampOrNil t = (if IsZero t then None else Some t)"

fun statusToProto :: "Status \<Rightarrow> JobStatus" where
  "statusToProto StatusQueued = JOB_STATUS_QUEUED"
| "statusToProto StatusLaunching = JOB_STATUS_LAUNCHING"
| "statusToProto StatusAwaitingHarness = JOB_STATUS_AWAITING_HARNESS"
| "statusToProto StatusRunning = JOB_STATUS_RUNNING"
| "statusToProto StatusSucceeded = JOB_STATUS_SUCCEEDED"
| "statusToProto StatusFailed = JOB_STATUS_FAILED"
| "statusToProto StatusCancelled = JOB_STATUS_CANCELLED"
| "statusToProto (StatusOther s) = JOB_STATUS_UNSPECIFIED"

definition jobToProto :: "Job \<Rightarrow> ProtoJob" where
  "jobToProto j =
     \<lparr>pj_Id = j_ID j, pj_Status = statusToProto (j_Status j), pj_Prompt = j_Prompt j, pj_Profile = j_Profile j,
      pj_StopReason = j_StopReason j, pj_Error = j_Error j, pj_FinalText = j_FinalText j,
      pj_CreatedAt = timestampOrNil (j_CreatedAt j), pj_StartedAt = timestampOrNil (j_StartedAt j),
      pj_FinishedAt = timestampOrNil (j_FinishedAt j), pj_LastEventAt = timestampOrNil (j_LastEventAt j)\<rparr>"

definition eventToProto :: "Event \<Rightarrow> ProtoEvent" where
  "eventToProto ev =
     \<lparr>pe_Id = e_ID ev, pe_Type = e_Type ev, pe_PayloadJson = e_PayloadJSON ev, pe_At = timestampOrNil (e_At ev)\<rparr>"

definition permissionToProto :: "PermissionRequest \<Rightarrow> ProtoPermission" where
  "permissionToProto p =
     \<lparr>pp_RequestId = p_RequestID p, pp_ToolName = p_ToolName p, pp_InputJson = p_InputJSON p,
      pp_State = permission_state_string (p_State p), pp_Reason = p_Reason p,
      pp_RequestedAt = timestampOrNil (p_RequestedAt p), pp_AnsweredAt = timestampOrNil (p_AnsweredAt p)\<rparr>"

definition connectError :: "goerror \<Rightarrow> goerror" where
  "connectError e =
     (if errors_Is e ErrNotFound then ConnectError CodeNotFound (Error e)
      else if errors_Is e ErrInvalidArgument then ConnectError CodeInvalidArgument (Error e)
      else if errors_Is e ErrNotConnected then ConnectError CodeFailedPrecondition (Error e)
      else ConnectError CodeInternal (Error e))"

section \<open>Handlers\<close>

definition defaultListLimit :: int where
  "defaultListLimit = 50"

definition maxListLimit :: int where
  "maxListLimit = 100"

text \<open>The response carries the job and the harness session.\<close>

definition SubmitJob ::
  "env \<Rightarrow> 's Service \<Rightarrow> submit_input \<Rightarrow> SubmitParams \<Rightarrow> 's World \<Rightarrow> (ProtoJob \<times> string) result \<times> 's World" where
  "SubmitJob E sv u req w =
     (case Submit E sv u req w of
        (Inl e, w') \<Rightarrow> (Inl (connectError e), w')
      | (Inr j, w') \<Rightarrow> (Inr (jobToProto j, SessionString j), w'))"

definition GetJob :: "'s Service \<Rightarrow> string \<Rightarrow> 's World \<Rightarrow> ProtoJob result" where
  "GetJob sv i w = (case svc_Get sv i w of Inl e \<Rightarrow> Inl (connectError e) | Inr j \<Rightarrow> Inr (jobToProto j))"

definition list_limit :: "int \<Rightarrow> int" where
  "list_limit req =
     (let limit = (if req \<le> 0 then defaultListLimit else req)
      in if maxListLimit < limit then maxListLimit else limit)"

definition ListJobs :: "'s Service \<Rightarrow> int \<Rightarrow> string \<Rightarrow> 's World \<Rightarrow> (ProtoJob list \<times> string) result" where
  "ListJobs sv limit pageToken w =
     (case svc_List sv (list_limit limit) pageToken w of
        Inl e \<Rightarrow> Inl (connectError e)
      | Inr (jobs, next) \<Rightarrow> Inr (map jobToProto jobs, next))"

text \<open>
  What reaches the loop of \<open>WatchJob\<close>: the next event of the watch, or the end of the
  request's context. The list ending is the watch channel closing. \<open>send n\<close> is the
  outcome of the \<open>n\<close>-th write to the client.
\<close>

datatype watch_input = WEvent Event | WDone goerror

fun watch_loop :: "(nat \<Rightarrow> goerror option) \<Rightarrow> nat \<Rightarrow> watch_input list \<Rightarrow> ProtoEvent list \<times> goerror option" where
  "watch_loop send n [] = ([], None)"
| "watch_loop send n (WDone e # ins) = ([], Some e)"
| "watch_loop send n (WEvent ev # ins) =
     (case send n of
        Some e \<Rightarrow> ([eventToProto ev], Some e)
      | None \<Rightarrow> (let (out, r) = watch_loop send (n + 1) ins in (eventToProto ev # out, r)))"

text \<open>The inputs depend on the source the watch gives; \<open>None\<close> is a call that blocks for ever.\<close>

definition WatchJob ::
  "'s Service \<Rightarrow> (nat \<Rightarrow> 's World \<Rightarrow> 's World) \<Rightarrow> (nat \<Rightarrow> goerror option) \<Rightarrow> (watch_source \<Rightarrow> watch_input list) \<Rightarrow>
   string \<Rightarrow> string \<Rightarrow> 's World \<Rightarrow> ((ProtoEvent list \<times> goerror option) \<times> 's World) option" where
  "WatchJob sv gap send src i afterID w =
     (case svc_Watch sv gap i afterID w of
        None \<Rightarrow> None
      | Some (Inl e, w') \<Rightarrow> Some (([], Some (connectError e)), w')
      | Some (Inr ch, w') \<Rightarrow> Some (watch_loop send 0 (src ch), w'))"

definition CancelJob ::
  "env \<Rightarrow> 's Service \<Rightarrow> (nat \<Rightarrow> 's World \<Rightarrow> 's World) \<Rightarrow> string \<Rightarrow> 's World \<Rightarrow> ProtoJob result \<times> 's World" where
  "CancelJob E sv gap i w =
     (case Cancel E sv gap i w of
        (Inl e, w') \<Rightarrow> (Inl (connectError e), w')
      | (Inr j, w') \<Rightarrow> (Inr (jobToProto j), w'))"

definition ListPermissionRequests :: "'s Service \<Rightarrow> string \<Rightarrow> 's World \<Rightarrow> ProtoPermission list result" where
  "ListPermissionRequests sv i w =
     (case svc_ListPermissions sv i w of
        Inl e \<Rightarrow> Inl (connectError e)
      | Inr perms \<Rightarrow> Inr (map permissionToProto perms))"

definition api_AnswerPermission ::
  "env \<Rightarrow> 's Service \<Rightarrow> (nat \<Rightarrow> 's World \<Rightarrow> 's World) \<Rightarrow> string \<Rightarrow> string \<Rightarrow> bool \<Rightarrow> string \<Rightarrow> 's World \<Rightarrow>
   ProtoPermission result \<times> 's World" where
  "api_AnswerPermission E sv gap i requestID allow reason w =
     (case AnswerPermission E sv gap i requestID allow reason w of
        (Inl e, w') \<Rightarrow> (Inl (connectError e), w')
      | (Inr p, w') \<Rightarrow> (Inr (permissionToProto p), w'))"

section \<open>Facts\<close>

lemma statusToProto_inj: "named_status s \<Longrightarrow> named_status t \<Longrightarrow> statusToProto s = statusToProto t \<Longrightarrow> s = t"
  by (cases s; cases t) simp_all

lemma list_limit_bounds: "1 \<le> list_limit n" "list_limit n \<le> 100"
  by (simp_all add: list_limit_def Let_def defaultListLimit_def maxListLimit_def)

text \<open>Wire records do not depend on the bearer token of a job.\<close>

lemma jobToProto_token [simp]: "jobToProto (j\<lparr>j_HarnessToken := t\<rparr>) = jobToProto j"
  by (simp add: jobToProto_def)

lemma watch_loop_all:
  "watch_loop (\<lambda>_. None) n (map WEvent evs) = (map eventToProto evs, None)"
  by (induction evs arbitrary: n) simp_all

end
