(* ===== verification/WebView.thy ===== *)
theory WebView
  imports GoTime JsonText Api
begin

text \<open>
  The view models of \<open>src/internal/web/view.go\<close> and the event stream format of
  \<open>src/internal/web/sse.go\<close>. Templates are assets: a page is the data its template
  is given. The offset of the local time zone at an instant, in minutes, and the
  current time are arguments.
\<close>

section \<open>Text\<close>

text \<open>
  The conversion of a string to runes, each kept as its encoding: an ill-formed byte is
  the replacement character.
\<close>

function runes :: "string \<Rightarrow> string list" where
  "runes [] = []"
| "runes (c # cs) =
     (let n = utf8_len (c # cs)
      in if n = 0 then replacement # runes cs else take n (c # cs) # runes (drop n (c # cs)))"
  by pat_completeness auto
termination by (relation "measure length") auto

declare runes.simps [simp del]

lemma runes_Nil [simp]: "runes [] = []"
  by (simp add: runes.simps)

definition RuneCountInString :: "string \<Rightarrow> nat" where
  "RuneCountInString s = length (runes s)"

definition promptTruncateLen :: nat where
  "promptTruncateLen = 140"

definition ellipsis :: string where
  "ellipsis = [CHR 0xE2, CHR 0x80, CHR 0xA6]"

definition truncate_text :: "string \<Rightarrow> nat \<Rightarrow> string" where
  "truncate_text s n = (if RuneCountInString s \<le> n then s else concat (take n (runes s)) @ ellipsis)"

section \<open>Times\<close>

definition formatTime :: "(gotime \<Rightarrow> int) \<Rightarrow> gotime \<Rightarrow> string" where
  "formatTime zone t =
     (if IsZero t then []
      else let secs = (t + zone t * Minute) div Second
           in date_text (secs div 86400) @ CHR '' '' # clock_text (secs mod 86400))"

text \<open>\<open>Duration.Round\<close> away from zero on a tie, saturating.\<close>

definition duration_Round :: "duration \<Rightarrow> duration \<Rightarrow> duration" where
  "duration_Round d m =
     (if m \<le> 0 then d
      else if d < 0 then
        (let r = (- d) mod m
         in if r + r < m then d + r else if min_int64 \<le> d - m + r then d - m + r else min_int64)
      else
        (let r = d mod m
         in if r + r < m then d - r else if d + m - r \<le> max_int64 then d + m - r else max_int64))"

text \<open>\<open>Duration.String\<close> of zero and of durations of a second and more.\<close>

definition duration_String :: "duration \<Rightarrow> string" where
  "duration_String d =
     (let u = \<bar>d\<bar>; secs = u div Second; h = secs div 3600; m = secs div 60 mod 60
      in (if d < 0 then ''-'' else []) @
         (if 0 < h then itoa h @ ''h'' else []) @
         (if 0 < secs div 60 then itoa m @ ''m'' else []) @
         itoa (secs mod 60) @ frac_text (u mod Second) @ ''s'')"

definition formatAge :: "gotime \<Rightarrow> gotime \<Rightarrow> string" where
  "formatAge current t =
     (if IsZero t then [] else duration_String (duration_Round (time_Sub current t) Second) @ '' ago'')"

section \<open>Pages\<close>

definition statusClass :: "string \<Rightarrow> string" where
  "statusClass status =
     (case status_of_string status of
        StatusQueued \<Rightarrow> ''pending''
      | StatusLaunching \<Rightarrow> ''pending''
      | StatusAwaitingHarness \<Rightarrow> ''pending''
      | StatusRunning \<Rightarrow> ''running''
      | StatusSucceeded \<Rightarrow> ''succeeded''
      | StatusFailed \<Rightarrow> ''failed''
      | StatusCancelled \<Rightarrow> ''cancelled''
      | StatusOther _ \<Rightarrow> ''pending'')"

record formValues =
  fv_Prompt :: string
  fv_Profile :: string
  fv_RunConfigJSON :: string

record jobRow =
  jr_ID :: string
  jr_Status :: string
  jr_Prompt :: string
  jr_CreatedAt :: string
  jr_FinishedAt :: string
  jr_StopReason :: string

record indexData =
  id_Title :: string
  id_Jobs :: "jobRow list"
  id_Form :: formValues
  id_Error :: string

record jobDetail =
  jd_ID :: string
  jd_Status :: string
  jd_Terminal :: bool
  jd_Prompt :: string
  jd_Profile :: string
  jd_FinalText :: string
  jd_StopReason :: string
  jd_Error :: string
  jd_CreatedAt :: string
  jd_StartedAt :: string
  jd_FinishedAt :: string
  jd_LastEventAge :: string

record permissionRow =
  pw_RequestID :: string
  pw_ToolName :: string
  pw_InputJSON :: string
  pw_State :: string
  pw_Reason :: string
  pw_RequestedAt :: string
  pw_AnsweredAt :: string

record detailData =
  dd_Title :: string
  dd_Job :: jobDetail
  dd_Permissions :: "permissionRow list"

record errorData =
  xd_Title :: string
  xd_Status :: int
  xd_Message :: string

definition newJobRow :: "(gotime \<Rightarrow> int) \<Rightarrow> Job \<Rightarrow> jobRow" where
  "newJobRow zone j =
     \<lparr>jr_ID = j_ID j, jr_Status = status_string (j_Status j),
      jr_Prompt = truncate_text (j_Prompt j) promptTruncateLen,
      jr_CreatedAt = formatTime zone (j_CreatedAt j), jr_FinishedAt = formatTime zone (j_FinishedAt j),
      jr_StopReason = j_StopReason j\<rparr>"

definition newJobDetail :: "(gotime \<Rightarrow> int) \<Rightarrow> gotime \<Rightarrow> Job \<Rightarrow> jobDetail" where
  "newJobDetail zone current j =
     \<lparr>jd_ID = j_ID j, jd_Status = status_string (j_Status j), jd_Terminal = Terminal (j_Status j),
      jd_Prompt = j_Prompt j, jd_Profile = j_Profile j, jd_FinalText = j_FinalText j,
      jd_StopReason = j_StopReason j, jd_Error = j_Error j,
      jd_CreatedAt = formatTime zone (j_CreatedAt j), jd_StartedAt = formatTime zone (j_StartedAt j),
      jd_FinishedAt = formatTime zone (j_FinishedAt j), jd_LastEventAge = formatAge current (j_LastEventAt j)\<rparr>"

definition newPermissionRow :: "(gotime \<Rightarrow> int) \<Rightarrow> PermissionRequest \<Rightarrow> permissionRow" where
  "newPermissionRow zone p =
     \<lparr>pw_RequestID = p_RequestID p, pw_ToolName = p_ToolName p, pw_InputJSON = p_InputJSON p,
      pw_State = permission_state_string (p_State p), pw_Reason = p_Reason p,
      pw_RequestedAt = formatTime zone (p_RequestedAt p), pw_AnsweredAt = formatTime zone (p_AnsweredAt p)\<rparr>"

definition newPermissionRows :: "(gotime \<Rightarrow> int) \<Rightarrow> PermissionRequest list \<Rightarrow> permissionRow list" where
  "newPermissionRows zone perms = map (newPermissionRow zone) perms"

section \<open>The event stream\<close>

text \<open>The expression \<open>^[a-z0-9_]{1,64}$\<close>.\<close>

definition sse_type_char :: "char \<Rightarrow> bool" where
  "sse_type_char c \<longleftrightarrow>
     97 \<le> (of_char c :: nat) \<and> (of_char c :: nat) \<le> 122 \<or> is_digit c \<or> c = CHR ''_''"

definition sseTypeRe :: "string \<Rightarrow> bool" where
  "sseTypeRe s \<longleftrightarrow> 1 \<le> length s \<and> length s \<le> 64 \<and> list_all sse_type_char s"

definition sse_line :: "string \<Rightarrow> string \<Rightarrow> string" where
  "sse_line name v = name @ '': '' @ v @ [newline]"

definition writeSSEEvent :: "Event \<Rightarrow> string" where
  "writeSSEEvent ev =
     (let typ = (if \<not> sseTypeRe (e_Type ev) then ''unknown'' else e_Type ev);
          payload = (if e_PayloadJSON ev = [] then ''{}'' else e_PayloadJSON ev)
      in sse_line ''id'' (e_ID ev) @ sse_line ''event'' typ @
         concat (map (sse_line ''data'') (strings_Split newline payload)) @ [newline])"

end
