(* ===== verification/Web.thy ===== *)
theory Web
  imports WebView
begin

text \<open>
  The operator's web interface, \<open>src/internal/web\<close>: routing, handlers, the same-origin
  check and the rewriting of error responses.

  A handler is the list of calls it makes on its \<open>http.ResponseWriter\<close>, which it never
  reads from; a writer is what such calls do. Form decoding is part of the request. The
  static file server is an argument, as is the parsing of an IP literal in brackets.
\<close>

section \<open>Response writers\<close>

datatype page =
    IndexPage indexData
  | DetailPage detailData
  | ErrorPage errorData

datatype chunk = Page page | Bytes string

datatype rw_call =
    SetHeader string string
  | WriteHeader int
  | WriteBody chunk
  | Flush

text \<open>The server's own writer: headers are fixed by the first status.\<close>

record writer =
  wr_header :: "string \<Rightarrow> string option"
  wr_sent :: "(int \<times> (string \<Rightarrow> string option)) option"
  wr_body :: "chunk list"

definition new_writer :: writer where
  "new_writer = \<lparr>wr_header = Map.empty, wr_sent = None, wr_body = []\<rparr>"

definition send_status :: "int \<Rightarrow> writer \<Rightarrow> writer" where
  "send_status status w = (if wr_sent w = None then w\<lparr>wr_sent := Some (status, wr_header w)\<rparr> else w)"

fun writer_call :: "rw_call \<Rightarrow> writer \<Rightarrow> writer" where
  "writer_call (SetHeader k v) w = w\<lparr>wr_header := (wr_header w)(k \<mapsto> v)\<rparr>"
| "writer_call (WriteHeader status) w = send_status status w"
| "writer_call (WriteBody c) w = (send_status 200 w)\<lparr>wr_body := wr_body w @ [c]\<rparr>"
| "writer_call Flush w = send_status 200 w"

section \<open>Rendering\<close>

definition web_render :: "page \<Rightarrow> int \<Rightarrow> rw_call list" where
  "web_render p status =
     [SetHeader ''Content-Type'' ''text/html; charset=utf-8'', WriteHeader status, WriteBody (Page p)]"

definition renderError :: "int \<Rightarrow> string \<Rightarrow> rw_call list" where
  "renderError status message =
     web_render (ErrorPage \<lparr>xd_Title = ''Error'', xd_Status = status, xd_Message = message\<rparr>) status"

text \<open>\<open>http.Error\<close>, and \<open>http.Redirect\<close> of a POST request to an absolute, clean path.\<close>

definition http_Error :: "string \<Rightarrow> int \<Rightarrow> rw_call list" where
  "http_Error msg code =
     [SetHeader ''Content-Type'' ''text/plain; charset=utf-8'', SetHeader ''X-Content-Type-Options'' ''nosniff'',
      WriteHeader code, WriteBody (Bytes (msg @ [newline]))]"

definition http_Redirect :: "string \<Rightarrow> int \<Rightarrow> rw_call list" where
  "http_Redirect url code = [SetHeader ''Location'' url, WriteHeader code]"

section \<open>Rewriting of error responses\<close>

record errorRewriter =
  er_inner :: writer
  er_handled :: bool

fun rewriter_call :: "rw_call \<Rightarrow> errorRewriter \<Rightarrow> errorRewriter" where
  "rewriter_call (WriteHeader status) e =
     (if status = 404 \<or> status = 405 then
        e\<lparr>er_handled := True,
          er_inner := fold writer_call
            (renderError status (if status = 405 then ''method not allowed'' else ''page not found'')) (er_inner e)\<rparr>
      else e\<lparr>er_inner := writer_call (WriteHeader status) (er_inner e)\<rparr>)"
| "rewriter_call (WriteBody c) e =
     (if er_handled e then e else e\<lparr>er_inner := writer_call (WriteBody c) (er_inner e)\<rparr>)"
| "rewriter_call (SetHeader k v) e = e\<lparr>er_inner := writer_call (SetHeader k v) (er_inner e)\<rparr>"
| "rewriter_call Flush e = e\<lparr>er_inner := writer_call Flush (er_inner e)\<rparr>"

section \<open>Requests\<close>

text \<open>
  The path is the list of its decoded segments, \<open>''/''\<close> being one empty segment.
  \<open>rq_form\<close> is the outcome of \<open>ParseForm\<close> with the values of the request body.
\<close>

record http_request =
  rq_method :: string
  rq_path :: "string list"
  rq_host :: string
  rq_origin :: string
  rq_lastEventID :: string
  rq_after :: string
  rq_form :: "(string \<times> string) list result"

definition PostFormValue :: "(string \<times> string) list \<Rightarrow> string \<Rightarrow> string" where
  "PostFormValue form k = (case map_of form k of None \<Rightarrow> [] | Some v \<Rightarrow> v)"

text \<open>What else happens while a request is served.\<close>

datatype sse_input = SEvent Event | SHeartbeat | SDone

record 's surroundings =
  sr_gap :: "nat \<Rightarrow> 's World \<Rightarrow> 's World"
  sr_submit :: submit_input
  sr_now :: gotime
  sr_source :: "watch_source \<Rightarrow> sse_input list"

record 's handler =
  h_env :: env
  h_svc :: "'s Service"
  h_zone :: "gotime \<Rightarrow> int"
  h_static :: "http_request \<Rightarrow> rw_call list"
  h_ip_literal :: "string \<Rightarrow> string option"

text \<open>The expression \<open>^hp-[0-9a-z]{26}$\<close>.\<close>

definition validJobID :: "string \<Rightarrow> bool" where
  "validJobID i \<longleftrightarrow>
     (let rest = drop 3 i
      in take 3 i = ''hp-'' \<and> length rest = 26 \<and>
         list_all (\<lambda>c. is_digit c \<or> 97 \<le> (of_char c :: nat) \<and> (of_char c :: nat) \<le> 122) rest)"

section \<open>Handlers\<close>

definition jobListLimit :: int where
  "jobListLimit = 50"

definition renderIndex :: "'s handler \<Rightarrow> int \<Rightarrow> formValues \<Rightarrow> string \<Rightarrow> 's World \<Rightarrow> rw_call list" where
  "renderIndex h status form errMsg w =
     (case svc_List (h_svc h) jobListLimit [] w of
        Inl _ \<Rightarrow> renderError 500 ''failed to list jobs''
      | Inr (jobs, _) \<Rightarrow>
          web_render (IndexPage \<lparr>id_Title = ''Jobs'', id_Jobs = map (newJobRow (h_zone h)) jobs,
                                 id_Form = form, id_Error = errMsg\<rparr>) status)"

definition no_form :: formValues where
  "no_form = \<lparr>fv_Prompt = [], fv_Profile = [], fv_RunConfigJSON = []\<rparr>"

definition web_index :: "'s handler \<Rightarrow> 's World \<Rightarrow> rw_call list" where
  "web_index h w = renderIndex h 200 no_form [] w"

definition web_submit ::
  "'s handler \<Rightarrow> 's surroundings \<Rightarrow> http_request \<Rightarrow> 's World \<Rightarrow> rw_call list \<times> 's World" where
  "web_submit h x r w =
     (case rq_form r of
        Inl _ \<Rightarrow> (renderIndex h 400 no_form ''invalid form submission'' w, w)
      | Inr vals \<Rightarrow>
          let form = \<lparr>fv_Prompt = PostFormValue vals ''prompt'', fv_Profile = PostFormValue vals ''profile'',
                      fv_RunConfigJSON = PostFormValue vals ''run_config_json''\<rparr>
          in if TrimSpace (fv_Prompt form) = [] \<and> TrimSpace (fv_RunConfigJSON form) = [] then
               (renderIndex h 400 form ''prompt or run config JSON is required'' w, w)
             else
               (case Submit (h_env h) (h_svc h) (sr_submit x)
                       \<lparr>sp_Prompt = fv_Prompt form, sp_Profile = fv_Profile form,
                        sp_RunConfigJSON = fv_RunConfigJSON form, sp_RepoScope = []\<rparr> w of
                  (Inl e, w') \<Rightarrow> (renderIndex h 400 form (Error e) (sr_gap x 0 w'), sr_gap x 0 w')
                | (Inr j, w') \<Rightarrow> (http_Redirect (''/jobs/'' @ j_ID j) 303, w')))"

definition web_detail :: "'s handler \<Rightarrow> 's surroundings \<Rightarrow> string \<Rightarrow> 's World \<Rightarrow> rw_call list \<times> 's World" where
  "web_detail h x i w =
     (if \<not> validJobID i then (renderError 400 ''invalid job id'', w)
      else case svc_Get (h_svc h) i w of
             Inl e \<Rightarrow>
               (if errors_Is e ErrNotFound then renderError 404 ''job not found''
                else renderError 500 ''failed to load job'', w)
           | Inr j \<Rightarrow>
               let w' = sr_gap x 0 w
               in (case svc_ListPermissions (h_svc h) i w' of
                     Inl _ \<Rightarrow> renderError 500 ''failed to load permission requests''
                   | Inr perms \<Rightarrow>
                       web_render (DetailPage \<lparr>dd_Title = j_ID j, dd_Job = newJobDetail (h_zone h) (sr_now x) j,
                                               dd_Permissions = newPermissionRows (h_zone h) perms\<rparr>) 200, w'))"

definition web_cancel :: "'s handler \<Rightarrow> 's surroundings \<Rightarrow> string \<Rightarrow> 's World \<Rightarrow> rw_call list \<times> 's World" where
  "web_cancel h x i w =
     (if \<not> validJobID i then (renderError 400 ''invalid job id'', w)
      else case Cancel (h_env h) (h_svc h) (sr_gap x) i w of
             (Inl e, w') \<Rightarrow>
               (if errors_Is e ErrNotFound then renderError 404 ''job not found''
                else renderError 500 ''failed to cancel job'', w')
           | (Inr _, w') \<Rightarrow> (http_Redirect (''/jobs/'' @ i) 303, w'))"

definition web_answerPermission ::
  "'s handler \<Rightarrow> 's surroundings \<Rightarrow> http_request \<Rightarrow> string \<Rightarrow> string \<Rightarrow> 's World \<Rightarrow> rw_call list \<times> 's World" where
  "web_answerPermission h x r i requestID w =
     (if \<not> validJobID i \<or> requestID = [] then (renderError 400 ''invalid permission request'', w)
      else case rq_form r of
             Inl _ \<Rightarrow> (renderError 400 ''invalid form submission'', w)
           | Inr vals \<Rightarrow>
               (case AnswerPermission (h_env h) (h_svc h) (sr_gap x) i requestID
                       (PostFormValue vals ''allow'' = ''true'') (PostFormValue vals ''reason'') w of
                  (Inl e, w') \<Rightarrow>
                    (if errors_Is e ErrNotFound then renderError 404 ''permission request not found''
                     else renderError 500 ''failed to answer permission request'', w')
                | (Inr _, w') \<Rightarrow> (http_Redirect (''/jobs/'' @ i) 303, w')))"

text \<open>The list of inputs ending is the watch channel closing.\<close>

definition sse_eof :: string where
  "sse_eof = ''event: eof'' @ [newline] @ ''data: {}'' @ [newline, newline]"

definition sse_heartbeat :: string where
  "sse_heartbeat = '': heartbeat'' @ [newline, newline]"

fun sse_loop :: "sse_input list \<Rightarrow> rw_call list" where
  "sse_loop [] = [WriteBody (Bytes sse_eof), Flush]"
| "sse_loop (SEvent ev # ins) = [WriteBody (Bytes (writeSSEEvent ev)), Flush] @ sse_loop ins"
| "sse_loop (SHeartbeat # ins) = [WriteBody (Bytes sse_heartbeat), Flush] @ sse_loop ins"
| "sse_loop (SDone # ins) = []"

definition sse_headers :: "rw_call list" where
  "sse_headers =
     [SetHeader ''Content-Type'' ''text/event-stream'', SetHeader ''Cache-Control'' ''no-cache'',
      SetHeader ''Connection'' ''keep-alive'', SetHeader ''X-Accel-Buffering'' ''no'', WriteHeader 200, Flush]"

text \<open>
  The writer is always the rewriter, which can flush, so the branch for one that cannot
  is left out. \<open>None\<close> is a watch that blocks for ever.
\<close>

definition web_events ::
  "'s handler \<Rightarrow> 's surroundings \<Rightarrow> http_request \<Rightarrow> string \<Rightarrow> 's World \<Rightarrow> (rw_call list \<times> 's World) option" where
  "web_events h x r i w =
     (if \<not> validJobID i then Some (renderError 400 ''invalid job id'', w)
      else
        let afterID = (if rq_lastEventID r = [] then rq_after r else rq_lastEventID r)
        in case svc_Watch (h_svc h) (sr_gap x) i afterID w of
             None \<Rightarrow> None
           | Some (Inl e, w') \<Rightarrow>
               Some (if errors_Is e ErrNotFound then renderError 404 ''job not found''
                     else renderError 500 ''failed to watch job'', w')
           | Some (Inr ch, w') \<Rightarrow> Some (sse_headers @ sse_loop (sr_source x ch), w'))"

section \<open>Routing\<close>

datatype route =
    RIndex
  | RSubmit
  | RDetail string
  | REvents string
  | RCancel string
  | RAnswer string string
  | RStatic

text \<open>
  The pattern a path matches, with its method: at most one does. A wildcard takes one
  non-empty segment. \<open>''/static''\<close> itself is redirected below, which the file server's
  argument answers too.
\<close>

fun pattern :: "string list \<Rightarrow> (string \<times> route) option" where
  "pattern [a] =
     (if a = [] then Some (''GET'', RIndex)
      else if a = ''jobs'' then Some (''POST'', RSubmit)
      else if a = ''static'' then Some (''GET'', RStatic)
      else None)"
| "pattern [a, b] =
     (if a = ''jobs'' \<and> b \<noteq> [] then Some (''GET'', RDetail b)
      else if a = ''static'' then Some (''GET'', RStatic)
      else None)"
| "pattern [a, b, c] =
     (if a = ''jobs'' \<and> b \<noteq> [] \<and> c = ''events'' then Some (''GET'', REvents b)
      else if a = ''jobs'' \<and> b \<noteq> [] \<and> c = ''cancel'' then Some (''POST'', RCancel b)
      else if a = ''static'' then Some (''GET'', RStatic)
      else None)"
| "pattern [a, b, c, d] =
     (if a = ''jobs'' \<and> b \<noteq> [] \<and> c = ''permissions'' \<and> d \<noteq> [] then Some (''POST'', RAnswer b d)
      else if a = ''static'' then Some (''GET'', RStatic)
      else None)"
| "pattern (a # _) = (if a = ''static'' then Some (''GET'', RStatic) else None)"
| "pattern [] = None"

definition handle_route ::
  "'s handler \<Rightarrow> 's surroundings \<Rightarrow> http_request \<Rightarrow> route \<Rightarrow> 's World \<Rightarrow> (rw_call list \<times> 's World) option" where
  "handle_route h x r rt w =
     (case rt of
        RIndex \<Rightarrow> Some (web_index h w, w)
      | RSubmit \<Rightarrow> Some (web_submit h x r w)
      | RDetail i \<Rightarrow> Some (web_detail h x i w)
      | REvents i \<Rightarrow> web_events h x r i w
      | RCancel i \<Rightarrow> Some (web_cancel h x i w)
      | RAnswer i q \<Rightarrow> Some (web_answerPermission h x r i q w)
      | RStatic \<Rightarrow> Some (h_static h r, w))"

text \<open>The mux answers a path it does not know with 404, a method it does not with 405.\<close>

definition serve_mux ::
  "'s handler \<Rightarrow> 's surroundings \<Rightarrow> http_request \<Rightarrow> 's World \<Rightarrow> (rw_call list \<times> 's World) option" where
  "serve_mux h x r w =
     (case pattern (rq_path r) of
        None \<Rightarrow> Some (http_Error ''404 page not found'' 404, w)
      | Some (m, rt) \<Rightarrow>
          if rq_method r = m \<or> m = ''GET'' \<and> rq_method r = ''HEAD'' then handle_route h x r rt w
          else Some (SetHeader ''Allow'' (if m = ''GET'' then ''GET, HEAD'' else m) #
                     http_Error ''Method Not Allowed'' 405, w))"

definition notFoundInterceptor ::
  "(http_request \<Rightarrow> 'w \<Rightarrow> (rw_call list \<times> 'w) option) \<Rightarrow> http_request \<Rightarrow> writer \<Rightarrow> 'w \<Rightarrow> (writer \<times> 'w) option" where
  "notFoundInterceptor next r rw w =
     map_option (\<lambda>(calls, w'). (er_inner (fold rewriter_call calls \<lparr>er_inner = rw, er_handled = False\<rparr>), w'))
       (next r w)"

section \<open>The same-origin check\<close>

definition is_letter :: "char \<Rightarrow> bool" where
  "is_letter c \<longleftrightarrow>
     65 \<le> (of_char c :: nat) \<and> (of_char c :: nat) \<le> 90 \<or> 97 \<le> (of_char c :: nat) \<and> (of_char c :: nat) \<le> 122"

definition scheme_char :: "char \<Rightarrow> bool" where
  "scheme_char c \<longleftrightarrow> is_letter c \<or> is_digit c \<or> c \<in> set ''+-.''"

text \<open>\<open>getScheme\<close>: the scheme and the rest; no scheme is the empty one.\<close>

definition getScheme :: "string \<Rightarrow> (string \<times> string) option" where
  "getScheme raw =
     (let rest = dropWhile scheme_char raw
      in if raw = [] then Some ([], [])
         else if hd raw = CHR '':'' then None
         else if is_letter (hd raw) \<and> rest \<noteq> [] \<and> hd rest = CHR '':'' then Some (takeWhile scheme_char raw, tl rest)
         else Some ([], raw))"

fun escapes_ok :: "string \<Rightarrow> bool" where
  "escapes_ok [] \<longleftrightarrow> True"
| "escapes_ok (c # cs) \<longleftrightarrow>
     (if c = CHR ''%''
      then (case cs of a # b # r \<Rightarrow> hex_val a \<noteq> None \<and> hex_val b \<noteq> None | _ \<Rightarrow> False) \<and> escapes_ok cs
      else escapes_ok cs)"

definition host_char :: "char \<Rightarrow> bool" where
  "host_char c \<longleftrightarrow>
     128 \<le> (of_char c :: nat) \<or> is_letter c \<or> is_digit c \<or>
     c \<in> set (''!$&()*+,;=:[]<>-_.~'' @ [CHR 0x27, CHR 0x22])"

text \<open>A host may escape bytes from \<open>0x80\<close> on, and the percent sign.\<close>

fun unescape_host :: "string \<Rightarrow> string option" where
  "unescape_host [] = Some []"
| "unescape_host (c # cs) =
     (if c = CHR ''%'' then
        (case cs of
           a # b # r \<Rightarrow>
             (case (hex_val a, hex_val b) of
                (Some m, Some n) \<Rightarrow>
                  if m < 8 \<and> 16 * m + n \<noteq> 37 then None
                  else map_option ((#) (char_of (16 * m + n))) (unescape_host r)
              | _ \<Rightarrow> None)
         | _ \<Rightarrow> None)
      else if host_char c then map_option ((#) c) (unescape_host cs)
      else None)"

definition after_last :: "char \<Rightarrow> string \<Rightarrow> string" where
  "after_last c s = rev (takeWhile (\<lambda>d. d \<noteq> c) (rev s))"

definition before_last :: "char \<Rightarrow> string \<Rightarrow> string" where
  "before_last c s = rev (tl (dropWhile (\<lambda>d. d \<noteq> c) (rev s)))"

definition parse_host :: "(string \<Rightarrow> string option) \<Rightarrow> string \<Rightarrow> string option" where
  "parse_host ipl host =
     (if host \<noteq> [] \<and> hd host = CHR ''['' then ipl host
      else if CHR '':'' \<in> set host \<and> \<not> list_all is_digit (after_last CHR '':'' host) then None
      else unescape_host host)"

definition userinfo_char :: "char \<Rightarrow> bool" where
  "userinfo_char c \<longleftrightarrow> is_letter c \<or> is_digit c \<or> c \<in> set (''-._:~!$&()*+,;=%@'' @ [CHR 0x27])"

definition parse_authority :: "(string \<Rightarrow> string option) \<Rightarrow> string \<Rightarrow> string option" where
  "parse_authority ipl a =
     (if CHR ''@'' \<notin> set a then parse_host ipl a
      else let user = before_last CHR ''@'' a
           in if list_all userinfo_char user \<and> escapes_ok user then parse_host ipl (after_last CHR ''@'' a) else None)"

text \<open>\<open>url.Parse\<close>, of which only \<open>Host\<close> is used; \<open>None\<close> is its error.\<close>

definition parse_without_fragment :: "(string \<Rightarrow> string option) \<Rightarrow> string \<Rightarrow> string option" where
  "parse_without_fragment ipl u =
     (if \<not> list_all (\<lambda>c. 32 \<le> (of_char c :: nat) \<and> (of_char c :: nat) \<noteq> 127) u then None
      else if u = ''*'' then Some []
      else case getScheme u of
             None \<Rightarrow> None
           | Some (scheme, rest0) \<Rightarrow>
               let rest = takeWhile (\<lambda>c. c \<noteq> CHR ''?'') rest0
               in if rest = [] \<or> hd rest \<noteq> CHR ''/'' then
                    (if scheme \<noteq> [] then Some []
                     else if CHR '':'' \<in> set (takeWhile (\<lambda>c. c \<noteq> CHR ''/'') rest) then None
                     else if escapes_ok rest then Some [] else None)
                  else if take 2 rest = ''//'' \<and> (scheme \<noteq> [] \<or> take 3 rest \<noteq> ''///'') then
                    (case parse_authority ipl (takeWhile (\<lambda>c. c \<noteq> CHR ''/'') (drop 2 rest)) of
                       None \<Rightarrow> None
                     | Some host \<Rightarrow>
                         if escapes_ok (dropWhile (\<lambda>c. c \<noteq> CHR ''/'') (drop 2 rest)) then Some host else None)
                  else if escapes_ok rest then Some [] else None)"

definition url_Host :: "(string \<Rightarrow> string option) \<Rightarrow> string \<Rightarrow> string option" where
  "url_Host ipl raw =
     (case parse_without_fragment ipl (takeWhile (\<lambda>c. c \<noteq> CHR ''#'') raw) of
        None \<Rightarrow> None
      | Some host \<Rightarrow> if escapes_ok (dropWhile (\<lambda>c. c \<noteq> CHR ''#'') raw) then Some host else None)"

definition ui_headers :: "rw_call list" where
  "ui_headers =
     [SetHeader ''X-Frame-Options'' ''DENY'', SetHeader ''X-Content-Type-Options'' ''nosniff'',
      SetHeader ''Content-Security-Policy'' (''default-src '' @ [CHR 0x27] @ ''self'' @ [CHR 0x27])]"

definition protectUI ::
  "(string \<Rightarrow> string option) \<Rightarrow> (http_request \<Rightarrow> writer \<Rightarrow> 'w \<Rightarrow> (writer \<times> 'w) option) \<Rightarrow>
   http_request \<Rightarrow> writer \<Rightarrow> 'w \<Rightarrow> (writer \<times> 'w) option" where
  "protectUI ipl next r rw w =
     (let rw' = fold writer_call ui_headers rw
      in if rq_method r \<noteq> ''GET'' \<and> rq_method r \<noteq> ''HEAD'' \<and> rq_origin r \<noteq> [] \<and>
            url_Host ipl (rq_origin r) \<noteq> Some (rq_host r)
         then Some (fold writer_call (http_Error ''cross-origin request rejected'' 403) rw', w)
         else next r rw' w)"

definition NewWeb ::
  "'s handler \<Rightarrow> 's surroundings \<Rightarrow> http_request \<Rightarrow> writer \<Rightarrow> 's World \<Rightarrow> (writer \<times> 's World) option" where
  "NewWeb h x = protectUI (h_ip_literal h) (notFoundInterceptor (serve_mux h x))"

end
