(* ===== verification/WebSpec.thy ===== *)
theory WebSpec
  imports Web MemSpec
begin

text \<open>
  What the web interface promises: a browser's event source reads back exactly the events
  of the watch, prompts are cut between characters, state changes only answer same-origin
  POST requests, and a 404 is always the generic page.
\<close>

section \<open>Reading an event stream\<close>

text \<open>
  The event source of the HTML standard: a stream is cut into lines at CR, LF or CRLF; a
  blank line dispatches the fields gathered so far; the last event identifier stays. An
  unfinished block at the end is dropped.
\<close>

definition cr :: char where
  "cr = CHR 0x0D"

lemma newline_cr [simp]: "newline \<noteq> cr" "cr \<noteq> newline"
  by (simp_all add: newline_def cr_def)

text \<open>
  The finished lines; an unfinished last one is dropped. The flag says that the previous
  character was a CR, which a line feed then belongs to.
\<close>

fun sse_lines :: "bool \<Rightarrow> string \<Rightarrow> string \<Rightarrow> string list" where
  "sse_lines b l [] = []"
| "sse_lines b l (c # cs) =
     (if c = newline then (if b then sse_lines False [] cs else l # sse_lines False [] cs)
      else if c = cr then l # sse_lines True [] cs
      else sse_lines False (l @ [c]) cs)"

definition sse_field :: "string \<Rightarrow> string \<times> string" where
  "sse_field l =
     (let (name, v, _) = strings_Cut l CHR '':'' in (name, case v of CHR '' '' # v' \<Rightarrow> v' | _ \<Rightarrow> v))"

definition join_lines :: "string list \<Rightarrow> string" where
  "join_lines ls = (case ls of [] \<Rightarrow> [] | l # ms \<Rightarrow> l @ concat (map ((#) newline) ms))"

fun sse_events :: "string \<Rightarrow> string \<Rightarrow> string list \<Rightarrow> string list \<Rightarrow> (string \<times> string \<times> string) list" where
  "sse_events i ty data [] = []"
| "sse_events i ty data (l # ls) =
     (if l = [] then
        (if data = [] then sse_events i [] [] ls
         else (i, if ty = [] then ''message'' else ty, join_lines data) # sse_events i [] [] ls)
      else
        let (name, v) = sse_field l
        in if name = ''event'' then sse_events i v data ls
           else if name = ''data'' then sse_events i ty (data @ [v]) ls
           else if name = ''id'' \<and> CHR 0x00 \<notin> set v then sse_events v ty data ls
           else sse_events i ty data ls)"

definition sse_read :: "string \<Rightarrow> string \<Rightarrow> (string \<times> string \<times> string) list" where
  "sse_read i s = sse_events i [] [] (sse_lines False [] s)"

section \<open>The stream reads back\<close>

definition plain_line :: "string \<Rightarrow> bool" where
  "plain_line s \<longleftrightarrow> newline \<notin> set s \<and> cr \<notin> set s"

lemma sse_lines_plain: "plain_line s \<Longrightarrow> sse_lines False l (s @ newline # r) = (l @ s) # sse_lines False [] r"
  by (induction s arbitrary: l) (auto simp: plain_line_def)

lemma plain_line_append [simp]: "plain_line (a @ b) \<longleftrightarrow> plain_line a \<and> plain_line b"
  by (auto simp: plain_line_def)

lemma sse_lines_field:
  assumes "plain_line name" and "plain_line v"
  shows "sse_lines False [] (sse_line name v @ r) = (name @ '': '' @ v) # sse_lines False [] r"
proof -
  have "plain_line (name @ '': '' @ v)" using assms by (simp add: plain_line_def newline_def cr_def)
  from sse_lines_plain [OF this, of "[]" r] show ?thesis by (simp add: sse_line_def)
qed

lemma sse_field_line: "CHR '':'' \<notin> set name \<Longrightarrow> sse_field (name @ '': '' @ v) = (name, v)"
  using strings_Cut_append [of "CHR '':''" name "CHR '' '' # v"] by (simp add: sse_field_def)

lemma join_split_lines [simp]: "join_lines (strings_Split newline s) = s"
proof (induction s)
  case (Cons c s)
  then show ?case by (cases "strings_Split newline s") (auto simp: join_lines_def)
qed (simp add: join_lines_def)

lemma split_lines_plain: "cr \<notin> set s \<Longrightarrow> list_all plain_line (strings_Split newline s)"
proof (induction s)
  case (Cons c s)
  then show ?case by (cases "strings_Split newline s") (auto simp: plain_line_def)
qed (simp add: plain_line_def)

lemma sse_lines_data:
  assumes "list_all plain_line ls"
  shows "sse_lines False [] (concat (map (sse_line ''data'') ls) @ r) = map (\<lambda>l. ''data: '' @ l) ls @ sse_lines False [] r"
  using assms
proof (induction ls)
  case (Cons l ls)
  have "plain_line ''data''" by (simp add: plain_line_def newline_def cr_def)
  with Cons sse_lines_field [of "''data''" l "concat (map (sse_line ''data'') ls) @ r"] show ?case by simp
qed simp

lemma sse_events_data:
  "sse_events i ty data (map (\<lambda>l. ''data: '' @ l) ls @ r) = sse_events i ty (data @ ls) r"
proof (induction ls arbitrary: data)
  case (Cons l ls)
  have "sse_field (''data: '' @ l) = (''data'', l)" using sse_field_line [of "''data''" l] by simp
  with Cons [of "data @ [l]"] show ?case by simp
qed simp

text \<open>What a client sees of an event.\<close>

definition sse_seen :: "Event \<Rightarrow> string \<times> string \<times> string" where
  "sse_seen ev =
     (e_ID ev, if sseTypeRe (e_Type ev) then e_Type ev else ''unknown'',
      if e_PayloadJSON ev = [] then ''{}'' else e_PayloadJSON ev)"

definition sse_clean :: "Event \<Rightarrow> bool" where
  "sse_clean ev \<longleftrightarrow> plain_line (e_ID ev) \<and> CHR 0x00 \<notin> set (e_ID ev) \<and> cr \<notin> set (e_PayloadJSON ev)"

lemma sse_type_plain: "sseTypeRe t \<Longrightarrow> plain_line t \<and> t \<noteq> []"
  by (auto simp: sseTypeRe_def plain_line_def list_all_iff sse_type_char_def is_digit_def newline_def cr_def)

lemma sse_read_event:
  assumes "sse_clean ev"
  shows "sse_read i (writeSSEEvent ev @ r) = sse_seen ev # sse_read (e_ID ev) r"
proof -
  define ty where "ty = (if \<not> sseTypeRe (e_Type ev) then ''unknown'' else e_Type ev)"
  define payload where "payload = (if e_PayloadJSON ev = [] then ''{}'' else e_PayloadJSON ev)"
  have lits: "plain_line ''id''" "plain_line ''event''" "plain_line ''unknown''" "cr \<notin> set ''{}''"
    by (simp_all add: plain_line_def newline_def cr_def)
  have ty: "plain_line ty" "ty \<noteq> []" using lits(3) sse_type_plain by (auto simp: ty_def)
  have ev: "plain_line (e_ID ev)" "CHR 0x00 \<notin> set (e_ID ev)" using assms by (simp_all add: sse_clean_def)
  have pl: "list_all plain_line (strings_Split newline payload)"
    using assms lits(4) by (intro split_lines_plain) (simp add: payload_def sse_clean_def)
  let ?rest = "concat (map (sse_line ''data'') (strings_Split newline payload)) @ newline # r"
  have "writeSSEEvent ev @ r = sse_line ''id'' (e_ID ev) @ sse_line ''event'' ty @ ?rest"
    by (simp add: writeSSEEvent_def Let_def ty_def payload_def)
  then have lines: "sse_lines False [] (writeSSEEvent ev @ r) =
      (''id: '' @ e_ID ev) # (''event: '' @ ty) # map (\<lambda>l. ''data: '' @ l) (strings_Split newline payload) @ [] # sse_lines False [] r"
    using sse_lines_field [OF lits(1) ev(1), of "sse_line ''event'' ty @ ?rest"]
      sse_lines_field [OF lits(2) ty(1), of ?rest] sse_lines_data [OF pl, of "newline # r"] by simp
  have "sse_field (''id: '' @ e_ID ev) = (''id'', e_ID ev)" "sse_field (''event: '' @ ty) = (''event'', ty)"
    using sse_field_line [of "''id''" "e_ID ev"] sse_field_line [of "''event''" ty] by simp_all
  then show ?thesis
    using ev ty(2) sse_events_data [of "e_ID ev" ty "[]" "strings_Split newline payload" "[] # sse_lines False [] r"]
    by (simp add: sse_read_def lines sse_seen_def ty_def payload_def)
qed

lemma sse_read_heartbeat: "sse_read i (sse_heartbeat @ r) = sse_read i r"
proof -
  have "plain_line '': heartbeat''" by (simp add: plain_line_def newline_def cr_def)
  from sse_lines_plain [OF this, of "[]" "newline # r"]
  show ?thesis by (simp add: sse_read_def sse_heartbeat_def sse_field_def)
qed

lemma sse_read_eof: "sse_read i sse_eof = [(i, ''eof'', ''{}'')]"
  by (simp add: sse_read_def sse_eof_def sse_field_def newline_def cr_def join_lines_def)

text \<open>The events of the watch, then the end marker, unless the client went away first.\<close>

fun sse_expected :: "string \<Rightarrow> sse_input list \<Rightarrow> (string \<times> string \<times> string) list" where
  "sse_expected i [] = [(i, ''eof'', ''{}'')]"
| "sse_expected i (SEvent ev # ins) = sse_seen ev # sse_expected (e_ID ev) ins"
| "sse_expected i (SHeartbeat # ins) = sse_expected i ins"
| "sse_expected i (SDone # ins) = []"

fun call_text :: "rw_call \<Rightarrow> string" where
  "call_text (WriteBody (Bytes s)) = s"
| "call_text _ = []"

definition calls_text :: "rw_call list \<Rightarrow> string" where
  "calls_text cs = concat (map call_text cs)"

lemma calls_text_simps [simp]:
  "calls_text [] = []" "calls_text (c # cs) = call_text c @ calls_text cs"
  by (simp_all add: calls_text_def)

lemma sse_loop_reads_back:
  assumes "\<And>ev. SEvent ev \<in> set ins \<Longrightarrow> sse_clean ev"
  shows "sse_read i (calls_text (sse_loop ins)) = sse_expected i ins"
  using assms
proof (induction ins arbitrary: i rule: sse_loop.induct)
  case (2 ev ins)
  then show ?case by (simp add: sse_read_event)
next
  case (3 ins)
  then show ?case by (simp add: sse_read_heartbeat)
next
  case (4 ins)
  show ?case by (simp add: sse_read_def)
qed (simp add: sse_read_eof)

section \<open>Writers\<close>

definition text_of :: "writer \<Rightarrow> string" where
  "text_of w = concat (map (\<lambda>c. case c of Bytes s \<Rightarrow> s | Page _ \<Rightarrow> []) (wr_body w))"

fun quiet_call :: "rw_call \<Rightarrow> bool" where
  "quiet_call (WriteHeader status) \<longleftrightarrow> status \<noteq> 404 \<and> status \<noteq> 405"
| "quiet_call _ \<longleftrightarrow> True"

text \<open>
  The interface \<open>http.ResponseWriter\<close> as the handlers use it: as long as a writer has not
  taken the response over, calls other than an error status reach the client as they are.
\<close>

locale response_writer =
  fixes rw_do :: "rw_call \<Rightarrow> 'w \<Rightarrow> 'w"
    and seen :: "'w \<Rightarrow> writer"
    and passing :: "'w \<Rightarrow> bool"
  assumes do_seen: "passing w \<Longrightarrow> quiet_call c \<Longrightarrow> seen (rw_do c w) = writer_call c (seen w)"
    and do_passing: "passing w \<Longrightarrow> quiet_call c \<Longrightarrow> passing (rw_do c w)"
begin

lemma fold_seen: "passing w \<Longrightarrow> list_all quiet_call cs \<Longrightarrow> seen (fold rw_do cs w) = fold writer_call cs (seen w)"
  by (induction cs arbitrary: w) (simp_all add: do_seen do_passing)

lemma page_seen:
  assumes "passing w" and "status \<noteq> 404" and "status \<noteq> 405" and "wr_sent (seen w) = None" and "wr_body (seen w) = []"
  shows "\<exists>hs. wr_sent (seen (fold rw_do (web_render p status) w)) = Some (status, hs) \<and>
    hs ''Content-Type'' = Some ''text/html; charset=utf-8'' \<and> wr_body (seen (fold rw_do (web_render p status) w)) = [Page p]"
proof -
  have "list_all quiet_call (web_render p status)" using assms(2,3) by (simp add: web_render_def)
  from fold_seen [OF assms(1) this] assms(4,5) show ?thesis by (simp add: web_render_def send_status_def)
qed

end

interpretation plain: response_writer writer_call "\<lambda>w. w" "\<lambda>_. True"
  by unfold_locales simp_all

interpretation rewriting: response_writer rewriter_call er_inner "\<lambda>e. \<not> er_handled e"
proof
  fix e :: errorRewriter and c
  assume "\<not> er_handled e" "quiet_call c"
  then show "er_inner (rewriter_call c e) = writer_call c (er_inner e)" "\<not> er_handled (rewriter_call c e)"
    by (cases c; simp)+
qed

lemma writer_call_text: "text_of (writer_call c w) = text_of w @ call_text c"
  by (cases c rule: call_text.cases) (auto simp: text_of_def send_status_def)

lemma fold_writer_text: "text_of (fold writer_call cs w) = text_of w @ calls_text cs"
  by (induction cs arbitrary: w) (simp_all add: writer_call_text)

lemma quiet_sse_loop: "list_all quiet_call (sse_headers @ sse_loop ins)"
proof -
  have "list_all quiet_call (sse_loop ins)" by (induction ins rule: sse_loop.induct) simp_all
  then show ?thesis by (simp add: sse_headers_def)
qed

lemma calls_text_sse: "calls_text (sse_headers @ sse_loop ins) = calls_text (sse_loop ins)"
  by (simp add: sse_headers_def)

section \<open>Truncation\<close>

definition is_rune :: "string \<Rightarrow> bool" where
  "is_rune e \<longleftrightarrow> e \<noteq> [] \<and> (\<forall>r. utf8_len (e @ r) = length e)"

lemma is_rune_replacement: "is_rune replacement"
  by (simp add: is_rune_def replacement_def utf8_len.simps byte_in_def)

lemma is_rune_take: "utf8_len s \<noteq> 0 \<Longrightarrow> is_rune (take (utf8_len s) s)"
  using utf8_len_take [of s] utf8_len_le [of s] by (auto simp: is_rune_def)

lemma runes_are_runes: "list_all is_rune (runes s)"
proof (induction s rule: runes.induct)
  case (2 c cs)
  then show ?case
    by (subst runes.simps) (auto simp: Let_def is_rune_replacement is_rune_take)
qed simp

lemma runes_rune: "is_rune e \<Longrightarrow> runes (e @ r) = e # runes r"
proof -
  assume e: "is_rune e"
  then obtain c cs where cs: "e = c # cs" by (cases e) (auto simp: is_rune_def)
  from e have "utf8_len (c # cs @ r) = length e" unfolding is_rune_def cs by simp
  then show ?thesis unfolding cs by (simp add: runes.simps)
qed

lemma runes_concat: "list_all is_rune es \<Longrightarrow> runes (concat es @ r) = es @ runes r"
  by (induction es) (simp_all add: runes_rune)

lemma runes_valid: "is_rune e \<Longrightarrow> utf8_valid (e @ r) = utf8_valid r"
proof -
  assume e: "is_rune e"
  then obtain c cs where cs: "e = c # cs" by (cases e) (auto simp: is_rune_def)
  from e have "utf8_len (c # cs @ r) = length e" unfolding is_rune_def cs by simp
  then show ?thesis unfolding cs by (simp add: utf8_valid.simps)
qed

lemma concat_runes_valid: "list_all is_rune es \<Longrightarrow> utf8_valid (concat es @ r) = utf8_valid r"
  by (induction es) (simp_all add: runes_valid)

lemma is_rune_ellipsis: "is_rune ellipsis"
  by (simp add: is_rune_def ellipsis_def utf8_len.simps byte_in_def)

lemma truncate_bounded: "RuneCountInString (truncate_text s n) \<le> n + 1"
proof (cases "RuneCountInString s \<le> n")
  case False
  have "list_all is_rune (take n (runes s))"
    using runes_are_runes [of s] by (auto simp: list_all_iff dest: in_set_takeD)
  from runes_concat [OF this, of ellipsis] False runes_rune [OF is_rune_ellipsis, of "[]"]
  show ?thesis by (simp add: truncate_text_def RuneCountInString_def)
qed (simp add: truncate_text_def)

lemma truncate_valid:
  assumes "utf8_valid s"
  shows "utf8_valid (truncate_text s n)"
proof (cases "RuneCountInString s \<le> n")
  case False
  have "list_all is_rune (take n (runes s))"
    using runes_are_runes [of s] by (auto simp: list_all_iff dest: in_set_takeD)
  from concat_runes_valid [OF this, of ellipsis] False runes_valid [OF is_rune_ellipsis, of "[]"]
  show ?thesis by (simp add: truncate_text_def utf8_valid.simps)
qed (simp add: truncate_text_def assms)

section \<open>Not found\<close>

text \<open>Whatever message a handler chose for its 404, the client is shown the generic page.\<close>

lemma not_found_is_generic:
  assumes "wr_sent rw = None" and "wr_body rw = []"
  shows "wr_body (er_inner (fold rewriter_call (renderError 404 m) \<lparr>er_inner = rw, er_handled = False\<rparr>)) =
    [Page (ErrorPage \<lparr>xd_Title = ''Error'', xd_Status = 404, xd_Message = ''page not found''\<rparr>)]"
  using assms by (simp add: renderError_def web_render_def send_status_def)

section \<open>Origins\<close>

lemma validJobID_ValidID: "validJobID i = ValidID i"
  by (auto simp: validJobID_def ValidID_def Let_def list_all_iff id_char_def is_digit_def)

definition records :: "memStore \<Rightarrow> (string \<Rightarrow> Job option) \<times> (string \<Rightarrow> Event list) \<times> (string \<Rightarrow> (string \<times> PermissionRequest) list)" where
  "records m = (ms_jobs m, ms_events m, ms_perms m)"

lemma mem_Watch_keeps:
  assumes "svc_store sv = memStore_ops" and "svc_Watch sv (\<lambda>_ w. w) i a w = Some (r, w')"
  shows "records (w_store w') = records (w_store w)"
  using assms
  by (auto simp: svc_Watch_def mem_WatchEvents_def records_def Let_def
      split: option.splits sum.splits if_splits prod.splits)

definition same_origin :: "'s handler \<Rightarrow> http_request \<Rightarrow> bool" where
  "same_origin h r \<longleftrightarrow> rq_origin r = [] \<or> url_Host (h_ip_literal h) (rq_origin r) = Some (rq_host r)"

lemma pattern_methods: "pattern p = Some (m, rt) \<Longrightarrow> m = ''GET'' \<or> m = ''POST''"
  by (cases p rule: pattern.cases) (auto split: if_splits)

lemma pattern_gets:
  "pattern p = Some (''GET'', rt) \<Longrightarrow> rt = RIndex \<or> (\<exists>i. rt = RDetail i) \<or> (\<exists>i. rt = REvents i) \<or> rt = RStatic"
  by (cases p rule: pattern.cases) (auto split: if_splits)

lemma get_routes_keep:
  assumes "svc_store (h_svc h) = memStore_ops" and "sr_gap x = (\<lambda>_ w. w)" and "pattern p = Some (''GET'', rt)"
    and "handle_route h x r rt w = Some (calls, w')"
  shows "records (w_store w') = records (w_store w)"
proof -
  have watch: "svc_Watch (h_svc h) (\<lambda>_ w. w) i a w = Some (res, w') \<Longrightarrow> records (w_store w') = records (w_store w)" for i a res
    using assms(1) by (rule mem_Watch_keeps)
  show ?thesis
    using pattern_gets [OF assms(3)] assms(2,4)
    by (auto simp: handle_route_def web_detail_def web_events_def Let_def
        dest!: watch split: if_splits option.splits sum.splits)
qed

lemma state_changes_are_same_origin_posts:
  assumes "svc_store (h_svc h) = memStore_ops" and "sr_gap x = (\<lambda>_ w. w)"
    and "NewWeb h x r rw w = Some (rw', w')" and "records (w_store w') \<noteq> records (w_store w)"
  shows "rq_method r = ''POST'' \<and> same_origin h r"
proof -
  have next_step: "notFoundInterceptor (serve_mux h x) r rw0 w = Some (rw', w') \<Longrightarrow> rq_method r = ''POST''" for rw0
    using assms(1,2,4) pattern_methods [of "rq_path r"] get_routes_keep [OF assms(1,2)]
    by (auto simp: notFoundInterceptor_def serve_mux_def split: option.splits if_splits)
  show ?thesis
    using assms(3,4) next_step
    by (auto simp: NewWeb_def protectUI_def Let_def same_origin_def split: if_splits)
qed

lemma cross_origin_rejected:
  assumes "NewWeb h x r new_writer w = Some (rw, w')" and "rq_method r \<noteq> ''GET''" and "rq_method r \<noteq> ''HEAD''"
    and "\<not> same_origin h r"
  shows "w' = w" "\<exists>hs. wr_sent rw = Some (403, hs)"
  using assms
  by (auto simp: NewWeb_def protectUI_def same_origin_def http_Error_def ui_headers_def new_writer_def send_status_def)

end
