(* ===== verification/ApiSpec.thy ===== *)
theory ApiSpec
  imports Api MemSpec
begin

text \<open>
  What the API shows of the in-memory store: bounded pages, one code for each kind of
  failure, and nothing that depends on a job's bearer token.
\<close>

section \<open>Credentials\<close>

text \<open>The same store with other harness tokens.\<close>

definition retoken :: "(string \<Rightarrow> string) \<Rightarrow> memStore \<Rightarrow> memStore" where
  "retoken f m = m\<lparr>ms_jobs := (\<lambda>i. map_option (\<lambda>j. j\<lparr>j_HarnessToken := f i\<rparr>) (ms_jobs m i))\<rparr>"

lemma retoken_fields [simp]:
  "ms_jobs (retoken f m) i = map_option (\<lambda>j. j\<lparr>j_HarnessToken := f i\<rparr>) (ms_jobs m i)"
  "ms_order (retoken f m) = ms_order m"
  by (simp_all add: retoken_def)

definition shown :: "(Job list \<times> 'a) result \<Rightarrow> (ProtoJob list \<times> 'a) result" where
  "shown r = map_sum id (apfst (map jobToProto)) r"

lemma list_walk_retoken:
  assumes "map jobToProto out' = map jobToProto out"
  shows "shown (list_walk (retoken f m) limit k out') = shown (list_walk m limit k out)"
  using assms
proof (induction k arbitrary: out out')
  case (Suc k)
  have len: "length out' = length out" using Suc.prems by (metis length_map)
  show ?case
  proof (cases "ms_jobs m (ms_order m ! k)")
    case None
    with Suc len show ?thesis by (simp add: shown_def)
  next
    case (Some j)
    have "map jobToProto (out' @ [j\<lparr>j_HarnessToken := f (ms_order m ! k)\<rparr>]) = map jobToProto (out @ [j])"
      using Suc.prems by simp
    from Suc.IH [OF this] Some len Suc.prems show ?thesis by (simp add: shown_def)
  qed
qed (simp add: shown_def)

lemma mem_ListJobs_retoken:
  "shown (mem_ListJobs limit tok (retoken f m)) = shown (mem_ListJobs limit tok m)"
proof -
  have walk: "shown (list_walk (retoken f m) l k []) = shown (list_walk m l k [])" for l k
    by (rule list_walk_retoken) simp
  have cont: "shown (case r of Inl e \<Rightarrow> Inl e | Inr (out, i') \<Rightarrow> Inr (out, g i')) =
      (case shown r of Inl e \<Rightarrow> Inl e | Inr (out, i') \<Rightarrow> Inr (out, g i'))" for r :: "(Job list \<times> int) result" and g :: "int \<Rightarrow> string"
    by (auto simp: shown_def split: sum.splits)
  show ?thesis
    by (simp add: mem_ListJobs_def Let_def cont walk split: option.splits)
qed

lemma ListJobs_shown:
  assumes "svc_store sv = memStore_ops"
  shows "ListJobs sv n tok w =
    (case shown (mem_ListJobs (list_limit n) tok (w_store w)) of Inl e \<Rightarrow> Inl (connectError e) | Inr p \<Rightarrow> Inr p)"
  using assms by (auto simp: ListJobs_def svc_List_def shown_def split: sum.splits)

lemma reads_hide_tokens:
  assumes "svc_store sv = memStore_ops"
  shows "GetJob sv i (w\<lparr>w_store := retoken f (w_store w)\<rparr>) = GetJob sv i w"
    and "ListJobs sv n tok (w\<lparr>w_store := retoken f (w_store w)\<rparr>) = ListJobs sv n tok w"
proof -
  show "GetJob sv i (w\<lparr>w_store := retoken f (w_store w)\<rparr>) = GetJob sv i w"
    using assms by (simp add: GetJob_def svc_Get_def mem_GetJob_def split: option.splits)
  show "ListJobs sv n tok (w\<lparr>w_store := retoken f (w_store w)\<rparr>) = ListJobs sv n tok w"
    by (simp add: ListJobs_shown [OF assms] mem_ListJobs_retoken)
qed

section \<open>Pages\<close>

lemma list_walk_length:
  "list_walk m limit k out = Inr (out', i) \<Longrightarrow> length out \<le> limit \<Longrightarrow> length out' \<le> limit"
  by (induction k arbitrary: out) (auto split: if_splits option.splits)

lemma ListJobs_bounded:
  assumes "svc_store sv = memStore_ops" and "ListJobs sv n tok w = Inr (jobs, next)"
  shows "length jobs \<le> 100"
proof -
  from assms obtain js where js: "mem_ListJobs (list_limit n) tok (w_store w) = Inr (js, next)" "jobs = map jobToProto js"
    by (auto simp: ListJobs_def svc_List_def split: sum.splits)
  have l: "nat (if list_limit n \<le> 0 then 50 else list_limit n) = nat (list_limit n)"
    using list_limit_bounds [of n] by simp
  from js(1) obtain k i where "list_walk (w_store w) (nat (list_limit n)) k [] = Inr (js, i)"
    unfolding mem_ListJobs_def Let_def l by (auto split: option.splits sum.splits)
  from list_walk_length [OF this] js(2) list_limit_bounds [of n] show ?thesis by simp
qed

section \<open>Codes\<close>

lemma GetJob_cases:
  assumes "svc_store sv = memStore_ops"
  shows "GetJob sv i w =
    (if \<not> ValidID i then Inl (ConnectError CodeInvalidArgument (Error (invalid ''malformed job id %q'' [i])))
     else case ms_jobs (w_store w) i of
            None \<Rightarrow> Inl (ConnectError CodeNotFound (Error (job_not_found i)))
          | Some j \<Rightarrow> Inr (jobToProto j))"
  using assms
  by (simp add: GetJob_def svc_Get_def checkID_def mem_GetJob_def connectError_def job_not_found_def split: option.splits)

lemma connectError_code:
  "connectError e = ConnectError
     (if errors_Is e ErrNotFound then CodeNotFound else if errors_Is e ErrInvalidArgument then CodeInvalidArgument
      else if errors_Is e ErrNotConnected then CodeFailedPrecondition else CodeInternal) (Error e)"
  by (simp add: connectError_def)

text \<open>The session is handed out once, to the submitter, and opens exactly the job it created.\<close>

lemma SubmitJob_session:
  assumes "SubmitJob E sv u req w = (Inr (p, session), w')"
  shows "\<exists>j. Submit E sv u req w = (Inr j, w') \<and> p = jobToProto j \<and> session = SessionString j"
  using assms by (auto simp: SubmitJob_def split: prod.splits sum.splits)

end
