(* ===== verification/Pipeline.thy ===== *)
theory Pipeline
  imports Telemetry Config
begin

text \<open>
  The telemetry of \<open>src/internal/telemetry\<close> beside the measurements: the instruments the
  recorder builds, what it puts on spans, the trace context it stores on a job, and the
  set-up and shutdown of the export pipeline. The OpenTelemetry libraries are arguments:
  each constructor may fail, and what they are given is what hairpin passes.
\<close>

section \<open>Instruments\<close>

datatype instrument_kind = Int64Counter | Float64Histogram | Int64UpDownCounter

record instrument_spec =
  in_name :: string
  in_kind :: instrument_kind
  in_description :: string
  in_unit :: string

definition scopeName :: string where
  "scopeName = ''github.com/rxbynerd/hairpin''"

fun spec_of :: "instrument \<Rightarrow> instrument_spec" where
  "spec_of Submissions =
     \<lparr>in_name = ''hairpin.job.submissions'', in_kind = Int64Counter,
      in_description = ''Task submissions, by outcome and profile.'', in_unit = ''{submission}''\<rparr>"
| "spec_of Launches =
     \<lparr>in_name = ''hairpin.job.launches'', in_kind = Int64Counter,
      in_description = ''Harness launches attempted, by outcome.'', in_unit = ''{launch}''\<rparr>"
| "spec_of LaunchDuration =
     \<lparr>in_name = ''hairpin.job.launch.duration'', in_kind = Float64Histogram,
      in_description = ''Time spent handing a harness to its launcher.'', in_unit = ''s''\<rparr>"
| "spec_of Completions =
     \<lparr>in_name = ''hairpin.job.completions'', in_kind = Int64Counter,
      in_description = ''Jobs reaching a terminal status, by status and stop reason.'', in_unit = ''{job}''\<rparr>"
| "spec_of RunDuration =
     \<lparr>in_name = ''hairpin.job.run.duration'', in_kind = Float64Histogram,
      in_description = ''Time from task assignment to terminal status.'', in_unit = ''s''\<rparr>"
| "spec_of Sessions =
     \<lparr>in_name = ''hairpin.harness.sessions'', in_kind = Int64Counter,
      in_description = ''Inbound harness streams, by disposition.'', in_unit = ''{session}''\<rparr>"
| "spec_of ActiveSessions =
     \<lparr>in_name = ''hairpin.harness.sessions.active'', in_kind = Int64UpDownCounter,
      in_description = ''Harness streams currently assigned a task.'', in_unit = ''{session}''\<rparr>"
| "spec_of HarnessEvents =
     \<lparr>in_name = ''hairpin.harness.events'', in_kind = Int64Counter,
      in_description = ''Events received on harness streams, by type.'', in_unit = ''{event}''\<rparr>"
| "spec_of Permissions =
     \<lparr>in_name = ''hairpin.permission.requests'', in_kind = Int64Counter,
      in_description = ''Permission requests received from harnesses.'', in_unit = ''{request}''\<rparr>"
| "spec_of Decisions =
     \<lparr>in_name = ''hairpin.permission.decisions'', in_kind = Int64Counter,
      in_description = ''Permission decisions answered, by decision and delivery.'', in_unit = ''{decision}''\<rparr>"
| "spec_of MemoryCalls =
     \<lparr>in_name = ''hairpin.memory.calls'', in_kind = Int64Counter,
      in_description = ''Control-plane memory tool calls, by tool and outcome.'', in_unit = ''{call}''\<rparr>"
| "spec_of MemoryDuration =
     \<lparr>in_name = ''hairpin.memory.call.duration'', in_kind = Float64Histogram,
      in_description = ''Time spent fulfilling one memory tool call.'', in_unit = ''s''\<rparr>"

definition build_order :: "instrument list" where
  "build_order =
     [Submissions, Launches, LaunchDuration, Completions, RunDuration, Sessions, ActiveSessions,
      HarnessEvents, Permissions, Decisions, MemoryCalls, MemoryDuration]"

text \<open>
  \<open>New\<close> of \<open>recorder.go\<close>: once an instrument fails the closures that follow do nothing.
  \<open>mk\<close> is the meter.
\<close>

fun build_instrument ::
  "(instrument_spec \<Rightarrow> goerror option) \<Rightarrow> instrument \<Rightarrow> goerror option \<Rightarrow> goerror option" where
  "build_instrument mk i (Some e) = Some e"
| "build_instrument mk i None =
     (case mk (spec_of i) of
        Some e \<Rightarrow> Some (Errorf ''create instrument %s: %w'' [in_name (spec_of i)] (Some e))
      | None \<Rightarrow> None)"

definition NewRecorder :: "(instrument_spec \<Rightarrow> goerror option) \<Rightarrow> bool result" where
  "NewRecorder mk =
     (case fold (build_instrument mk) build_order None of Some e \<Rightarrow> Inl e | None \<Rightarrow> Inr True)"

lemma build_failed: "fold (build_instrument mk) is' (Some e) = Some e"
  by (induction is') simp_all

lemma build_none:
  "fold (build_instrument mk) is' None = None \<longleftrightarrow> (\<forall>i \<in> set is'. mk (spec_of i) = None)"
  by (induction is') (auto simp: build_failed split: option.splits)

lemma NewRecorder_ok: "NewRecorder mk = Inr True \<longleftrightarrow> (\<forall>i. mk (spec_of i) = None)"
proof -
  have "i \<in> set build_order" for i by (cases i) (simp_all add: build_order_def)
  then have "fold (build_instrument mk) build_order None = None \<longleftrightarrow> (\<forall>i. mk (spec_of i) = None)"
    using build_none [of mk build_order] by blast
  then show ?thesis by (auto simp: NewRecorder_def split: option.splits)
qed

text \<open>No two instruments share a name.\<close>

lemma spec_names_inj: "in_name (spec_of i) = in_name (spec_of k) \<longleftrightarrow> i = k"
  by (cases i; cases k) simp_all

section \<open>Spans\<close>

datatype span_op =
    SetAttribute string string
  | RecordError goerror
  | SetErrorStatus string

definition attrJobID :: string where "attrJobID = ''hairpin.job.id''"
definition attrRequestID :: string where "attrRequestID = ''hairpin.request.id''"

definition ProfileAttr :: "string \<Rightarrow> string \<times> string" where
  "ProfileAttr profile = (attrProfile, profile)"

definition MemoryToolAttr :: "string \<Rightarrow> string \<times> string" where
  "MemoryToolAttr tool = (attrMemoryTool, tool)"

definition SetJobID :: "string \<Rightarrow> span_op list" where
  "SetJobID jobID = (if jobID = [] then [] else [SetAttribute attrJobID jobID])"

definition SetRequestID :: "string \<Rightarrow> span_op list" where
  "SetRequestID requestID = (if requestID = [] then [] else [SetAttribute attrRequestID requestID])"

definition Fail :: "goerror option \<Rightarrow> span_op list" where
  "Fail e = (case e of None \<Rightarrow> [] | Some e \<Rightarrow> [RecordError e, SetErrorStatus (Error e)])"

text \<open>\<open>Start\<close>: a nil recorder starts a span that records nothing.\<close>

definition Start :: "('c \<Rightarrow> string \<Rightarrow> 'c \<times> 'sp) \<Rightarrow> ('c \<Rightarrow> string \<Rightarrow> 'c \<times> 'sp) option \<Rightarrow> 'c \<Rightarrow> string \<Rightarrow> 'c \<times> 'sp" where
  "Start nonRecording tracer ctx name =
     (case tracer of None \<Rightarrow> nonRecording ctx name | Some start \<Rightarrow> start ctx name)"

text \<open>
  The W3C propagator: what it injects into a carrier, what it extracts from one, and
  whether a span context is valid.
\<close>

record 'sc propagator =
  pg_valid :: "'sc \<Rightarrow> bool"
  pg_inject :: "'sc \<Rightarrow> (string \<times> string) list"
  pg_extract :: "(string \<times> string) list \<Rightarrow> 'sc"

definition TraceParent :: "'sc propagator \<Rightarrow> 'sc \<Rightarrow> string" where
  "TraceParent pg sc =
     (if \<not> pg_valid pg sc then []
      else case map_of (pg_inject pg sc) ''traceparent'' of None \<Rightarrow> [] | Some v \<Rightarrow> v)"

text \<open>The links of the new span.\<close>

definition LinkToTraceParent :: "'sc propagator \<Rightarrow> string \<Rightarrow> 'sc list" where
  "LinkToTraceParent pg traceParent =
     (if traceParent = [] then []
      else let sc = pg_extract pg [(''traceparent'', traceParent)]
           in if \<not> pg_valid pg sc then [] else [sc])"

text \<open>
  A span started for a stored job links to the submission's span exactly when that
  one was valid, for a propagator that extracts what it injected.
\<close>

lemma link_round_trip:
  assumes "\<And>sc. pg_valid pg sc \<Longrightarrow> \<exists>v. map_of (pg_inject pg sc) ''traceparent'' = Some v \<and> v \<noteq> [] \<and>
    pg_extract pg [(''traceparent'', v)] = sc"
  shows "LinkToTraceParent pg (TraceParent pg sc) = (if pg_valid pg sc then [sc] else [])"
  using assms [of sc] by (auto simp: LinkToTraceParent_def TraceParent_def)

section \<open>The export pipeline\<close>

datatype exporter =
    StdoutExporter
  | OtlpHTTP "string option"
  | OtlpGRPC "string option"

definition newSpanExporter :: "TelemetryOptions \<Rightarrow> exporter" where
  "newSpanExporter o' =
     (let url = (if to_Endpoint o' \<noteq> [] then Some (to_Endpoint o') else None)
      in if to_Exporter o' = ExporterStdout then StdoutExporter
         else if to_Protocol o' = ProtocolHTTP then OtlpHTTP url else OtlpGRPC url)"

definition newMetricExporter :: "TelemetryOptions \<Rightarrow> exporter" where
  "newMetricExporter o' =
     (let url = (if to_Endpoint o' \<noteq> [] then Some (to_Endpoint o') else None)
      in if to_Exporter o' = ExporterStdout then StdoutExporter
         else if to_Protocol o' = ProtocolHTTP then OtlpHTTP url else OtlpGRPC url)"

definition DefaultServiceName :: string where
  "DefaultServiceName = ''hairpin''"

definition DefaultMetricInterval :: duration where
  "DefaultMetricInterval = 60 * Second"

definition shutdownTimeout :: duration where
  "shutdownTimeout = 5 * Second"

text \<open>\<open>info\<close> is the module version \<open>debug.ReadBuildInfo\<close> reports, if any.\<close>

definition serviceVersion :: "string option \<Rightarrow> string" where
  "serviceVersion info =
     (case info of None \<Rightarrow> ''dev'' | Some v \<Rightarrow> if v = [] \<or> v = ''(devel)'' then ''dev'' else v)"

definition instanceID :: "string \<Rightarrow> string result \<Rightarrow> string" where
  "instanceID podName hostname =
     (if TrimSpace podName \<noteq> [] then TrimSpace podName
      else case hostname of Inl _ \<Rightarrow> ''unknown'' | Inr h \<Rightarrow> if h = [] then ''unknown'' else h)"

text \<open>
  What Setup calls: the resource of the attributes hairpin gives (it may come with an
  error, which may only say that it is partial), the two exporters, the meter, and what
  identifies this process.
\<close>

record 'res otel =
  ot_resource :: "(string \<times> string) list \<Rightarrow> 'res option \<times> goerror option"
  ot_partial :: "goerror \<Rightarrow> bool"
  ot_span :: "exporter \<Rightarrow> goerror option"
  ot_metric :: "exporter \<Rightarrow> goerror option"
  ot_meter :: "float64 \<Rightarrow> duration \<Rightarrow> instrument_spec \<Rightarrow> goerror option"
  ot_version :: "string option"
  ot_pod :: string
  ot_host :: "string result"

definition newResource :: "'res otel \<Rightarrow> string \<Rightarrow> 'res option result" where
  "newResource ot serviceName =
     (let (res, e) = ot_resource ot
            [(''service.name'', if serviceName = [] then DefaultServiceName else serviceName),
             (''service.version'', serviceVersion (ot_version ot)),
             (''service.instance.id'', instanceID (ot_pod ot) (ot_host ot))]
      in case e of
           None \<Rightarrow> Inr res
         | Some err \<Rightarrow>
             if res \<noteq> None \<and> ot_partial ot err then Inr res
             else Inl (Errorf ''build telemetry resource: %w'' [] (Some err)))"

definition metric_interval :: "TelemetryOptions \<Rightarrow> duration" where
  "metric_interval o' = (if to_MetricInterval o' \<le> 0 then DefaultMetricInterval else to_MetricInterval o')"

text \<open>What Setup starts and stops, and the shutdown it returns.\<close>

datatype pipeline_event =
    SpanExporterStarted
  | SpanExporterStopped
  | ProvidersInstalled
  | ProvidersStopped

datatype Shutdown = NoopShutdown | ShutdownProviders

definition Setup :: "'res otel \<Rightarrow> TelemetryOptions \<Rightarrow> (bool \<times> Shutdown) result \<times> pipeline_event list" where
  "Setup ot o' =
     (case tel_Validate o' of
        Some e \<Rightarrow> (Inl e, [])
      | None \<Rightarrow>
          if \<not> Enabled o' then (Inr (False, NoopShutdown), [])
          else case newResource ot (to_ServiceName o') of
                 Inl e \<Rightarrow> (Inl e, [])
               | Inr res \<Rightarrow>
                   (case ot_span ot (newSpanExporter o') of
                      Some e \<Rightarrow> (Inl e, [])
                    | None \<Rightarrow>
                        (case ot_metric ot (newMetricExporter o') of
                           Some e \<Rightarrow> (Inl e, [SpanExporterStarted, SpanExporterStopped])
                         | None \<Rightarrow>
                             (case NewRecorder (ot_meter ot (to_SampleRatio o') (metric_interval o')) of
                                Inl e \<Rightarrow> (Inl e, [SpanExporterStarted, ProvidersInstalled, ProvidersStopped])
                              | Inr r \<Rightarrow> (Inr (r, ShutdownProviders), [SpanExporterStarted, ProvidersInstalled])))))"

text \<open>
  Stopping the providers stops the exporters they were given. The errors of both are
  joined; \<open>tp\<close> and \<open>mp\<close> are the outcomes of the two providers.
\<close>

definition shutdownProviders :: "goerror option \<Rightarrow> goerror option \<Rightarrow> goerror list" where
  "shutdownProviders tp mp = List.map_filter id [tp, mp]"

definition run_shutdown :: "Shutdown \<Rightarrow> pipeline_event list" where
  "run_shutdown sd = (case sd of NoopShutdown \<Rightarrow> [] | ShutdownProviders \<Rightarrow> [ProvidersStopped])"

text \<open>Nothing is left running: after a failed set-up, and after the shutdown of one that succeeded.\<close>

definition all_stopped :: "pipeline_event list \<Rightarrow> bool" where
  "all_stopped evs \<longleftrightarrow>
     (SpanExporterStarted \<in> set evs \<longrightarrow> SpanExporterStopped \<in> set evs \<or> ProvidersStopped \<in> set evs) \<and>
     (ProvidersInstalled \<in> set evs \<longrightarrow> ProvidersStopped \<in> set evs)"

lemma Setup_leaves_nothing:
  "case Setup ot o' of (Inl e, evs) \<Rightarrow> all_stopped evs | (Inr (r, sd), evs) \<Rightarrow> all_stopped (evs @ run_shutdown sd)"
  by (auto simp: Setup_def all_stopped_def run_shutdown_def split: option.splits sum.splits)

lemma Setup_enabled:
  assumes "Setup ot o' = (Inr (r, sd), evs)"
  shows "r \<longleftrightarrow> Enabled o'" and "evs = [] \<longleftrightarrow> \<not> Enabled o'"
  using assms
  by (auto simp: Setup_def NewRecorder_def split: option.splits sum.splits if_splits)

lemma Setup_valid:
  assumes "tel_Validate o' = None" and "\<And>n. \<exists>r. newResource ot n = Inr r" and "\<And>e. ot_span ot e = None"
    and "\<And>e. ot_metric ot e = None" and "\<And>r d i. ot_meter ot r d i = None"
  shows "\<exists>sd evs. Setup ot o' = (Inr (Enabled o', sd), evs)"
proof -
  have "NewRecorder (ot_meter ot r d) = Inr True" for r d by (simp add: NewRecorder_ok assms(5))
  then show ?thesis using assms(2) [of "to_ServiceName o'"] by (auto simp: Setup_def assms(1,3,4))
qed

end
