(* ===== verification/Serve.thy ===== *)
theory Serve
  imports Billet Launcher TokenSpec WebSpec ApiSpec Pipeline
begin

text \<open>
  The command line of \<open>src/cmd/hairpin\<close>: the flags of \<open>serve\<close> and how they become a
  configuration, the parts a configuration selects and how \<open>serve\<close> connects them, the
  shutdown, and key generation. The loading of profiles is here too, as it runs once at
  start-up. Routing is in theory \<open>Rpc\<close>, the life of the process in theory \<open>Lifecycle\<close>.

  What the \<open>flag\<close> package makes of the arguments, the file system's errors, the
  Kubernetes and Redis clients and the OpenTelemetry constructors are arguments.
  Signals and logging are left out.
\<close>

section \<open>Flags\<close>

definition defaultAdvertiseAddr :: "string \<Rightarrow> string \<Rightarrow> string" where
  "defaultAdvertiseAddr namespace listenAddr =
     (case SplitHostPort listenAddr of
        Inl _ \<Rightarrow> []
      | Inr (_, port) \<Rightarrow> if port = [] then [] else ''hairpin.'' @ namespace @ ''.svc:'' @ port)"

text \<open>The value of the environment variable is an argument, empty when unset.\<close>

definition envOr :: "string \<Rightarrow> string \<Rightarrow> string" where
  "envOr v fallback = (if TrimSpace v \<noteq> [] then TrimSpace v else fallback)"

definition splitComma :: "string \<Rightarrow> string list" where
  "splitComma s = filter (\<lambda>part. part \<noteq> []) (map TrimSpace (strings_Split CHR '','' s))"

record serve_flags =
  fl_cfg :: Config
  fl_secrets :: string
  fl_ttl :: int
  fl_slack :: duration
  fl_tokenTTL :: duration

definition default_flags :: "string \<Rightarrow> string \<Rightarrow> serve_flags" where
  "default_flags namespace protocol =
     \<lparr>fl_cfg =
        \<lparr>cf_ListenAddr = '':8130'', cf_AdvertiseAddr = [], cf_RedisAddr = [], cf_RedisPassword = [], cf_RedisDB = 0,
         cf_BilletAddr = [], cf_Launcher = ''kubernetes'', cf_ProfilesDir = [], cf_DefaultProfile = ''default'',
         cf_Retention = 0,
         cf_Harness =
           \<lparr>hc_Namespace = namespace, hc_Image = DefaultHarnessImage, hc_Kubeconfig = [], hc_ServiceAccount = [],
            hc_EnvFromSecrets = [], hc_TTLSecondsAfterFinished = 0, hc_ActiveDeadlineSlack = 0, hc_Labels = []\<rparr>,
         cf_Sandbox = \<lparr>ed_Image = DefaultSandboxImage, ed_Namespace = [], ed_ServiceAccount = [], ed_Runtime = []\<rparr>,
         cf_Telemetry =
           \<lparr>to_Exporter = ExporterNone, to_Protocol = envOr protocol ProtocolGRPC, to_Endpoint = [],
            to_SampleRatio = Fin 1, to_ServiceName = [], to_MetricInterval = DefaultMetricInterval\<rparr>,
         cf_HarnessTelemetryEndpoint = [],
         cf_SandboxToken = \<lparr>tc_KeyPath = [], tc_Issuer = [], tc_Audience = [], tc_TTL = 0\<rparr>\<rparr>,
      fl_secrets = [], fl_ttl = 3600, fl_slack = 10 * Minute, fl_tokenTTL = 15 * Minute\<rparr>"

text \<open>What \<open>parseServeFlags\<close> does once the arguments are read.\<close>

definition flags_config :: "serve_flags \<Rightarrow> Config" where
  "flags_config fl =
     (let c = fl_cfg fl;
          h = (cf_Harness c)
                \<lparr>hc_EnvFromSecrets := (if fl_secrets fl \<noteq> [] then splitComma (fl_secrets fl)
                                       else hc_EnvFromSecrets (cf_Harness c)),
                 hc_TTLSecondsAfterFinished := fl_ttl fl, hc_ActiveDeadlineSlack := fl_slack fl\<rparr>
      in c\<lparr>cf_Harness := h, cf_SandboxToken := (cf_SandboxToken c)\<lparr>tc_TTL := fl_tokenTTL fl\<rparr>,
           cf_AdvertiseAddr := (if cf_AdvertiseAddr c = [] \<and> hc_Namespace h \<noteq> []
                                then defaultAdvertiseAddr (hc_Namespace h) (cf_ListenAddr c)
                                else cf_AdvertiseAddr c)\<rparr>)"

definition finish_flags :: "serve_flags \<Rightarrow> Config result" where
  "finish_flags fl =
     (if fl_ttl fl < 0 \<or> 2147483647 < fl_ttl fl
      then Inl (Errorf ''job TTL must be between 0 and %d seconds'' [itoa 2147483647] None)
      else case Validate (flags_config fl) of
             (Some e, _) \<Rightarrow> Inl e
           | (None, c) \<Rightarrow> Inr c)"

definition parseServeFlags ::
  "(serve_flags \<Rightarrow> string list \<Rightarrow> serve_flags result) \<Rightarrow> string option \<Rightarrow> string \<Rightarrow> string list \<Rightarrow> Config result" where
  "parseServeFlags parse nsFile protocol args =
     (case parse (default_flags (DetectNamespace nsFile) protocol) args of
        Inl e \<Rightarrow> Inl e
      | Inr fl \<Rightarrow> finish_flags fl)"

definition usage_error :: goerror where
  "usage_error = Errorf ''usage: hairpin <serve|keygen> [flags]'' [] None"

definition run_command ::
  "(string list \<Rightarrow> Config result) \<Rightarrow> (Config \<Rightarrow> goerror option) \<Rightarrow> (string list \<Rightarrow> goerror option) \<Rightarrow>
   string list \<Rightarrow> goerror option" where
  "run_command flags srv keygen args =
     (case args of
        [] \<Rightarrow> Some usage_error
      | a # rest \<Rightarrow>
          if a = ''serve'' then (case flags rest of Inl e \<Rightarrow> Some e | Inr cfg \<Rightarrow> srv cfg)
          else if a = ''keygen'' then keygen rest
          else Some usage_error)"

section \<open>Profiles\<close>

text \<open>An entry of the directory: its name, whether it is a directory, and what reading it gives.\<close>

fun load_each ::
  "env \<Rightarrow> string \<Rightarrow> (string \<times> bool \<times> string result) list \<Rightarrow> (string \<times> RunConfig) list \<Rightarrow> (string \<times> RunConfig) list result" where
  "load_each E dir [] acc = Inr acc"
| "load_each E dir ((name, isDir, file) # es) acc =
     (if isDir \<or> \<not> HasSuffix name ''.json'' then load_each E dir es acc
      else case file of
             Inl e \<Rightarrow> Inl (Errorf ''read profile %s: %w'' [dir @ ''/'' @ name] (Some e))
           | Inr raw \<Rightarrow>
               (case env_parse_config E raw of
                  Inl e \<Rightarrow> Inl (Errorf ''parse profile %s: %w'' [dir @ ''/'' @ name] (Some e))
                | Inr cfg \<Rightarrow> load_each E dir es (acc @ [(TrimSuffix name ''.json'', cfg)])))"

definition LoadProfiles ::
  "env \<Rightarrow> (string \<Rightarrow> (string \<times> bool \<times> string result) list result) \<Rightarrow> string \<Rightarrow> string \<Rightarrow> Profiles result" where
  "LoadProfiles E readDir dir defaultProfile =
     (if dir = [] then NewProfiles [] defaultProfile
      else case readDir dir of
             Inl e \<Rightarrow> Inl (Errorf ''read profiles dir %s: %w'' [dir] (Some e))
           | Inr es \<Rightarrow>
               (case load_each E dir es [] of
                  Inl e \<Rightarrow> Inl e
                | Inr templates \<Rightarrow> NewProfiles templates defaultProfile))"

section \<open>Parts\<close>

datatype store_choice = InMemory | OverRedis

text \<open>\<open>ping\<close> is the outcome of pinging the Redis server.\<close>

definition buildStore :: "Config \<Rightarrow> goerror option \<Rightarrow> store_choice result" where
  "buildStore cfg ping =
     (if cf_RedisAddr cfg = [] then Inr InMemory
      else case ping of
             Some e \<Rightarrow> Inl (Errorf ''redis at %s: %w'' [cf_RedisAddr cfg] (Some e))
           | None \<Rightarrow> Inr OverRedis)"

text \<open>\<open>load\<close> is \<open>LoadKey\<close> with its decoders and the file system.\<close>

definition buildTokenIssuer ::
  "(string \<Rightarrow> PrivateKey result) \<Rightarrow> (nat \<Rightarrow> gotime) \<Rightarrow> Config \<Rightarrow> Issuer option result" where
  "buildTokenIssuer load clock cfg =
     (let t = cf_SandboxToken cfg
      in if tc_KeyPath t = [] then Inr None
         else case load (tc_KeyPath t) of
                Inl e \<Rightarrow> Inl (Errorf ''sandbox token key: %w'' [] (Some e))
              | Inr priv \<Rightarrow>
                  (case NewIssuer clock (Some priv) (tc_Issuer t) (tc_Audience t) (tc_TTL t) of
                     Inl e \<Rightarrow> Inl (Errorf ''sandbox token issuer: %w'' [] (Some e))
                   | Inr i \<Rightarrow> Inr (Some i)))"

datatype launcher = LaunchK8s K8s | LaunchNone

text \<open>The Kubernetes client library: three sources of a client configuration, and the client.\<close>

record 'r kube =
  ku_inCluster :: "'r result"
  ku_fromFlags :: "string \<Rightarrow> 'r result"
  ku_default :: "'r result"
  ku_clientset :: "'r \<Rightarrow> goerror option"

definition buildRestConfig :: "'r kube \<Rightarrow> HarnessConfig \<Rightarrow> 'r result" where
  "buildRestConfig ku cfg =
     (case ku_inCluster ku of
        Inr rc \<Rightarrow> Inr rc
      | Inl _ \<Rightarrow> if hc_Kubeconfig cfg \<noteq> [] then ku_fromFlags ku (hc_Kubeconfig cfg) else ku_default ku)"

definition NewK8s :: "'r kube \<Rightarrow> HarnessConfig \<Rightarrow> string \<Rightarrow> K8s result" where
  "NewK8s ku cfg advertiseAddr =
     (case buildRestConfig ku cfg of
        Inl e \<Rightarrow> Inl (Errorf ''launcher: build kubernetes client config: %w'' [] (Some e))
      | Inr rc \<Rightarrow>
          (case ku_clientset ku rc of
             Some e \<Rightarrow> Inl (Errorf ''launcher: build kubernetes clientset: %w'' [] (Some e))
           | None \<Rightarrow> Inr \<lparr>k8_cfg = cfg, k8_advertiseAddr = advertiseAddr\<rparr>))"

definition buildLauncher :: "'r kube \<Rightarrow> Config \<Rightarrow> launcher result" where
  "buildLauncher ku cfg =
     (if cf_Launcher cfg = ''kubernetes''
      then (case NewK8s ku (cf_Harness cfg) (cf_AdvertiseAddr cfg) of Inl e \<Rightarrow> Inl e | Inr l \<Rightarrow> Inr (LaunchK8s l))
      else Inr LaunchNone)"

text \<open>The \<open>n\<close>-th creation of a Job object is answered by \<open>create n\<close>.\<close>

record cluster =
  cu_create :: "nat \<Rightarrow> string \<Rightarrow> K8sJob \<Rightarrow> goerror option"
  cu_already :: "goerror \<Rightarrow> bool"

fun launcher_Launch :: "env \<Rightarrow> cluster \<Rightarrow> launcher \<Rightarrow> nat \<Rightarrow> Job \<Rightarrow> goerror option" where
  "launcher_Launch E cu (LaunchK8s l) n j = fst (k8s_Launch E (\<lambda>ns obj c. (cu_create cu n ns obj, c)) (cu_already cu) l j ())"
| "launcher_Launch E cu LaunchNone n j = none_Launch j"

definition NewService ::
  "'s Store \<Rightarrow> (nat \<Rightarrow> Job \<Rightarrow> goerror option) \<Rightarrow> Profiles \<Rightarrow> ('s Service \<Rightarrow> 's Service) list \<Rightarrow> (nat \<Rightarrow> bool) \<Rightarrow> 's Service" where
  "NewService st l profiles opts print =
     fold (\<lambda>opt. opt) opts
       \<lparr>svc_store = st, svc_launcher = l, svc_profiles = profiles,
        svc_executorDefaults = \<lparr>ed_Image = [], ed_Namespace = [], ed_ServiceAccount = [], ed_Runtime = []\<rparr>,
        svc_traceEndpoint = [], svc_memoryTools = False, svc_tel = False, svc_print_table = print\<rparr>"

definition WithExecutorDefaults :: "ExecutorDefaults \<Rightarrow> 's Service \<Rightarrow> 's Service" where
  "WithExecutorDefaults d s = s\<lparr>svc_executorDefaults := d\<rparr>"

definition WithHarnessTelemetryEndpoint :: "string \<Rightarrow> 's Service \<Rightarrow> 's Service" where
  "WithHarnessTelemetryEndpoint e s = s\<lparr>svc_traceEndpoint := e\<rparr>"

definition WithMemoryTools :: "bool \<Rightarrow> 's Service \<Rightarrow> 's Service" where
  "WithMemoryTools b s = s\<lparr>svc_memoryTools := b\<rparr>"

definition svc_WithTelemetry :: "bool \<Rightarrow> 's Service \<Rightarrow> 's Service" where
  "svc_WithTelemetry b s = s\<lparr>svc_tel := b\<rparr>"

section \<open>Serving\<close>

text \<open>What the parts of a running server share.\<close>

record 's server =
  sr_service :: "'s Service"
  sr_controlplane :: "'s Handler"
  sr_reaper :: "'s Reaper"
  sr_issuer :: "Issuer option"

record outside =
  ou_env :: env
  ou_cluster :: cluster
  ou_dial :: "string \<Rightarrow> MemoryService"
  ou_sign :: signer
  ou_random :: "nat \<Rightarrow> nat list result"
  ou_print :: "nat \<Rightarrow> bool"

definition serve_reaper :: "Config \<Rightarrow> bool \<Rightarrow> 's Store \<Rightarrow> 's Reaper" where
  "serve_reaper cfg telemetry st = NewReaper st (cf_Retention cfg) (hc_ActiveDeadlineSlack (cf_Harness cfg)) [rp_WithTelemetry telemetry]"

definition serve_wire ::
  "outside \<Rightarrow> Config \<Rightarrow> bool \<Rightarrow> 's Store \<Rightarrow> Profiles \<Rightarrow> launcher \<Rightarrow> Issuer option \<Rightarrow> 's server" where
  "serve_wire x cfg telemetry st profiles l issuer =
     (let memoryClient = (if cf_BilletAddr cfg \<noteq> [] then Some (NewBilletClient (ou_dial x) (cf_BilletAddr cfg) []) else None)
      in \<lparr>sr_service =
            NewService st (launcher_Launch (ou_env x) (ou_cluster x) l) profiles
              [WithExecutorDefaults (cf_Sandbox cfg), WithHarnessTelemetryEndpoint (cf_HarnessTelemetryEndpoint cfg),
               WithMemoryTools (memoryClient \<noteq> None), svc_WithTelemetry telemetry] (ou_print x),
          sr_controlplane =
            New st ([WithMemory memoryClient, WithTelemetry telemetry] @
              (case issuer of None \<Rightarrow> []
               | Some i \<Rightarrow> [WithSandboxTokenIssuer (Some (issuer_of (ou_sign x) (ou_random x) i))])),
          sr_reaper = serve_reaper cfg telemetry st,
          sr_issuer = issuer\<rparr>)"

text \<open>
  The sweeps of the reaper: one at once, then one for each tick until the context is
  done. \<open>fuel k\<close> bounds the paging of the \<open>k\<close>-th sweep, \<open>gap k\<close> is what happens
  between its pages, \<open>idle k\<close> what happens before it.
\<close>

fun reaper_Run ::
  "env \<Rightarrow> 's Reaper \<Rightarrow> (nat \<Rightarrow> nat \<Rightarrow> 's World \<Rightarrow> 's World) \<Rightarrow> (nat \<Rightarrow> nat) \<Rightarrow> (nat \<Rightarrow> 's World \<Rightarrow> 's World) \<Rightarrow>
   nat \<Rightarrow> nat \<Rightarrow> 's World \<Rightarrow> 's World option" where
  "reaper_Run E rp gap fuel idle k 0 w = sweep E rp (gap k) (fuel k) w"
| "reaper_Run E rp gap fuel idle k (Suc ticks) w =
     (case sweep E rp (gap k) (fuel k) w of
        None \<Rightarrow> None
      | Some w' \<Rightarrow> reaper_Run E rp gap fuel idle (k + 1) ticks (idle k w'))"

text \<open>Shutdown: a cancel for every live session, before the listener drains.\<close>

fun cancel_each :: "env \<Rightarrow> (string \<Rightarrow> 's World \<Rightarrow> 's World) \<Rightarrow> string list \<Rightarrow> 's World \<Rightarrow> 's World" where
  "cancel_each E gap [] w = w"
| "cancel_each E gap (i # is') w =
     cancel_each E gap is' (gap i (snd (registry_Send E i (control_event ''cancel'') w)))"

definition shutdown_cancels :: "env \<Rightarrow> (string \<Rightarrow> 's World \<Rightarrow> 's World) \<Rightarrow> 's World \<Rightarrow> 's World" where
  "shutdown_cancels E gap w = cancel_each E gap (JobIDs (w_reg w)) w"

section \<open>Key generation\<close>

text \<open>A file is its content and mode; the file system's own errors are arguments.\<close>

type_synonym files = "string \<Rightarrow> (string \<times> nat) option"

record file_io =
  io_open :: "string \<Rightarrow> goerror option"
  io_write :: "string \<Rightarrow> (nat \<times> goerror) option"
  io_close :: "string \<Rightarrow> goerror option"

definition ErrExist :: goerror where
  "ErrExist = Errorf ''file exists'' [] None"

definition writeNew :: "file_io \<Rightarrow> string \<Rightarrow> string \<Rightarrow> nat \<Rightarrow> files \<Rightarrow> goerror option \<times> files" where
  "writeNew io path data mode fs =
     (case (if fs path \<noteq> None then Some ErrExist else io_open io path) of
        Some e \<Rightarrow> (Some (Errorf ''create %s: %w'' [path] (Some e)), fs)
      | None \<Rightarrow>
          (case io_write io path of
             Some (n, e) \<Rightarrow> (Some (Errorf ''write %s: %w'' [path] (Some e)), fs(path \<mapsto> (take n data, mode)))
           | None \<Rightarrow>
               (case io_close io path of
                  Some e \<Rightarrow> (Some (Errorf ''write %s: %w'' [path] (Some e)), fs(path \<mapsto> (data, mode)))
                | None \<Rightarrow> (None, fs(path \<mapsto> (data, mode))))))"

text \<open>\<open>gen\<close> is \<open>ecdsa.GenerateKey\<close> on P-256.\<close>

definition GenerateKey :: "PrivateKey result \<Rightarrow> PrivateKey result" where
  "GenerateKey gen = (case gen of Inl e \<Rightarrow> Inl (Errorf ''generate P-256 key: %w'' [] (Some e)) | Inr k \<Rightarrow> Inr k)"

definition EncodePrivateKeyPEM ::
  "(PrivateKey \<Rightarrow> string result) \<Rightarrow> (string \<Rightarrow> string \<Rightarrow> string) \<Rightarrow> PrivateKey \<Rightarrow> string result" where
  "EncodePrivateKeyPEM der pemEncode priv =
     (case der priv of
        Inl e \<Rightarrow> Inl (Errorf ''marshal private key: %w'' [] (Some e))
      | Inr d \<Rightarrow> Inr (pemEncode ''PRIVATE KEY'' d))"

record key_io =
  ki_gen :: "PrivateKey result"
  ki_der :: "PrivateKey \<Rightarrow> string result"
  ki_pemEncode :: "string \<Rightarrow> string \<Rightarrow> string"
  ki_print :: "goerror option"

text \<open>
  \<open>hairpin keygen\<close> with its two flags; the results are the error, what was printed on
  the standard output, and the files.
\<close>

definition runKeygen ::
  "key_io \<Rightarrow> file_io \<Rightarrow> string \<Rightarrow> string \<Rightarrow> files \<Rightarrow> goerror option \<times> string \<times> files" where
  "runKeygen ki io out jwksOut fs =
     (if out = [] then (Some (Errorf ''usage: hairpin keygen --out <path> [--jwks-out <path>]'' [] None), [], fs)
      else case GenerateKey (ki_gen ki) of
        Inl e \<Rightarrow> (Some (Errorf ''generate key: %w'' [] (Some e)), [], fs)
      | Inr priv \<Rightarrow>
      (case EncodePrivateKeyPEM (ki_der ki) (ki_pemEncode ki) priv of
        Inl e \<Rightarrow> (Some (Errorf ''encode key: %w'' [] (Some e)), [], fs)
      | Inr pem \<Rightarrow>
      (case writeNew io out pem 0x180 fs of
        (Some e, fs1) \<Rightarrow> (Some e, [], fs1)
      | (None, fs1) \<Rightarrow>
      (case JWKSDocument (Some (priv_Public priv)) of
        Inl e \<Rightarrow> (Some (Errorf ''build JWKS: %w'' [] (Some e)), [], fs1)
      | Inr jwks \<Rightarrow>
          let (e2, stdout, fs2) =
            (if jwksOut = [] then (ki_print ki, if ki_print ki = None then jwks @ [newline] else [], fs1)
             else let (e, fs') = writeNew io jwksOut (jwks @ [newline]) 0x1A4 fs1 in (e, [], fs'))
          in case e2 of
               Some e \<Rightarrow> (Some e, stdout, fs2)
             | None \<Rightarrow>
                 (case KeyID (Some (priv_Public priv)) of
                    Inl e \<Rightarrow> (Some (Errorf ''compute kid: %w'' [] (Some e)), stdout, fs2)
                  | Inr kid \<Rightarrow> (None, stdout, fs2))))))"

end
