(* ===== verification/ServeSpec.thy ===== *)
theory ServeSpec
  imports Serve
begin

text \<open>
  What an accepted configuration guarantees, what the parts of a server agree on, that
  shutdown reaches every live session, and that generated keys are published as they are
  used.
\<close>

section \<open>Addresses\<close>

lemma last_colon_split:
  assumes "CHR '':'' \<notin> set p"
  shows "last_colon (h @ CHR '':'' # p) = Some (h, p)"
proof -
  let ?P = "\<lambda>c. c \<noteq> CHR '':''"
  have all: "\<And>c. c \<in> set (rev p) \<Longrightarrow> ?P c" using assms by auto
  have "takeWhile ?P (rev p @ CHR '':'' # rev h) = rev p" by (subst takeWhile_append2 [OF all]) simp_all
  moreover have "dropWhile ?P (rev p @ CHR '':'' # rev h) = CHR '':'' # rev h"
    by (subst dropWhile_append2 [OF all]) simp_all
  ultimately show ?thesis by (simp add: last_colon_def)
qed

lemma SplitHostPort_plain:
  assumes "set ''[]:'' \<inter> set h = {}" and "set ''[]:'' \<inter> set p = {}"
  shows "SplitHostPort (h @ CHR '':'' # p) = Inr (h, p)"
proof -
  have "last_colon (h @ CHR '':'' # p) = Some (h, p)" using assms(2) by (intro last_colon_split) auto
  moreover have "hd (h @ CHR '':'' # p) \<noteq> CHR ''[''" using assms(1) by (cases h) auto
  ultimately show ?thesis using assms by (auto simp: SplitHostPort_def)
qed

lemma Atoi_itoa:
  assumes "0 \<le> n" and "n \<le> max_int64"
  shows "Atoi (itoa n) = Some n"
proof -
  obtain c cs where u: "utoa (nat n) = c # cs" by (cases "utoa (nat n)") simp_all
  then have d: "is_digit c" by (rule utoa_head_digit)
  then have "c \<noteq> CHR ''-''" "c \<noteq> CHR ''+''" by (auto simp: is_digit_def)
  moreover have "list_all is_digit (c # cs)" using utoa_digits [of _ "nat n"] by (auto simp: u [symmetric] list_all_iff)
  moreover have "digits_val (c # cs) = nat n" by (simp add: u [symmetric])
  ultimately show ?thesis using assms u by (simp add: Atoi_def itoa_def Let_def min_int64_def)
qed

lemma validateHostPort_ok:
  "validateHostPort label addr = None \<longleftrightarrow>
     addr = [] \<or> (\<exists>h p n. SplitHostPort addr = Inr (h, p) \<and> h \<noteq> [] \<and> Atoi p = Some n \<and> 1 \<le> n \<and> n \<le> 65535)"
proof -
  have "Atoi [] = None" by (simp add: Atoi_def)
  then show ?thesis by (auto simp: validateHostPort_def not_less split: sum.splits option.splits)
qed

section \<open>Accepted configurations\<close>

lemma Validate_accepts:
  assumes "Validate c = (None, c')"
  shows "cf_ListenAddr c \<noteq> [] \<and> cf_AdvertiseAddr c \<noteq> [] \<and> 0 \<le> cf_RedisDB c \<and>
    validateHostPort ''billet address'' (cf_BilletAddr c) = None \<and>
    validateHostPort ''harness telemetry endpoint'' (cf_HarnessTelemetryEndpoint c) = None \<and>
    0 \<le> hc_TTLSecondsAfterFinished (cf_Harness c) \<and> 0 \<le> hc_ActiveDeadlineSlack (cf_Harness c) \<and>
    tel_Validate (cf_Telemetry c) = None \<and> validate_launcher c = None \<and> validate_token (cf_SandboxToken c) = None \<and>
    c' = (if ed_Namespace (cf_Sandbox c) = []
          then c\<lparr>cf_Sandbox := (cf_Sandbox c)\<lparr>ed_Namespace := hc_Namespace (cf_Harness c)\<rparr>\<rparr> else c)"
  using assms unfolding Validate_def simple_error_def Let_def
  by (clarsimp split: if_split_asm option.split_asm simp del: list.set)

lemma validate_launcher_sandbox [simp]: "validate_launcher (c\<lparr>cf_Sandbox := x\<rparr>) = validate_launcher c"
  by (simp add: validate_launcher_def)

lemma Validate_facts:
  assumes "Validate c = (None, c')"
  shows "cf_ListenAddr c' \<noteq> []" "cf_AdvertiseAddr c' \<noteq> []" "0 \<le> cf_RedisDB c'"
    "validateHostPort ''billet address'' (cf_BilletAddr c') = None"
    "validateHostPort ''harness telemetry endpoint'' (cf_HarnessTelemetryEndpoint c') = None"
    "0 \<le> hc_TTLSecondsAfterFinished (cf_Harness c')" "0 \<le> hc_ActiveDeadlineSlack (cf_Harness c')"
    "tel_Validate (cf_Telemetry c') = None" "validate_launcher c' = None" "validate_token (cf_SandboxToken c') = None"
    "ed_Namespace (cf_Sandbox c') = [] \<longrightarrow> hc_Namespace (cf_Harness c') = []"
    "cf_Harness c' = cf_Harness c" "cf_AdvertiseAddr c' = cf_AdvertiseAddr c" "cf_SandboxToken c' = cf_SandboxToken c"
    "cf_Launcher c' = cf_Launcher c"
  using Validate_accepts [OF assms] by simp_all

lemma finish_flags_facts:
  assumes "finish_flags fl = Inr c"
  shows "Validate (flags_config fl) = (None, c)" "0 \<le> fl_ttl fl" "fl_ttl fl \<le> 2147483647"
  using assms by (auto simp: finish_flags_def split: if_splits prod.splits option.splits)

lemma flags_config_fields:
  "hc_TTLSecondsAfterFinished (cf_Harness (flags_config fl)) = fl_ttl fl"
  "hc_ActiveDeadlineSlack (cf_Harness (flags_config fl)) = fl_slack fl"
  "tc_TTL (cf_SandboxToken (flags_config fl)) = fl_tokenTTL fl"
  by (simp_all add: flags_config_def Let_def)

lemma token_issuer_starts:
  assumes "validate_token (cf_SandboxToken c) = None" and "tc_KeyPath (cf_SandboxToken c) \<noteq> []"
    and "load (tc_KeyPath (cf_SandboxToken c)) = Inr k"
    and "pub_Curve (priv_Public k) = Some ''P-256''" and "on_p256 (pub_X (priv_Public k)) (pub_Y (priv_Public k))"
  shows "\<exists>i. buildTokenIssuer load clock c = Inr (Some i)"
proof -
  let ?t = "cf_SandboxToken c"
  have "tc_Issuer ?t \<noteq> []" "tc_Audience ?t \<noteq> []" "0 < tc_TTL ?t"
    using assms(1,2) by (auto simp: validate_token_def simple_error_def split: if_splits)
  from NewIssuer_succeeds [OF assms(4,5) this, of clock] obtain i where
    "NewIssuer clock (Some k) (tc_Issuer ?t) (tc_Audience ?t) (tc_TTL ?t) = Inr i" ..
  with assms(2,3) show ?thesis by (simp add: buildTokenIssuer_def Let_def)
qed

text \<open>A sample ratio that is not a number is neither below zero nor above one.\<close>

lemma nan_ratio_accepted: "tel_Validate (o'\<lparr>to_SampleRatio := NaN\<rparr>) = tel_Validate (o'\<lparr>to_SampleRatio := Fin 1\<rparr>)"
  by (simp add: tel_Validate_def)

section \<open>Agreement of the parts\<close>

lemma serve_wire_parts:
  "svc_memoryTools (sr_service (serve_wire x cfg b st pr l iss)) \<longleftrightarrow>
     h_memory (sr_controlplane (serve_wire x cfg b st pr l iss)) \<noteq> None"
  "svc_store (sr_service (serve_wire x cfg b st pr l iss)) = st"
  "h_store (sr_controlplane (serve_wire x cfg b st pr l iss)) = st"
  "rp_store (sr_reaper (serve_wire x cfg b st pr l iss)) = st"
  "rp_deadlineSlack (sr_reaper (serve_wire x cfg b st pr l iss)) = hc_ActiveDeadlineSlack (cf_Harness cfg)"
  "svc_launcher (sr_service (serve_wire x cfg b st pr l iss)) = launcher_Launch (ou_env x) (ou_cluster x) l"
  "h_issuer (sr_controlplane (serve_wire x cfg b st pr l iss)) = map_option (issuer_of (ou_sign x) (ou_random x)) iss"
  by (simp_all add: serve_wire_def Let_def serve_reaper_def NewService_def New_def option_defs NewReaper_def rp_WithTelemetry_def WithExecutorDefaults_def
      WithHarnessTelemetryEndpoint_def WithMemoryTools_def svc_WithTelemetry_def split: option.split)

section \<open>Shutdown\<close>

definition cancel_event :: "ControlEvent \<times> bool \<Rightarrow> bool" where
  "cancel_event m \<longleftrightarrow> fst m = control_event ''cancel''"

lemma registry_Send_sent:
  "\<exists>xs. w_sent (snd (registry_Send E i (control_event ''cancel'') w)) s = w_sent w s @ xs \<and> list_all cancel_event xs \<and>
     (map_of (w_reg w) i = Some s \<and> \<not> w_closed w s \<longrightarrow> xs \<noteq> [])"
  by (auto simp: registry_Send_def Send_def session_Send_def stream_Send_def cancel_event_def Let_def split: option.splits)

lemma cancel_each_sent:
  "w_reg (cancel_each E (\<lambda>_ v. v) is' w) = w_reg w \<and> w_closed (cancel_each E (\<lambda>_ v. v) is' w) = w_closed w \<and>
   w_store (cancel_each E (\<lambda>_ v. v) is' w) = w_store w \<and>
   (\<exists>xs. w_sent (cancel_each E (\<lambda>_ v. v) is' w) s = w_sent w s @ xs \<and> list_all cancel_event xs \<and>
      ((\<exists>i \<in> set is'. map_of (w_reg w) i = Some s) \<and> \<not> w_closed w s \<longrightarrow> xs \<noteq> []))"
proof (induction is' arbitrary: w)
  case (Cons i is')
  let ?w = "snd (registry_Send E i (control_event ''cancel'') w)"
  obtain xs where xs: "w_sent ?w s = w_sent w s @ xs" "list_all cancel_event xs"
    "map_of (w_reg w) i = Some s \<and> \<not> w_closed w s \<longrightarrow> xs \<noteq> []" using registry_Send_sent [of E i w s] by blast
  from Cons [of ?w] obtain ys where ys: "w_sent (cancel_each E (\<lambda>_ v. v) is' ?w) s = w_sent ?w s @ ys" "list_all cancel_event ys"
    "(\<exists>i \<in> set is'. map_of (w_reg w) i = Some s) \<and> \<not> w_closed w s \<longrightarrow> ys \<noteq> []" by auto
  have "w_sent (cancel_each E (\<lambda>_ v. v) (i # is') w) s = w_sent w s @ (xs @ ys) \<and> list_all cancel_event (xs @ ys) \<and>
      ((\<exists>k \<in> set (i # is'). map_of (w_reg w) k = Some s) \<and> \<not> w_closed w s \<longrightarrow> xs @ ys \<noteq> [])"
    using xs ys by auto
  with Cons [of ?w] show ?case by (intro conjI exI [of _ "xs @ ys"]) simp_all
qed simp

lemma shutdown_reaches_sessions:
  assumes "map_of (w_reg w) i = Some s" and "\<not> w_closed w s"
  shows "\<exists>xs. w_sent (shutdown_cancels E (\<lambda>_ v. v) w) s = w_sent w s @ xs \<and> xs \<noteq> [] \<and> list_all cancel_event xs"
proof -
  have "i \<in> set (JobIDs (w_reg w))" using assms(1) by (simp add: JobIDs_Connected Connected_def)
  with assms cancel_each_sent [of E "JobIDs (w_reg w)" w s] show ?thesis
    unfolding shutdown_cancels_def by blast
qed

section \<open>Keys\<close>

lemma writeNew_keeps: "fs q \<noteq> None \<Longrightarrow> snd (writeNew io p d m fs) q = fs q"
  by (auto simp: writeNew_def split: option.splits if_splits)

lemma writeNew_ok:
  assumes "writeNew io p d m fs = (None, fs')"
  shows "fs p = None" "fs' = fs(p \<mapsto> (d, m))"
proof -
  show "fs p = None" using assms by (cases "fs p") (simp_all add: writeNew_def)
  then show "fs' = fs(p \<mapsto> (d, m))" using assms by (auto simp: writeNew_def split: option.splits)
qed

lemma keygen_keeps_files:
  assumes "fs q \<noteq> None"
  shows "snd (snd (runKeygen ki io out jwksOut fs)) q = fs q"
proof -
  have w: "snd (writeNew io out d m fs) q = fs q" for d m using assms by (rule writeNew_keeps)
  have w2: "snd (writeNew io jwksOut d m (snd (writeNew io out d' m' fs))) q = fs q" for d m d' m'
    using assms w by (metis writeNew_keeps)
  show ?thesis
    using w w2 by (auto simp: runKeygen_def Let_def split: sum.splits option.splits prod.splits) (metis snd_conv)+
qed

lemma keygen_ok:
  assumes "runKeygen ki io out jwksOut fs = (None, stdout, fs')"
  obtains k pem jwks where "ki_gen ki = Inr k" "EncodePrivateKeyPEM (ki_der ki) (ki_pemEncode ki) k = Inr pem"
    "JWKSDocument (Some (priv_Public k)) = Inr jwks" "fs out = None" "fs' out = Some (pem, 0x180)"
    "if jwksOut = [] then stdout = jwks @ [newline] else fs' jwksOut = Some (jwks @ [newline], 0x1A4)"
proof -
  obtain k where k: "ki_gen ki = Inr k" using assms by (auto simp: runKeygen_def GenerateKey_def split: if_splits sum.splits)
  obtain pem where pem: "EncodePrivateKeyPEM (ki_der ki) (ki_pemEncode ki) k = Inr pem"
    using assms by (auto simp: runKeygen_def GenerateKey_def k split: if_splits sum.splits)
  obtain fs1 where w: "writeNew io out pem 0x180 fs = (None, fs1)"
    using assms by (auto simp: runKeygen_def GenerateKey_def k pem split: if_splits prod.splits option.splits)
  obtain jwks where j: "JWKSDocument (Some (priv_Public k)) = Inr jwks"
    using assms by (auto simp: runKeygen_def GenerateKey_def k pem w split: if_splits sum.splits)
  note w1 = writeNew_ok [OF w]
  show thesis
  proof (cases "jwksOut = []")
    case True
    with assms w1 show thesis
      by (intro that [OF k pem j])
        (auto simp: runKeygen_def GenerateKey_def k pem w j split: if_splits sum.splits option.splits)
  next
    case False
    with assms obtain fs2 where w': "writeNew io jwksOut (jwks @ [newline]) 0x1A4 fs1 = (None, fs2)" "fs' = fs2"
      by (auto simp: runKeygen_def GenerateKey_def k pem w j Let_def split: if_splits sum.splits option.splits prod.splits)
    note w2 = writeNew_ok [OF w'(1)]
    from w1 w2(1) have "jwksOut \<noteq> out" by auto
    with False w1 w2 w'(2) show thesis by (intro that [OF k pem j]) simp_all
  qed
qed

text \<open>
  What \<open>keygen\<close> writes is what \<open>serve\<close> reads: with decoders that invert the encoders, the
  key file loads as the generated key, and an issuer made from it publishes the document
  that was written.
\<close>

lemma keygen_loads:
  assumes "runKeygen ki io out jwksOut fs = (None, stdout, fs')"
    and "\<And>d. pem (ki_pemEncode ki ''PRIVATE KEY'' d) = Some (''PRIVATE KEY'', d)" and "\<And>k d. ki_der ki k = Inr d \<Longrightarrow> decode d = Inr (Inr k)"
    and "\<And>k. ki_gen ki = Inr k \<Longrightarrow> pub_Curve (priv_Public k) = Some ''P-256''"
  shows "\<exists>k. ki_gen ki = Inr k \<and> LoadKey pem ec decode out (Inr (fst (the (fs' out)))) = Inr k \<and>
    (\<forall>clock issuer audience ttl i. NewIssuer clock (Some k) issuer audience ttl = Inr i \<longrightarrow>
       (if jwksOut = [] then stdout = is_jwks i @ [newline]
        else fs' jwksOut = Some (is_jwks i @ [newline], 0x1A4)))"
  using assms(1)
proof (rule keygen_ok)
  fix k p jwks
  assume k: "ki_gen ki = Inr k" "EncodePrivateKeyPEM (ki_der ki) (ki_pemEncode ki) k = Inr p"
    "JWKSDocument (Some (priv_Public k)) = Inr jwks" "fs' out = Some (p, 0x180)"
    "if jwksOut = [] then stdout = jwks @ [newline] else fs' jwksOut = Some (jwks @ [newline], 0x1A4)"
  from k(2) obtain d where d: "ki_der ki k = Inr d" "p = ki_pemEncode ki ''PRIVATE KEY'' d"
    by (auto simp: EncodePrivateKeyPEM_def split: sum.splits)
  have "LoadKey pem ec decode out (Inr p) = Inr k"
    using assms(2) assms(3) [OF d(1)] assms(4) [OF k(1)] by (simp add: LoadKey_def ParsePrivateKeyPEM_def d(2))
  moreover have "is_jwks i = jwks" if "NewIssuer clock (Some k) issuer audience ttl = Inr i" for clock issuer audience ttl i
    using NewIssuer_facts [OF that] k(3) by auto
  ultimately show ?thesis using k(1,4,5) by (intro exI [of _ k]) auto
qed

end
