(* ===== verification/System.thy ===== *)
theory System
  imports StreamCount PumpSpec LaunchSpec MemSpec JsonSpec RedisRace ServeSpec
begin

text \<open>
  The program as a whole, over any store: any nesting and sequence of
  connections, service calls, launches, memory-call goroutines and reaper sweeps.
  The relation \<open>sys\<close> is inductive in its own gaps, so a call may be interrupted
  between two of its shared operations by any other activity, to any depth.
\<close>

inductive sys ::
  "env \<Rightarrow> 's Handler \<Rightarrow> 's Service \<Rightarrow> 's Reaper \<Rightarrow> 's World \<Rightarrow> 's World \<Rightarrow> bool"
  for E h sv rp where
  idle: "sys E h sv rp w w"
| seq: "sys E h sv rp w w1 \<Longrightarrow> sys E h sv rp w1 w2 \<Longrightarrow> sys E h sv rp w w2"
| connection:
    "(\<And>k v. sys E h sv rp v (gap k v)) \<Longrightarrow>
     (\<And>f v. Others f \<in> set ins \<Longrightarrow> sys E h sv rp v (f v)) \<Longrightarrow>
     sys E h sv rp w (snd (runTask E h s first gap ins w))"
| memory_call_started: "sys E h sv rp w (snd (start_call E n (p, w)))"
| memory_call_answered: "sys E h sv rp w (snd (answer_call E h n (p, w)))"
| submitted: "sys E h sv rp w (snd (Submit E sv u sp w))"
| launched: "(\<And>k v. sys E h sv rp v (gap k v)) \<Longrightarrow> sys E h sv rp w (launch E sv gap j w)"
| cancelled: "(\<And>k v. sys E h sv rp v (gap k v)) \<Longrightarrow> sys E h sv rp w (snd (Cancel E sv gap i w))"
| permission_answered:
    "(\<And>k v. sys E h sv rp v (gap k v)) \<Longrightarrow>
     sys E h sv rp w (snd (AnswerPermission E sv gap i rid allow reason w))"
| watched:
    "(\<And>k v. sys E h sv rp v (gap k v)) \<Longrightarrow> svc_Watch sv gap i aft w = Some (r, w') \<Longrightarrow>
     sys E h sv rp w w'"
| swept:
    "(\<And>k v. sys E h sv rp v (gap k v)) \<Longrightarrow> sweep E rp gap n w = Some w' \<Longrightarrow>
     sys E h sv rp w w'"

text \<open>The parts are wired to the one store, as \<open>serve\<close> wires them.\<close>

definition wired :: "memStore Handler \<Rightarrow> memStore Service \<Rightarrow> memStore Reaper \<Rightarrow> bool" where
  "wired h sv rp \<longleftrightarrow>
     h_store h = memStore_ops \<and> svc_store sv = memStore_ops \<and> rp_store rp = memStore_ops"

text \<open>Every stored job has a well-formed identifier and a harness token, as \<open>Submit\<close> makes them.\<close>

definition all_credentialed :: "memStore \<Rightarrow> bool" where
  "all_credentialed m \<longleftrightarrow>
     (\<forall>i j. ms_jobs m i = Some j \<longrightarrow> ValidID (j_ID j) \<and> j_HarnessToken j \<noteq> [])"

section \<open>Settled jobs in the whole system\<close>

lemma svc_Watch_world:
  assumes "svc_Watch sv gap i a w = Some (r, w')"
  shows "w' = w \<or> (\<exists>e s'. s_WatchEvents (svc_store sv) i a (w_store (gap 0 w)) = Some (e, s') \<and>
    w' = (gap 0 w)\<lparr>w_store := s'\<rparr>)"
proof (cases "s_WatchEvents (svc_store sv) i a (w_store (gap 0 w))")
  case None
  with assms show ?thesis
    by (auto simp: svc_Watch_def Let_def split: option.splits sum.splits if_splits)
next
  case (Some es)
  obtain e s' where es: "es = (e, s')" by (cases es)
  have "w' = w \<or> w' = (gap 0 w)\<lparr>w_store := s'\<rparr>"
    using assms unfolding svc_Watch_def Let_def Some es
    by (cases "checkID i"; cases "s_GetJob (svc_store sv) i (w_store w)"; cases e)
       (simp_all split: if_splits)
  with Some es show ?thesis by simp
qed

context watched_store
begin

lemma keeps_Watch:
  assumes "svc_store sv = ops" and "gaps_do keeps gap"
    and "svc_Watch sv gap i a w = Some (r, w')"
  shows "keeps w w'"
proof -
  have k: "keeps v (v\<lparr>w_store := s'\<rparr>)" if "s_WatchEvents ops i a (w_store v) = Some (e, s')" for v e s'
    using watch_frame [OF _ that] by (simp add: keeps_def)
  from svc_Watch_world [OF assms(3)] show ?thesis
    using keeps_refl keeps_trans [OF gaps_doD [OF assms(2)] k] unfolding assms(1) by auto
qed

text \<open>
  A page token is followed through states that other activity has changed, so a
  listing mixes several moments; what it shows of a watched job is nevertheless
  watched.
\<close>

definition listed_watched :: "'s World \<Rightarrow> Job list \<Rightarrow> bool" where
  "listed_watched w js \<longleftrightarrow>
     (\<forall>k \<in> set js. \<forall>j. job_of (w_store w) (j_ID k) = Some j \<longrightarrow> watched (j_ID k) j \<longrightarrow>
        watched (j_ID k) k)"

lemma listed_watched_page:
  assumes "keeps w v" and "upto (w_reads v)" and "invar (w_store w)"
    and "s_ListJobs ops n token (w_store v) = Inr (js, next)"
  shows "listed_watched w js"
  unfolding listed_watched_def
proof (intro ballI allI impI)
  fix k j
  assume "k \<in> set js" and j: "job_of (w_store w) (j_ID k) = Some j" "watched (j_ID k) j"
  have v: "invar (w_store v)" "persist_on watched (job_of (w_store w)) (job_of (w_store v))"
    using assms(1-3) by (simp_all add: keeps_def)
  from list_stored [OF v(1) assms(4) \<open>k \<in> set js\<close>] persist_onD [OF v(2) j]
  show "watched (j_ID k) k" by auto
qed

lemma keeps_listAllJobs:
  assumes "rp_store rp = ops" and "gaps_do keeps gap"
  shows "listAllJobs rp gap n token all v = Some (r, w') \<Longrightarrow> keeps w v \<Longrightarrow>
    (upto (w_reads v) \<Longrightarrow> invar (w_store w) \<Longrightarrow> listed_watched w all) \<Longrightarrow>
    keeps w w' \<and> (upto (w_reads w') \<longrightarrow> invar (w_store w) \<longrightarrow>
      (\<forall>js. r = Inr js \<longrightarrow> listed_watched w js))"
proof (induction n arbitrary: token all v)
  case (Suc n)
  show ?case
  proof (cases "s_ListJobs ops (rp_pageSize rp) token (w_store v)")
    case (Inl e)
    with Suc.prems show ?thesis by (auto simp: assms(1))
  next
    case (Inr page)
    obtain js nx where page: "page = (js, nx)" by (cases page)
    have listed: "listed_watched w (all @ js)" if "upto (w_reads v)" "invar (w_store w)"
      using listed_watched_page [OF Suc.prems(2) that, of "rp_pageSize rp" token js nx]
        Suc.prems(3) [OF that] Inr page
      by (auto simp: listed_watched_def)
    show ?thesis
    proof (cases "nx = []")
      case True
      with Suc.prems listed show ?thesis by (auto simp: assms(1) Inr page)
    next
      case False
      have g: "keeps v (gap n v)" by (rule gaps_doD [OF assms(2)])
      have "upto (w_reads v)" if "upto (w_reads (gap n v))"
        using g that upto_down by (auto simp: keeps_def)
      with Suc.IH [of nx "all @ js" "gap n v"] keeps_trans [OF Suc.prems(2) g] listed Suc.prems(1) False
      show ?thesis by (simp add: assms(1) Inr page)
    qed
  qed
qed simp

text \<open>Deletion spares the watched jobs while no reading of the clock finds one expired.\<close>

definition unexpired :: "env \<Rightarrow> 's Reaper \<Rightarrow> bool" where
  "unexpired E rp \<longleftrightarrow>
     (\<forall>i j n. watched i j \<longrightarrow> upto (Suc n) \<longrightarrow> 0 < rp_retention rp \<longrightarrow>
        \<not> is_expired rp (env_clock E n) j)"

lemma keeps_then_delete:
  assumes "keeps w v"
    and "\<And>j. upto (w_reads v) \<Longrightarrow> invar (w_store w) \<Longrightarrow> job_of (w_store w) i = Some j \<Longrightarrow> \<not> watched i j"
  shows "keeps w (snd (w_DeleteJob ops i v))"
proof (cases "upto (w_reads v) \<and> invar (w_store w)")
  case True
  with assms(1) have v: "invar (w_store v)" "persist_on watched (job_of (w_store w)) (job_of (w_store v))"
    and r: "w_reads w \<le> w_reads v"
    by (simp_all add: keeps_def)
  have "persist_on watched (job_of (w_store w)) ((job_of (w_store v))(i := None))"
    using v(2) assms(2) True by (blast intro: persist_on_delete)
  then show ?thesis
    using delete_missing [OF v(1), of i] delete_found [OF v(1), of i] v r
    by (cases "job_of (w_store v) i") (auto simp: keeps_def w_DeleteJob_def)
next
  case False
  with assms(1) show ?thesis by (auto simp: keeps_def w_DeleteJob_def split: prod.splits)
qed

lemma keeps_delete_each:
  assumes "rp_store rp = ops" and "unexpired E rp" and "0 < rp_retention rp"
    and "w_reads v = Suc n" and "t = env_clock E n"
  shows "keeps w v \<Longrightarrow> (upto (w_reads v) \<Longrightarrow> invar (w_store w) \<Longrightarrow> listed_watched w js) \<Longrightarrow>
    keeps w (delete_each rp t js v)"
  using assms(4)
proof (induction js arbitrary: v)
  case (Cons k js)
  let ?v = "if is_expired rp t k then snd (w_DeleteJob (rp_store rp) (j_ID k) v) else v"
  have "\<not> watched (j_ID k) j" if "is_expired rp t k" "upto (w_reads v)" "invar (w_store w)"
    "job_of (w_store w) (j_ID k) = Some j" for j
    using Cons.prems(2) [OF that(2,3)] that assms(2,3,5) Cons.prems(3)
    by (auto simp: listed_watched_def unexpired_def)
  then have "keeps w ?v"
    using Cons.prems(1) keeps_then_delete [OF Cons.prems(1), of "j_ID k"] by (auto simp: assms(1))
  moreover have "w_reads ?v = w_reads v" by (simp add: w_DeleteJob_def split: prod.splits)
  ultimately show ?case using Cons.IH [of ?v] Cons.prems(2,3) by (simp add: listed_watched_def)
qed simp

lemma keeps_sweep:
  assumes "rp_store rp = ops" and "unexpired E rp" and "gaps_do keeps gap"
    and "sweep E rp gap n w = Some w'"
  shows "keeps w w'"
proof -
  obtain r v where l: "listAllJobs rp gap n [] [] w = Some (r, v)"
    using assms(4) by (auto simp: sweep_def split: option.splits)
  note listed = keeps_listAllJobs [OF assms(1,3) l keeps_refl]
  have kv: "keeps w v" using listed by (simp add: listed_watched_def)
  show ?thesis
  proof (cases r)
    case (Inl e)
    with assms(4) kv show ?thesis by (simp add: sweep_def l)
  next
    case (Inr js)
    let ?v = "reapAwaitingHarness E rp js v"
    have k: "keeps v ?v" by (rule keeps_reapAwaitingHarness [OF assms(1)])
    have kn: "keeps v (snd (now E ?v))" by (rule keeps_trans [OF k keeps_now])
    have "listed_watched w js" if "upto (w_reads (snd (now E ?v)))" "invar (w_store w)"
      using listed that kn Inr upto_down by (auto simp: listed_watched_def keeps_def)
    then have "keeps w (reapRetention E rp js ?v)" if "0 < rp_retention rp"
      using keeps_delete_each [OF assms(1,2) that _ _ keeps_trans [OF kv kn], of "w_reads ?v"]
      by (simp add: reapRetention_def now_def)
    with assms(4) keeps_trans [OF kv k] show ?thesis
      by (auto simp: sweep_def l Inr Let_def)
  qed
qed

lemma sys_keeps:
  assumes "sys E h sv rp w w'" and "h_store h = ops" and "svc_store sv = ops" and "rp_store rp = ops"
    and "unexpired E rp"
  shows "keeps w w'"
  using assms(1)
proof induction
  case (connection gap ins w s first)
  then show ?case using assms(2) by (intro keeps_runTask) (auto simp: gaps_do_def others_do_def)
next
  case (memory_call_answered w n p)
  then show ?case using assms(2) by (intro quiet_keeps quiet_answer_call)
next
  case (submitted w u sp)
  then show ?case using assms(3) by (intro keeps_Submit)
next
  case (launched gap w j)
  then show ?case using assms(3) by (intro keeps_launch) (auto simp: gaps_do_def)
next
  case (cancelled gap w i)
  then show ?case using assms(3) by (intro keeps_Cancel) (auto simp: gaps_do_def)
next
  case (permission_answered gap w i rid allow reason)
  then show ?case using assms(3) by (intro keeps_AnswerPermission) (auto simp: gaps_do_def)
next
  case (watched gap i a w r w')
  then show ?case using assms(3) by (intro keeps_Watch) (auto simp: gaps_do_def)
next
  case (swept gap n w w')
  then show ?case using assms(4,5) by (intro keeps_sweep) (auto simp: gaps_do_def)
qed (auto intro: keeps_refl keeps_trans quiet_keeps quiet_start_call)

end

section \<open>The in-memory store under the whole program\<close>

text \<open>
  No job watched: the store stays well formed. One settled job watched, up to a
  number of clock readings: it outlives the run unless one of them finds it expired.
\<close>

interpretation mem_none: watched_store memStore_ops mem_ok ms_jobs ms_events
  "\<lambda>m i. map_of (ms_perms m i)" "\<lambda>_ _. False" "\<lambda>_. True"
  by unfold_locales simp_all

interpretation mem_one: watched_store memStore_ops mem_ok ms_jobs ms_events
  "\<lambda>m i. map_of (ms_perms m i)"
  "\<lambda>i j. i = i0 \<and> Terminal (j_Status j0) \<and> same_outcome j0 j" "\<lambda>n. n \<le> N" for i0 j0 N
  by unfold_locales (auto simp: same_outcome_fields intro: same_outcome_trans)

lemma sys_mem_keeps:
  assumes "sys E h sv rp w w'" and "wired h sv rp" and "rp_retention rp \<le> 0"
  shows "mem.keeps w w'"
  using assms by (intro mem.sys_keeps) (auto simp: wired_def mem.unexpired_def)

lemma sys_mem_ok:
  assumes "sys E h sv rp w w'" and "wired h sv rp" and "mem_ok (w_store w)"
  shows "mem_ok (w_store w')"
proof -
  have "mem_none.keeps w w'"
    using assms(1,2) by (intro mem_none.sys_keeps) (auto simp: wired_def mem_none.unexpired_def)
  with assms(3) show ?thesis by (simp add: mem_none.keeps_def)
qed

lemma sys_mem_outcome:
  assumes "sys E h sv rp w w'" and "wired h sv rp" and "mem_ok (w_store w)"
    and "ms_jobs (w_store w) i = Some j" and "Terminal (j_Status j)"
    and "0 < rp_retention rp \<Longrightarrow> \<forall>n < w_reads w'. \<not> is_expired rp (env_clock E n) j"
  shows "\<exists>j'. ms_jobs (w_store w') i = Some j' \<and> same_outcome j j'"
proof -
  have "is_expired rp t j" if "same_outcome j j'" "is_expired rp t j'" for t j'
    using that(2) by (simp add: is_expired_def same_outcome_fields [OF that(1)])
  with assms(6) have "mem_one.unexpired i j (w_reads w') E rp"
    unfolding mem_one.unexpired_def by (meson Suc_le_lessD)
  with assms(1,2) have "mem_one.keeps i j (w_reads w') w w'"
    by (intro mem_one.sys_keeps) (auto simp: wired_def)
  with assms(3) have "persist_on (\<lambda>k j'. k = i \<and> Terminal (j_Status j) \<and> same_outcome j j')
      (ms_jobs (w_store w)) (ms_jobs (w_store w'))"
    by (simp add: mem_one.keeps_def)
  from persist_onD [OF this assms(4)] assms(5) show ?thesis by auto
qed

end
