(* ===== verification/Labels.thy ===== *)
theory Labels
  imports System
begin

text \<open>
  The labels of the measurements. Every value a measurement carries as an attribute comes
  from a fixed vocabulary of its key or is the name of a configured profile, whatever
  harnesses and clients send: job identifiers, error texts, tool names and event types of
  their own making never open a new series.
\<close>

section \<open>The vocabulary\<close>

definition terminal_names :: "string list" where
  "terminal_names = map status_string [StatusSucceeded, StatusFailed, StatusCancelled]"

definition label_values :: "string list \<Rightarrow> string \<Rightarrow> string list" where
  "label_values profiles k =
     (if k = attrProfile then profiles
      else if k = attrSubmissionOutcome then [SubmissionAccepted, SubmissionRejected, SubmissionFailed]
      else if k = attrLaunchOutcome then [LaunchSucceeded, LaunchFailed, LaunchSkipped]
      else if k = attrJobStatus then terminal_names
      else if k = attrStopReason then [] # otherLabel # knownStopReasons
      else if k = attrSessionDisposition then
        map disposition_string
          [SessionAssigned, SessionClosedBeforeReady, SessionNotReady, SessionNoID, SessionUnknownJob,
           SessionBadToken, SessionClosedJob, SessionDuplicate, SessionUnusableRunConfig, SessionAssignmentFailed]
      else if k = attrEventType then [] # otherLabel # knownEventTypes
      else if k = attrPermissionDecision then [''allow'', ''deny'']
      else if k = attrDelivered then [''true'', ''false'']
      else if k = attrMemoryTool then [] # otherLabel # knownMemoryTools
      else if k = attrMemoryOutcome then [MemoryOK, MemoryError, MemoryRefused]
      else [])"

definition labelled :: "string list \<Rightarrow> measurement \<Rightarrow> bool" where
  "labelled profiles m \<longleftrightarrow> list_all (\<lambda>(k, v). v \<in> set (label_values profiles k)) (mt_attrs m)"

definition labels_ok :: "string list \<Rightarrow> 's World \<Rightarrow> bool" where
  "labels_ok profiles w \<longleftrightarrow> list_all (labelled profiles) (w_metrics w)"

lemma label_values_bounded:
  "bounded v knownStopReasons \<in> set (label_values ps attrStopReason)"
  "bounded v knownEventTypes \<in> set (label_values ps attrEventType)"
  "bounded v knownMemoryTools \<in> set (label_values ps attrMemoryTool)"
  by (simp_all add: label_values_def bounded_def)

lemma terminal_name: "Terminal s \<Longrightarrow> status_string s \<in> set terminal_names"
  by (cases s) (simp_all add: terminal_names_def)

lemma labelled_sample:
  "labelled ps (sample i v as) \<longleftrightarrow> (\<forall>(k, x) \<in> set as. x \<in> set (label_values ps k))"
  by (auto simp: labelled_def sample_def list_all_iff)

lemma label_values_simps:
  "label_values ps attrProfile = ps"
  "label_values ps attrSubmissionOutcome = [SubmissionAccepted, SubmissionRejected, SubmissionFailed]"
  "label_values ps attrLaunchOutcome = [LaunchSucceeded, LaunchFailed, LaunchSkipped]"
  "label_values ps attrJobStatus = terminal_names"
  "label_values ps attrPermissionDecision = [''allow'', ''deny'']"
  "label_values ps attrDelivered = [''true'', ''false'']"
  "label_values ps attrMemoryOutcome = [MemoryOK, MemoryError, MemoryRefused]"
  by (simp_all add: label_values_def)

lemma disposition_listed: "disposition_string d \<in> set (label_values ps attrSessionDisposition)"
  by (cases d) (simp_all add: label_values_def)

lemmas labelled_rules = labelled_sample label_values_simps label_values_bounded

lemma completed_labels [simp]: "Terminal s \<Longrightarrow> list_all (labelled ps) (JobCompleted r s stop d)"
  by (simp add: JobCompleted_def labelled_rules terminal_name del: attrJobStatus_def attrStopReason_def)

lemma stream_labels [simp]:
  "list_all (labelled ps) (HarnessSession r d)" "list_all (labelled ps) (SessionOpened r)"
  "list_all (labelled ps) (SessionClosed r)" "list_all (labelled ps) (HarnessEventReceived r ty)"
  by (simp_all add: HarnessSession_def SessionOpened_def SessionClosed_def HarnessEventReceived_def labelled_rules
      disposition_listed del: attrSessionDisposition_def attrEventType_def)

lemma permission_labels [simp]:
  "list_all (labelled ps) (PermissionRequested r)" "list_all (labelled ps) (PermissionAnswered r a b)"
  by (simp_all add: PermissionRequested_def PermissionAnswered_def labelled_rules
      del: attrPermissionDecision_def attrDelivered_def)

lemma memory_labels [simp]:
  "list_all (labelled ps) (MemoryCall r tool MemoryOK d)" "list_all (labelled ps) (MemoryCall r tool MemoryError d)"
  "list_all (labelled ps) (MemoryCall r tool MemoryRefused d)"
  by (simp_all add: MemoryCall_def Let_def labelled_rules
      del: attrMemoryTool_def attrMemoryOutcome_def)

lemma launch_labels [simp]:
  "list_all (labelled ps) (JobLaunched r LaunchSucceeded d)" "list_all (labelled ps) (JobLaunched r LaunchFailed d)"
  "list_all (labelled ps) (JobLaunched r LaunchSkipped d)"
  by (simp_all add: JobLaunched_def labelled_rules
      del: attrLaunchOutcome_def)

lemma submission_labels:
  assumes "profile = [] \<or> profile \<in> set ps" and "out \<in> {SubmissionAccepted, SubmissionRejected, SubmissionFailed}"
  shows "list_all (labelled ps) (JobSubmitted r profile out)"
  using assms
  by (auto simp: JobSubmitted_def labelled_rules
      simp del: attrProfile_def attrSubmissionOutcome_def)

section \<open>Steps\<close>

lemma labels_tel [simp]: "labels_ok ps (tel ms w) \<longleftrightarrow> labels_ok ps w \<and> list_all (labelled ps) ms"
  by (simp add: labels_ok_def)

lemma labels_frame [simp]:
  "labels_ok ps (snd (now E w)) = labels_ok ps w"
  "labels_ok ps (snd (session_Send E s ev w)) = labels_ok ps w"
  "labels_ok ps (snd (registry_Send E i ev w)) = labels_ok ps w"
  "labels_ok ps (sendCancel E s w) = labels_ok ps w"
  "labels_ok ps (session_close s w) = labels_ok ps w"
  "labels_ok ps (w_unregister i s w) = labels_ok ps w"
  "labels_ok ps (snd (w_register i s w)) = labels_ok ps w"
  "labels_ok ps (open_session s w) = labels_ok ps w"
  "labels_ok ps (snd (snd (w_UpdateJob st i fn c w))) = labels_ok ps w"
  "labels_ok ps (snd (w_AppendEvent E st i evt w)) = labels_ok ps w"
  "labels_ok ps (snd (w_PutPermission st i p w)) = labels_ok ps w"
  "labels_ok ps (append_ev E h q evt w) = labels_ok ps w"
  "labels_ok ps (appendStatus E h i x t w) = labels_ok ps w"
  "labels_ok ps (snd (pump E i s d w)) = labels_ok ps w"
  by (simp_all add: labels_ok_def append_ev_def appendStatus_def pump_def Let_def case_prod_unfold)

lemma labels_frame_store [simp]:
  "labels_ok ps (snd (w_CreateJob st j w)) = labels_ok ps w"
  "labels_ok ps (snd (w_DeleteJob st i w)) = labels_ok ps w"
  "labels_ok ps (w\<lparr>w_store := s'\<rparr>) = labels_ok ps w"
  by (simp_all add: labels_ok_def w_CreateJob_def w_DeleteJob_def split: prod.splits)

lemma labels_proto [simp]:
  "labels_ok ps (appendProto E h p ev t w) = labels_ok ps w"
  "labels_ok ps (appendControl E h p ce t w) = labels_ok ps w"
  "labels_ok ps (appendStatusEvent E st i x txt w) = labels_ok ps w"
  by (simp_all add: appendProto_def appendControl_def appendStatusEvent_def Let_def case_prod_unfold split: sum.splits)

lemma labels_send [simp]:
  "labels_ok ps (sendToolResult E h p r c e w) = labels_ok ps w"
  "labels_ok ps (sendSandboxTokenResponse E p ev tok x err reason w) = labels_ok ps w"
  by (simp_all add: sendToolResult_def sendSandboxTokenResponse_def Let_def case_prod_unfold)

text \<open>What a closure captured when its update succeeded, on the in-memory store.\<close>

lemma mem_update_captured:
  assumes "w_UpdateJob memStore_ops i fn c w = (Inr j', c', w')"
  shows "\<exists>j. fn j c = (Inr j', c')"
  using assms by (auto simp: w_UpdateJob_def mem_UpdateJob_def split: option.splits prod.splits sum.splits)

lemma labels_closeUnfinished:
  assumes "h_store h = memStore_ops" and "labels_ok ps w"
  shows "labels_ok ps (closeUnfinished E h p w)"
proof -
  let ?fn = "fn_closeUnfinished (ep_errMessage p) (ep_finalText p) (fst (now E w)) (ep_lastEventAt p)"
  obtain r c w2 where u: "w_UpdateJob memStore_ops (ep_jobID p) ?fn no_capture (snd (now E w)) = (r, c, w2)"
    by (metis prod_cases3)
  have w2: "labels_ok ps w2" using labels_frame(9) [of ps memStore_ops "ep_jobID p" ?fn no_capture "snd (now E w)"] u assms(2) by simp
  have "Terminal (c_status c)" if "r = Inr j'" for j'
    using mem_update_captured [OF u [unfolded that]] by (auto simp: fn_closeUnfinished_def Let_def split: if_splits)
  with w2 show ?thesis by (auto simp: closeUnfinished_def Let_def case_prod_unfold assms(1) u split: sum.splits)
qed

lemma labels_settle [simp]:
  "labels_ok ps w \<Longrightarrow> labels_ok ps (finish E h p ev t w)"
  "labels_ok ps w \<Longrightarrow> labels_ok ps (failJob E h i reason w)"
  "labels_ok ps w \<Longrightarrow> labels_ok ps (finaliseCancelled E h i w)"
  by (simp_all add: finish_def failJob_def finaliseCancelled_def Let_def case_prod_unfold split: sum.splits)

lemma labels_flush: "labels_ok ps (snd pw) \<Longrightarrow> labels_ok ps (snd (flushDeltas E h pw))"
  by (cases pw) (simp add: flushDeltas_def Let_def case_prod_unfold)

lemma labels_pump_invariant:
  assumes "h_store h = memStore_ops"
  shows "pump_invariant E h (\<lambda>pw. labels_ok ps (snd pw))"
proof (standard, goal_cases)
  case (5 p w ev t)
  then show ?case by (simp add: labels_flush)
next
  case (6 pw)
  then show ?case by (simp add: labels_flush)
next
  case (7 pw t)
  then show ?case by (cases pw) (simp add: maybeFlushLastEventAt_def)
next
  case (8 pw ev t)
  then show ?case by (cases pw) (simp add: putPermission_def)
next
  case (10 pw ev)
  then show ?case
    by (cases pw) (simp add: handleSandboxTokenRequest_def Let_def split: option.splits sum.splits)
next
  case (11 pw ev)
  then show ?case by (cases pw) (simp add: fulfilToolResult_def Let_def split: sum.splits)
next
  case (12 pw n)
  then show ?case by (cases pw) (simp add: start_call_def Let_def case_prod_unfold)
next
  case (13 pw n)
  then show ?case
    by (cases pw) (simp add: answer_call_def settle_call_def Let_def case_prod_unfold split: option.splits answer.splits)
qed (simp_all add: labels_closeUnfinished [OF assms])

section \<open>Handlers\<close>

definition labels_kept :: "string list \<Rightarrow> 's World \<Rightarrow> 's World \<Rightarrow> bool" where
  "labels_kept ps w w' \<longleftrightarrow> (labels_ok ps w \<longrightarrow> labels_ok ps w')"

lemma labels_gap: "gaps_do (labels_kept ps) gap \<Longrightarrow> labels_ok ps v \<Longrightarrow> labels_ok ps (gap k v)"
  using gaps_doD [of "labels_kept ps" gap v k] by (simp add: labels_kept_def)

lemma labels_run:
  assumes "h_store h = memStore_ops" and "others_do (labels_kept ps) ins" and "labels_ok ps w"
  shows "labels_ok ps (snd (run E h ins (p, w)))"
  using pump_invariant.run_kept [OF labels_pump_invariant [OF assms(1)], of ps "(p, w)" ins] assms(3)
    others_doD [OF assms(2)]
  by (simp add: labels_kept_def)

lemma labels_run_assigned:
  assumes "h_store h = memStore_ops" and "gaps_do (labels_kept ps) gap" and "others_do (labels_kept ps) ins"
    and "labels_ok ps w"
  shows "labels_ok ps (run_assigned E h s i j cfg gap ins w)"
  using assms by (simp add: run_assigned_def Let_def case_prod_unfold labels_gap labels_run split: sum.splits)

lemma labels_serve_claim:
  assumes "h_store h = memStore_ops" and "gaps_do (labels_kept ps) gap" and "others_do (labels_kept ps) ins"
    and "labels_ok ps w"
  shows "labels_ok ps (snd (serve_claim E h s i j gap ins w))"
  using assms
  by (simp add: serve_claim_def Let_def case_prod_unfold labels_gap labels_run_assigned split: sum.splits option.splits)

lemma labels_claim:
  assumes "h_store h = memStore_ops" and "gaps_do (labels_kept ps) gap" and "others_do (labels_kept ps) ins"
    and "labels_ok ps w"
  shows "labels_ok ps (snd (claim E h s i j gap ins w))"
  using assms by (simp add: claim_def Let_def case_prod_unfold labels_serve_claim split: option.splits)

lemma labels_runTask:
  assumes "h_store h = memStore_ops" and "gaps_do (labels_kept ps) gap" and "others_do (labels_kept ps) ins"
    and "labels_ok ps w"
  shows "labels_ok ps (snd (runTask E h s first gap ins w))"
  using assms by (simp add: runTask_def Let_def case_prod_unfold labels_gap labels_claim split: sum.splits)

lemma resolved_profile:
  assumes "resolveConfig E sv p = Inr (cfg, profile)"
  shows "profile = [] \<or> profile \<in> set (profile_Names (svc_profiles sv))"
proof -
  have "n \<in> set (profile_Names (svc_profiles sv))" if "profile_Get (svc_profiles sv) n = Some c" for n c
    using that map_of_SomeD [of "pr_templates (svc_profiles sv)" n c]
    by (auto simp: profile_Get_def profile_Names_def rev_image_eqI)
  with assms show ?thesis by (auto simp: resolveConfig_def Let_def split: if_splits sum.splits option.splits)
qed

lemma labels_Submit:
  assumes "labels_ok (profile_Names (svc_profiles sv)) w"
  shows "labels_ok (profile_Names (svc_profiles sv)) (snd (Submit E sv u p w))"
proof (cases "resolveConfig E sv p")
  case (Inl e)
  with assms show ?thesis by (simp add: Submit_def submit_fail_def submission_labels)
next
  case (Inr cp)
  obtain cfg profile where cp: "cp = (cfg, profile)" by (cases cp)
  note ok = submission_labels [OF resolved_profile [OF Inr [unfolded cp]]]
  show ?thesis
    using assms by (simp add: Submit_def Inr cp submit_fail_def ok Let_def case_prod_unfold split: option.splits sum.splits)
qed

lemma labels_transition:
  "labels_ok ps w \<Longrightarrow> labels_ok ps (snd (transition E sv i from to txt w))"
  by (simp add: transition_def Let_def case_prod_unfold split: sum.splits)

lemma labels_launch:
  "gaps_do (labels_kept ps) gap \<Longrightarrow> labels_ok ps w \<Longrightarrow> labels_ok ps (launch E sv gap j w)"
  by (simp add: launch_def Let_def case_prod_unfold labels_transition labels_gap split: option.splits)

lemma labels_cancelUnassigned: "labels_ok ps w \<Longrightarrow> labels_ok ps (snd (cancelUnassigned E sv i w))"
  by (simp add: cancelUnassigned_def Let_def case_prod_unfold split: sum.splits)

lemma labels_Cancel:
  assumes "gaps_do (labels_kept ps) gap" and "labels_ok ps w"
  shows "labels_ok ps (snd (Cancel E sv gap i w))"
  using assms
  by (simp add: Cancel_def Let_def case_prod_unfold labels_cancelUnassigned labels_gap split: sum.splits option.splits)

lemma labels_AnswerPermission:
  assumes "gaps_do (labels_kept ps) gap" and "labels_ok ps w"
  shows "labels_ok ps (snd (AnswerPermission E sv gap i rid allow reason w))"
  using assms
  by (simp add: AnswerPermission_def Let_def case_prod_unfold labels_gap split: sum.splits option.splits)

lemma labels_Watch:
  assumes "gaps_do (labels_kept ps) gap" and "labels_ok ps w" and "svc_Watch sv gap i a w = Some (r, w')"
  shows "labels_ok ps w'"
  using svc_Watch_world [OF assms(3)] assms(2) labels_gap [OF assms(1,2), of 0] by auto

lemma labels_fail_each: "labels_ok ps w \<Longrightarrow> labels_ok ps (fail_each E rp t js w)"
proof (induction js arbitrary: w)
  case (Cons j js)
  have "labels_ok ps (snd (failStuckHarness E rp (j_ID j) w))"
    using Cons.prems by (simp add: failStuckHarness_def Let_def case_prod_unfold split: sum.splits)
  with Cons show ?case by simp
qed simp

lemma labels_delete_each: "labels_ok ps w \<Longrightarrow> labels_ok ps (delete_each rp t js w)"
  by (induction js arbitrary: w) simp_all

lemma labels_listAllJobs:
  assumes "gaps_do (labels_kept ps) gap"
  shows "labels_ok ps w \<Longrightarrow> listAllJobs rp gap n tok all w = Some (r, w') \<Longrightarrow> labels_ok ps w'"
proof (induction n arbitrary: tok all w)
  case (Suc n)
  then show ?case using labels_gap [OF assms Suc.prems(1), of n] by (auto split: sum.splits if_splits)
qed simp

lemma labels_sweep:
  assumes "gaps_do (labels_kept ps) gap" and "labels_ok ps w" and "sweep E rp gap n w = Some w'"
  shows "labels_ok ps w'"
  using assms(3) labels_listAllJobs [OF assms(1,2)]
  by (auto simp: sweep_def reapAwaitingHarness_def reapRetention_def Let_def case_prod_unfold
      labels_fail_each labels_delete_each split: option.splits sum.splits)

section \<open>The whole program\<close>

lemma sys_labels:
  assumes "sys E h sv rp w w'" and "h_store h = memStore_ops"
  shows "labels_kept (profile_Names (svc_profiles sv)) w w'"
  using assms(1)
proof induction
  case (connection gap ins w s first)
  then show ?case using assms(2) unfolding labels_kept_def [of _ w]
    by (auto intro!: labels_runTask simp: gaps_do_def others_do_def)
next
  case (memory_call_started w n p)
  then show ?case by (simp add: labels_kept_def start_call_def Let_def case_prod_unfold)
next
  case (memory_call_answered w n p)
  then show ?case
    by (simp add: labels_kept_def answer_call_def settle_call_def Let_def case_prod_unfold split: option.splits answer.splits)
next
  case (submitted w u sp)
  then show ?case by (simp add: labels_kept_def labels_Submit)
next
  case (launched gap w j)
  then show ?case unfolding labels_kept_def [of _ w] by (auto intro!: labels_launch simp: gaps_do_def)
next
  case (cancelled gap w i)
  then show ?case unfolding labels_kept_def [of _ w] by (auto intro!: labels_Cancel simp: gaps_do_def)
next
  case (permission_answered gap w i rid allow reason)
  then show ?case unfolding labels_kept_def [of _ w] by (auto intro!: labels_AnswerPermission simp: gaps_do_def)
next
  case (watched gap i a w r w')
  then show ?case using labels_Watch [of "profile_Names (svc_profiles sv)" gap w sv i a r w']
    by (simp add: labels_kept_def [of _ w] gaps_do_def)
next
  case (swept gap n w w')
  then show ?case using labels_sweep [of "profile_Names (svc_profiles sv)" gap w E rp n w']
    by (simp add: labels_kept_def [of _ w] gaps_do_def)
qed (auto simp: labels_kept_def)

end
