(* ===== verification/Rpc.thy ===== *)
theory Rpc
  imports Serve
begin

text \<open>
  How a request finds its handler: the mux of \<open>serve\<close> (\<open>src/cmd/hairpin/serve.go\<close>) and
  the generated stubs of the two RPC services
  (\<open>src/gen/hairpin/v1/hairpinv1connect\<close>, \<open>src/gen/harness/v1/harnessv1connect\<close>), which
  name the procedures, build the URLs a client calls and select the method on the
  server. The decoding of a message is the RPC library's and an argument; so is what
  arrives on a harness stream.
\<close>

section \<open>Procedures\<close>

datatype JobMethod =
    RpcSubmitJob
  | RpcGetJob
  | RpcListJobs
  | RpcWatchJob
  | RpcCancelJob
  | RpcListPermissionRequests
  | RpcAnswerPermission

definition JobServiceName :: string where
  "JobServiceName = ''hairpin.v1.JobService''"

definition HarnessServiceName :: string where
  "HarnessServiceName = ''stirrup.harness.v1.HarnessService''"

fun JobServiceProcedure :: "JobMethod \<Rightarrow> string" where
  "JobServiceProcedure RpcSubmitJob = ''/hairpin.v1.JobService/SubmitJob''"
| "JobServiceProcedure RpcGetJob = ''/hairpin.v1.JobService/GetJob''"
| "JobServiceProcedure RpcListJobs = ''/hairpin.v1.JobService/ListJobs''"
| "JobServiceProcedure RpcWatchJob = ''/hairpin.v1.JobService/WatchJob''"
| "JobServiceProcedure RpcCancelJob = ''/hairpin.v1.JobService/CancelJob''"
| "JobServiceProcedure RpcListPermissionRequests = ''/hairpin.v1.JobService/ListPermissionRequests''"
| "JobServiceProcedure RpcAnswerPermission = ''/hairpin.v1.JobService/AnswerPermission''"

definition HarnessServiceRunTaskProcedure :: string where
  "HarnessServiceRunTaskProcedure = ''/stirrup.harness.v1.HarnessService/RunTask''"

text \<open>\<open>strings.TrimRight(s, "/")\<close>.\<close>

definition TrimRightSlash :: "string \<Rightarrow> string" where
  "TrimRightSlash s = rev (dropWhile (\<lambda>c. c = CHR ''/'') (rev s))"

text \<open>The URL a client posts each method to.\<close>

definition NewJobServiceClient :: "string \<Rightarrow> JobMethod \<Rightarrow> string" where
  "NewJobServiceClient baseURL m = TrimRightSlash baseURL @ JobServiceProcedure m"

definition NewHarnessServiceClient :: "string \<Rightarrow> string" where
  "NewHarnessServiceClient baseURL = TrimRightSlash baseURL @ HarnessServiceRunTaskProcedure"

text \<open>The switch on \<open>r.URL.Path\<close> of the generated handlers; \<open>None\<close> is \<open>http.NotFound\<close>.\<close>

definition NewJobServiceHandler :: "string \<Rightarrow> JobMethod option" where
  "NewJobServiceHandler path =
     (if path = JobServiceProcedure RpcSubmitJob then Some RpcSubmitJob
      else if path = JobServiceProcedure RpcGetJob then Some RpcGetJob
      else if path = JobServiceProcedure RpcListJobs then Some RpcListJobs
      else if path = JobServiceProcedure RpcWatchJob then Some RpcWatchJob
      else if path = JobServiceProcedure RpcCancelJob then Some RpcCancelJob
      else if path = JobServiceProcedure RpcListPermissionRequests then Some RpcListPermissionRequests
      else if path = JobServiceProcedure RpcAnswerPermission then Some RpcAnswerPermission
      else None)"

definition NewHarnessServiceHandler :: "string \<Rightarrow> bool" where
  "NewHarnessServiceHandler path \<longleftrightarrow> path = HarnessServiceRunTaskProcedure"

section \<open>The mux\<close>

text \<open>
  A path is the list of its segments as sent: \<open>''/''\<close> is one empty segment, a trailing
  slash a last empty one. \<open>ServeMux\<close> matches the segments after decoding them one by
  one; the generated handlers see the decoded path.
\<close>

fun path_unescape :: "string \<Rightarrow> string" where
  "path_unescape (c # a # b # r) =
     (if c = CHR ''%'' \<and> hex_val a \<noteq> None \<and> hex_val b \<noteq> None
      then char_of (16 * the (hex_val a) + the (hex_val b)) # path_unescape r
      else c # path_unescape (a # b # r))"
| "path_unescape r = r"

definition url_Path :: "string list \<Rightarrow> string" where
  "url_Path segs = concat (map (\<lambda>s. CHR ''/'' # s) segs)"

text \<open>
  \<open>cleanPath\<close> of \<open>net/http\<close>: empty and dot segments go, a double dot takes the segment
  before it along, a trailing slash stays.
\<close>

fun clean_steps :: "string list \<Rightarrow> string list \<Rightarrow> string list" where
  "clean_steps acc [] = rev acc"
| "clean_steps acc (s # ss) =
     (if s = [] \<or> s = ''.'' then clean_steps acc ss
      else if s = ''..'' then clean_steps (tl acc) ss
      else clean_steps (s # acc) ss)"

definition cleanPath :: "string list \<Rightarrow> string list" where
  "cleanPath raw =
     (let c = clean_steps [] raw
      in if c = [] then [[]] else if raw \<noteq> [] \<and> List.last raw = [] then c @ [[]] else c)"

datatype target =
    ToHarnessService
  | ToJobService
  | ToHealth
  | ToJWKS
  | ToWeb
  | ToRedirect "string list"

text \<open>
  The patterns \<open>serve\<close> registers: the two services with everything below them, two exact
  paths, one of them only with an issuer, and the web interface for the rest. A path
  that is not clean, and a service's path without its slash, is redirected.
\<close>

definition serve_route :: "bool \<Rightarrow> string list \<Rightarrow> target" where
  "serve_route issuer raw =
     (let c = cleanPath raw; segs = map path_unescape c
      in if segs = [HarnessServiceName] \<or> segs = [JobServiceName] then ToRedirect (c @ [[]])
         else if c \<noteq> raw then ToRedirect c
         else if hd segs = HarnessServiceName then ToHarnessService
         else if hd segs = JobServiceName then ToJobService
         else if segs = [''healthz''] then ToHealth
         else if issuer \<and> segs = [''.well-known'', ''jwks.json''] then ToJWKS
         else ToWeb)"

section \<open>The server\<close>

text \<open>The library's decoders of the request messages of the JobService.\<close>

record 'b codec =
  co_SubmitJob :: "'b \<Rightarrow> SubmitParams result"
  co_GetJob :: "'b \<Rightarrow> string result"
  co_ListJobs :: "'b \<Rightarrow> (int \<times> string) result"
  co_WatchJob :: "'b \<Rightarrow> (string \<times> string) result"
  co_CancelJob :: "'b \<Rightarrow> string result"
  co_ListPermissionRequests :: "'b \<Rightarrow> string result"
  co_AnswerPermission :: "'b \<Rightarrow> (string \<times> string \<times> bool \<times> string) result"

datatype RpcResponse =
    SubmitJobResponse "(ProtoJob \<times> string) result"
  | GetJobResponse "ProtoJob result"
  | ListJobsResponse "(ProtoJob list \<times> string) result"
  | WatchJobResponse "ProtoEvent list" "goerror option"
  | CancelJobResponse "ProtoJob result"
  | ListPermissionRequestsResponse "ProtoPermission list result"
  | AnswerPermissionResponse "ProtoPermission result"
  | Undecodable goerror

record ('s, 'b) exchange =
  ex_raw :: "string list"
  ex_request :: http_request
  ex_body :: 'b
  ex_around :: "'s surroundings"
  ex_send :: "nat \<Rightarrow> goerror option"
  ex_events :: "watch_source \<Rightarrow> watch_input list"
  ex_stream :: nat
  ex_first :: "HarnessEvent result"
  ex_inputs :: "'s pump_input list"

definition job_rpc ::
  "env \<Rightarrow> 's Service \<Rightarrow> 'b codec \<Rightarrow> ('s, 'b) exchange \<Rightarrow> JobMethod \<Rightarrow> 's World \<Rightarrow> (RpcResponse \<times> 's World) option" where
  "job_rpc E sv co x m w =
     (case m of
        RpcSubmitJob \<Rightarrow>
          (case co_SubmitJob co (ex_body x) of
             Inl e \<Rightarrow> Some (Undecodable e, w)
           | Inr req \<Rightarrow> Some (map_prod SubmitJobResponse id (SubmitJob E sv (sr_submit (ex_around x)) req w)))
      | RpcGetJob \<Rightarrow>
          (case co_GetJob co (ex_body x) of
             Inl e \<Rightarrow> Some (Undecodable e, w)
           | Inr i \<Rightarrow> Some (GetJobResponse (GetJob sv i w), w))
      | RpcListJobs \<Rightarrow>
          (case co_ListJobs co (ex_body x) of
             Inl e \<Rightarrow> Some (Undecodable e, w)
           | Inr (limit, token) \<Rightarrow> Some (ListJobsResponse (ListJobs sv limit token w), w))
      | RpcWatchJob \<Rightarrow>
          (case co_WatchJob co (ex_body x) of
             Inl e \<Rightarrow> Some (Undecodable e, w)
           | Inr (i, afterID) \<Rightarrow>
               map_option (\<lambda>((evs, e), w'). (WatchJobResponse evs e, w'))
                 (WatchJob sv (sr_gap (ex_around x)) (ex_send x) (ex_events x) i afterID w))
      | RpcCancelJob \<Rightarrow>
          (case co_CancelJob co (ex_body x) of
             Inl e \<Rightarrow> Some (Undecodable e, w)
           | Inr i \<Rightarrow> Some (map_prod CancelJobResponse id (CancelJob E sv (sr_gap (ex_around x)) i w)))
      | RpcListPermissionRequests \<Rightarrow>
          (case co_ListPermissionRequests co (ex_body x) of
             Inl e \<Rightarrow> Some (Undecodable e, w)
           | Inr i \<Rightarrow> Some (ListPermissionRequestsResponse (ListPermissionRequests sv i w), w))
      | RpcAnswerPermission \<Rightarrow>
          (case co_AnswerPermission co (ex_body x) of
             Inl e \<Rightarrow> Some (Undecodable e, w)
           | Inr (i, rid, allow, reason) \<Rightarrow>
               Some (map_prod AnswerPermissionResponse id
                 (api_AnswerPermission E sv (sr_gap (ex_around x)) i rid allow reason w))))"

datatype answer_sent =
    Redirected "string list"
  | NotFoundPage
  | HealthOK
  | KeySet http_response
  | JobAnswer RpcResponse
  | StreamEnded "goerror option"
  | WebAnswer writer

definition serve_http ::
  "'s server \<Rightarrow> 's handler \<Rightarrow> 'b codec \<Rightarrow> ('s, 'b) exchange \<Rightarrow> 's World \<Rightarrow> (answer_sent \<times> 's World) option" where
  "serve_http sr ui co x w =
     (let segs = map path_unescape (ex_raw x); r = (ex_request x)\<lparr>rq_path := segs\<rparr>
      in case serve_route (sr_issuer sr \<noteq> None) (ex_raw x) of
           ToRedirect p \<Rightarrow> Some (Redirected p, w)
         | ToHarnessService \<Rightarrow>
             if NewHarnessServiceHandler (url_Path segs)
             then Some (map_prod StreamEnded id
                    (runTask (h_env ui) (sr_controlplane sr) (ex_stream x) (ex_first x) (sr_gap (ex_around x)) (ex_inputs x) w))
             else Some (NotFoundPage, w)
         | ToJobService \<Rightarrow>
             (case NewJobServiceHandler (url_Path segs) of
                None \<Rightarrow> Some (NotFoundPage, w)
              | Some m \<Rightarrow> map_option (map_prod JobAnswer id) (job_rpc (h_env ui) (sr_service sr) co x m w))
         | ToHealth \<Rightarrow> Some (HealthOK, w)
         | ToJWKS \<Rightarrow> Some (KeySet (JWKSHandler (the (sr_issuer sr)) (rq_method r)), w)
         | ToWeb \<Rightarrow> map_option (map_prod WebAnswer id) (NewWeb ui (ex_around x) r new_writer w))"

section \<open>Redirects end\<close>

definition plain_segment :: "string \<Rightarrow> bool" where
  "plain_segment s \<longleftrightarrow> s \<noteq> [] \<and> s \<noteq> ''.'' \<and> s \<noteq> ''..''"

lemma clean_steps_plain: "list_all plain_segment acc \<Longrightarrow> list_all plain_segment (clean_steps acc ss)"
proof (induction ss arbitrary: acc)
  case Nil
  then show ?case by (simp add: list_all_iff)
next
  case (Cons s ss)
  have "list_all plain_segment (tl acc)" using Cons.prems by (cases acc) simp_all
  moreover have "s = [] \<or> s = ''.'' \<or> s = ''..'' \<or> plain_segment s" by (auto simp: plain_segment_def)
  ultimately show ?case using Cons by auto
qed

lemma clean_steps_id: "list_all plain_segment ss \<Longrightarrow> clean_steps acc (ss @ ts) = clean_steps (rev ss @ acc) ts"
  by (induction ss arbitrary: acc) (simp_all add: plain_segment_def)

lemma cleanPath_cases:
  obtains "cleanPath raw = [[]]"
  | c where "cleanPath raw = c" "c \<noteq> []" "list_all plain_segment c"
  | c where "cleanPath raw = c @ [[]]" "c \<noteq> []" "list_all plain_segment c"
proof -
  let ?c = "clean_steps [] raw"
  have "list_all plain_segment ?c" by (rule clean_steps_plain) simp
  moreover consider "cleanPath raw = [[]]" | "cleanPath raw = ?c" "?c \<noteq> []" | "cleanPath raw = ?c @ [[]]" "?c \<noteq> []"
    by (cases "?c = []"; cases "raw \<noteq> [] \<and> List.last raw = []") (auto simp: cleanPath_def)
  ultimately show thesis by cases (use that in blast)+
qed

lemma cleanPath_plain:
  assumes "list_all plain_segment c" and "c \<noteq> []"
  shows "cleanPath c = c" and "cleanPath (c @ [[]]) = c @ [[]]"
proof -
  have "List.last c \<noteq> []" using assms by (auto simp: list_all_iff plain_segment_def dest: last_in_set)
  then show "cleanPath c = c" using clean_steps_id [OF assms(1), of "[]" "[]"] assms(2) by (simp add: cleanPath_def)
  show "cleanPath (c @ [[]]) = c @ [[]]" using clean_steps_id [OF assms(1), of "[]" "[[]]"] assms(2) by (simp add: cleanPath_def)
qed

lemma cleanPath_idem: "cleanPath (cleanPath raw) = cleanPath raw"
  by (cases raw rule: cleanPath_cases) (simp_all add: cleanPath_plain, simp add: cleanPath_def)

lemma redirects_end:
  assumes "serve_route b raw = ToRedirect p"
  shows "serve_route b p \<noteq> ToRedirect q"
proof -
  let ?c = "cleanPath raw" and ?s = "\<lambda>c. map path_unescape c"
  consider "?s ?c = [HarnessServiceName] \<or> ?s ?c = [JobServiceName]" "p = ?c @ [[]]"
    | "?s ?c \<noteq> [HarnessServiceName]" "?s ?c \<noteq> [JobServiceName]" "p = ?c"
    using assms by (auto simp: serve_route_def Let_def split: if_splits)
  then show ?thesis
  proof cases
    case 1
    then obtain a where a: "?c = [a]" "path_unescape a \<noteq> []"
      by (cases ?c) (auto simp: HarnessServiceName_def JobServiceName_def)
    have "a \<noteq> []" using a(2) by auto
    with a(1) have "list_all plain_segment ?c" by (cases raw rule: cleanPath_cases) auto
    from cleanPath_plain(2) [OF this] a 1(2) have "cleanPath p = p" "length p = 2" by simp_all
    then show ?thesis by (cases p) (auto simp: serve_route_def Let_def)
  next
    case 2
    then show ?thesis by (auto simp: serve_route_def Let_def cleanPath_idem)
  qed
qed

section \<open>Every procedure reaches its method\<close>

lemma procedure_segments:
  "JobServiceProcedure m = url_Path [JobServiceName, drop 23 (JobServiceProcedure m)]"
  "list_all plain_segment [JobServiceName, drop 23 (JobServiceProcedure m)]"
  "map path_unescape [JobServiceName, drop 23 (JobServiceProcedure m)] = [JobServiceName, drop 23 (JobServiceProcedure m)]"
  by (cases m; simp add: url_Path_def JobServiceName_def plain_segment_def)+

lemma NewJobServiceHandler_iff: "NewJobServiceHandler path = Some m \<longleftrightarrow> path = JobServiceProcedure m"
  by (cases m) (auto simp: NewJobServiceHandler_def)

lemma TrimRightSlash_replicate:
  assumes "origin = [] \<or> List.last origin \<noteq> CHR ''/''"
  shows "TrimRightSlash (origin @ replicate n CHR ''/'') = origin"
proof -
  have "dropWhile (\<lambda>c. c = CHR ''/'') (replicate n CHR ''/'' @ xs) = dropWhile (\<lambda>c. c = CHR ''/'') xs" for xs
    by (induction n) simp_all
  moreover have "dropWhile (\<lambda>c. c = CHR ''/'') (rev origin) = rev origin"
    using assms by (cases origin rule: rev_cases) auto
  ultimately show ?thesis by (simp add: TrimRightSlash_def)
qed

lemma job_rpc_route:
  assumes "origin = [] \<or> List.last origin \<noteq> CHR ''/''"
  shows "\<exists>segs. NewJobServiceClient (origin @ replicate n CHR ''/'') m = origin @ url_Path segs \<and>
    serve_route b segs = ToJobService \<and> NewJobServiceHandler (url_Path (map path_unescape segs)) = Some m"
proof (intro exI conjI)
  let ?segs = "[JobServiceName, drop 23 (JobServiceProcedure m)]"
  show "NewJobServiceClient (origin @ replicate n CHR ''/'') m = origin @ url_Path ?segs"
    using procedure_segments(1) [of m] by (simp add: NewJobServiceClient_def TrimRightSlash_replicate [OF assms])
  show "serve_route b ?segs = ToJobService"
    using cleanPath_plain(1) [OF procedure_segments(2)] procedure_segments(3) [of m]
    by (simp add: serve_route_def Let_def) (simp add: JobServiceName_def HarnessServiceName_def)
  show "NewJobServiceHandler (url_Path (map path_unescape ?segs)) = Some m"
    using procedure_segments(1,3) [of m] by (simp add: NewJobServiceHandler_iff)
qed

lemma harness_rpc_route:
  assumes "origin = [] \<or> List.last origin \<noteq> CHR ''/''"
  shows "\<exists>segs. NewHarnessServiceClient (origin @ replicate n CHR ''/'') = origin @ url_Path segs \<and>
    serve_route b segs = ToHarnessService \<and> NewHarnessServiceHandler (url_Path (map path_unescape segs))"
proof (intro exI conjI)
  let ?segs = "[HarnessServiceName, ''RunTask'']"
  show "NewHarnessServiceClient (origin @ replicate n CHR ''/'') = origin @ url_Path ?segs"
    by (simp add: NewHarnessServiceClient_def TrimRightSlash_replicate [OF assms] HarnessServiceRunTaskProcedure_def
        url_Path_def HarnessServiceName_def)
  have "list_all plain_segment ?segs" "map path_unescape ?segs = ?segs"
    by (simp_all add: plain_segment_def HarnessServiceName_def)
  with cleanPath_plain(1) [of ?segs] show "serve_route b ?segs = ToHarnessService"
    by (simp add: serve_route_def Let_def)
  show "NewHarnessServiceHandler (url_Path (map path_unescape ?segs))"
    by (simp add: NewHarnessServiceHandler_def HarnessServiceRunTaskProcedure_def url_Path_def HarnessServiceName_def)
qed

end
