(* ===== verification/Lifecycle.thy ===== *)
theory Lifecycle
  imports ServeSpec Rpc
begin

text \<open>
  The life of the server process: the function \<open>serve\<close> of \<open>src/cmd/hairpin/serve.go\<close> from
  its first stage to its return. A run is the error it returns and the sequence of what it
  starts, serves with and ends, deferred calls included, in the order they take effect.

  What each stage meets outside is an argument: OpenTelemetry, the Redis server, the
  directory of profiles, Kubernetes, the key file, the RPC interceptor, and how the
  listener ends. Between two events the rest of the program runs (theory \<open>System\<close>);
  the cancellation of the live sessions is \<open>shutdown_cancels\<close>.
\<close>

section \<open>Events\<close>

datatype life =
    TelemetryUp bool
  | TelemetryDown
  | StoreOpened store_choice
  | StoreClosed
  | ReaperStarted
  | ReaperContextDone
  | Listening store_choice bool Profiles launcher "Issuer option"
  | SessionsCancelled
  | ListenerDrained
  | ReaperStopAsked
  | ReaperEnded
  | LaunchesEnded
  | MemoryCallsEnded

text \<open>A call made now, and one that is deferred to the return.\<close>

definition doing :: "life \<Rightarrow> goerror option \<times> life list \<Rightarrow> goerror option \<times> life list" where
  "doing x r = (fst r, x # snd r)"

definition deferring :: "life \<Rightarrow> goerror option \<times> life list \<Rightarrow> goerror option \<times> life list" where
  "deferring x r = (fst r, snd r @ [x])"

datatype ending = ListenFailed goerror | Signalled

record ('res, 'r) start_up =
  su_otel :: "'res otel"
  su_ping :: "goerror option"
  su_env :: env
  su_readDir :: "string \<Rightarrow> (string \<times> bool \<times> string result) list result"
  su_kube :: "'r kube"
  su_load :: "string \<Rightarrow> PrivateKey result"
  su_clock :: "nat \<Rightarrow> gotime"
  su_interceptor :: "goerror option"
  su_ending :: ending

text \<open>From the signal to the return; the deferred cancellations of contexts that are done have no effect.\<close>

definition serve_shutdown :: "life list" where
  "serve_shutdown =
     [SessionsCancelled, ListenerDrained, ReaperStopAsked, ReaperEnded, LaunchesEnded, MemoryCallsEnded]"

definition serve_main :: "('res, 'r) start_up \<Rightarrow> Config \<Rightarrow> goerror option \<times> life list" where
  "serve_main su cfg =
     (case fst (Setup (su_otel su) (cf_Telemetry cfg)) of
        Inl e \<Rightarrow> (Some e, [])
      | Inr (telemetry, _) \<Rightarrow>
     doing (TelemetryUp telemetry) (deferring TelemetryDown
     (case buildStore cfg (su_ping su) of
        Inl e \<Rightarrow> (Some e, [])
      | Inr st \<Rightarrow>
     doing (StoreOpened st) (deferring StoreClosed
     (case LoadProfiles (su_env su) (su_readDir su) (cf_ProfilesDir cfg) (cf_DefaultProfile cfg) of
        Inl e \<Rightarrow> (Some e, [])
      | Inr profiles \<Rightarrow>
     (case buildLauncher (su_kube su) cfg of
        Inl e \<Rightarrow> (Some e, [])
      | Inr l \<Rightarrow>
     (case buildTokenIssuer (su_load su) (su_clock su) cfg of
        Inl e \<Rightarrow> (Some e, [])
      | Inr issuer \<Rightarrow>
     (case (if telemetry then su_interceptor su else None) of
        Some e \<Rightarrow> (Some (Errorf ''build telemetry interceptor: %w'' [] (Some e)), [])
      | None \<Rightarrow>
     doing ReaperStarted (deferring ReaperContextDone
     (doing (Listening st telemetry profiles l issuer)
     (case su_ending su of
        ListenFailed e \<Rightarrow> (Some e, [])
      | Signalled \<Rightarrow> (None, serve_shutdown))))))))))))"

text \<open>\<open>main\<close>: the exit status and what is printed on the standard error.\<close>

definition main_exit :: "goerror option \<Rightarrow> int \<times> string" where
  "main_exit r = (case r of None \<Rightarrow> (0, []) | Some e \<Rightarrow> (1, ''hairpin: '' @ Error e @ [newline]))"

section \<open>Order\<close>

text \<open>
  The stack of what has been started and not yet released: a release is right when it
  releases the last thing started, and a run is right when nothing is left.
\<close>

fun released :: "life list \<Rightarrow> life list \<Rightarrow> bool" where
  "released pending [] \<longleftrightarrow> pending = []"
| "released pending (TelemetryUp b # t) \<longleftrightarrow> released (TelemetryDown # pending) t"
| "released pending (StoreOpened c # t) \<longleftrightarrow> released (StoreClosed # pending) t"
| "released pending (ReaperStarted # t) \<longleftrightarrow> released (ReaperContextDone # pending) t"
| "released pending (x # t) \<longleftrightarrow>
     (if x \<in> {TelemetryDown, StoreClosed, ReaperContextDone} then pending \<noteq> [] \<and> hd pending = x \<and> released (tl pending) t
      else released pending t)"

text \<open>Every \<open>x\<close> of a run comes before every \<open>y\<close>.\<close>

definition before :: "life \<Rightarrow> life \<Rightarrow> life list \<Rightarrow> bool" where
  "before x y tr \<longleftrightarrow> x \<in> set tr \<and> y \<in> set tr \<and> x \<notin> set (dropWhile (\<lambda>z. z \<noteq> y) tr)"

lemmas serve_main_unfold = serve_main_def doing_def deferring_def serve_shutdown_def

lemma serve_main_released: "released [] (snd (serve_main su cfg))"
  by (simp add: serve_main_unfold case_prod_unfold split: sum.splits option.splits ending.splits)

lemma serve_main_shutdown:
  assumes "serve_main su cfg = (None, tr)"
  shows "before SessionsCancelled ListenerDrained tr" and "before ListenerDrained ReaperEnded tr"
    and "x \<in> {ReaperEnded, LaunchesEnded, MemoryCallsEnded} \<Longrightarrow> before x StoreClosed tr"
    and "before StoreClosed TelemetryDown tr"
  using assms
  by (auto simp: serve_main_unfold case_prod_unfold before_def split: sum.splits option.splits ending.splits)

lemma serve_main_listens:
  assumes "Listening st telemetry profiles l issuer \<in> set (snd (serve_main su cfg))"
  shows "buildStore cfg (su_ping su) = Inr st" "telemetry = Enabled (cf_Telemetry cfg)"
    "LoadProfiles (su_env su) (su_readDir su) (cf_ProfilesDir cfg) (cf_DefaultProfile cfg) = Inr profiles"
    "buildLauncher (su_kube su) cfg = Inr l" "buildTokenIssuer (su_load su) (su_clock su) cfg = Inr issuer"
proof -
  have "\<exists>sd. fst (Setup (su_otel su) (cf_Telemetry cfg)) = Inr (telemetry, sd)"
    using assms
    by (auto simp: serve_main_unfold case_prod_unfold split: sum.splits option.splits ending.splits if_splits)
  then show "telemetry = Enabled (cf_Telemetry cfg)" by (metis Setup_enabled(1) prod.collapse)
  show "buildStore cfg (su_ping su) = Inr st"
    "LoadProfiles (su_env su) (su_readDir su) (cf_ProfilesDir cfg) (cf_DefaultProfile cfg) = Inr profiles"
    "buildLauncher (su_kube su) cfg = Inr l" "buildTokenIssuer (su_load su) (su_clock su) cfg = Inr issuer"
    using assms
    by (auto simp: serve_main_unfold case_prod_unfold split: sum.splits option.splits ending.splits if_splits)
qed

text \<open>The server ends without an error exactly when it listened and was told to stop.\<close>

lemma serve_main_succeeds:
  "fst (serve_main su cfg) = None \<longleftrightarrow>
     su_ending su = Signalled \<and> (\<exists>st b p l i. Listening st b p l i \<in> set (snd (serve_main su cfg)))"
  by (auto simp: serve_main_unfold case_prod_unfold split: sum.splits option.splits ending.splits)

end
