(* ===== verification/Compose.thy ===== *)
theory Compose
  imports Labels Lifecycle
begin

text \<open>
  Facts that span components: the credential a launched harness carries, the requests of
  the web interface and the API as activity of the whole program, the deadlines of the
  launcher and the reaper, tokens and their verification, and event streams end to end.
\<close>

section \<open>Admission\<close>

lemma admitted_exact:
  assumes "h_store h = memStore_ops" and "mem_ok (w_store w)" and "all_credentialed (w_store w)"
  shows "admitted h first w = Some (i, j) \<longleftrightarrow>
    (\<exists>ev. first = Inr ev \<and> he_Type ev = evReady \<and> ms_jobs (w_store w) i = Some j \<and>
       he_Id ev = SessionString j)"
proof (cases "\<exists>ev. first = Inr ev \<and> he_Type ev = evReady")
  case True
  then obtain ev where f: "first = Inr ev" "he_Type ev = evReady" by blast
  obtain a t where p: "ParseSession (he_Id ev) = (a, t)" by (cases "ParseSession (he_Id ev)")
  have "admitted h first w = Some (i, j) \<longleftrightarrow>
      a = i \<and> ms_jobs (w_store w) i = Some j \<and> AcceptsToken j t"
    using f assms(3) [unfolded all_credentialed_def] p
    by (auto simp: admitted_def assms(1) mem_GetJob_def ValidID_def split: option.splits)
       (use assms(2) mem_ok_jobs in fastforce)
  also have "\<dots> \<longleftrightarrow> ms_jobs (w_store w) i = Some j \<and> he_Id ev = SessionString j"
    using session_credential_exact [of j "he_Id ev"] assms(3) [unfolded all_credentialed_def] p mem_ok_jobs [OF assms(2)] by fastforce
  finally show ?thesis using f by simp
next
  case False
  then show ?thesis by (auto simp: admitted_def split: sum.splits)
qed

text \<open>The environment of the harness container.\<close>

definition harness_env :: "K8sJob \<Rightarrow> string \<Rightarrow> string option" where
  "harness_env obj = map_of (kc_Env (hd (kp_Containers (kj_PodSpec obj))))"

lemma harness_env_object:
  "harness_env (k8s_object E cfg adv j) ''CONTROL_PLANE_SESSION_ID'' = Some (SessionString j)"
  "harness_env (k8s_object E cfg adv j) ''CONTROL_PLANE_ADDR'' = Some adv"
  by (simp_all add: harness_env_def k8s_object_def)

lemma SessionString_same:
  assumes "j_ID j = j_ID k" and "j_HarnessToken j = j_HarnessToken k"
  shows "SessionString j = SessionString k"
  using assms by (simp add: SessionString_def)

lemma SessionString_inj:
  assumes "ValidID (j_ID j)" and "ValidID (j_ID k)" and "j_HarnessToken j \<noteq> []" and "j_HarnessToken k \<noteq> []"
    and "SessionString j = SessionString k"
  shows "j_ID j = j_ID k"
proof -
  have "ParseSession (SessionString l) = (j_ID l, j_HarnessToken l)" if "ValidID (j_ID l)" "j_HarnessToken l \<noteq> []" for l
    using that by (simp add: SessionString_def ParseSession_dot ValidID_no_dot)
  from this [OF assms(1,3)] this [OF assms(2,4)] assms(5) show ?thesis by simp
qed

lemma launched_admission:
  assumes "h_store h = memStore_ops" and "mem_ok (w_store w)" and "all_credentialed (w_store w)"
    and "ms_jobs (w_store w) (j_ID j) = Some k" and "j_HarnessToken k = j_HarnessToken j"
    and "he_Type ev = evReady" and "harness_env (k8s_object E cfg adv j) ''CONTROL_PLANE_SESSION_ID'' = Some (he_Id ev)"
  shows "admitted h (Inr ev) w = Some (i, l) \<longleftrightarrow> i = j_ID j \<and> l = k"
proof -
  have ids: "j_ID k = j_ID j" using mem_ok_jobs [OF assms(2,4)] .
  have sid: "he_Id ev = SessionString k"
    using assms(5,7) ids SessionString_same [of k j] by (simp add: harness_env_object)
  have cred: "ValidID (j_ID m) \<and> j_HarnessToken m \<noteq> []" if "ms_jobs (w_store w) a = Some m" for a m
    using assms(3) that by (auto simp: all_credentialed_def)
  have "i = j_ID j" if "ms_jobs (w_store w) i = Some l" "SessionString l = SessionString k"
    using SessionString_inj [of l k] cred [OF that(1)] cred [OF assms(4)] that(2) mem_ok_jobs [OF assms(2) that(1)] ids by simp
  then show ?thesis
    using admitted_exact [OF assms(1-3), of "Inr ev" i l] assms(4,6) sid by auto
qed

section \<open>Requests as activity of the program\<close>

lemma serve_wire_wired:
  "wired (sr_controlplane (serve_wire x cfg b memStore_ops pr l iss)) (sr_service (serve_wire x cfg b memStore_ops pr l iss))
     (sr_reaper (serve_wire x cfg b memStore_ops pr l iss))"
  by (simp add: wired_def serve_wire_parts)

lemma route_is_activity:
  assumes "\<And>k v. sys (h_env ui) h (h_svc ui) rp v (sr_gap x k v)" and "handle_route ui x r rt w = Some (cs, w')"
  shows "sys (h_env ui) h (h_svc ui) rp w w'"
proof (cases rt)
  case RSubmit
  then have "(cs, w') = web_submit ui x r w" using assms(2) by (simp add: handle_route_def)
  moreover have "w2 = w \<or> (\<exists>u p. w2 = snd (Submit (h_env ui) (h_svc ui) u p w)) \<or>
      (\<exists>u p. w2 = sr_gap x 0 (snd (Submit (h_env ui) (h_svc ui) u p w)))" if "web_submit ui x r w = (cs2, w2)" for cs2 w2
    using that by (auto simp: web_submit_def Let_def split: sum.splits if_splits prod.splits) (metis snd_conv)+
  ultimately consider "w' = w" | u p where "w' = snd (Submit (h_env ui) (h_svc ui) u p w)"
    | u p where "w' = sr_gap x 0 (snd (Submit (h_env ui) (h_svc ui) u p w))" by metis
  then show ?thesis by cases (auto intro: sys.idle sys.submitted sys.seq [OF sys.submitted assms(1)])
next
  case (RDetail i)
  then have "w' = w \<or> w' = sr_gap x 0 w"
    using assms(2) by (auto simp: handle_route_def web_detail_def Let_def split: if_splits sum.splits)
  then show ?thesis using assms(1) by (auto intro: sys.idle)
next
  case (REvents i)
  then have "w' = w \<or> (\<exists>a e. svc_Watch (h_svc ui) (sr_gap x) i a w = Some (e, w'))"
    using assms(2) by (auto simp: handle_route_def web_events_def Let_def split: if_splits option.splits sum.splits)
  then show ?thesis using assms(1) by (auto intro: sys.idle sys.watched)
next
  case (RCancel i)
  then have "w' = w \<or> w' = snd (Cancel (h_env ui) (h_svc ui) (sr_gap x) i w)"
    using assms(2) by (auto simp: handle_route_def web_cancel_def split: if_splits sum.splits prod.splits)
  then show ?thesis using assms(1) by (auto intro: sys.idle sys.cancelled)
next
  case (RAnswer i q)
  then have "w' = w \<or> (\<exists>a t. w' = snd (AnswerPermission (h_env ui) (h_svc ui) (sr_gap x) i q a t w))"
    using assms(2) by (auto simp: handle_route_def web_answerPermission_def split: if_splits sum.splits prod.splits) (metis snd_conv)+
  then show ?thesis using assms(1) by (auto intro: sys.idle sys.permission_answered)
qed (use assms(2) in \<open>auto simp: handle_route_def intro: sys.idle\<close>)

text \<open>Whatever the web interface is asked, what it does is what the program does.\<close>

lemma web_is_activity:
  assumes "\<And>k v. sys (h_env ui) h (h_svc ui) rp v (sr_gap x k v)" and "NewWeb ui x r rw w = Some (rw', w')"
  shows "sys (h_env ui) h (h_svc ui) rp w w'"
proof -
  have "sys (h_env ui) h (h_svc ui) rp w w'" if "serve_mux ui x r w = Some (cs, w')" for cs
    using that route_is_activity [OF assms(1)]
    by (auto simp: serve_mux_def sys.idle split: option.splits if_splits)
  then show ?thesis
    using assms(2)
    by (auto simp: NewWeb_def protectUI_def notFoundInterceptor_def Let_def sys.idle split: if_splits)
qed

lemma api_is_activity:
  assumes "\<And>k v. sys E h sv rp v (gap k v)"
  shows "sys E h sv rp w (snd (SubmitJob E sv u req w))" "sys E h sv rp w (snd (CancelJob E sv gap i w))"
    "sys E h sv rp w (snd (api_AnswerPermission E sv gap i rid allow reason w))"
    "WatchJob sv gap send src i a w = Some (out, w') \<Longrightarrow> sys E h sv rp w w'"
proof -
  have "snd (SubmitJob E sv u req w) = snd (Submit E sv u req w)"
    "snd (CancelJob E sv gap i w) = snd (Cancel E sv gap i w)"
    "snd (api_AnswerPermission E sv gap i rid allow reason w) = snd (AnswerPermission E sv gap i rid allow reason w)"
    by (simp_all add: SubmitJob_def CancelJob_def api_AnswerPermission_def split: prod.splits sum.splits)
  then show "sys E h sv rp w (snd (SubmitJob E sv u req w))" "sys E h sv rp w (snd (CancelJob E sv gap i w))"
    "sys E h sv rp w (snd (api_AnswerPermission E sv gap i rid allow reason w))"
    using assms by (auto intro: sys.submitted sys.cancelled sys.permission_answered)
  assume "WatchJob sv gap send src i a w = Some (out, w')"
  then have "\<exists>e. svc_Watch sv gap i a w = Some (e, w')"
    by (auto simp: WatchJob_def split: option.splits prod.splits sum.splits)
  then show "sys E h sv rp w w'" using assms by (auto intro: sys.watched)
qed

lemma rpc_is_activity:
  assumes "\<And>k v. sys E h sv rp v (sr_gap (ex_around x) k v)" and "job_rpc E sv co x m w = Some (a, w')"
  shows "sys E h sv rp w w'"
proof -
  note api = api_is_activity [where gap = "sr_gap (ex_around x)", OF assms(1)]
  have mp: "w'' = snd p" if "map_prod f id p = (b, w'')" for f b w'' and p :: "_ \<times> _ World"
    using that by (cases p) simp
  from assms(2) consider "w' = w"
    | req where "w' = snd (SubmitJob E sv (sr_submit (ex_around x)) req w)"
    | i where "w' = snd (CancelJob E sv (sr_gap (ex_around x)) i w)"
    | i rid allow reason where "w' = snd (api_AnswerPermission E sv (sr_gap (ex_around x)) i rid allow reason w)"
    | i aft out where "WatchJob sv (sr_gap (ex_around x)) (ex_send x) (ex_events x) i aft w = Some (out, w')"
    by (cases m) (auto simp: job_rpc_def dest!: mp split: sum.splits prod.splits)
  then show ?thesis by cases (auto intro: sys.idle api)
qed

text \<open>Whatever request the server is sent, what it does is what the program does.\<close>

lemma request_is_activity:
  assumes "h_svc ui = sr_service sr"
    and "\<And>k v. sys (h_env ui) (sr_controlplane sr) (sr_service sr) rp v (sr_gap (ex_around x) k v)"
    and "\<And>f v. Others f \<in> set (ex_inputs x) \<Longrightarrow> sys (h_env ui) (sr_controlplane sr) (sr_service sr) rp v (f v)"
    and "serve_http sr ui co x w = Some (a, w')"
  shows "sys (h_env ui) (sr_controlplane sr) (sr_service sr) rp w w'"
proof (cases "serve_route (sr_issuer sr \<noteq> None) (ex_raw x)")
  case ToHarnessService
  then consider "w' = w"
    | "w' = snd (runTask (h_env ui) (sr_controlplane sr) (ex_stream x) (ex_first x) (sr_gap (ex_around x)) (ex_inputs x) w)"
    using assms(4)
    by (cases "runTask (h_env ui) (sr_controlplane sr) (ex_stream x) (ex_first x) (sr_gap (ex_around x)) (ex_inputs x) w")
       (auto simp: serve_http_def Let_def split: if_splits)
  then show ?thesis by cases (auto intro: sys.idle sys.connection assms(2,3))
next
  case ToJobService
  then have "w' = w \<or> (\<exists>m b. job_rpc (h_env ui) (sr_service sr) co x m w = Some (b, w'))"
    using assms(4) by (auto simp: serve_http_def Let_def split: option.splits)
  then show ?thesis using rpc_is_activity [OF assms(2)] by (auto intro: sys.idle)
next
  case ToWeb
  then obtain r rw where "NewWeb ui (ex_around x) r new_writer w = Some (rw, w')"
    using assms(4) by (auto simp: serve_http_def Let_def)
  then show ?thesis using web_is_activity [of ui "sr_controlplane sr" rp "ex_around x"] assms(1,2) by simp
qed (use assms(4) in \<open>auto simp: serve_http_def Let_def intro: sys.idle\<close>)

section \<open>Deadlines\<close>

text \<open>A job the reaper gives up on is older than its Kubernetes Job may run.\<close>

lemma stuck_is_past_deadline:
  assumes "is_stuck E rp t j" and "rp_deadlineSlack rp = hc_ActiveDeadlineSlack cfg" and "j_RunConfigJSON j \<noteq> []"
    and "0 \<le> hc_ActiveDeadlineSlack cfg" and "hc_ActiveDeadlineSlack cfg \<le> 2 ^ 62"
    and "\<And>c s. env_parse_config E (j_RunConfigJSON j) = Inr c \<Longrightarrow> rc_Timeout c = Some s \<Longrightarrow> 0 \<le> s \<and> s < 2 ^ 31"
    and "j_CreatedAt j \<le> t"
  shows "j_CreatedAt j + kj_ActiveDeadlineSeconds (k8s_object E cfg adv j) * Second < t"
proof -
  have "activeDeadlineSeconds E cfg j * Second < time_Sub t (j_CreatedAt j)"
    using reaper_outlasts_deadline [OF assms(3-5), of E] assms(1,2,6) by (auto simp: is_stuck_def)
  also have "\<dots> \<le> t - j_CreatedAt j" using assms(7) by (simp add: time_Sub_def min_int64_def)
  finally show ?thesis by (simp add: k8s_object_def)
qed

section \<open>Tokens\<close>

text \<open>
  What a verifier finds of a token hairpin sent: it is signed with the issuer's key under
  the identifier of that key's entry in the published document, for the job and its
  repositories, and lives as long as configured, to the second.
\<close>

lemma granted_token_verifies:
  assumes "NewIssuer clock (Some k) issuer audience ttl = Inr i" and "h_issuer h = Some (issuer_of sign rnd i)"
    and "token_granted h p n tok"
  shows "\<exists>jti iat exp x y. sign ''ES256'' [(''kid'', is_kid i), (''typ'', ''at+jwt'')]
      [(''iss'', JStr issuer), (''aud'', JStr audience), (''sub'', JStr (ep_jobID p)), (''iat'', JNum (itoa iat)),
       (''exp'', JNum (itoa exp)), (''jti'', JStr jti), (''haybale.dev/repos'', JArr (map JStr (ep_repoScope p)))] k = Inr tok \<and>
    ttl div Second \<le> exp - iat \<and> exp - iat \<le> ttl div Second + 1 \<and>
    json_parse (is_jwks i) = Some (JObj [(''keys'', JArr [JObj
      [(''kty'', JStr ''EC''), (''crv'', JStr ''P-256''), (''x'', JStr x), (''y'', JStr y),
       (''kid'', JStr (is_kid i)), (''alg'', JStr ''ES256''), (''use'', JStr ''sig'')]])]) \<and>
    map_option be_value (b64_decode x) = Some (pub_X (priv_Public k)) \<and>
    map_option be_value (b64_decode y) = Some (pub_Y (priv_Public k))"
proof -
  from assms(2,3) obtain x where m: "Mint sign i n (rnd n) (ep_jobID p) (ep_repoScope p) = Inr (tok, x)"
    by (auto simp: token_granted_def issuer_of_def)
  from m obtain jti where s: "sign ''ES256'' [(''kid'', is_kid i), (''typ'', tokenType)]
      (token_claims i (is_now i n) jti (ep_jobID p) (ep_repoScope p)) (is_priv i) = Inr tok" by (rule Mint_claims)
  from assms(1) have f: "is_priv i = k" "is_issuer i = issuer" "is_audience i = audience" "is_ttl i = ttl" "0 < ttl"
    by (auto elim: NewIssuer_facts)
  from published_key [OF assms(1)] f(1) obtain x y where d: "json_parse (is_jwks i) = Some (JObj [(''keys'', JArr [JObj
      [(''kty'', JStr ''EC''), (''crv'', JStr ''P-256''), (''x'', JStr x), (''y'', JStr y),
       (''kid'', JStr (is_kid i)), (''alg'', JStr ''ES256''), (''use'', JStr ''sig'')]])])"
    "map_option be_value (b64_decode x) = Some (pub_X (priv_Public k))"
    "map_option be_value (b64_decode y) = Some (pub_Y (priv_Public k))" by auto
  note life = token_lifetime(2,3) [OF f(5), of "is_now i n"]
  show ?thesis
    using s d life unfolding token_claims_def tokenType_def repoScopeClaim_def f(1-4)
    by (intro exI [of _ jti] exI [of _ "Unix (is_now i n)"] exI [of _ "Unix (is_now i n + ttl)"] exI [of _ x] exI [of _ y]) simp
qed

section \<open>Event streams\<close>

lemma fold_writer_sent: "wr_sent w = Some p \<Longrightarrow> wr_sent (fold writer_call cs w) = Some p"
proof (induction cs arbitrary: w)
  case (Cons c cs)
  from Cons.prems have "wr_sent (writer_call c w) = Some p" by (cases c) (simp_all add: send_status_def)
  with Cons.IH show ?case by simp
qed simp

lemma sse_response_sent:
  assumes "wr_sent rw = None"
  shows "\<exists>hs. wr_sent (fold writer_call (sse_headers @ cs) rw) = Some (200, hs) \<and> hs ''Content-Type'' = Some ''text/event-stream''"
proof -
  have "\<exists>hs. wr_sent (fold writer_call sse_headers rw) = Some (200, hs) \<and> hs ''Content-Type'' = Some ''text/event-stream''"
    using assms by (simp add: sse_headers_def send_status_def)
  then show ?thesis using fold_writer_sent by fastforce
qed

lemma events_read_back:
  assumes "rq_method r = ''GET''" and "rq_path r = [''jobs'', i, ''events'']" and "validJobID i"
    and "svc_Watch (h_svc ui) (sr_gap x) i (if rq_lastEventID r = [] then rq_after r else rq_lastEventID r) w = Some (Inr ch, w')"
    and "\<And>ev. SEvent ev \<in> set (sr_source x ch) \<Longrightarrow> sse_clean ev"
  shows "\<exists>rw hs. NewWeb ui x r new_writer w = Some (rw, w') \<and> wr_sent rw = Some (200, hs) \<and>
    hs ''Content-Type'' = Some ''text/event-stream'' \<and>
    sse_read (rq_lastEventID r) (text_of rw) = sse_expected (rq_lastEventID r) (sr_source x ch)"
proof -
  let ?cs = "sse_headers @ sse_loop (sr_source x ch)"
  let ?rw = "fold writer_call ui_headers new_writer"
  have "i \<noteq> []" using assms(3) by (auto simp: validJobID_def)
  with assms(2) have "pattern (rq_path r) = Some (''GET'', REvents i)" by simp
  then have "serve_mux ui x r w = Some (?cs, w')"
    using assms(1,3,4) by (simp add: serve_mux_def handle_route_def web_events_def Let_def)
  then have run: "NewWeb ui x r new_writer w = Some (fold writer_call ?cs ?rw, w')"
    using assms(1) rewriting.fold_seen [OF _ quiet_sse_loop, of "\<lparr>er_inner = ?rw, er_handled = False\<rparr>" "sr_source x ch"]
    by (simp add: NewWeb_def protectUI_def notFoundInterceptor_def Let_def del: fold_append)
  have "wr_sent ?rw = None" "text_of ?rw = []" by (simp_all add: ui_headers_def new_writer_def text_of_def)
  then show ?thesis
    using run sse_response_sent [of ?rw "sse_loop (sr_source x ch)"] sse_loop_reads_back [OF assms(5)]
    by (simp add: fold_writer_text calls_text_sse del: fold_append)
qed

section \<open>Missing jobs\<close>

text \<open>
  The page for a job that does not exist says that the page was not found: the rewriter
  replaces the handler's own message, since it cannot tell it from the mux's.
\<close>

lemma missing_job_page:
  assumes "svc_store (h_svc ui) = memStore_ops" and "rq_method r = ''GET''" and "rq_path r = [''jobs'', i]" and "ValidID i"
    and "ms_jobs (w_store w) i = None"
  shows "\<exists>rw. NewWeb ui x r new_writer w = Some (rw, w) \<and>
    wr_body rw = [Page (ErrorPage \<lparr>xd_Title = ''Error'', xd_Status = 404, xd_Message = ''page not found''\<rparr>)]"
proof -
  let ?rw = "fold writer_call ui_headers new_writer"
  have "i \<noteq> []" using assms(4) by (auto simp: ValidID_def)
  with assms have "serve_mux ui x r w = Some (renderError 404 ''job not found'', w)"
    by (simp add: serve_mux_def handle_route_def web_detail_def validJobID_ValidID svc_Get_def checkID_def mem_GetJob_def
        job_not_found_def)
  then have "NewWeb ui x r new_writer w =
      Some (er_inner (fold rewriter_call (renderError 404 ''job not found'') \<lparr>er_inner = ?rw, er_handled = False\<rparr>), w)"
    using assms(2) by (simp add: NewWeb_def protectUI_def notFoundInterceptor_def Let_def)
  moreover have "wr_sent ?rw = None" "wr_body ?rw = []" by (simp_all add: ui_headers_def new_writer_def)
  ultimately show ?thesis using not_found_is_generic by blast
qed

text \<open>A stored job's page is its detail view, with the permission requests of the moment.\<close>

lemma stored_job_page:
  assumes "svc_store (h_svc ui) = memStore_ops" and "rq_method r = ''GET''" and "rq_path r = [''jobs'', i]" and "ValidID i"
    and "ms_jobs (w_store w) i = Some j" and "sr_gap x = (\<lambda>_ v. v)" and "mem_ListPermissions i (w_store w) = Inr ps"
  shows "\<exists>rw hs. NewWeb ui x r new_writer w = Some (rw, w) \<and> wr_sent rw = Some (200, hs) \<and>
    wr_body rw = [Page (DetailPage \<lparr>dd_Title = j_ID j, dd_Job = newJobDetail (h_zone ui) (sr_now x) j,
      dd_Permissions = newPermissionRows (h_zone ui) ps\<rparr>)]"
proof -
  let ?p = "DetailPage \<lparr>dd_Title = j_ID j, dd_Job = newJobDetail (h_zone ui) (sr_now x) j,
    dd_Permissions = newPermissionRows (h_zone ui) ps\<rparr>"
  let ?e = "\<lparr>er_inner = fold writer_call ui_headers new_writer, er_handled = False\<rparr>"
  have "i \<noteq> []" using assms(4) by (auto simp: ValidID_def)
  with assms have "serve_mux ui x r w = Some (web_render ?p 200, w)"
    by (simp add: serve_mux_def handle_route_def web_detail_def validJobID_ValidID svc_Get_def svc_ListPermissions_def checkID_def
        mem_GetJob_def)
  then have "NewWeb ui x r new_writer w = Some (er_inner (fold rewriter_call (web_render ?p 200) ?e), w)"
    using assms(2) by (simp add: NewWeb_def protectUI_def notFoundInterceptor_def Let_def)
  moreover have "wr_sent (er_inner ?e) = None" "wr_body (er_inner ?e) = []" by (simp_all add: ui_headers_def new_writer_def)
  ultimately show ?thesis using rewriting.page_seen [of ?e 200 ?p] by auto
qed

end
