(* ===== verification/Examples.thy ===== *)
theory Examples
  imports Compose
begin

text \<open>
  A small concrete configuration: one job in a fresh in-memory store, a clock that
  advances by a millisecond, streams that never fail and a codec that prints the
  type of a message. The witnesses of the properties evaluate the model on it.
\<close>

definition id0 :: string where
  "id0 = ''hp-01arz3ndektsv4rrffq69g5fav''"

definition job0 :: Job where
  "job0 = \<lparr>j_ID = id0, j_Status = StatusQueued, j_Prompt = ''hi'', j_Profile = [],
     j_RunConfigJSON = ''{}'', j_StopReason = [], j_Error = [], j_FinalText = [],
     j_CreatedAt = 1, j_StartedAt = 0, j_FinishedAt = 0, j_LastEventAt = 0,
     j_CancelRequested = False, j_TraceParent = [], j_HarnessToken = ''a1'', j_RepoScope = []\<rparr>"

definition E0 :: env where
  "E0 = \<lparr>env_clock = (\<lambda>n. 63900000000000000000 + 1000000 * int n), env_wire = (\<lambda>_ _. None),
     env_marshal_event = (\<lambda>ev. Inr (he_Type ev)), env_marshal_control = (\<lambda>ev. Inr (ce_Type ev)),
     env_marshal_config = (\<lambda>_. Inr ''{}''), env_parse_config = (\<lambda>_. Inr empty_config),
     env_parse_config_lax = (\<lambda>_. Inr empty_config)\<rparr>"

definition h0 :: "memStore Handler" where
  "h0 = New memStore_ops [WithTelemetry True]"

definition sv0 :: "memStore Service" where
  "sv0 = \<lparr>svc_store = memStore_ops, svc_launcher = (\<lambda>_ _. None),
     svc_profiles = \<lparr>pr_templates = [], pr_def = []\<rparr>,
     svc_executorDefaults = \<lparr>ed_Image = [], ed_Namespace = [], ed_ServiceAccount = [], ed_Runtime = []\<rparr>,
     svc_traceEndpoint = [], svc_memoryTools = False, svc_tel = True, svc_print_table = (\<lambda>_. True)\<rparr>"

definition rp0 :: "memStore Reaper" where
  "rp0 = NewReaper memStore_ops 0 0 [rp_WithTelemetry True]"

definition store_with :: "Job \<Rightarrow> memStore" where
  "store_with j = snd (mem_CreateJob j (NewMemStore 0))"

definition world_of :: "memStore \<Rightarrow> memStore World" where
  "world_of m = \<lparr>w_store = m, w_reg = [], w_closed = (\<lambda>_. False), w_sent = (\<lambda>_. []), w_reads = 0,
     w_metrics = []\<rparr>"

definition w0 :: "memStore World" where
  "w0 = world_of (store_with job0)"

definition ready0 :: HarnessEvent where
  "ready0 = empty_event\<lparr>he_Type := ''ready'', he_Id := SessionString job0\<rparr>"

definition delta0 :: HarnessEvent where
  "delta0 = empty_event\<lparr>he_Type := ''text_delta'', he_Text := ''ok''\<rparr>"

definition done0 :: HarnessEvent where
  "done0 = empty_event\<lparr>he_Type := ''done'', he_StopReason := ''success''\<rparr>"

lemmas example_defs = id0_def job0_def E0_def h0_def sv0_def rp0_def w0_def world_of_def
  store_with_def ready0_def delta0_def done0_def

lemma h0_fields [simp]:
  "h_store h0 = memStore_ops" "h_tel h0" "h_maxFinalTextByte h0 = 131072" "h_memory h0 = None"
  "h_issuer h0 = None"
  by (simp_all add: h0_def New_def option_defs MaxFinalTextBytes_def)

lemma sv0_fields [simp]: "svc_store sv0 = memStore_ops" "svc_tel sv0"
  by (simp_all add: sv0_def)

lemma rp0_fields [simp]: "rp_store rp0 = memStore_ops" "rp_retention rp0 = 0" "rp_pageSize rp0 = 200"
  by (simp_all add: rp0_def NewReaper_def rp_WithTelemetry_def defaultPageSize_def)

lemma job0_fields [simp]:
  "j_ID job0 = id0" "j_Status job0 = StatusQueued" "j_Error job0 = []" "j_StopReason job0 = []"
  "j_HarnessToken job0 = ''a1''" "j_CancelRequested job0 = False" "j_RunConfigJSON job0 = ''{}''"
  by (simp_all add: job0_def)

lemma event0_fields [simp]:
  "he_Type delta0 = evTextDelta" "he_Text delta0 = ''ok''"
  "he_Type done0 = evDone" "he_StopReason done0 = ''success''"
  "he_Type ready0 = evReady" "he_Id ready0 = SessionString job0"
  by (simp_all add: delta0_def done0_def ready0_def empty_event_def event_type_defs)

lemma event_types_differ [simp]:
  "evTextDelta \<noteq> evDone" "evTextDelta \<noteq> evError" "evDone \<noteq> evTextDelta"
  by (simp_all add: event_type_defs)

lemma store_with_jobs: "ms_jobs (store_with j) = [j_ID j \<mapsto> j]"
  by (simp add: store_with_def mem_CreateJob_def NewMemStore_def)

lemma store_with_perms: "ms_perms (store_with j) = (\<lambda>_. [])"
  by (simp add: store_with_def mem_CreateJob_def NewMemStore_def)

lemma mem_ok_store_with: "mem_ok (store_with j)"
  using mem_ok_Create [OF mem_ok_New, of j 0 "fst (mem_CreateJob j (NewMemStore 0))" "store_with j"]
  by (simp add: store_with_def)

lemma mem_ok_w0: "mem_ok (w_store w0)"
  by (simp add: w0_def world_of_def mem_ok_store_with)

lemma w0_simps [simp]:
  "w_store w0 = store_with job0" "w_reg w0 = []" "w_metrics w0 = []"
  by (simp_all add: w0_def world_of_def)

lemma ValidID_id0: "ValidID id0"
  by code_simp

lemma wired0: "wired h0 sv0 rp0"
  by (simp add: wired_def h0_def sv0_def rp0_def New_def option_defs NewReaper_def rp_WithTelemetry_def)

lemma ParseSession0: "ParseSession (SessionString job0) = (id0, ''a1'')"
  by code_simp

lemma admitted0: "admitted h0 (Inr ready0) w0 = Some (id0, job0)"
  by (simp add: admitted_def ParseSession0 mem_GetJob_def store_with_jobs AcceptsToken_iff)
     (simp add: id0_def)

section \<open>A submission\<close>

definition cfg0 :: RunConfig where
  "cfg0 = empty_config\<lparr>rc_Mode := ''execution'', rc_Prompt := ''hi'',
     rc_Provider := Some \<lparr>pv_Type = ''anthropic'', pv_other = []\<rparr>, rc_MaxTurns := 5,
     rc_Timeout := Some 60,
     rc_Executor := Some \<lparr>ex_Type = ''none'', ex_Workspace = [], ex_Image = [], ex_Network = None,
       ex_Runtime = [], ex_K8SNamespace = [], ex_K8SServiceAccount = [], ex_K8SEgressProxyUrl = [],
       ex_SandboxIdentity = None, ex_other = []\<rparr>\<rparr>"

definition E1 :: env where
  "E1 = E0\<lparr>env_parse_config := (\<lambda>_. Inr cfg0)\<rparr>"

definition u0 :: submit_input where
  "u0 = \<lparr>su_ulid = ''01ARZ3NDEKTSV4RRFFQ69G5FAV'', su_token = [161], su_traceparent = []\<rparr>"

definition sp0 :: SubmitParams where
  "sp0 = \<lparr>sp_Prompt = [], sp_Profile = [], sp_RunConfigJSON = ''{}'', sp_RepoScope = []\<rparr>"

definition w_empty :: "memStore World" where
  "w_empty = world_of (NewMemStore 0)"

lemma mem_ok_w_empty: "mem_ok (w_store w_empty)"
  by (simp add: w_empty_def world_of_def mem_ok_New)

lemma prepare0:
  "resolveConfig E1 sv0 sp0 = Inr (cfg0, [])"
  "validateRepoScope (svc_print_table sv0) (sp_RepoScope sp0) = None"
  "validateRunConfig (prepareConfig sv0 sp0 i cfg0) = None"
  "validateControlPlaneTools (GetControlPlane (rc_Tools (prepareConfig sv0 sp0 i cfg0))) (svc_memoryTools sv0) = None"
  by (simp_all add: resolveConfig_def prepareConfig_def sp0_def sv0_def E1_def E0_def cfg0_def empty_config_def
      validateRepoScope_def maxRepoScopeEntries_def validateRunConfig_def validateExecutor_def
      isK8sExecutor_def applyTraceEmitterDefault_def applyExecutorDefaults_def hairpin_simps)

lemma E1_marshal: "env_marshal_config E1 c = Inr ''{}''"
  by (simp add: E1_def E0_def)

lemma w_empty_jobs: "ms_jobs (w_store w_empty) = Map.empty"
  by (simp add: w_empty_def world_of_def NewMemStore_def)

lemma submit0: "\<exists>j w'. Submit E1 sv0 u0 sp0 w_empty = (Inr j, w')"
  by (simp add: Submit_def prepare0 Let_def E1_marshal case_prod_unfold w_CreateJob_def
      mem_CreateJob_def w_empty_jobs)

end
