(* ===== verification/RedisExamples.thy ===== *)
theory RedisExamples
  imports Examples
begin

text \<open>
  The example job in a Redis keyspace, written there by the store itself: what the
  witnesses of the Redis properties start from.
\<close>

definition zone0 :: "gotime \<Rightarrow> int" where
  "zone0 = (\<lambda>_. 0)"

definition st0 :: "keyspace redisStore" where
  "st0 = NewRedisStore ref_redis 0 zone0"

definition ks0 :: keyspace where
  "ks0 = snd (rds_CreateJob st0 (\<lambda>_ v. v) job0 Map.empty)"

lemma st0_fields [simp]: "rs_client st0 = ref_redis" "rs_zone st0 = zone0"
  by (simp_all add: st0_def NewRedisStore_def)

lemma rd_empty [simp]:
  "rd_job Map.empty = Map.empty" "rd_events Map.empty = (\<lambda>_. [])" "rd_perm Map.empty = (\<lambda>_. Map.empty)"
  by (simp_all add: fun_eq_iff rd_job_def rd_events_def rd_perm_def stream_entries_def hash_entries_def)

lemma storable_time0: "0 \<le> t \<Longrightarrow> t < 10 ^ 18 \<Longrightarrow> storable_time zone0 t"
  by (simp add: storable_time_def zone0_def days_before_def Second_def)

lemma storable_job0: "storable_job zone0 job0"
  using storable_time0 [of 1] by (simp add: storable_job_def job0_def IsZero_def status_of_string_def)

lemma ks0_facts:
  shows "redis_ok zone0 ks0" and "rd_job ks0 = [id0 \<mapsto> job0]" and "rd_events ks0 = (\<lambda>_. [])"
    and "rd_perm ks0 = (\<lambda>_. Map.empty)"
proof -
  have v: "ValidID (j_ID job0)" "storable_job zone0 job0" "rd_job Map.empty (j_ID job0) = None"
    using ValidID_id0 storable_job0 by simp_all
  from rr.create_fresh [of st0 zone0 Map.empty job0, OF st0_fields TrueI redis_ok_empty v]
  show "redis_ok zone0 ks0" "rd_job ks0 = [id0 \<mapsto> job0]" "rd_events ks0 = (\<lambda>_. [])"
    "rd_perm ks0 = (\<lambda>_. Map.empty)"
    by (auto simp: ks0_def)
qed

lemma ref_server: "redis_server ref_redis (\<lambda>V. V) (\<lambda>_. True) ref_room"
  by (rule rr.redis_server_axioms)

end
