(* ===== verification/EdgeExamples.thy ===== *)
theory EdgeExamples
  imports RedisExamples
begin

text \<open>
  Concrete inputs for the edges of the program: requests of the web interface, a signing
  key with a simple encoding, the default flags and a job past its deadline.
\<close>

section \<open>Requests\<close>

definition ui0 :: "memStore handler" where
  "ui0 = \<lparr>h_env = E0, h_svc = sv0, h_zone = (\<lambda>_. 0), h_static = (\<lambda>_. []), h_ip_literal = (\<lambda>_. None)\<rparr>"

definition ev_sse :: Event where
  "ev_sse = \<lparr>e_ID = ''5-0'', e_Type = ''text_delta'', e_PayloadJSON = ''a'' @ [newline] @ ''b'', e_At = 1\<rparr>"

definition ev_forged :: Event where
  "ev_forged = \<lparr>e_ID = ''6-0'', e_Type = ''x'' @ [newline] @ ''event: done'', e_PayloadJSON = [], e_At = 1\<rparr>"

definition x0 :: "memStore surroundings" where
  "x0 = \<lparr>sr_gap = (\<lambda>_ w. w), sr_submit = u0, sr_now = 1, sr_source = (\<lambda>_. [SEvent ev_sse, SHeartbeat, SEvent ev_forged])\<rparr>"

definition request0 :: http_request where
  "request0 = \<lparr>rq_method = ''GET'', rq_path = [''jobs'', id0, ''events''], rq_host = ''hairpin:8130'', rq_origin = [],
     rq_lastEventID = [], rq_after = [], rq_form = Inr []\<rparr>"

definition forged_cancel :: http_request where
  "forged_cancel = request0\<lparr>rq_method := ''POST'', rq_path := [''jobs'', id0, ''cancel''], rq_origin := ''https://evil.example''\<rparr>"

lemma ui0_fields [simp]: "h_env ui0 = E0" "h_svc ui0 = sv0" "h_ip_literal ui0 = (\<lambda>_. None)"
  by (simp_all add: ui0_def)

lemma x0_fields [simp]: "sr_gap x0 = (\<lambda>_ w. w)" "sr_source x0 ch = [SEvent ev_sse, SHeartbeat, SEvent ev_forged]"
  by (simp_all add: x0_def)

lemma request0_fields [simp]:
  "rq_method request0 = ''GET''" "rq_path request0 = [''jobs'', id0, ''events'']" "rq_lastEventID request0 = []"
  "rq_after request0 = []"
  by (simp_all add: request0_def)

lemma sse_clean0: "sse_clean ev_sse" "sse_clean ev_forged"
  by (simp_all add: sse_clean_def ev_sse_def ev_forged_def plain_line_def newline_def cr_def)

lemma sse_seen0:
  "sse_seen ev_sse = (''5-0'', ''text_delta'', ''a'' @ [newline] @ ''b'')" "sse_seen ev_forged = (''6-0'', ''unknown'', ''{}'')"
  by (code_simp)+

lemma watch0: "\<exists>ch w'. svc_Watch sv0 (\<lambda>_ w. w) id0 [] w0 = Some (Inr ch, w')"
proof -
  have "ms_events (store_with job0) id0 = []" by (simp add: store_with_def mem_CreateJob_def NewMemStore_def)
  then show ?thesis
    by (simp add: svc_Watch_def checkID_def ValidID_id0 mem_GetJob_def store_with_jobs mem_WatchEvents_def Let_def)
qed

lemma origin0: "\<not> same_origin ui0 forged_cancel"
proof -
  have "url_Host (\<lambda>_. None) ''https://evil.example'' = Some ''evil.example''" by code_simp
  then show ?thesis by (simp add: same_origin_def forged_cancel_def request0_def)
qed

section \<open>A key\<close>

definition key0 :: PrivateKey where
  "key0 = \<lparr>priv_Public = \<lparr>pub_Curve = Some ''P-256'',
     pub_X = 48439561293906451759052585252797914202762949526041747995844080717082404635286,
     pub_Y = 36134250956749795798585127919587881956611106672985015071877198253568414405109\<rparr>, priv_D = 1\<rparr>"

lemma key0_curve: "pub_Curve (priv_Public key0) = Some ''P-256''"
  by (simp add: key0_def)

text \<open>The point is on the curve: the difference of the two sides is this multiple of the prime.\<close>

lemma key0_point: "on_p256 (pub_X (priv_Public key0)) (pub_Y (priv_Public key0))"
proof -
  have "int (pub_Y (priv_Public key0)) ^ 2 - (int (pub_X (priv_Public key0)) ^ 3 - 3 * int (pub_X (priv_Public key0)) + int p256_b) =
    int p256 * (- 981570988164258562257936101525215858910690391106138407341175333813841188485201771743408849884010754226965632845910189239885256093057339116530079505515608)"
    by (simp add: key0_def p256_def p256_b_def)
  then have "int p256 dvd int (pub_Y (priv_Public key0)) ^ 2 - (int (pub_X (priv_Public key0)) ^ 3 - 3 * int (pub_X (priv_Public key0)) + int p256_b)"
    by (rule dvdI)
  moreover have "pub_X (priv_Public key0) < p256" "pub_Y (priv_Public key0) < p256"
    by (simp_all add: key0_def p256_def)
  ultimately show ?thesis by (simp add: on_p256_def)
qed

definition ki0 :: key_io where
  "ki0 = \<lparr>ki_gen = Inr key0, ki_der = (\<lambda>k. if k = key0 then Inr ''der'' else Inl usage_error),
     ki_pemEncode = (\<lambda>ty d. ty @ newline # d), ki_print = None\<rparr>"

definition pem0 :: "string \<Rightarrow> (string \<times> string) option" where
  "pem0 s = (let (ty, d, _) = strings_Cut s newline in Some (ty, d))"

definition io0 :: file_io where
  "io0 = \<lparr>io_open = (\<lambda>_. None), io_write = (\<lambda>_. None), io_close = (\<lambda>_. None)\<rparr>"

lemma pem0_private: "pem0 (ki_pemEncode ki0 ''PRIVATE KEY'' d) = Some (''PRIVATE KEY'', d)"
proof -
  have "newline \<notin> set ''PRIVATE KEY''" by (simp add: newline_def)
  from strings_Cut_append [OF this, of d] show ?thesis by (simp add: pem0_def ki0_def)
qed

lemma keygen0: "\<exists>stdout fs'. runKeygen ki0 io0 ''key.pem'' [] Map.empty = (None, stdout, fs')"
  using coords_point [OF key0_curve key0_point]
  by (simp add: runKeygen_def GenerateKey_def EncodePrivateKeyPEM_def ki0_def io0_def writeNew_def KeyID_def JWKSDocument_def)

lemma issuer0: "\<exists>i. NewIssuer (\<lambda>_. 63900000000000000000) (Some key0) ''https://hairpin'' ''haybale'' (15 * Minute) = Inr i"
  using key0_curve key0_point by (rule NewIssuer_succeeds) (simp_all add: Minute_def)

section \<open>Flags\<close>

definition flags0 :: serve_flags where
  "flags0 = default_flags ''agents'' []"

lemma finish_flags0: "\<exists>c. finish_flags flags0 = Inr c \<and> cf_AdvertiseAddr c = ''hairpin.agents.svc:8130'' \<and>
    cf_Launcher c = ''kubernetes'' \<and> tc_KeyPath (cf_SandboxToken c) = []"
proof -
  have "SplitHostPort '':8130'' = Inr ([], ''8130'')" by code_simp
  then show ?thesis
    by (simp add: flags0_def finish_flags_def default_flags_def flags_config_def Validate_def Let_def validateHostPort_def
        defaultAdvertiseAddr_def validate_launcher_def validate_token_def tel_Validate_def envOr_def TrimSpace_def Minute_def
        ExporterNone_def ProtocolGRPC_def ProtocolHTTP_def ExporterOTLP_def ExporterStdout_def DefaultMetricInterval_def Second_def
        DefaultHarnessImage_def)
qed

end
