(* ===== verification/Spec2Isabelle.thy ===== *)
theory Spec2Isabelle
  imports EdgeExamples
begin

text \<open>
  Verification of hairpin, a server that runs coding agents as jobs. A caller submits a
  job; a launcher starts a harness for it in Kubernetes; the harness dials back over a
  bidirectional stream, is given its run configuration and streams events until it is
  done; the server records status, result text, a timeline of events and permission
  requests in a store, serves them over an RPC API and a web interface, and sweeps up
  after jobs that never started or that are old.

  \<^bold>\<open>Parts and theories.\<close> File names are under \<open>src/\<close>.

  \<^item> Vocabulary. \<open>Prelude\<close>: Go's errors, instants, durations, numbers and strings.
    \<open>Json\<close>, \<open>JsonText\<close>: UTF-8 and \<open>encoding/json\<close>. \<open>GoTime\<close>: \<open>time.Format\<close> and
    \<open>time.Parse\<close>. \<open>Encodings\<close>: base64, big-endian integers, SHA-256.
  \<^item> Data. \<open>Job\<close> (\<open>internal/job\<close>), \<open>Harness\<close> (the messages of
    \<open>gen/harness/v1/harness.pb.go\<close>), \<open>Telemetry\<close> (the labels and recording methods of
    \<open>internal/telemetry\<close>, as a list of measurements), \<open>RunConfigs\<close> (checks and defaults of a submitted configuration).
  \<^item> Stores. \<open>Store\<close>: the interface of \<open>internal/store/store.go\<close> as a record of
    operations, with its laws as the locales \<open>job_store\<close>, \<open>watched_store\<close> (a job is followed
    until it may be deleted) and \<open>job_store_once\<close> (an update runs its closure once).
    \<open>MemStore\<close>, \<open>MemList\<close>, \<open>MemSpec\<close>: \<open>memstore.go\<close>. \<open>Redis\<close>: a Redis server by the
    documented laws of its commands (locale \<open>redis_server\<close>); \<open>RedisStore\<close>,
    \<open>RedisCodec\<close>, \<open>RedisSpec\<close>, \<open>RedisOps\<close>, \<open>RedisList\<close>, \<open>RedisRace\<close>:
    \<open>internal/store/redisstore\<close> over it, undisturbed and with other clients acting
    between its commands. \<open>StoreEquiv\<close>: one abstract store both implement (locale
    \<open>implements_store\<close>).
  \<^item> Control plane. \<open>Registry\<close> (\<open>internal/registry\<close>, locale \<open>session_registry\<close>);
    \<open>World\<close>: the state all parts share; \<open>ControlPlane\<close>, \<open>Pump\<close>, \<open>RunTask\<close>
    (\<open>internal/controlplane\<close>); \<open>Memory\<close>, \<open>Billet\<close> (\<open>internal/memory\<close>).
    \<open>PumpInv\<close>, \<open>PumpSettle\<close>, \<open>PumpRun\<close>, \<open>PumpSpec\<close>, \<open>StreamCount\<close> hold their lemmas.
  \<^item> Service. \<open>Service\<close>, \<open>Watch\<close> (\<open>internal/service\<close>), \<open>Reaper\<close>
    (\<open>internal/reaper\<close>), with their lemmas in \<open>ServiceInv\<close>, \<open>ServiceSpec\<close>,
    \<open>LaunchSpec\<close>, \<open>ReaperSpec\<close>, \<open>JsonSpec\<close>.
  \<^item> Edges. \<open>Config\<close> (\<open>internal/config\<close> and the telemetry options), \<open>Launcher\<close>
    (\<open>internal/launcher\<close>), \<open>TokenIssuer\<close>, \<open>TokenSpec\<close> (\<open>internal/tokenissuer\<close>),
    \<open>Api\<close>, \<open>ApiSpec\<close> (\<open>internal/api\<close>), \<open>WebView\<close>, \<open>Web\<close>, \<open>WebSpec\<close>
    (\<open>internal/web\<close>, with the locale \<open>response_writer\<close>), \<open>Serve\<close>, \<open>ServeSpec\<close>
    (\<open>cmd/hairpin\<close>: flags, wiring, shutdown, key generation), \<open>Pipeline\<close> (instruments,
    spans, trace context and the set-up of \<open>internal/telemetry\<close>), \<open>Rpc\<close> (procedures,
    clients and handlers of \<open>gen/*/v1/*connect\<close> and the routing of the server),
    \<open>Lifecycle\<close> (\<open>serve\<close> from its first stage to its return).
  \<^item> Whole. \<open>System\<close>: every nesting and sequence of activity, as the inductive relation
    \<open>sys\<close> over any store; \<open>Labels\<close>: what every activity records; \<open>Compose\<close>: facts that
    span components. \<open>Examples\<close>, \<open>RedisExamples\<close>,
    \<open>EdgeExamples\<close>: the inputs of the witnesses. This theory holds the properties.

  \<^bold>\<open>How code becomes definitions.\<close> A Go function is a function of the same name, prefixed
  where two packages share one (\<open>mem_\<close>, \<open>rds_\<close>, \<open>svc_\<close>, \<open>web_\<close>). State is passed
  explicitly; an \<open>(T, error)\<close> result is a sum with the error on the left; a panic is the
  error \<open>Panicked\<close>. A closure given to \<open>UpdateJob\<close> is a function \<open>fn_\<close>..., with
  the variables it captures as a value it returns, so that a store that runs it twice
  shows what the capture then holds. An operation under a mutex is one step. Where a call
  makes several shared steps, \<open>gap k\<close> is what the rest of the program does before the
  next one; the properties quantify over it. The goroutines of memory calls are the
  pump's inputs \<open>CallStarted\<close> and \<open>CallAnswered\<close>. A web handler is the list of calls it makes on its
  response writer. Integers that can overflow wrap at 64 bits (\<open>wrap64\<close>). The clock,
  random bytes, network outcomes, the protobuf-JSON codec, signatures and PEM/DER codecs,
  and the client libraries of Kubernetes, Redis, Billet and OpenTelemetry are arguments;
  the properties assume of them only what their statements say.

  \<^bold>\<open>What is shown.\<close> Every admitted connection settles its job, with the deletion of old
  jobs off (C1); the outcome of a settled job does not change again, through any activity,
  until the clock reaches the end of its retention (C2); the store stays well formed (C3).
  Every request a wired server accepts is one of these activities (C4).
  Credentials are exact, for connections, launched harnesses and sandbox tokens, and
  refused streams are harmless (C5 to C8). Runs are recorded, counted and bounded. Calls
  of the service are all or nothing, submissions are checked, the web interface streams
  exactly the watched events and changes state for same-origin requests only, the
  API's answers do not depend on harness tokens, clients reach the method they call, and
  metric labels come from fixed vocabularies. Sweeps, listings, replays and
  watches are exact and end. The two stores agree with one abstract store, updates over
  Redis are atomic under interference, and records, documents, keys and event streams
  survive their encodings. One property shows a fault: over Redis, a status transition
  that loses a race reports a move it did not make. Beside the properties, theory
  \<open>Pipeline\<close> shows that a set-up that fails leaves no exporter running, and theory
  \<open>Lifecycle\<close> that a server releases what it started in reverse order, drains its
  streams before it stops the reaper, and closes the store last but for telemetry.

  \<^bold>\<open>Fuel.\<close> The replay of a timeline, the paging of the reaper and the retries of an update
  run on fuel, \<open>None\<close> being a loop that has not ended. The properties show that fuel of the
  size of the data (one more than the number of pages) is enough; the update loop has the
  code's own bound of retries. The JSON parser's fuel is twice the length of its
  input and two, more than the depth of calls any input can cause.

  \<^bold>\<open>Not modelled.\<close> Sockets, signal delivery and logging; HTTP and RPC framing, with
  the generated message descriptors, call stubs and unimplemented handlers, which only
  forward to it; HTML templates and static files, which are assets; what OpenTelemetry
  does behind its constructors, and the trace context of a caller, which is an argument of
  a submission; the forwarding goroutine of a watcher and what closing a store
  does; the random delay between update attempts over Redis; the helpers of tests. The flag
  package is an argument of \<open>parseServeFlags\<close>. Instants carry no location and no monotonic
  reading.
\<close>

section \<open>Settlement\<close>

text \<open>
  (C1) A harness connection that presents a job's credential, and is not a second
  one for that job, leaves the job in a terminal state when it returns: whatever
  the harness sent, however its stream ended, and whatever the rest of the program
  did meanwhile.
\<close>

theorem connection_settles_job:
  assumes "wired h sv rp" and "rp_retention rp \<le> 0" and "mem_ok (w_store w)"
    and "gaps_do (sys E h sv rp) gap" and "others_do (sys E h sv rp) ins"
    and "admitted h first w = Some (i, j)" and "map_of (w_reg (gap 0 w)) i = None"
  shows "settled (ms_jobs (w_store (snd (runTask E h s first gap ins w)))) i"
proof -
  have "gaps_do mem.keeps gap" and "others_do mem.keeps ins"
    using assms(4,5) sys_mem_keeps [OF _ assms(1,2)] unfolding gaps_do_def others_do_def by blast+
  with assms show ?thesis by (intro mem.runTask_settles) (simp_all add: wired_def)
qed

theorem connection_settles_job_witness:
  "settled (ms_jobs (w_store (snd (runTask E0 h0 7 (Inr ready0) (\<lambda>_ v. v)
     [Recv delta0, Others (\<lambda>v. snd (Cancel E0 sv0 (\<lambda>_ u. u) id0 v))] w0)))) id0"
proof (rule connection_settles_job [OF wired0, where j = job0])
  show "others_do (sys E0 h0 sv0 rp0) [Recv delta0, Others (\<lambda>v. snd (Cancel E0 sv0 (\<lambda>_ u. u) id0 v))]"
    by (simp add: sys.cancelled sys.idle)
qed (simp_all add: mem_ok_store_with admitted0 gaps_do_def sys.idle rp0_def NewReaper_def rp_WithTelemetry_def)

text \<open>
  (C2) A settled job is final. From any state, through any nesting and sequence of
  connections, submissions, launches, cancellations, permission answers, watches,
  memory calls and sweeps, a job that was terminal is still stored, with the same
  status, stop reason, error, result text and finish time; unless deletion is on
  and one of the clock readings taken finds the job past its retention window.
\<close>

theorem outcome_is_final:
  assumes "sys E h sv rp w w'" and "wired h sv rp" and "mem_ok (w_store w)"
    and "ms_jobs (w_store w) i = Some j" and "Terminal (j_Status j)"
    and "0 < rp_retention rp \<Longrightarrow> \<forall>n < w_reads w'. \<not> is_expired rp (env_clock E n) j"
  shows "\<exists>j'. ms_jobs (w_store w') i = Some j' \<and> same_outcome j j'"
  using assms by (rule sys_mem_outcome)

definition failed0 :: Job where
  "failed0 = job0\<lparr>j_Status := StatusFailed, j_Error := ''boom'', j_FinishedAt := 63900000000000000000\<rparr>"

definition daily_rp0 :: "memStore Reaper" where
  "daily_rp0 = NewReaper memStore_ops (24 * Hour) 0 [rp_WithTelemetry True]"

definition stopped_E0 :: env where
  "stopped_E0 = E0\<lparr>env_clock := (\<lambda>_. 63900000000000000000 + 24 * Hour)\<rparr>"

theorem outcome_is_final_witness:
  "\<exists>w'. sweep stopped_E0 daily_rp0 (\<lambda>_ v. v) 2 (world_of (store_with failed0)) = Some w' \<and>
     (\<exists>j'. ms_jobs (w_store w') id0 = Some j' \<and> same_outcome failed0 j')"
proof -
  let ?w = "world_of (store_with failed0)"
  have rp: "rp_store daily_rp0 = memStore_ops" "0 < rp_pageSize daily_rp0"
    by (simp_all add: daily_rp0_def NewReaper_def rp_WithTelemetry_def defaultPageSize_def)
  have w: "mem_ok (w_store ?w)" "length (ms_order (w_store ?w)) = 1"
    by (simp_all add: world_of_def mem_ok_store_with) (simp add: store_with_def mem_CreateJob_def NewMemStore_def)
  obtain w' where w': "sweep stopped_E0 daily_rp0 (\<lambda>_ v. v) 2 ?w = Some w'"
    using sweep_outcome [OF rp(1) w(1) rp(2), of 2 stopped_E0] w(2) by auto
  have "\<exists>j'. ms_jobs (w_store w') id0 = Some j' \<and> same_outcome failed0 j'"
  proof (rule outcome_is_final)
    show "sys stopped_E0 h0 sv0 daily_rp0 ?w w'" by (rule sys.swept [OF sys.idle w'])
    show "wired h0 sv0 daily_rp0" using wired0 rp(1) by (simp add: wired_def)
    show "ms_jobs (w_store ?w) id0 = Some failed0"
      by (simp add: world_of_def store_with_jobs failed0_def)
    have "\<not> is_expired daily_rp0 (env_clock stopped_E0 0) failed0" by code_simp
    then show "\<forall>n < w_reads w'. \<not> is_expired daily_rp0 (env_clock stopped_E0 n) failed0"
      by (simp add: stopped_E0_def)
  qed (simp_all add: w(1), simp add: failed0_def)
  with w' show ?thesis by blast
qed

section \<open>Connections\<close>

text \<open>
  (C5) The session credential is exact. In a store whose jobs have well-formed
  identifiers and a harness token, a connection is admitted for a job if and only
  if its first message is a ready event carrying that job's own session string.
\<close>

theorem admission_is_exact:
  assumes "h_store h = memStore_ops" and "mem_ok (w_store w)"
    and "all_credentialed (w_store w)"
  shows "admitted h first w = Some (i, j) \<longleftrightarrow>
    (\<exists>ev. first = Inr ev \<and> he_Type ev = evReady \<and> ms_jobs (w_store w) i = Some j \<and>
       he_Id ev = SessionString j)"
  using assms by (rule admitted_exact)

theorem admission_is_exact_witness:
  "admitted h0 (Inr ready0) w0 = Some (id0, job0) \<and>
   admitted h0 (Inr (ready0\<lparr>he_Id := id0\<rparr>)) w0 \<noteq> Some (id0, job0)"
proof -
  have "all_credentialed (w_store w0)"
    using ValidID_id0 by (simp add: all_credentialed_def store_with_jobs job0_def)
  note exact = admission_is_exact [of h0 w0, OF _ mem_ok_w0 this]
  have "SessionString job0 \<noteq> id0" by code_simp
  then show ?thesis
    using exact [of "Inr ready0" id0 job0] exact [of "Inr (ready0\<lparr>he_Id := id0\<rparr>)" id0 job0]
    by (simp add: store_with_jobs)
qed

text \<open>
  (C8) A stream that is not admitted changes nothing: the store and the registry
  are as before, and at most one message, a cancel, was written, on that stream.
\<close>

theorem refused_stream_is_harmless:
  assumes "admitted h first w = None" and "runTask E h s first gap ins w = (r, w')"
  shows "r = None \<and> w_store w' = w_store w \<and> w_reg w' = w_reg w \<and>
    (w_sent w' = w_sent w \<or>
     (\<exists>b. w_sent w' = (w_sent w)(s := w_sent w s @ [(control_event ctlCancel, b)])))"
  using runTask_refused [OF assms(1), of E s gap ins] assms(2)
  by (auto simp: sendCancel_def stream_Send_def Let_def)

theorem refused_stream_is_harmless_witness:
  "w_store (snd (runTask E0 h0 7 (Inr (ready0\<lparr>he_Id := id0\<rparr>)) (\<lambda>_ v. v) [Recv done0] w0)) = w_store w0"
proof -
  have "ParseSession id0 = (id0, [])" by code_simp
  then have "admitted h0 (Inr (ready0\<lparr>he_Id := id0\<rparr>)) w0 = None"
    by (simp add: admitted_def mem_GetJob_def store_with_jobs AcceptsToken_iff)
  from refused_stream_is_harmless [OF this, of E0 7 "\<lambda>_ v. v" "[Recv done0]"] show ?thesis
    by (cases "runTask E0 h0 7 (Inr (ready0\<lparr>he_Id := id0\<rparr>)) (\<lambda>_ v. v) [Recv done0] w0") simp
qed

text \<open>
  (C9) Every inbound stream is counted under exactly one disposition, and the gauge
  of live sessions is raised and lowered once, by assigned streams only.
\<close>

theorem stream_counted_once:
  assumes "gaps_do counts gap" and "others_do counts ins" and "h_tel h"
  shows "\<exists>d. stream_metrics (snd (runTask E h s first gap ins w)) = stream_metrics w @
    sample Sessions 1 [(''hairpin.session.disposition'', disposition_string d)] #
    (if d = SessionAssigned then [sample ActiveSessions 1 [], sample ActiveSessions (-1) []] else [])"
proof -
  from runTask_counts [OF assms(1,2), of E h s first w] obtain d where
    "stream_metrics (snd (runTask E h s first gap ins w)) = stream_metrics w @ stream_record True d"
    using assms(3) by auto
  then show ?thesis
    by (intro exI [of _ d])
       (simp add: stream_record_def HarnessSession_def SessionOpened_def SessionClosed_def)
qed

theorem stream_counted_once_witness:
  "\<exists>d. stream_metrics (snd (runTask E0 h0 7 (Inr ready0) (\<lambda>_ v. v) [Recv delta0, Recv done0] w0)) =
    stream_metrics w0 @
    sample Sessions 1 [(''hairpin.session.disposition'', disposition_string d)] #
    (if d = SessionAssigned then [sample ActiveSessions 1 [], sample ActiveSessions (-1) []] else [])"
  by (rule stream_counted_once) (simp_all add: gaps_do_def counts_def)

section \<open>Runs\<close>

text \<open>
  (C10) A run that reaches its done event: the job takes the status of the stop
  reason, the stop reason itself, the received text cut at the result bound
  however it was fragmented, and the last error message, if there was one.
\<close>

theorem done_run_is_recorded:
  assumes "h_store h = memStore_ops" and "mem_ok (w_store w)"
    and "no_done ins" and "others_do mem.quiet ins" and "he_Type ev = evDone"
    and "ms_jobs (w_store w) (ep_jobID p) = Some j" and "\<not> Terminal (j_Status j)"
    and "ep_finalText p = []" and "ep_errMessage p = []"
  shows "\<exists>j'. ms_jobs (w_store (snd (run E h (ins @ Recv ev # rest) (p, w)))) (ep_jobID p) = Some j' \<and>
    j_Status j' = StatusForStopReason (he_StopReason ev) \<and> j_StopReason j' = he_StopReason ev \<and>
    j_FinalText j' = take (h_maxFinalTextByte h) (texts ins) \<and>
    j_Error j' = (if last_error ins [] \<noteq> [] then last_error ins [] else j_Error j)"
  using assms by (intro mem.run_done_outcome) simp_all

definition p0 :: eventPump where
  "p0 = fst (pump E0 id0 7 [] w0)"

lemma p0_fields: "ep_jobID p0 = id0" "ep_finalText p0 = []" "ep_errMessage p0 = []"
  by (simp_all add: p0_def pump_def now_def)

theorem done_run_is_recorded_witness:
  "\<exists>j'. ms_jobs (w_store (snd (run E0 h0 ([Recv delta0, Recv delta0] @ Recv done0 # []) (p0, w0)))) id0 =
      Some j' \<and> j_Status j' = StatusSucceeded \<and> j_FinalText j' = ''okok''"
proof -
  have "ms_jobs (w_store w0) (ep_jobID p0) = Some job0" by (simp add: store_with_jobs p0_fields)
  from done_run_is_recorded [OF _ _ _ _ _ this, of h0 "[Recv delta0, Recv delta0]" done0 E0 "[]"]
  show ?thesis
    by (simp add: mem_ok_store_with p0_fields StatusForStopReason_def del: run.simps) blast
qed




text \<open>
  A memory call is admitted exactly when the run declared the tool, hairpin
  fulfils it, a backend is configured, the request is new, and both the per-job
  count and the in-flight limit leave room; admission takes one of each.
\<close>

theorem memory_admission:
  "(\<exists>p'. admitMemoryCall h tool rid p = Inr p') \<longleftrightarrow>
     tool \<in> set (ep_declaredTools p) \<and> IsMemoryTool tool \<and> h_memory h \<noteq> None \<and>
     rid \<notin> set (ep_memoryRequests p) \<and> ep_memoryCalls p < h_maxMemoryCalls h \<and>
     ep_memoryInFlight p < h_maxInFlightMemory h"
  by (auto simp: admitMemoryCall_def)

section \<open>Calls of the service\<close>

text \<open>
  (C13) A successful cancellation, undisturbed, has settled the job, or has marked
  it and written a cancel on the open session of its live harness.
\<close>

theorem cancel_takes_effect:
  assumes "svc_store sv = memStore_ops" and "mem_ok (w_store w)"
    and "Cancel E sv alone i w = (Inr j', w')"
  shows "settled (ms_jobs (w_store w')) i \<or>
    cancel_delivered i w w' \<and> (\<exists>k. ms_jobs (w_store w') i = Some k \<and> j_CancelRequested k)"
  by (rule mem.Cancel_promise [OF assms])

theorem cancel_takes_effect_witness:
  "settled (ms_jobs (w_store (snd (Cancel E0 sv0 alone id0 w0)))) id0 \<or>
   cancel_delivered id0 w0 (snd (Cancel E0 sv0 alone id0 w0))"
proof -
  have "\<exists>j w'. cancelUnassigned E0 sv0 id0 w0 = (Inr j, w')"
    using mem.cancelUnassigned_result [of sv0 w0 id0 job0 E0]
    by (auto simp: mem_ok_store_with store_with_jobs)
  then obtain j w' where "Cancel E0 sv0 alone id0 w0 = (Inr j, w')"
    by (auto simp: Cancel_def checkID_def ValidID_id0 mem_GetJob_def store_with_jobs Connected_def)
  from cancel_takes_effect [OF _ mem_ok_w0 this] this show ?thesis by auto
qed

text \<open>
  (C14) Answering a pending permission request, undisturbed: on success the
  decision is what is stored and the response was written on the job's live
  session; on failure the request is stored as it was, still pending.
\<close>

theorem permission_answer_is_all_or_nothing:
  assumes "svc_store sv = memStore_ops" and "mem_ok (w_store w)" and "ValidID i"
    and "ms_jobs (w_store w) i \<noteq> None"
    and "map_of (ms_perms (w_store w) i) rid = Some p" and "p_State p = PermissionPending"
  shows "case AnswerPermission E sv alone i rid allow reason w of
      (Inr a, w') \<Rightarrow>
        map_of (ms_perms (w_store w') i) = (map_of (ms_perms (w_store w) i))(rid \<mapsto> a) \<and>
        p_State a = (if allow then PermissionAllowed else PermissionDenied) \<and> p_Reason a = reason \<and>
        (\<exists>s. map_of (w_reg w) i = Some s \<and>
           w_sent w' s = w_sent w s @ [(permission_response rid allow reason, True)])
    | (Inl e, w') \<Rightarrow> map_of (ms_perms (w_store w') i) = map_of (ms_perms (w_store w) i)"
proof -
  note mem.AnswerPermission_promise [OF assms, where E = E and allow = allow and reason = reason]
  moreover obtain r w' where "AnswerPermission E sv alone i rid allow reason w = (r, w')"
    by (cases "AnswerPermission E sv alone i rid allow reason w")
  ultimately show ?thesis by (cases r) (auto simp: fun_eq_iff)
qed

definition perm0 :: PermissionRequest where
  "perm0 = \<lparr>p_RequestID = ''r1'', p_ToolName = ''shell'', p_InputJSON = [], p_State = PermissionPending,
     p_Reason = [], p_RequestedAt = 1, p_AnsweredAt = 0\<rparr>"

definition m_perm :: memStore where
  "m_perm = snd (mem_PutPermission id0 perm0 (store_with job0))"

theorem permission_answer_is_all_or_nothing_witness:
  "map_of (ms_perms (w_store (snd (AnswerPermission E0 sv0 alone id0 ''r1'' True ''fine'' (world_of m_perm)))) id0) ''r1''
     = Some perm0"
proof -
  have ok: "mem_ok m_perm"
    using mem_ok_Put [OF mem_ok_store_with, of id0 perm0 job0 "fst (mem_PutPermission id0 perm0 (store_with job0))"]
    by (simp add: m_perm_def)
  have m: "ms_jobs m_perm = [id0 \<mapsto> job0]" "map_of (ms_perms m_perm id0) ''r1'' = Some perm0"
    by (simp_all add: m_perm_def mem_PutPermission_def store_with_jobs update_conv' perm0_def)
  have "w_store (world_of m_perm) = m_perm" "w_reg (world_of m_perm) = []" by (simp_all add: world_of_def)
  moreover obtain r w' where a: "AnswerPermission E0 sv0 alone id0 ''r1'' True ''fine'' (world_of m_perm) = (r, w')"
    by (cases "AnswerPermission E0 sv0 alone id0 ''r1'' True ''fine'' (world_of m_perm)")
  ultimately show ?thesis
    using permission_answer_is_all_or_nothing [of sv0 "world_of m_perm" id0 "''r1''" perm0 True "''fine''" E0]
      ok m ValidID_id0
    by (cases r) (auto simp: perm0_def)
qed

lemma accepted_submission:
  assumes "svc_store sv = memStore_ops" and "mem_ok (w_store w)" and "Submit E sv u p w = (Inr j, w')"
  shows "ms_jobs (w_store w) (j_ID j) = None \<and>
    live_only ((ms_jobs (w_store w))(j_ID j \<mapsto> j)) (ms_jobs (w_store w')) \<and>
    (\<exists>cfg cfg0 profile.
      resolveConfig E sv p = Inr (cfg0, profile) \<and> cfg = prepareConfig sv p (j_ID j) cfg0 \<and>
      env_marshal_config E cfg = Inr (j_RunConfigJSON j) \<and> validateRunConfig cfg = None \<and>
      validateControlPlaneTools (GetControlPlane (rc_Tools cfg)) (svc_memoryTools sv) = None \<and>
      validateRepoScope (svc_print_table sv) (j_RepoScope j) = None \<and>
      j_ID j = NewID (su_ulid u) \<and> j_Status j = StatusQueued \<and> j_Prompt j = rc_Prompt cfg \<and>
      j_HarnessToken j = NewHarnessToken (su_token u))"
proof (intro conjI)
  from mem.Submit_accepted(1) [OF assms] obtain cfg profile cfg0 where
    c: "resolveConfig E sv p = Inr (cfg0, profile)" "cfg = prepareConfig sv p (j_ID j) cfg0"
      "env_marshal_config E cfg = Inr (j_RunConfigJSON j)" "validateRunConfig cfg = None"
      "validateControlPlaneTools (GetControlPlane (rc_Tools cfg)) (svc_memoryTools sv) = None"
      "validateRepoScope (svc_print_table sv) (j_RepoScope j) = None"
    and j: "j = newJob u p (NewID (su_ulid u)) (rc_Prompt cfg) profile (j_RunConfigJSON j) (fst (now E w))"
    and n: "ms_jobs (w_store w) (j_ID j) = None" by blast
  have "j_ID j = NewID (su_ulid u)" "j_Status j = StatusQueued" "j_Prompt j = rc_Prompt cfg"
    "j_HarnessToken j = NewHarnessToken (su_token u)" by (subst j, simp add: newJob_def)+
  with c show "\<exists>cfg cfg0 profile.
      resolveConfig E sv p = Inr (cfg0, profile) \<and> cfg = prepareConfig sv p (j_ID j) cfg0 \<and>
      env_marshal_config E cfg = Inr (j_RunConfigJSON j) \<and> validateRunConfig cfg = None \<and>
      validateControlPlaneTools (GetControlPlane (rc_Tools cfg)) (svc_memoryTools sv) = None \<and>
      validateRepoScope (svc_print_table sv) (j_RepoScope j) = None \<and>
      j_ID j = NewID (su_ulid u) \<and> j_Status j = StatusQueued \<and> j_Prompt j = rc_Prompt cfg \<and>
      j_HarnessToken j = NewHarnessToken (su_token u)" by blast
  show "ms_jobs (w_store w) (j_ID j) = None" by (rule n)
qed (rule mem.Submit_accepted(2) [OF assms])

text \<open>
  (C15) A submission is all or nothing. An accepted one returns a job that is queued, new
  to the store and stored; its configuration is the resolved one with the server's
  defaults, passed every check and is what the record holds encoded; nothing else
  changed. A refused one leaves the store as it was.
\<close>

theorem submission_is_all_or_nothing:
  assumes "svc_store sv = memStore_ops" and "mem_ok (w_store w)" and "Submit E sv u p w = (r, w')"
  shows "case r of
      Inl e \<Rightarrow> w_store w' = w_store w
    | Inr j \<Rightarrow>
        ms_jobs (w_store w) (j_ID j) = None \<and>
            live_only ((ms_jobs (w_store w))(j_ID j \<mapsto> j)) (ms_jobs (w_store w')) \<and>
            (\<exists>cfg cfg0 profile.
              resolveConfig E sv p = Inr (cfg0, profile) \<and> cfg = prepareConfig sv p (j_ID j) cfg0 \<and>
              env_marshal_config E cfg = Inr (j_RunConfigJSON j) \<and> validateRunConfig cfg = None \<and>
              validateControlPlaneTools (GetControlPlane (rc_Tools cfg)) (svc_memoryTools sv) = None \<and>
              validateRepoScope (svc_print_table sv) (j_RepoScope j) = None \<and>
              j_ID j = NewID (su_ulid u) \<and> j_Status j = StatusQueued \<and> j_Prompt j = rc_Prompt cfg \<and>
              j_HarnessToken j = NewHarnessToken (su_token u))"
proof (cases r)
  case (Inl e)
  from mem.Submit_rejected [OF assms(1,2) assms(3) [unfolded Inl]] show ?thesis by (simp add: Inl)
next
  case (Inr j)
  from accepted_submission [OF assms(1,2) assms(3) [unfolded Inr]] show ?thesis unfolding Inr sum.case .
qed

theorem submission_is_all_or_nothing_witness:
  "\<exists>j w'. Submit E1 sv0 u0 sp0 w_empty = (Inr j, w') \<and> j_Status j = StatusQueued \<and>
     ms_jobs (w_store w') (j_ID j) \<noteq> None"
proof -
  from submit0 obtain j w' where s: "Submit E1 sv0 u0 sp0 w_empty = (Inr j, w')" by blast
  from submission_is_all_or_nothing [OF _ mem_ok_w_empty s] have
    l: "live_only ((ms_jobs (w_store w_empty))(j_ID j \<mapsto> j)) (ms_jobs (w_store w'))"
    and "j_Status j = StatusQueued" by auto
  moreover from live_onlyD [OF l, of "j_ID j" j] have "ms_jobs (w_store w') (j_ID j) \<noteq> None" by auto
  ultimately show ?thesis using s by blast
qed

text \<open>
  (C21) The launch of a queued job calls the launcher with the job in state
  launching. Its outcome is recorded only on a job that is still launching when it
  returns: one that was assigned, cancelled or deleted meanwhile is left as it is.
\<close>

theorem launch_records_outcome:
  assumes "svc_store sv = memStore_ops" and "ms_jobs (w_store w) (j_ID j) = Some k"
    and "j_Status k = StatusQueued"
  shows "\<exists>v t. ms_jobs (w_store v) = (ms_jobs (w_store w))(j_ID j \<mapsto> k\<lparr>j_Status := StatusLaunching\<rparr>) \<and>
    ms_jobs (w_store (launch E sv gap j w)) =
      (ms_jobs (w_store (gap 0 v)))(j_ID j := map_option (launch_outcome (svc_launcher sv (w_reads v) j) t)
         (ms_jobs (w_store (gap 0 v)) (j_ID j)))"
  using assms by (rule launch_queued)

theorem launch_records_outcome_witness:
  "\<exists>j'. ms_jobs (w_store (launch E0 sv0 alone job0 w0)) id0 = Some j' \<and>
     j_Status j' = StatusAwaitingHarness"
proof -
  have j: "ms_jobs (w_store w0) (j_ID job0) = Some job0" by (simp add: store_with_jobs)
  from launch_records_outcome [OF _ j, of sv0 E0 alone] show ?thesis
    by (auto simp: alone_def launch_outcome_def move_job_def sv0_def store_with_jobs)
qed


text \<open>
  The declared control-plane tools are accepted exactly when each is a memory
  tool, a backend is configured, and a timeout that is set leaves the memory call
  its ten seconds; the product of an \<open>int32\<close> and a second does not overflow.
\<close>

theorem control_plane_tool_checks:
  assumes "\<forall>t \<in> set ts. - (2 ^ 31) \<le> ct_TimeoutSeconds t \<and> ct_TimeoutSeconds t < 2 ^ 31"
  shows "validateControlPlaneTools ts m = None \<longleftrightarrow>
    (\<forall>t \<in> set ts. IsMemoryTool (ct_Name t) \<and> m \<and> (ct_TimeoutSeconds t = 0 \<or> 10 \<le> ct_TimeoutSeconds t))"
proof -
  have "CallTimeout \<le> wrap64 (ct_TimeoutSeconds t * Second) \<longleftrightarrow> 10 \<le> ct_TimeoutSeconds t"
    if "t \<in> set ts" for t
    using tool_timeout_no_overflow [of "ct_TimeoutSeconds t"] assms that
    by (simp add: CallTimeout_def Second_def)
  then show ?thesis by (auto simp: validateControlPlaneTools_None)
qed

definition tool0 :: ControlPlaneToolConfig where
  "tool0 = \<lparr>ct_Name = ''save_memory'', ct_TimeoutSeconds = 9, ct_other = []\<rparr>"

theorem control_plane_tool_checks_witness:
  "validateControlPlaneTools [tool0] True \<noteq> None \<and>
   validateControlPlaneTools [tool0\<lparr>ct_TimeoutSeconds := 10\<rparr>] True = None"
  using control_plane_tool_checks [of "[tool0]" True]
    control_plane_tool_checks [of "[tool0\<lparr>ct_TimeoutSeconds := 10\<rparr>]" True]
  by (simp add: tool0_def IsMemoryTool_def ToolSave_def)

section \<open>Maintenance\<close>

text \<open>
  (C23) An undisturbed sweep ends and is exact: a job awaiting its harness past its
  deadline is failed with the reason, a settled job past the retention window is
  deleted when deletion is on, every other job is as it was and none appears.
\<close>

theorem sweep_is_exact:
  assumes "rp_store rp = memStore_ops" and "mem_ok (w_store w)" and "0 < rp_pageSize rp"
    and "length (ms_order (w_store w)) < n" and "length (ms_order (w_store w)) < 2 ^ 63"
  shows "\<exists>w' t. sweep E rp (\<lambda>_ v. v) n w = Some w' \<and>
    (\<forall>i. case ms_jobs (w_store w) i of
       None \<Rightarrow> ms_jobs (w_store w') i = None
     | Some j \<Rightarrow>
         if is_stuck E rp (fst (now E w)) j
         then \<exists>t'. ms_jobs (w_store w') i = Some (stuck_job t' j)
         else ms_jobs (w_store w') i = (if 0 < rp_retention rp \<and> is_expired rp t j then None else Some j))"
  using assms by (rule sweep_outcome)

definition waiting0 :: Job where
  "waiting0 = job0\<lparr>j_Status := StatusAwaitingHarness\<rparr>"

theorem sweep_is_exact_witness:
  "\<exists>w' t. sweep E0 rp0 (\<lambda>_ v. v) 2 (world_of (store_with waiting0)) = Some w' \<and>
     ms_jobs (w_store w') id0 = Some (stuck_job t waiting0)"
proof -
  have "length (ms_order (store_with waiting0)) = 1"
    by (simp add: store_with_def mem_CreateJob_def NewMemStore_def)
  moreover have "is_stuck E0 rp0 (fst (now E0 (world_of (store_with waiting0)))) waiting0"
    by code_simp
  moreover have "ms_jobs (store_with waiting0) id0 = Some waiting0"
    by (simp add: store_with_jobs waiting0_def)
  moreover have "w_store (world_of m) = m" for m by (simp add: world_of_def)
  ultimately show ?thesis
    using sweep_is_exact [of rp0 "world_of (store_with waiting0)" 2 E0]
    by (auto simp: mem_ok_store_with dest!: spec [of _ id0])
qed

text \<open>
  The deadline of a job whose configuration sets an \<open>int32\<close> timeout is that
  timeout, the slack and the margin added up without overflow.
\<close>

theorem deadline_does_not_overflow:
  assumes "env_parse_config E js = Inr cfg" and "rc_Timeout cfg = Some t"
    and "0 \<le> t" and "t < 2 ^ 31" and "0 \<le> slack" and "slack \<le> 2 ^ 62"
  shows "awaitingHarnessDeadline E js slack = t * Second + slack + 300 * Second"
  using deadline_no_overflow [OF assms] by (simp add: awaitingHarnessMargin_def Minute_def Second_def)

theorem deadline_does_not_overflow_witness:
  "awaitingHarnessDeadline E1 ''{}'' Second = 361 * Second"
  using deadline_does_not_overflow [of E1 "''{}''" cfg0 60 Second]
  by (simp add: E1_def cfg0_def Second_def)

section \<open>Listing and timelines\<close>

text \<open>
  (C26) Following the page tokens of the in-memory store, from the empty token to
  the empty token, gives every job exactly once, newest first, for every page size.
\<close>

theorem listing_is_complete:
  assumes "rp_store rp = memStore_ops" and "mem_ok (w_store w)" and "0 < rp_pageSize rp"
    and "length (ms_order (w_store w)) < n" and "length (ms_order (w_store w)) < 2 ^ 63"
  shows "\<exists>js. listAllJobs rp (\<lambda>_ v. v) n [] [] w = Some (Inr js, w) \<and>
    map j_ID js = rev (ms_order (w_store w)) \<and> distinct js \<and>
    set js = ran (ms_jobs (w_store w))"
proof -
  let ?m = "w_store w"
  let ?js = "jobs_below ?m (length (ms_order ?m))"
  have "listAllJobs rp (\<lambda>_ v. v) n [] [] w = Some (Inr ?js, w)"
    using listAllJobs_mem [OF assms(2) _ assms(5,1,3,4), of "[]" "[]"] by simp
  moreover have ids: "map j_ID ?js = rev (ms_order ?m)"
    using mem_ok_order [OF assms(2)] mem_ok_jobs [OF assms(2)]
    by (auto simp: jobs_below_def rev_map [symmetric] intro!: map_idI)
  moreover have "distinct ?js"
    using ids assms(2) distinct_map [of j_ID ?js] by (simp add: mem_ok_def)
  moreover have "set ?js = ran (ms_jobs ?m)"
    using jobs_below_all [OF assms(2)] mem_ok_jobs [OF assms(2)] by (auto simp: ran_def)
  ultimately show ?thesis by blast
qed

theorem listing_is_complete_witness:
  "listAllJobs rp0 (\<lambda>_ v. v) 2 [] [] w0 = Some (Inr [job0], w0)"
proof -
  have o1: "ms_order (store_with job0) = [id0]"
    by (simp add: store_with_def mem_CreateJob_def NewMemStore_def)
  then obtain js where "listAllJobs rp0 (\<lambda>_ v. v) 2 [] [] w0 = Some (Inr js, w0)"
      "map j_ID js = [id0]" "set js = ran [id0 \<mapsto> job0]"
    using listing_is_complete [of rp0 w0 2] by (auto simp: mem_ok_store_with store_with_jobs)
  moreover from this have "js = [job0]" by (cases js) auto
  ultimately show ?thesis by simp
qed


definition ev_at :: "gotime \<Rightarrow> Event" where
  "ev_at t = \<lparr>e_ID = [], e_Type = ''x'', e_PayloadJSON = [], e_At = t\<rparr>"

definition m_events :: memStore where
  "m_events = snd (mem_AppendEvent 1 id0 (ev_at 63900000000000000000) (store_with job0))"

lemma m_events_log:
  "ms_events m_events id0 = [stamp 1 1 (ev_at 63900000000000000000)]" "ms_jobs m_events id0 = Some job0"
proof -
  have 0: "ms_events (store_with job0) id0 = []" "ms_seq (store_with job0) = 0" "0 < ms_maxLen (store_with job0)"
    "ms_jobs (store_with job0) id0 = Some job0"
    by (simp_all add: store_with_def mem_CreateJob_def NewMemStore_def)
  then show "ms_events m_events id0 = [stamp 1 1 (ev_at 63900000000000000000)]"
    using append_events(1) [of "store_with job0" id0 1 "ev_at 63900000000000000000"]
    by (simp add: m_events_def next_seq_small keep_last_def)
  show "ms_jobs m_events id0 = Some job0" using 0 by (simp add: m_events_def mem_AppendEvent_def Let_def)
qed


text \<open>
  Appending an event whose instant is not before any recorded one keeps the
  identifiers of a timeline strictly increasing, as numbers and not as text.
\<close>

theorem appending_keeps_order:
  assumes "ms_jobs m i \<noteq> None" and "stamped m i" and "increasing_ids (ms_events m i)"
    and "ts = (if IsZero (e_At ev) then t else e_At ev)" and "0 \<le> UnixMilli ts" and "UnixMilli ts < 2 ^ 64"
    and "\<forall>x \<in> set (ms_events m i). e_At x \<le> ts"
  shows "increasing_ids (ms_events (snd (mem_AppendEvent t i ev m)) i)"
  using assms by (rule append_in_order)

theorem appending_keeps_order_witness:
  "increasing_ids (ms_events (snd (mem_AppendEvent 1 id0 (ev_at 63900000000000000000) (store_with job0))) id0)"
proof (rule appending_keeps_order [where ts = 63900000000000000000])
  show "ms_jobs (store_with job0) id0 \<noteq> None" by (simp add: store_with_jobs)
  have "ms_events (store_with job0) id0 = []" "ms_seq (store_with job0) = 0"
    by (simp_all add: store_with_def mem_CreateJob_def NewMemStore_def)
  then show "stamped (store_with job0) id0" "increasing_ids (ms_events (store_with job0) id0)"
    "\<forall>x \<in> set (ms_events (store_with job0) id0). e_At x \<le> 63900000000000000000"
    by (simp_all add: stamped_def increasing_ids_def)
  show "(63900000000000000000 :: gotime) =
      (if IsZero (e_At (ev_at 63900000000000000000)) then 1 else e_At (ev_at 63900000000000000000))"
    by (simp add: ev_at_def IsZero_def)
  show "0 \<le> UnixMilli 63900000000000000000" "UnixMilli 63900000000000000000 < 2 ^ 64"
    by code_simp+
qed

text \<open>
  (C28) A watch of the in-memory store starts with the recorded events after its
  cursor and then receives every live event, in order, as long as it is not more
  than its buffer behind.
\<close>

theorem watcher_misses_nothing:
  assumes "mem_ok m" and "ms_jobs m i \<noteq> None"
    and "length (filter (after a) (ms_events m i)) + length evs \<le> ms_maxLen m + 64"
  shows "\<exists>w m' new. mem_WatchEvents i a m = Some (Inr w, m') \<and>
    mw_ch (ms_heap (appends evs i m') w) = filter (after a) (ms_events m i) @ new \<and>
    map e_Type new = map (e_Type \<circ> snd) evs \<and> map e_PayloadJSON new = map (e_PayloadJSON \<circ> snd) evs"
proof -
  from WatchEvents_history [OF assms(1,2)] obtain w m' where
    w: "mem_WatchEvents i a m = Some (Inr w, m')" "w \<in> set (ms_watchers m' i)"
    and ch: "mw_ch (ms_heap m' w) = filter (after a) (ms_events m i)" and jobs: "ms_jobs m' = ms_jobs m"
    by blast
  have "watch_cap m' = ms_maxLen m + 64"
    using w(1) assms(2) by (auto simp: mem_WatchEvents_def Let_def watch_cap_def split: option.splits if_splits)
  with appends_delivered [of m' i w evs] assms(2,3) w jobs ch show ?thesis by auto
qed

theorem watcher_misses_nothing_witness:
  "\<exists>w m' new. mem_WatchEvents id0 [] m_events = Some (Inr w, m') \<and>
    mw_ch (ms_heap (appends [(1, ev_at 1)] id0 m') w) =
      stamp 1 1 (ev_at 63900000000000000000) # new \<and> map e_Type new = [''x'']"
proof -
  have "mem_ok m_events"
    using mem_ok_Append [OF mem_ok_store_with, of 1 id0 "ev_at 63900000000000000000" job0
        "fst (mem_AppendEvent 1 id0 (ev_at 63900000000000000000) (store_with job0))"]
    by (simp add: m_events_def)
  from watcher_misses_nothing [OF this, of id0 "[]" "[(1, ev_at 1)]"] obtain w m' new where
    "mem_WatchEvents id0 [] m_events = Some (Inr w, m')"
    "mw_ch (ms_heap (appends [(1, ev_at 1)] id0 m') w) = stamp 1 1 (ev_at 63900000000000000000) # new"
    "map e_Type new = [''x'']"
    by (auto simp: m_events_log after_def ev_at_def simp del: appends.simps)
  then show ?thesis by (intro exI [of _ w] exI [of _ m'] exI [of _ new] conjI)
qed

text \<open>
  The permission requests of a job are listed once each, the pending ones
  first, and within each group by the time they were made.
\<close>

theorem permissions_are_sorted:
  "\<exists>ps. mem_ListPermissions i m = Inr ps \<and> sorted (map permission_key ps) \<and>
     set ps = snd ` set (ms_perms m i) \<and> length ps = length (ms_perms m i)"
  by (rule ListPermissions_sorted)

text \<open>
  (C29) A status event ends a watch exactly when its status is terminal. Both
  encoders of status payloads, the service's and the control plane's, are read
  back correctly, whatever bytes the error text has.
\<close>

theorem status_events_end_watches:
  assumes "named_status s"
  shows "isTerminalStatusEvent \<lparr>e_ID = i, e_Type = EventTypeStatusChange,
           e_PayloadJSON = statusPayload s err, e_At = t\<rparr> = Terminal s \<and>
         isTerminalStatusEvent \<lparr>e_ID = i, e_Type = EventStatusChange,
           e_PayloadJSON = status_payload s, e_At = t\<rparr> = Terminal s"
  using status_event_recognised [OF assms] by simp

theorem status_events_end_watches_witness:
  "isTerminalStatusEvent \<lparr>e_ID = ''1-1'', e_Type = EventTypeStatusChange,
     e_PayloadJSON = statusPayload StatusFailed [CHR 0x22, CHR 0xFF], e_At = 1\<rparr>"
  using status_events_end_watches [of StatusFailed "''1-1''" "[CHR 0x22, CHR 0xFF]" 1] by simp

text \<open>A well-formed text survives JSON encoding and decoding, escapes included.\<close>

theorem json_text_round_trip:
  assumes "utf8_valid s"
  shows "parse_value 1 (json_string s @ rest) = Some (JStr s, rest)"
  using parse_value_string [of 0 s rest] assms by auto

theorem json_text_round_trip_witness:
  "parse_value 1 (json_string [CHR 0x22, CHR 0x0A, CHR 0xE2, CHR 0x80, CHR 0xA8, CHR ''<''] @ ''}'') =
     Some (JStr [CHR 0x22, CHR 0x0A, CHR 0xE2, CHR 0x80, CHR 0xA8, CHR ''<''], ''}'')"
proof -
  have "utf8_valid [CHR 0x22, CHR 0x0A, CHR 0xE2, CHR 0x80, CHR 0xA8, CHR ''<'']" by code_simp
  from json_text_round_trip [OF this] show ?thesis .
qed

section \<open>Sessions, tokens and memory\<close>

text \<open>
  (C30) A job has one live session: while one holds the claim every other is
  refused, a stream that gives up cannot evict another's session, and giving up
  the claim restores the registry.
\<close>

theorem one_session_per_job:
  assumes "reg_ok r" and "Register i x r = (None, r')"
  shows "fst (Register i y r') = Some (Sentinel ErrAlreadyConnected) \<and>
    map_of (Unregister i y r') i = (if x = y then None else Some x) \<and>
    map_of (Unregister i x r') = map_of r"
proof -
  have free: "map_of r i = None"
    using assms reg.register_taken [OF assms(1), of i] by (cases "map_of r i") auto
  have held: "map_of r' i = Some x" "reg_ok r'"
    using reg.register_free [OF assms(1) free, of x] assms(2) by simp_all
  have "fst (Register i y r') = Some (Sentinel ErrAlreadyConnected)"
    using reg.register_exclusive [OF assms(1), of i x y] assms(2) by simp
  moreover have "map_of (Unregister i y r') i = (if x = y then None else Some x)"
    using reg.unregister_holder [OF held(2), of i y] held(1) by simp
  moreover have "map_of (Unregister i x r') = map_of r"
    using reg.claim_release [OF assms(1) free, of x] assms(2) by simp
  ultimately show ?thesis by blast
qed

theorem one_session_per_job_witness:
  "fst (Register ''a'' (2::nat) [(''a'', 1)]) = Some (Sentinel ErrAlreadyConnected)"
  using one_session_per_job [of "[]" "''a''" 1 "[(''a'', 1)]" 2] by (simp add: reg_ok_def Register_def)

text \<open>
  A sandbox token request is answered at most once, under its own request
  identifier, on the session that asked. A token is sent only when the job declared
  a sandbox identity and has tokens left, it is the one minted for that job and its
  scope, and it costs one of them; a refusal carries no token. The store is not
  touched.
\<close>

theorem sandbox_token_is_earned:
  assumes "handleSandboxTokenRequest E h ev (p, w) = (p', w')"
  shows "w_store w' = w_store w \<and>
    (\<exists>new. w_sent w' = (w_sent w)(ep_sess p := w_sent w (ep_sess p) @ new) \<and> length new \<le> 1 \<and>
      (\<forall>(ce, b) \<in> set new. ce_RequestId ce = he_RequestId ev \<and>
         (ce_Token ce \<noteq> [] \<longrightarrow> ce_IsError ce = Some False) \<and>
         (ce_IsError ce = Some False \<longrightarrow>
            token_granted h p (w_reads w) (ce_Token ce) \<and> ep_sandboxTokens p' = ep_sandboxTokens p + 1)))"
  using assms by (rule sandbox_answer)

theorem sandbox_token_is_earned_witness:
  "\<exists>new. w_sent (snd (handleSandboxTokenRequest E0 h0 (empty_event\<lparr>he_RequestId := ''r''\<rparr>) (p0, w0))) =
      (w_sent w0)(ep_sess p0 := w_sent w0 (ep_sess p0) @ new) \<and> length new \<le> 1 \<and>
      (\<forall>(ce, b) \<in> set new. ce_Token ce = [])"
proof -
  obtain p' w' where h: "handleSandboxTokenRequest E0 h0 (empty_event\<lparr>he_RequestId := ''r''\<rparr>) (p0, w0) = (p', w')"
    by (cases "handleSandboxTokenRequest E0 h0 (empty_event\<lparr>he_RequestId := ''r''\<rparr>) (p0, w0)")
  from sandbox_token_is_earned [OF h] obtain new where
    n: "w_sent w' = (w_sent w0)(ep_sess p0 := w_sent w0 (ep_sess p0) @ new)" "length new \<le> 1"
    and t: "\<forall>(ce, b) \<in> set new. (ce_Token ce \<noteq> [] \<longrightarrow> ce_IsError ce = Some False) \<and>
       (ce_IsError ce = Some False \<longrightarrow> token_granted h0 p0 (w_reads w0) (ce_Token ce))" by auto
  have "\<not> token_granted h0 p0 k x" for k x by (simp add: token_granted_def)
  with t have "\<forall>(ce, b) \<in> set new. ce_Token ce = []" by auto
  with n show ?thesis unfolding h by auto
qed

text \<open>
  The result of a memory call is the last event of the job's timeline, and is
  written on the job's session unless that has closed.
\<close>

theorem memory_answer_is_recorded:
  assumes "h_store h = memStore_ops" and "mem_ok (w_store w)" and "ms_jobs (w_store w) (ep_jobID p) \<noteq> None"
    and "env_marshal_control E (tool_result rid content err) = Inr payload"
  shows "\<exists>e b. ms_events (w_store (sendToolResult E h p rid content err w)) (ep_jobID p) \<noteq> [] \<and>
    last (ms_events (w_store (sendToolResult E h p rid content err w)) (ep_jobID p)) = e \<and>
    e_Type e = ctlToolResultResponse \<and> e_PayloadJSON e = payload \<and>
    w_sent (sendToolResult E h p rid content err w) (ep_sess p) =
      w_sent w (ep_sess p) @ (if w_closed w (ep_sess p) then [] else [(tool_result rid content err, b)])"
  using assms by (rule sendToolResult_effect)

theorem memory_answer_is_recorded_witness:
  "\<exists>e. last (ms_events (w_store (sendToolResult E0 h0 p0 ''r'' ''c'' False w0)) id0) = e \<and>
     e_Type e = ctlToolResultResponse"
proof -
  have "env_marshal_control E0 (tool_result ''r'' ''c'' False) = Inr (ce_Type (tool_result ''r'' ''c'' False))"
    by (simp add: E0_def)
  from memory_answer_is_recorded [OF _ _ _ this, of h0 w0 p0] show ?thesis
    by (auto simp: mem_ok_store_with p0_fields store_with_jobs)
qed

text \<open>
  (C31) The memory backend is only asked what hairpin allows: two clients that agree
  on searches with a query and a limit of at most 100, and on saves of at most
  256 KiB of content, give the same answers to every tool request.
\<close>

theorem memory_calls_are_bounded:
  assumes "\<And>n q l. TrimSpace q \<noteq> [] \<Longrightarrow> l \<le> 100 \<Longrightarrow> cl_Search c n q l = cl_Search c' n q l"
    and "\<And>n x k. TrimSpace x \<noteq> [] \<Longrightarrow> length x \<le> 256 * 1024 \<Longrightarrow> cl_Save c n x k = cl_Save c' n x k"
  shows "Fulfil c n tool input = Fulfil c' n tool input"
  using assms
  by (auto simp: Fulfil_def fulfilSearch_def fulfilSave_def Let_def maxSearchLimit_def maxContentBytes_def
      split: sum.splits option.splits)

definition client0 :: "int \<Rightarrow> Client" where
  "client0 n = \<lparr>cl_Search = (\<lambda>_ _ l. if n < l then Inl (Panicked ''limit'') else Inr []),
     cl_Save = (\<lambda>_ _ _. Inr \<lparr>sv_MemoryID = ''m1'', sv_Accepted = True\<rparr>)\<rparr>"

theorem memory_calls_are_bounded_witness:
  \<open>Fulfil (client0 100) 0 ''search_memory'' ''{"query":"x","limit":150}'' =
     Fulfil (client0 200) 0 ''search_memory'' ''{"query":"x","limit":150}''\<close>
  by (rule memory_calls_are_bounded) (simp_all add: client0_def)

section \<open>The Redis store\<close>

text \<open>
  (C32) The Redis store implements the abstract store: over any server that keeps the
  documented laws of its commands, every sequence of creations, reads, updates,
  deletions and permission requests is answered as the two maps of the abstract store
  answer it, errors included, and leaves the state that represents them.
\<close>

theorem redis_refines_store:
  assumes "redis_server R keys up room" and "rs_client st = R" and "rs_zone st = zone"
    and "up s" and "redis_ok zone (keys s)" and "list_all (proper zone) qs"
    and "serve_all (serve (redisStore_ops st (\<lambda>_ v. v))) qs s = (rs, s')"
  shows "up s' \<and> redis_ok zone (keys s') \<and> serve_all a_serve qs (rd_abs (keys s)) = (rs, rd_abs (keys s'))"
  using implements_store.simulates [OF redis_server.redis_implements [OF assms(1-3)] _ assms(6,7)] assms(4,5)
  by simp

theorem redis_refines_store_witness:
  "\<exists>s'. serve_all (serve (redisStore_ops st0 (\<lambda>_ v. v)))
      [CreateReq job0, GetReq id0, UpdateReq id0 fn_cancelRequested no_capture, DeleteReq id0, GetReq id0] ks0 =
    ([UnitReply (Inl (Errorf ''job %s: %w'' [id0] (Some (Sentinel ErrConflict)))), JobReply (Inr job0),
      UpdateReply (Inr (job0\<lparr>j_CancelRequested := True\<rparr>)) no_capture, UnitReply (Inr ()),
      JobReply (Inl (job_not_found id0))], s')"
proof -
  let ?qs = "[CreateReq job0, GetReq id0, UpdateReq id0 fn_cancelRequested no_capture, DeleteReq id0, GetReq id0]"
  have "storable_fn zone0 fn_cancelRequested" by (rule program_fn_storable [OF program_fn.requested])
  then have qs: "list_all (proper zone0) ?qs"
    by (simp add: ValidID_id0 storable_job0 plain_fn_def fn_cancelRequested_def)
  obtain rs s' where run: "serve_all (serve (redisStore_ops st0 (\<lambda>_ v. v))) ?qs ks0 = (rs, s')"
    by (cases "serve_all (serve (redisStore_ops st0 (\<lambda>_ v. v))) ?qs ks0") blast
  from redis_refines_store [OF ref_server st0_fields TrueI ks0_facts(1) qs run]
  have "fst (serve_all a_serve ?qs (rd_abs ks0)) = rs" by simp
  then show ?thesis using run by (simp add: rd_abs_def ks0_facts fn_cancelRequested_def)
qed

text \<open>
  (C33) The two stores cannot be told apart by these requests: started from states
  that hold the same jobs and permission requests, the in-memory store and the Redis
  store give the same answers, error texts included, and stay in agreement.
\<close>

theorem stores_agree:
  assumes "redis_server R keys up room" and "rs_client st = R" and "rs_zone st = zone"
    and "up s" and "redis_ok zone (keys s)" and "mem_ok m" and "mem_abs m = rd_abs (keys s)"
    and "list_all (proper zone) qs"
    and "serve_all (serve memStore_ops) qs m = (rs, m')"
    and "serve_all (serve (redisStore_ops st (\<lambda>_ v. v))) qs s = (rs', s')"
  shows "rs = rs' \<and> ms_jobs m' = rd_job (keys s') \<and> (\<forall>i. map_of (ms_perms m' i) = rd_perm (keys s') i)"
proof -
  from implementations_agree [OF mem_impl.implements_store_axioms redis_server.redis_implements [OF assms(1-3)]
      assms(6) _ assms(7,8,9,10)] assms(4,5)
  have "rs = rs' \<and> mem_abs m' = rd_abs (keys s')" by simp
  then show ?thesis by (auto simp: mem_abs_def rd_abs_def fun_eq_iff)
qed

theorem stores_agree_witness:
  "fst (serve_all (serve memStore_ops) [DeleteReq id0, GetPermReq id0 ''p''] (store_with job0)) =
   fst (serve_all (serve (redisStore_ops st0 (\<lambda>_ v. v))) [DeleteReq id0, GetPermReq id0 ''p''] ks0)"
proof -
  let ?qs = "[DeleteReq id0, GetPermReq id0 ''p'']"
  obtain rs m' where m: "serve_all (serve memStore_ops) ?qs (store_with job0) = (rs, m')"
    by (cases "serve_all (serve memStore_ops) ?qs (store_with job0)") blast
  obtain rs' s' where s: "serve_all (serve (redisStore_ops st0 (\<lambda>_ v. v))) ?qs ks0 = (rs', s')"
    by (cases "serve_all (serve (redisStore_ops st0 (\<lambda>_ v. v))) ?qs ks0") blast
  have "mem_abs (store_with job0) = rd_abs ks0"
    by (simp add: mem_abs_def rd_abs_def store_with_jobs ks0_facts store_with_perms)
  from stores_agree [OF ref_server st0_fields TrueI ks0_facts(1) mem_ok_store_with this _ m s]
  show ?thesis using m s ValidID_id0 by simp
qed

text \<open>
  (C34) An update over Redis is atomic, whatever other clients do between its
  commands: it either fails having changed nothing, or its closure ran on the record
  that was current when the write was committed, and the write changed that job alone.
\<close>

theorem redis_update_is_atomic:
  assumes "redis_server R keys up room" and "rs_client st = R" and "rs_zone st = zone"
    and "up s" and "redis_ok zone (keys s)" and "ValidID i"
    and "\<forall>n. steady zone keys up (gap n)" and "storable_fn zone fn"
    and "rds_UpdateJob st gap i fn c s = (r, c', s')"
  shows "redis_ok zone (keys s') \<and>
    (case r of
       Inl e \<Rightarrow> others_only gap s s'
     | Inr j' \<Rightarrow> \<exists>u j k. others_only gap s u \<and> rd_job (keys u) i = Some j \<and> fn j k = (Inr j', c') \<and>
         rd_job (keys s') = (rd_job (keys u))(i \<mapsto> j') \<and> rd_events (keys s') = rd_events (keys u) \<and>
         rd_perm (keys s') = rd_perm (keys u))"
  using assms(1) by (rule redis_server.update_atomic [OF _ assms(2-9)])

theorem redis_update_is_atomic_witness:
  "\<exists>s'. rds_UpdateJob st0 (\<lambda>n V. if n = 29 then Map.empty else V) id0 fn_cancelRequested no_capture ks0 =
     (Inl (job_not_found id0), no_capture, s') \<and> redis_ok zone0 s'"
proof -
  let ?gap = "\<lambda>n V. if n = (29::nat) then Map.empty else (V :: keyspace)"
  let ?u = "rds_UpdateJob st0 ?gap id0 fn_cancelRequested no_capture ks0"
  obtain r c' s' where run: "?u = (r, c', s')" by (cases ?u) blast
  have "\<forall>n. steady zone0 (\<lambda>V. V) (\<lambda>_. True) (?gap n)" by (simp add: steady_def redis_ok_empty)
  note step = redis_update_is_atomic [OF ref_server st0_fields TrueI ks0_facts(1) ValidID_id0 this
      program_fn_storable [OF program_fn.requested] run]
  have lost: "?gap 29 ks0 (jobKey id0) \<noteq> ks0 (jobKey id0)"
    using rd_job_absent [OF ValidID_id0 ks0_facts(1)] by (auto simp: ks0_facts)
  have "rds_UpdateJob st0 ?gap id0 fn_cancelRequested no_capture ks0 =
      rds_update_loop st0 ?gap id0 fn_cancelRequested 29 no_capture (?gap 29 ks0)"
    unfolding rds_UpdateJob_def maxUpdateRetries_Suc
    by (rule rr.lost_race [where gap = ?gap and n = 29 and fn = fn_cancelRequested and s = ks0 and j = job0 and j' = "job0\<lparr>j_CancelRequested := True\<rparr>",
          OF st0_fields TrueI ks0_facts(1) TrueI _ _ lost]) (simp_all add: ks0_facts fn_cancelRequested_def)
  also have "\<dots> = (Inl (job_not_found id0), no_capture, Map.empty)"
    using rd_empty(1) rr.attempt_missing [where s = Map.empty, OF st0_fields(1) TrueI redis_ok_empty ValidID_id0]
    by (simp add: numeral_eq_Suc redis_not_found)
  finally show ?thesis using step run by simp
qed

text \<open>
  (C35) Over Redis too a settled job is final: as long as the other clients keep
  settled jobs, an update with any of the program's closures does, however often
  it loses the race and is tried again.
\<close>

theorem redis_keeps_outcomes:
  assumes "redis_server R keys up room" and "rs_client st = R" and "rs_zone st = zone"
    and "up s" and "redis_ok zone (keys s)" and "ValidID i"
    and "\<forall>n. steady zone keys up (gap n)" and "\<forall>n. keeps_settled keys (gap n)"
    and "program_fn zone fn" and "rds_UpdateJob st gap i fn c s = (r, c', s')"
    and "rd_job (keys s) k = Some j" and "Terminal (j_Status j)"
  shows "\<exists>j'. rd_job (keys s') k = Some j' \<and> same_outcome j j'"
  using jobs_persistD [OF redis_server.update_persists [OF assms(1-10)] assms(11,12)] .

theorem redis_keeps_outcomes_witness:
  "let V = snd (snd (rds_UpdateJob st0 (\<lambda>_ v. v) id0 (fn_failJob ''boom'' 5) no_capture ks0))
   in \<exists>j. rd_job (snd (snd (rds_UpdateJob st0 (\<lambda>_ v. v) id0 (fn_finish StatusSucceeded [] [] [] 7) no_capture V))) id0 =
        Some j \<and> j_Status j = StatusFailed \<and> j_Error j = ''boom''"
proof -
  have t: "storable_time zone0 5" "storable_time zone0 7" by (simp_all add: storable_time0)
  define V where "V = snd (snd (rds_UpdateJob st0 (\<lambda>_ v. v) id0 (fn_failJob ''boom'' 5) no_capture ks0))"
  have f: "fn_failJob ''boom'' 5 job0 no_capture =
      (Inr (job0\<lparr>j_Status := StatusFailed, j_Error := ''boom'', j_FinishedAt := 5\<rparr>), no_capture)"
    by (simp add: fn_failJob_def)
  have j0: "rd_job ks0 id0 = Some job0" by (simp add: ks0_facts)
  note fn = fn_result [OF program_fn_storable [OF program_fn.failed [OF t(1)]] f ks0_facts(1) j0]
  from rr.update_undisturbed [where fn = "fn_failJob ''boom'' 5", OF st0_fields TrueI ks0_facts(1) j0 f fn]
  have V: "redis_ok zone0 V" "rd_job V id0 = Some (job0\<lparr>j_Status := StatusFailed, j_Error := ''boom'', j_FinishedAt := 5\<rparr>)"
    by (auto simp: V_def)
  let ?u = "rds_UpdateJob st0 (\<lambda>_ v. v) id0 (fn_finish StatusSucceeded [] [] [] 7) no_capture V"
  obtain r c' s' where run: "?u = (r, c', s')" by (cases ?u) blast
  have fin: "program_fn zone0 (fn_finish StatusSucceeded [] [] [] 7)" by (rule program_fn.finished [OF t(2)]) simp
  from redis_keeps_outcomes [where keys = "\<lambda>V. V" and up = "\<lambda>_. True", OF ref_server st0_fields TrueI V(1) ValidID_id0 _ _ fin run V(2)]
  obtain j' where "rd_job s' id0 = Some j'" "same_outcome (job0\<lparr>j_Status := StatusFailed, j_Error := ''boom'', j_FinishedAt := 5\<rparr>) j'"
    by (auto simp: steady_def keeps_settled_def)
  then show ?thesis using run same_outcome_fields by (fastforce simp: V_def [symmetric] Let_def)
qed

text \<open>
  (C36) What the Redis store writes it reads back. A job survives being written field
  by field over any older hash under its key, cleared instants included, and a
  permission request survives its JSON document.
\<close>

theorem redis_records_round_trip:
  assumes "storable_job zone j" and "storable_permission zone p"
  shows "jobFromFields (filter (\<lambda>(n, _). n \<notin> set (jobClearFields j))
      (AList.updates (map fst (jobSetFields zone j)) (map snd (jobSetFields zone j)) old)) = Inr j \<and>
    (\<exists>d. marshal_permission zone p = Inr d \<and> unmarshal_permission d = Inr p)"
  using jobFromFields_encoded [OF assms(1) encodes_written] unmarshal_marshal_permission [OF assms(2)] by blast

theorem redis_records_round_trip_witness:
  "jobFromFields (filter (\<lambda>(n, _). n \<notin> set (jobClearFields job0))
      (AList.updates (map fst (jobSetFields zone0 job0)) (map snd (jobSetFields zone0 job0))
        [(''finished_at'', ''2024-05-01T10:00:00Z''), (''error'', ''old'')])) = Inr job0"
proof -
  have "storable_permission zone0 perm0"
    using storable_time0 [of 1] storable_time0 [of 0]
    by (simp add: storable_permission_def perm0_def permission_state_of_def utf8_valid_ascii byte_in_def)
  from redis_records_round_trip [OF storable_job0 this] show ?thesis by blast
qed

text \<open>
  (C38) The listing over Redis is complete: following page tokens from the start gives
  every stored job exactly once, newest identifier first, for every page size, and
  the walk ends.
\<close>

theorem redis_listing_is_complete:
  assumes "redis_server R keys up room" and "rs_client st = R"
    and "up (w_store w)" and "redis_ok zone (keys (w_store w))"
    and "rp_store rp = redisStore_ops st gap" and "0 < rp_pageSize rp"
    and "card {i. rd_job (keys (w_store w)) i \<noteq> None} < fuel"
  shows "\<exists>is. listAllJobs rp (\<lambda>_ v. v) fuel [] [] w =
      Some (Inr (map (\<lambda>i. the (rd_job (keys (w_store w)) i)) is), w) \<and>
    sorted_wrt (\<lambda>x y. y < x) is \<and> set is = {i. rd_job (keys (w_store w)) i \<noteq> None}"
proof -
  note ids = rd_ids_facts [OF assms(4)]
  have "distinct (rd_ids (keys (w_store w)))" using ids(2) by (rule descending_distinct)
  then have "length (rd_ids (keys (w_store w))) < fuel"
    using assms(7) ids(1) distinct_card [of "rd_ids (keys (w_store w))"] by simp
  then have "listAllJobs rp (\<lambda>_ v. v) fuel [] [] w =
      Some (Inr (map (\<lambda>i. the (rd_job (keys (w_store w)) i)) (rd_ids (keys (w_store w)))), w)"
    using redis_server.list_all_pages [OF assms(1-6), of "[]" 0 fuel "[]"] by simp
  with ids show ?thesis by blast
qed

definition redis_world :: "keyspace World" where
  "redis_world = \<lparr>w_store = ks0, w_reg = [], w_closed = (\<lambda>_. False), w_sent = (\<lambda>_. []), w_reads = 0,
     w_metrics = []\<rparr>"

theorem redis_listing_is_complete_witness:
  "listAllJobs (NewReaper (redisStore_ops st0 (\<lambda>_ v. v)) 0 0 [rp_WithTelemetry True]) (\<lambda>_ v. v) 2 [] [] redis_world =
     Some (Inr [job0], redis_world)"
proof -
  have one: "{i. rd_job (w_store redis_world) i \<noteq> None} = {id0}" by (auto simp: redis_world_def ks0_facts split: if_splits)
  have "redis_ok zone0 (w_store redis_world)" by (simp add: redis_world_def ks0_facts)
  from redis_listing_is_complete [where keys = "\<lambda>V. V" and up = "\<lambda>_. True" and fuel = 2
      and rp = "NewReaper (redisStore_ops st0 (\<lambda>_ v. v)) 0 0 [rp_WithTelemetry True]" and gap = "\<lambda>_ v. v",
      OF ref_server st0_fields(1) TrueI this]
  obtain "is" where r: "listAllJobs (NewReaper (redisStore_ops st0 (\<lambda>_ v. v)) 0 0 [rp_WithTelemetry True]) (\<lambda>_ v. v) 2 [] [] redis_world =
      Some (Inr (map (\<lambda>i. the (rd_job (w_store redis_world) i)) is), redis_world)"
    "sorted_wrt (\<lambda>x y. y < x) is" "set is = {id0}"
    unfolding one by (auto simp: NewReaper_def rp_WithTelemetry_def defaultPageSize_def)
  have "is = [id0]" using r(2,3) by (cases "is") (auto simp: subset_singleton_iff)
  with r(1) show ?thesis by (simp add: redis_world_def ks0_facts)
qed





text \<open>
  (C40) The mark an update closure leaves in the variables it captured can be wrong
  over Redis: when another client takes a job out of the expected status between the
  read and the commit of the first attempt, the second attempt leaves the job as it
  is, and the transition is still reported as made.
\<close>

theorem retried_transition_claims_a_move:
  assumes "redis_server R keys up room" and "rs_client st = R" and "rs_zone st = zone"
    and "up s" and "redis_ok zone (keys s)" and "rd_job (keys s) i = Some j" and "j_Status j = from"
    and "up (gap 29 s)" and "redis_ok zone (keys (gap 29 s))"
    and "rd_job (keys (gap 29 s)) i = Some k" and "j_Status k \<noteq> from" and "gap 28 = (\<lambda>v. v)"
  shows "\<exists>s'. rds_UpdateJob st gap i (fn_transition from to err t) no_capture s =
      (Inr k, no_capture\<lparr>c_moved := True\<rparr>, s') \<and> rd_job (keys s') = rd_job (keys (gap 29 s))"
  using redis_server.transition_mark_is_stale [OF assms] .

theorem retried_transition_claims_a_move_witness:
  "\<exists>k s'. rds_UpdateJob st0
      (\<lambda>n V. if n = 29 then snd (snd (rds_UpdateJob st0 (\<lambda>_ v. v) id0 (fn_cancelUnassigned 5) no_capture V)) else V)
      id0 (fn_transition StatusQueued StatusLaunching [] 7) no_capture ks0 =
      (Inr k, no_capture\<lparr>c_moved := True\<rparr>, s') \<and> j_Status k = StatusCancelled"
proof -
  let ?V = "snd (snd (rds_UpdateJob st0 (\<lambda>_ v. v) id0 (fn_cancelUnassigned 5) no_capture ks0))"
  let ?gap = "\<lambda>n V. if n = (29::nat) then snd (snd (rds_UpdateJob st0 (\<lambda>_ v. v) id0 (fn_cancelUnassigned 5) no_capture V)) else V"
  let ?k = "job0\<lparr>j_Status := StatusCancelled, j_CancelRequested := True, j_FinishedAt := 5\<rparr>"
  have t: "storable_time zone0 5" by (simp add: storable_time0)
  have j0: "rd_job ks0 id0 = Some job0" by (simp add: ks0_facts)
  have f: "fn_cancelUnassigned 5 job0 no_capture = (Inr ?k, no_capture\<lparr>c_moved := True\<rparr>)"
    by (simp add: fn_cancelUnassigned_def)
  note fn = fn_result [OF program_fn_storable [OF program_fn.unassigned [OF t]] f ks0_facts(1) j0]
  from rr.update_undisturbed [where fn = "fn_cancelUnassigned 5", OF st0_fields TrueI ks0_facts(1) j0 f fn]
  have V: "redis_ok zone0 (?gap 29 ks0)" "rd_job (?gap 29 ks0) id0 = Some ?k" by auto
  have quiet: "?gap 28 = (\<lambda>v. v)" by simp
  from retried_transition_claims_a_move [where keys = "\<lambda>V. V" and up = "\<lambda>_. True", OF ref_server st0_fields TrueI ks0_facts(1) j0 job0_fields(2) TrueI V _ quiet,
      of StatusLaunching "[]" 7]
  show ?thesis by auto
qed

section \<open>The server\<close>

text \<open>
  (C6) The harness container of a launched job carries a session that is admitted for
  exactly that job, and the address to dial; its Job object is named and labelled by the
  job whatever labels the operator configured.
\<close>

theorem launched_harness_is_admitted:
  assumes "h_store h = memStore_ops" and "mem_ok (w_store w)" and "all_credentialed (w_store w)"
    and "ms_jobs (w_store w) (j_ID j) = Some k" and "j_HarnessToken k = j_HarnessToken j"
    and "he_Type ev = evReady"
    and "harness_env (k8s_object E cfg adv j) ''CONTROL_PLANE_SESSION_ID'' = Some (he_Id ev)"
  shows "(admitted h (Inr ev) w = Some (i, l) \<longleftrightarrow> i = j_ID j \<and> l = k) \<and>
    harness_env (k8s_object E cfg adv j) ''CONTROL_PLANE_ADDR'' = Some adv \<and>
    kj_Name (k8s_object E cfg adv j) = j_ID j \<and>
    kj_Labels (k8s_object E cfg adv j) ''hairpin.rxbynerd.dev/job-id'' = Some (j_ID j) \<and>
    kj_Labels (k8s_object E cfg adv j) ''app.kubernetes.io/managed-by'' = Some ''hairpin''"
  using launched_admission [OF assms] harness_env_object(2) [of E cfg adv j]
  by (simp add: k8s_object_def jobLabels_def)

definition harness_cfg0 :: HarnessConfig where
  "harness_cfg0 = cf_Harness (flags_config flags0)"

theorem launched_harness_is_admitted_witness:
  "admitted h0 (Inr ready0) w0 = Some (id0, job0) \<and>
   kj_Labels (k8s_object E0 harness_cfg0 ''hairpin:8130'' job0) ''hairpin.rxbynerd.dev/job-id'' = Some id0"
proof -
  have "all_credentialed (w_store w0)"
    using ValidID_id0 by (simp add: all_credentialed_def store_with_jobs job0_def)
  from launched_harness_is_admitted [of h0 w0 job0 job0 ready0 E0 harness_cfg0 "''hairpin:8130''" id0 job0, OF _ mem_ok_w0 this]
  show ?thesis by (simp add: store_with_jobs harness_env_object)
qed

text \<open>
  (C24) In a server whose reaper and launcher are wired from one configuration, a job the
  reaper fails for a harness that never connected is already older than the deadline its
  Kubernetes Job was given: the reaper never gives up on a harness that may still start.
\<close>

theorem reaper_waits_for_deadline:
  assumes "is_stuck E (sr_reaper (serve_wire x cfg b memStore_ops pr (LaunchK8s lk) iss)) t j"
    and "k8_cfg lk = cf_Harness cfg" and "j_RunConfigJSON j \<noteq> []" and "0 \<le> hc_ActiveDeadlineSlack (cf_Harness cfg)"
    and "hc_ActiveDeadlineSlack (cf_Harness cfg) \<le> 2 ^ 62"
    and "\<And>c s. env_parse_config E (j_RunConfigJSON j) = Inr c \<Longrightarrow> rc_Timeout c = Some s \<Longrightarrow> 0 \<le> s \<and> s < 2 ^ 31"
    and "j_CreatedAt j \<le> t"
  shows "j_CreatedAt j + kj_ActiveDeadlineSeconds (k8s_object E (k8_cfg lk) (k8_advertiseAddr lk) j) * Second < t"
  using stuck_is_past_deadline [OF assms(1) serve_wire_parts(5) assms(3-7)] by (simp add: assms(2))

definition outside0 :: outside where
  "outside0 = \<lparr>ou_env = E1, ou_cluster = \<lparr>cu_create = (\<lambda>_ _ _. None), cu_already = (\<lambda>_. False)\<rparr>,
     ou_dial = (\<lambda>_. \<lparr>msv_SearchMemory = (\<lambda>_ _ _ _. Inr []), msv_SaveMemory = (\<lambda>_ _ _ _. Inr ([], True))\<rparr>),
     ou_sign = (\<lambda>_ _ _ _. Inr ''tok''), ou_random = (\<lambda>_. Inr (replicate 16 0)), ou_print = (\<lambda>_. True)\<rparr>"

theorem reaper_waits_for_deadline_witness:
  "kj_ActiveDeadlineSeconds (k8s_object E1 harness_cfg0 ''a'' (job0\<lparr>j_Status := StatusAwaitingHarness\<rparr>)) * Second < 2 * Hour"
proof -
  let ?lk = "\<lparr>k8_cfg = harness_cfg0, k8_advertiseAddr = ''a''\<rparr>"
  have slack: "hc_ActiveDeadlineSlack harness_cfg0 = 10 * Minute"
    by (simp add: harness_cfg0_def flags_config_fields flags0_def default_flags_def)
  let ?j = "job0\<lparr>j_Status := StatusAwaitingHarness\<rparr>"
  have cfg: "env_parse_config E1 y = Inr cfg0" "rc_Timeout cfg0 = Some 60" for y by (simp_all add: E1_def cfg0_def)
  have parse: "env_parse_config E1 (j_RunConfigJSON ?j) = Inr c \<Longrightarrow> rc_Timeout c = Some s \<Longrightarrow> 0 \<le> s \<and> s < 2 ^ 31" for c s
    using cfg by auto
  have "is_stuck E1 (sr_reaper (serve_wire outside0 (flags_config flags0) True memStore_ops
      \<lparr>pr_templates = [], pr_def = []\<rparr> (LaunchK8s ?lk) None)) (1 + 2 * Hour) ?j"
    using slack
    by (simp add: is_stuck_def serve_wire_parts awaitingHarnessDeadline_def cfg GetTimeout_def harness_cfg0_def
        time_Sub_def job0_def wrap64_def awaitingHarnessMargin_def Hour_def Minute_def Second_def min_int64_def max_int64_def)
  from reaper_waits_for_deadline [OF this _ _ _ _ parse] slack show ?thesis
    by (simp add: harness_cfg0_def Minute_def Hour_def job0_def)
qed

text \<open>
  (C7) A sandbox token that is sent is one the verifier can check: it is signed with the
  key published under the identifier it names, whose published coordinates are the key's,
  for the job that asked and its repositories, and it lives for the configured time, to
  the second.
\<close>

theorem sandbox_token_verifies:
  assumes "NewIssuer clock (Some k) issuer audience ttl = Inr i" and "h_issuer h = Some (issuer_of sign rnd i)"
    and "handleSandboxTokenRequest E h ev (p, w) = (p', w')"
    and "w_sent w' (ep_sess p) = w_sent w (ep_sess p) @ [(ce, b)]" and "ce_IsError ce = Some False"
  shows "\<exists>jti iat exp x y. sign ''ES256'' [(''kid'', is_kid i), (''typ'', ''at+jwt'')]
      [(''iss'', JStr issuer), (''aud'', JStr audience), (''sub'', JStr (ep_jobID p)), (''iat'', JNum (itoa iat)),
       (''exp'', JNum (itoa exp)), (''jti'', JStr jti), (''haybale.dev/repos'', JArr (map JStr (ep_repoScope p)))] k =
      Inr (ce_Token ce) \<and>
    ttl div Second \<le> exp - iat \<and> exp - iat \<le> ttl div Second + 1 \<and>
    json_parse (is_jwks i) = Some (JObj [(''keys'', JArr [JObj
      [(''kty'', JStr ''EC''), (''crv'', JStr ''P-256''), (''x'', JStr x), (''y'', JStr y),
       (''kid'', JStr (is_kid i)), (''alg'', JStr ''ES256''), (''use'', JStr ''sig'')]])]) \<and>
    map_option be_value (b64_decode x) = Some (pub_X (priv_Public k)) \<and>
    map_option be_value (b64_decode y) = Some (pub_Y (priv_Public k))"
proof -
  from sandbox_answer [OF assms(3)] obtain new where
    "w_sent w' = (w_sent w)(ep_sess p := w_sent w (ep_sess p) @ new)"
    and new: "\<forall>(c, b) \<in> set new. ce_IsError c = Some False \<longrightarrow> token_granted h p (w_reads w) (ce_Token c)" by fast
  then have "new = [(ce, b)]" using assms(4) by simp
  with new assms(5) have "token_granted h p (w_reads w) (ce_Token ce)" by simp
  from granted_token_verifies [OF assms(1,2) this] show ?thesis .
qed

definition asking0 :: eventPump where
  "asking0 = (fst (pump E0 id0 7 [] w0))\<lparr>ep_sandboxIdentityDeclared := True, ep_repoScope := [''org/repo'']\<rparr>"

definition tokened :: "Issuer \<Rightarrow> memStore Handler" where
  "tokened i = h0\<lparr>h_issuer := Some (issuer_of (\<lambda>_ _ _ _. Inr ''tok'') (\<lambda>_. Inr (replicate 16 0)) i)\<rparr>"

theorem sandbox_token_verifies_witness:
  "\<exists>i p' w' ce iat exp. handleSandboxTokenRequest E0 (tokened i) (empty_event\<lparr>he_RequestId := ''r''\<rparr>) (asking0, w0) = (p', w') \<and>
     w_sent w' 7 = [(ce, True)] \<and> ce_Token ce = ''tok'' \<and> 900 \<le> exp - iat \<and> exp - iat \<le> (901 :: int)"
proof -
  obtain i where i: "NewIssuer (\<lambda>_. 63900000000000000000) (Some key0) ''https://hairpin'' ''haybale'' (15 * Minute) = Inr i"
    using issuer0 ..
  have p: "ep_sess asking0 = 7" "ep_sandboxTokens asking0 = 0" "ep_sandboxIdentityDeclared asking0" "w_sent w0 7 = []" "\<not> w_closed w0 7"
    by (simp_all add: asking0_def pump_def now_def w0_def world_of_def)
  obtain p' w' where h: "handleSandboxTokenRequest E0 (tokened i) (empty_event\<lparr>he_RequestId := ''r''\<rparr>) (asking0, w0) = (p', w')"
    by (cases "handleSandboxTokenRequest E0 (tokened i) (empty_event\<lparr>he_RequestId := ''r''\<rparr>) (asking0, w0)")
  then obtain ce where ce: "w_sent w' (ep_sess asking0) = w_sent w0 (ep_sess asking0) @ [(ce, True)]" "ce_IsError ce = Some False" "ce_Token ce = ''tok''"
    using p by (auto simp: handleSandboxTokenRequest_def tokened_def issuer_of_def Mint_def randomJTI_def Let_def maxRequestIDBytes_def
        maxSandboxTokenRequests_def sendSandboxTokenResponse_def session_Send_def stream_Send_def E0_def empty_event_def)
  have "h_issuer (tokened i) = Some (issuer_of (\<lambda>_ _ _ _. Inr ''tok'') (\<lambda>_. Inr (replicate 16 0)) i)" by (simp add: tokened_def)
  from sandbox_token_verifies [OF i this h ce(1,2)] obtain iat exp :: int
    where "900 \<le> exp - iat" "exp - iat \<le> 901" by (auto simp: Minute_def Second_def)
  then show ?thesis using h ce p by fastforce
qed

text \<open>
  (C37) What \<open>keygen\<close> writes is what \<open>serve\<close> uses: with decoders that invert the encoders
  of the standard library, the key file loads as the generated key, the document written
  beside it is the one an issuer made from that file publishes, and no existing file is
  changed, even when the command fails.
\<close>

theorem keygen_publishes_its_key:
  assumes "\<And>d. pem (ki_pemEncode ki ''PRIVATE KEY'' d) = Some (''PRIVATE KEY'', d)"
    and "\<And>k d. ki_der ki k = Inr d \<Longrightarrow> decode d = Inr (Inr k)"
    and "\<And>k. ki_gen ki = Inr k \<Longrightarrow> pub_Curve (priv_Public k) = Some ''P-256''"
  shows "(\<forall>q. fs q \<noteq> None \<longrightarrow> snd (snd (runKeygen ki io out jwksOut fs)) q = fs q) \<and>
    (\<forall>stdout fs'. runKeygen ki io out jwksOut fs = (None, stdout, fs') \<longrightarrow>
       (\<exists>k. ki_gen ki = Inr k \<and> LoadKey pem ec decode out (Inr (fst (the (fs' out)))) = Inr k \<and>
          (\<forall>clock issuer audience ttl i. NewIssuer clock (Some k) issuer audience ttl = Inr i \<longrightarrow>
             (if jwksOut = [] then stdout = is_jwks i @ [newline]
              else fs' jwksOut = Some (is_jwks i @ [newline], 0x1A4)))))"
  using keygen_keeps_files keygen_loads [of ki io out jwksOut fs, where pem = pem and decode = decode and ec = ec] assms by blast

theorem keygen_publishes_its_key_witness:
  "\<exists>stdout fs'. runKeygen ki0 io0 ''key.pem'' [] Map.empty = (None, stdout, fs') \<and>
     LoadKey pem0 (\<lambda>_. Inl usage_error) (\<lambda>_. Inr (Inr key0)) ''key.pem'' (Inr (fst (the (fs' ''key.pem'')))) = Inr key0"
proof -
  obtain stdout fs' where k: "runKeygen ki0 io0 ''key.pem'' [] Map.empty = (None, stdout, fs')" using keygen0 by blast
  have "ki_der ki0 k = Inr d \<Longrightarrow> (\<lambda>_. Inr (Inr key0)) d = (Inr (Inr k) :: (string + PrivateKey) result)" for k and d :: string
    by (simp add: ki0_def split: if_splits)
  moreover have "ki_gen ki0 = Inr k \<Longrightarrow> pub_Curve (priv_Public k) = Some ''P-256''" for k
    using key0_curve by (simp add: ki0_def)
  ultimately have "\<exists>k. ki_gen ki0 = Inr k \<and>
      LoadKey pem0 (\<lambda>_. Inl usage_error) (\<lambda>_. Inr (Inr key0)) ''key.pem'' (Inr (fst (the (fs' ''key.pem'')))) = Inr k"
    using keygen_publishes_its_key [OF pem0_private, of "\<lambda>_. Inr (Inr key0)" Map.empty io0 "''key.pem''" "[]" "\<lambda>_. Inl usage_error"] k by blast
  then show ?thesis using k by (auto simp: ki0_def)
qed

text \<open>
  (C25) An accepted set of flags can start a server: harness Jobs get a namespace, an image
  and an address to dial back, their time to live fits the API, the memory service has a
  host and a port in range, and with a readable P-256 key the token issuer is made.
\<close>

theorem accepted_flags_start:
  assumes "finish_flags fl = Inr c" and "buildRestConfig ku (cf_Harness c) = Inr rc" and "ku_clientset ku rc = None"
    and "tc_KeyPath (cf_SandboxToken c) \<noteq> [] \<Longrightarrow> load (tc_KeyPath (cf_SandboxToken c)) = Inr k"
    and "pub_Curve (priv_Public k) = Some ''P-256''" and "on_p256 (pub_X (priv_Public k)) (pub_Y (priv_Public k))"
  shows "(cf_Launcher c = ''kubernetes'' \<longrightarrow>
      (\<exists>lk. buildLauncher ku c = Inr (LaunchK8s lk) \<and>
        (\<forall>E j. let obj = k8s_object E (k8_cfg lk) (k8_advertiseAddr lk) j
          in kj_Namespace obj \<noteq> [] \<and> kc_Image (hd (kp_Containers (kj_PodSpec obj))) \<noteq> [] \<and>
             (\<exists>a. harness_env obj ''CONTROL_PLANE_ADDR'' = Some a \<and> a \<noteq> []) \<and>
             0 \<le> kj_TTLSecondsAfterFinished obj \<and> kj_TTLSecondsAfterFinished obj \<le> 2147483647))) \<and>
    (cf_Launcher c = ''kubernetes'' \<longrightarrow> ed_Namespace (cf_Sandbox c) \<noteq> []) \<and>
    (cf_BilletAddr c \<noteq> [] \<longrightarrow>
      (\<exists>host port n. SplitHostPort (cf_BilletAddr c) = Inr (host, port) \<and> host \<noteq> [] \<and> Atoi port = Some n \<and> 1 \<le> n \<and> n \<le> 65535)) \<and>
    (\<exists>i. buildTokenIssuer load clock c = Inr i \<and> (i = None \<longleftrightarrow> tc_KeyPath (cf_SandboxToken c) = []))"
proof -
  note f = finish_flags_facts [OF assms(1)]
  note v = Validate_facts [OF f(1)]
  have ttl: "hc_TTLSecondsAfterFinished (cf_Harness c) = fl_ttl fl" using v(12) flags_config_fields(1) by simp
  have ns: "hc_Namespace (cf_Harness c) \<noteq> []" "hc_Image (cf_Harness c) \<noteq> []" if "cf_Launcher c = ''kubernetes''"
    using v(9) that by (auto simp: validate_launcher_def simple_error_def split: if_splits)
  have tok: "\<exists>i. buildTokenIssuer load clock c = Inr i \<and> (i = None \<longleftrightarrow> tc_KeyPath (cf_SandboxToken c) = [])"
  proof (cases "tc_KeyPath (cf_SandboxToken c) = []")
    case False
    from token_issuer_starts [where load = load, OF v(10) False assms(4) [OF False] assms(5,6)] False show ?thesis by auto
  qed (simp add: buildTokenIssuer_def Let_def)
  have launch: "buildLauncher ku c = Inr (LaunchK8s \<lparr>k8_cfg = cf_Harness c, k8_advertiseAddr = cf_AdvertiseAddr c\<rparr>)"
    if "cf_Launcher c = ''kubernetes''"
    using that assms(2,3) by (simp add: buildLauncher_def NewK8s_def)
  show ?thesis
    using tok launch ns ttl f(2,3) v(2,11) v(4) [unfolded validateHostPort_ok]
    by (auto simp: Let_def k8s_object_def harness_env_def)
qed

definition kube0 :: "unit kube" where
  "kube0 = \<lparr>ku_inCluster = Inr (), ku_fromFlags = (\<lambda>_. Inr ()), ku_default = Inr (), ku_clientset = (\<lambda>_. None)\<rparr>"

theorem accepted_flags_start_witness:
  "\<exists>c lk. finish_flags flags0 = Inr c \<and> buildLauncher kube0 c = Inr (LaunchK8s lk) \<and>
     kj_Namespace (k8s_object E0 (k8_cfg lk) (k8_advertiseAddr lk) job0) \<noteq> []"
proof -
  obtain c where c: "finish_flags flags0 = Inr c" "cf_Launcher c = ''kubernetes''" "tc_KeyPath (cf_SandboxToken c) = []"
    using finish_flags0 by blast
  have "buildRestConfig kube0 (cf_Harness c) = Inr ()" "ku_clientset kube0 () = None" by (simp_all add: buildRestConfig_def kube0_def)
  from accepted_flags_start [OF c(1) this _ key0_curve key0_point, of "\<lambda>_. Inr key0"] c show ?thesis
    by (fastforce simp: Let_def)
qed

text \<open>
  (C16) A browser reads back exactly the watched events of a job, each under its own
  identifier, with its payload and with its type when that is a plain word; then the end
  marker. No event type or payload a harness sends can add a frame, and heartbeats add
  none. Payloads are JSON, so they hold no carriage return.
\<close>

theorem event_stream_round_trip:
  assumes "rq_method r = ''GET''" and "rq_path r = [''jobs'', i, ''events'']" and "validJobID i"
    and "svc_Watch (h_svc ui) (sr_gap x) i (if rq_lastEventID r = [] then rq_after r else rq_lastEventID r) w = Some (Inr ch, w')"
    and "\<And>ev. SEvent ev \<in> set (sr_source x ch) \<Longrightarrow> sse_clean ev"
  shows "\<exists>rw hs. NewWeb ui x r new_writer w = Some (rw, w') \<and> wr_sent rw = Some (200, hs) \<and>
    hs ''Content-Type'' = Some ''text/event-stream'' \<and>
    sse_read (rq_lastEventID r) (text_of rw) = sse_expected (rq_lastEventID r) (sr_source x ch)"
  using assms by (rule events_read_back)

theorem event_stream_round_trip_witness:
  "\<exists>rw w'. NewWeb ui0 x0 request0 new_writer w0 = Some (rw, w') \<and>
     sse_read [] (text_of rw) =
       [(''5-0'', ''text_delta'', ''a'' @ [newline] @ ''b''), (''6-0'', ''unknown'', ''{}''), (''6-0'', ''eof'', ''{}'')]"
proof -
  obtain ch w' where "svc_Watch sv0 (\<lambda>_ w. w) id0 [] w0 = Some (Inr ch, w')" using watch0 by blast
  moreover have "validJobID id0" using ValidID_id0 by (simp add: validJobID_ValidID)
  moreover have "e_ID ev_sse = ''5-0''" "e_ID ev_forged = ''6-0''" by (simp_all add: ev_sse_def ev_forged_def)
  ultimately show ?thesis
    using event_stream_round_trip [of request0 id0 ui0 x0 w0 ch w'] sse_clean0 sse_seen0 by auto
qed

text \<open>
  (C17) Only a same-origin POST changes jobs, timelines or permission requests through the
  web interface; any other request leaves them as they are, and a cross-origin request
  that is not a read is refused with status 403 and has no effect at all.
\<close>

theorem changes_are_same_origin_posts:
  assumes "svc_store (h_svc ui) = memStore_ops" and "sr_gap x = (\<lambda>_ w. w)" and "NewWeb ui x r new_writer w = Some (rw, w')"
  shows "(rq_method r \<noteq> ''POST'' \<or> \<not> same_origin ui r \<longrightarrow> records (w_store w') = records (w_store w)) \<and>
    (rq_method r \<noteq> ''GET'' \<and> rq_method r \<noteq> ''HEAD'' \<and> \<not> same_origin ui r \<longrightarrow>
       w' = w \<and> (\<exists>hs. wr_sent rw = Some (403, hs)))"
  using state_changes_are_same_origin_posts [OF assms] cross_origin_rejected [OF assms(3)] by blast

theorem changes_are_same_origin_posts_witness:
  "\<exists>rw hs. NewWeb ui0 x0 forged_cancel new_writer w0 = Some (rw, w0) \<and> wr_sent rw = Some (403, hs)"
proof -
  have post: "rq_method forged_cancel = ''POST''" by (simp add: forged_cancel_def)
  from origin0 have "\<exists>rw w'. NewWeb ui0 x0 forged_cancel new_writer w0 = Some (rw, w')"
    by (simp add: NewWeb_def protectUI_def same_origin_def post)
  then obtain rw w' where r: "NewWeb ui0 x0 forged_cancel new_writer w0 = Some (rw, w')" by blast
  from changes_are_same_origin_posts [OF _ _ this] post origin0 r show ?thesis by auto
qed

text \<open>
  (C18) What the API answers about jobs does not depend on their harness tokens, a page
  holds at most 100 jobs, and a lookup tells a malformed identifier, a missing job and a
  stored one apart by their codes.
\<close>

theorem api_reads:
  assumes "svc_store sv = memStore_ops"
  shows "GetJob sv i (w\<lparr>w_store := retoken f (w_store w)\<rparr>) = GetJob sv i w \<and>
    ListJobs sv n tok (w\<lparr>w_store := retoken f (w_store w)\<rparr>) = ListJobs sv n tok w \<and>
    (\<forall>jobs next. ListJobs sv n tok w = Inr (jobs, next) \<longrightarrow> length jobs \<le> 100) \<and>
    GetJob sv i w =
      (if \<not> ValidID i then Inl (ConnectError CodeInvalidArgument (Error (invalid ''malformed job id %q'' [i])))
       else case ms_jobs (w_store w) i of
              None \<Rightarrow> Inl (ConnectError CodeNotFound (Error (job_not_found i)))
            | Some j \<Rightarrow> Inr (jobToProto j))"
  using reads_hide_tokens [OF assms] ListJobs_bounded [OF assms] GetJob_cases [OF assms] by blast

theorem api_reads_witness: "GetJob sv0 id0 w0 = Inr (jobToProto job0)"
  using api_reads [OF sv0_fields(1), where i = id0 and w = w0] ValidID_id0 by (simp add: store_with_jobs)

text \<open>
  (C3) The store stays well formed through all activity of the program, sweeps that
  delete jobs included: jobs are filed
  under their own identifiers, listed once each, their timelines within bounds, their
  permission requests under their own identifiers, and nothing is kept of a job that does
  not exist.
\<close>

theorem store_stays_well_formed:
  assumes "sys E h sv rp w w'" and "wired h sv rp" and "mem_ok (w_store w)"
  shows "mem_ok (w_store w')"
  using assms by (rule sys_mem_ok)

theorem store_stays_well_formed_witness:
  "mem_ok (w_store (snd (runTask E0 h0 7 (Inr ready0) (\<lambda>_ v. v) [Recv delta0, Recv done0] w0)))"
proof (rule store_stays_well_formed [OF _ wired0 mem_ok_w0])
  show "sys E0 h0 sv0 rp0 w0 (snd (runTask E0 h0 7 (Inr ready0) (\<lambda>_ v. v) [Recv delta0, Recv done0] w0))"
    by (rule sys.connection) (simp_all add: sys.idle)
qed

section \<open>The server\<close>

text \<open>
  (C4) Every request is activity of the program. Whatever path, method, message or harness
  stream reaches a server wired over the in-memory store, and whatever happens between its
  steps, what it does is one of the activities the other theorems range over; so the
  store stays well formed and a settled job keeps its outcome until it expires.
\<close>

theorem requests_are_activity:
  assumes "sr = serve_wire x cfg b memStore_ops pr l iss" and "h_svc ui = sr_service sr"
    and "\<And>k v. sys (h_env ui) (sr_controlplane sr) (sr_service sr) (sr_reaper sr) v (sr_gap (ex_around ex) k v)"
    and "\<And>f v. Others f \<in> set (ex_inputs ex) \<Longrightarrow>
      sys (h_env ui) (sr_controlplane sr) (sr_service sr) (sr_reaper sr) v (f v)"
    and "serve_http sr ui co ex w = Some (a, w')"
  shows "sys (h_env ui) (sr_controlplane sr) (sr_service sr) (sr_reaper sr) w w' \<and>
    (mem_ok (w_store w) \<longrightarrow> mem_ok (w_store w')) \<and>
    (\<forall>i j. mem_ok (w_store w) \<and> ms_jobs (w_store w) i = Some j \<and> Terminal (j_Status j) \<and>
       (\<forall>n < w_reads w'. \<not> is_expired (sr_reaper sr) (env_clock (h_env ui) n) j) \<longrightarrow>
       (\<exists>j'. ms_jobs (w_store w') i = Some j' \<and> same_outcome j j'))"
proof -
  have s: "sys (h_env ui) (sr_controlplane sr) (sr_service sr) (sr_reaper sr) w w'"
    using assms(2-5) by (rule request_is_activity)
  have wd: "wired (sr_controlplane sr) (sr_service sr) (sr_reaper sr)"
    unfolding assms(1) by (rule serve_wire_wired)
  show ?thesis using s sys_mem_ok [OF s wd] sys_mem_outcome [OF s wd] by blast
qed

definition server0 :: "memStore server" where
  "server0 = serve_wire outside0 (flags_config flags0) True memStore_ops \<lparr>pr_templates = [], pr_def = []\<rparr> LaunchNone None"

definition ui_server0 :: "memStore handler" where
  "ui_server0 = ui0\<lparr>h_svc := sr_service server0\<rparr>"

definition codec0 :: "string codec" where
  "codec0 = \<lparr>co_SubmitJob = (\<lambda>_. Inr sp0), co_GetJob = Inr, co_ListJobs = (\<lambda>_. Inr (0, [])), co_WatchJob = (\<lambda>b. Inr (b, [])),
     co_CancelJob = Inr, co_ListPermissionRequests = Inr, co_AnswerPermission = (\<lambda>b. Inr (b, ''r'', True, []))\<rparr>"

definition cancel_rpc0 :: "(memStore, string) exchange" where
  "cancel_rpc0 = \<lparr>ex_raw = [''hairpin.v1.JobService'', ''CancelJob''], ex_request = request0, ex_body = id0, ex_around = x0,
     ex_send = (\<lambda>_. None), ex_events = (\<lambda>_. []), ex_stream = 7, ex_first = Inr ready0, ex_inputs = []\<rparr>"

lemma cancel_rpc0_served:
  "serve_http server0 ui_server0 codec0 cancel_rpc0 w0 =
     Some (map_prod (JobAnswer \<circ> CancelJobResponse) id (CancelJob E0 (sr_service server0) (\<lambda>_ w. w) id0 w0))"
proof -
  have "serve_route False [''hairpin.v1.JobService'', ''CancelJob''] = ToJobService"
    "NewJobServiceHandler (url_Path (map path_unescape [''hairpin.v1.JobService'', ''CancelJob''])) = Some RpcCancelJob"
    by code_simp+
  moreover have "sr_issuer server0 = None" by (simp add: server0_def serve_wire_def Let_def)
  ultimately show ?thesis
    by (simp add: serve_http_def cancel_rpc0_def job_rpc_def codec0_def ui_server0_def prod.map_comp map_prod_def comp_def split: prod.splits)
qed

theorem requests_are_activity_witness:
  "\<exists>a w'. serve_http server0 ui_server0 codec0 cancel_rpc0 w0 = Some (a, w') \<and>
     sys E0 (sr_controlplane server0) (sr_service server0) (sr_reaper server0) w0 w' \<and> mem_ok (w_store w')"
proof -
  obtain a w' where s: "serve_http server0 ui_server0 codec0 cancel_rpc0 w0 = Some (a, w')"
    using cancel_rpc0_served by (metis surj_pair)
  have f: "h_svc ui_server0 = sr_service server0" "h_env ui_server0 = E0" by (simp_all add: ui_server0_def)
  have "sys (h_env ui_server0) (sr_controlplane server0) (sr_service server0) (sr_reaper server0) w0 w' \<and>
      (mem_ok (w_store w0) \<longrightarrow> mem_ok (w_store w'))"
    using requests_are_activity [OF server0_def f(1) _ _ s] by (auto simp: cancel_rpc0_def sys.idle)
  with s mem_ok_w0 show ?thesis by (auto simp: f)
qed

text \<open>
  (C19) Client and server agree on the routes. The URL a generated client calls, for any
  number of slashes at the end of its base URL, is the path the server's mux hands to that
  service and the service to that method, and no other path reaches the method. A
  redirect of the mux is not followed by another one.
\<close>

theorem rpc_reaches_its_method:
  assumes "origin = [] \<or> last origin \<noteq> CHR ''/''"
  shows "(\<exists>segs. NewJobServiceClient (origin @ replicate n CHR ''/'') m = origin @ url_Path segs \<and>
      serve_route b segs = ToJobService \<and> NewJobServiceHandler (url_Path (map path_unescape segs)) = Some m) \<and>
    (\<exists>segs. NewHarnessServiceClient (origin @ replicate n CHR ''/'') = origin @ url_Path segs \<and>
      serve_route b segs = ToHarnessService \<and> NewHarnessServiceHandler (url_Path (map path_unescape segs))) \<and>
    (\<forall>path. NewJobServiceHandler path = Some m \<longleftrightarrow> path = JobServiceProcedure m) \<and>
    (\<forall>raw p q. serve_route b raw = ToRedirect p \<longrightarrow> serve_route b p \<noteq> ToRedirect q)"
  using job_rpc_route [OF assms] harness_rpc_route [OF assms] NewJobServiceHandler_iff redirects_end by blast

theorem rpc_reaches_its_method_witness:
  "NewJobServiceClient ''http://hairpin:8130//'' RpcCancelJob = ''http://hairpin:8130/hairpin.v1.JobService/CancelJob'' \<and>
   (\<exists>segs. url_Path segs = ''/hairpin.v1.JobService/CancelJob'' \<and> serve_route True segs = ToJobService)"
proof -
  have u: "NewJobServiceClient ''http://hairpin:8130//'' RpcCancelJob = ''http://hairpin:8130/hairpin.v1.JobService/CancelJob''"
    by code_simp
  from rpc_reaches_its_method [of "''http://hairpin:8130''" 2 RpcCancelJob True] obtain segs where
    "''http://hairpin:8130/hairpin.v1.JobService/CancelJob'' = ''http://hairpin:8130'' @ url_Path segs"
    "serve_route True segs = ToJobService"
    by (auto simp: numeral_2_eq_2 u)
  with u show ?thesis by auto
qed

text \<open>
  (C20) The labels of measurements are bounded. Whatever harnesses and clients send, every
  attribute of every measurement has a value from the fixed vocabulary of its key, or the
  name of a configured profile; no job identifier, error text, event type or tool name of
  theirs opens a series.
\<close>

theorem metric_labels_are_bounded:
  assumes "sys E h sv rp w w'" and "wired h sv rp" and "labels_ok (profile_Names (svc_profiles sv)) w"
    and "m \<in> set (w_metrics w')" and "(k, v) \<in> set (mt_attrs m)"
  shows "v \<in> set (label_values (profile_Names (svc_profiles sv)) k)"
  using sys_labels [OF assms(1)] assms(2-5)
  by (auto simp: wired_def labels_kept_def labels_ok_def labelled_def list_all_iff)

definition odd0 :: HarnessEvent where
  "odd0 = empty_event\<lparr>he_Type := ''made-up''\<rparr>"

definition odd_run0 :: "memStore World" where
  "odd_run0 = snd (runTask E0 h0 7 (Inr ready0) (\<lambda>_ v. v) [Recv odd0, Recv done0] w0)"

lemma odd_run0_sys: "sys E0 h0 sv0 rp0 w0 odd_run0"
  unfolding odd_run0_def by (rule sys.connection) (simp_all add: sys.idle)

lemma odd_run0_records: "w_metrics odd_run0 \<noteq> []"
proof
  assume "w_metrics odd_run0 = []"
  then have "stream_metrics odd_run0 = []" by (simp add: stream_metrics_def)
  moreover have "gaps_do counts (\<lambda>_ v. v)" "others_do counts [Recv odd0, Recv done0]"
    by (simp_all add: gaps_do_def counts_def)
  from runTask_counts [OF this, of E0 h0 7 "Inr ready0" w0]
  have "stream_metrics odd_run0 \<noteq> []"
    by (auto simp: odd_run0_def stream_record_def HarnessSession_def)
  ultimately show False by simp
qed

theorem metric_labels_are_bounded_witness:
  "w_metrics odd_run0 \<noteq> [] \<and> list_all (labelled []) (w_metrics odd_run0)"
proof -
  have no_profiles: "profile_Names (svc_profiles sv0) = []" and "labels_ok [] w0"
    by (simp_all add: labels_ok_def profile_Names_def sv0_def)
  with metric_labels_are_bounded [OF odd_run0_sys wired0] odd_run0_records show ?thesis
    by (auto simp: list_all_iff labelled_def)
qed

end
